(* ===== verification/Iot_Prelude.thy ===== *)
theory Iot_Prelude
  imports Main "HOL-Library.Sublist" "HOL-Library.Char_ord" "HOL-Library.List_Lexorder"
    "HOL-Library.Product_Lexorder" "HOL-Library.Code_Target_Nat"
begin

text \<open>
  Shared ground of the development: Go errors and results, instants of time, and the collections
  of facts that the components fill.

  A Go \<^verbatim>\<open>string\<close> or \<^verbatim>\<open>[]byte\<close> is a HOL \<open>string\<close>: a \<open>char\<close> of HOL is exactly one byte, and strings are
  ordered byte by byte. A Go error is the list of sentinel errors that \<^verbatim>\<open>errors.Is\<close> finds in its wrap
  chain; of the message text only what the sources branch on is kept (\<open>ErrDuplicateKey\<close> marks the
  messages that contain \<^verbatim>\<open>duplicate key value\<close>). A panic is the sentinel \<open>ErrPanic\<close>.
  A Go \<^verbatim>\<open>time.Time\<close> is the number of nanoseconds since the Unix epoch.
\<close>

text \<open>Unfolding rules of the operations of a component, and the frame facts of its operations.\<close>

named_theorems op_defs
named_theorems frame

section \<open>Errors and results\<close>

datatype sentinel =
    ErrInvalidEnvelope
  | ErrEnvelopeTimestampOutOfRange
  | ErrInvalidPayload
  | ErrInvalidDeviceSecret
  | ErrInvalidTopicPart
  | ErrInvalidIdempotencyKey
  | ErrInvalidCommandTransition
  | ErrNotFound
  | ErrAlreadyExists
  | ErrDuplicateTelemetry
  | ErrIdentityMismatch
  | ErrIdempotencyConflict
  | ErrAcknowledgementConflict
  | ErrInvalidPage
  | ErrListItemTooLarge
  | ErrPublishBacklogFull
  | ErrTDFieldRejected
  | ErrTDWriterClosed
  | ErrDeadlineExceeded
  | ErrCanceled
  | ErrDuplicateKey
  | ErrNoRows
  | ErrPanic
  | ErrOpaque string

type_synonym gerror = "sentinel list"

text \<open>\<^verbatim>\<open>errors.Is(err, s)\<close>: the sentinel occurs in the wrap chain.\<close>

definition errors_is :: "gerror \<Rightarrow> sentinel \<Rightarrow> bool" where
  "errors_is e s \<longleftrightarrow> s \<in> set e"

lemma errors_is_Nil [simp]: "\<not> errors_is [] s"
  by (simp add: errors_is_def)

lemma errors_is_Cons [simp]: "errors_is (x # e) s \<longleftrightarrow> x = s \<or> errors_is e s"
  by (auto simp: errors_is_def)

type_synonym 'a result = "gerror + 'a"

text \<open>\<^verbatim>\<open>if err := f(); err != nil { return err }\<close> followed by the rest of the body.\<close>

fun bind_res :: "'a result \<Rightarrow> ('a \<Rightarrow> 'b result) \<Rightarrow> 'b result" where
  "bind_res (Inl e) f = Inl e"
| "bind_res (Inr x) f = f x"

definition guard_err :: "gerror option \<Rightarrow> 'a result \<Rightarrow> 'a result" where
  "guard_err e k = (case e of None \<Rightarrow> k | Some er \<Rightarrow> Inl er)"

lemma bind_res_eq_Inr [simp]: "bind_res m f = Inr y \<longleftrightarrow> (\<exists>x. m = Inr x \<and> f x = Inr y)"
  by (cases m) auto

lemma bind_res_eq_Inl: "bind_res m f = Inl e \<longleftrightarrow> m = Inl e \<or> (\<exists>x. m = Inr x \<and> f x = Inl e)"
  by (cases m) auto

lemma guard_err_None [simp]: "guard_err None k = k"
  by (simp add: guard_err_def)

lemma guard_err_Some [simp]: "guard_err (Some e) k = Inl e"
  by (simp add: guard_err_def)

lemma guard_err_eq_Inr [simp]: "guard_err e k = Inr y \<longleftrightarrow> e = None \<and> k = Inr y"
  by (cases e) auto

lemma guard_err_eq_Inl: "guard_err e k = Inl er \<longleftrightarrow> e = Some er \<or> e = None \<and> k = Inl er"
  by (cases e) auto

definition is_ok :: "'a result \<Rightarrow> bool" where
  "is_ok r = (case r of Inl _ \<Rightarrow> False | Inr _ \<Rightarrow> True)"

lemma is_ok_simps [simp]: "is_ok (Inr x)" "\<not> is_ok (Inl e)"
  by (simp_all add: is_ok_def)

section \<open>Time\<close>

type_synonym gtime = int
type_synonym duration = int

abbreviation (input) nanosecond :: duration where "nanosecond \<equiv> 1"
abbreviation (input) microsecond :: duration where "microsecond \<equiv> 1000"
abbreviation (input) millisecond :: duration where "millisecond \<equiv> 1000000"
abbreviation (input) second :: duration where "second \<equiv> 1000000000"
abbreviation (input) minute :: duration where "minute \<equiv> 60000000000"

text \<open>The zero \<^verbatim>\<open>time.Time\<close> is January 1, year 1, 00:00:00 UTC.\<close>

definition zero_time :: gtime where
  "zero_time = - 62135596800 * 1000000000"

definition IsZero :: "gtime \<Rightarrow> bool" where
  "IsZero t \<longleftrightarrow> t = zero_time"

text \<open>\<^verbatim>\<open>t.Sub(u)\<close>, and so \<^verbatim>\<open>time.Since(u)\<close> at \<open>t\<close>: the difference, saturated to 64 bits.\<close>

definition time_Sub :: "gtime \<Rightarrow> gtime \<Rightarrow> duration" where
  "time_Sub t u = max (- (2 ^ 63)) (min (2 ^ 63 - 1) (t - u))"

text \<open>\<^verbatim>\<open>time.Time.UnixMilli\<close> counts whole milliseconds from the epoch (seconds and
  nanoseconds are kept apart and the nanoseconds are not negative, so this rounds down).\<close>

definition UnixMilli :: "gtime \<Rightarrow> int" where
  "UnixMilli t = t div 1000000"

text \<open>\<^verbatim>\<open>time.UnixMilli(ms)\<close>.\<close>

definition fromUnixMilli :: "int \<Rightarrow> gtime" where
  "fromUnixMilli ms = ms * 1000000"

text \<open>\<^verbatim>\<open>time.Time.Nanosecond\<close>: the offset within the second.\<close>

definition Nanosecond :: "gtime \<Rightarrow> int" where
  "Nanosecond t = t mod 1000000000"

lemma UnixMilli_fromUnixMilli [simp]: "UnixMilli (fromUnixMilli ms) = ms"
  by (simp add: UnixMilli_def fromUnixMilli_def)

lemma fromUnixMilli_less_iff [simp]: "fromUnixMilli a < fromUnixMilli b \<longleftrightarrow> a < b"
  by (simp add: fromUnixMilli_def)

lemma fromUnixMilli_eq_iff [simp]: "fromUnixMilli a = fromUnixMilli b \<longleftrightarrow> a = b"
  by (simp add: fromUnixMilli_def)

lemma Nanosecond_fromUnixMilli [simp]: "Nanosecond (fromUnixMilli ms) mod 1000000 = 0"
proof -
  have "Nanosecond (fromUnixMilli ms) mod 1000000 = fromUnixMilli ms mod 1000000"
    unfolding Nanosecond_def by (rule mod_mod_cancel) simp
  then show ?thesis by (simp add: fromUnixMilli_def)
qed

end
