(* ===== verification/Go_Strings.thy ===== *)
theory Go_Strings
  imports Iot_Prelude
begin

text \<open>
  The functions of Go's \<^verbatim>\<open>strings\<close>, \<^verbatim>\<open>bytes\<close>, \<^verbatim>\<open>unicode/utf8\<close> and \<^verbatim>\<open>unicode\<close> packages
  that the repository calls, on byte strings: UTF-8 decoding and validity, the control-character
  test, \<^verbatim>\<open>TrimSpace\<close>, \<^verbatim>\<open>Split\<close>, \<^verbatim>\<open>Cut\<close>, \<^verbatim>\<open>Join\<close> and the prefix functions, with the facts
  about them that the round trips of topics, user names and cursors rest on.
\<close>

section \<open>Mixed-radix digits\<close>

lemma digit_join:
  fixes x y m :: nat
  assumes "y < m"
  shows "(x * m + y) div m = x" "(x * m + y) mod m = y"
  using assms by auto

lemma digit_bound:
  fixes x y m n :: nat
  assumes "y < m" "x < n"
  shows "x * m + y < n * m"
proof -
  have "x * m + y < Suc x * m" using assms(1) by simp
  also have "\<dots> \<le> n * m" using assms(2) by (intro mult_le_mono1) simp
  finally show ?thesis .
qed

section \<open>UTF-8\<close>

abbreviation bv :: "char \<Rightarrow> nat" where
  "bv c \<equiv> of_char c"

lemma bv_less: "bv c < 256"
  by simp

definition in_range :: "nat \<Rightarrow> nat \<Rightarrow> char \<Rightarrow> bool" where
  "in_range lo hi c \<longleftrightarrow> lo \<le> bv c \<and> bv c \<le> hi"

definition cont :: "char \<Rightarrow> bool" where
  "cont c \<longleftrightarrow> in_range 128 191 c"

definition rune_error :: nat where
  "rune_error = 65533"

text \<open>
  \<^verbatim>\<open>utf8.DecodeRune\<close>: the rune at the front and its width; an ill-formed encoding is
  \<^verbatim>\<open>RuneError\<close> of width 1. The bounds on the second byte rule out overlong forms, surrogates
  and code points above U+10FFFF.
\<close>

definition decode2 :: "char \<Rightarrow> char \<Rightarrow> nat" where
  "decode2 a b = (bv a - 192) * 64 + (bv b - 128)"

definition decode3 :: "char \<Rightarrow> char \<Rightarrow> char \<Rightarrow> nat" where
  "decode3 a b c = (bv a - 224) * 4096 + (bv b - 128) * 64 + (bv c - 128)"

definition decode4 :: "char \<Rightarrow> char \<Rightarrow> char \<Rightarrow> char \<Rightarrow> nat" where
  "decode4 a b c d = (bv a - 240) * 262144 + (bv b - 128) * 4096 + (bv c - 128) * 64 + (bv d - 128)"

definition ok2 :: "char \<Rightarrow> char \<Rightarrow> bool" where
  "ok2 a b \<longleftrightarrow> in_range 194 223 a \<and> cont b"

definition ok3 :: "char \<Rightarrow> char \<Rightarrow> char \<Rightarrow> bool" where
  "ok3 a b c \<longleftrightarrow> in_range 224 239 a \<and> cont c \<and>
     (if bv a = 224 then in_range 160 191 b
      else if bv a = 237 then in_range 128 159 b else cont b)"

definition ok4 :: "char \<Rightarrow> char \<Rightarrow> char \<Rightarrow> char \<Rightarrow> bool" where
  "ok4 a b c d \<longleftrightarrow> in_range 240 244 a \<and> cont c \<and> cont d \<and>
     (if bv a = 240 then in_range 144 191 b
      else if bv a = 244 then in_range 128 143 b else cont b)"

fun decode_rune :: "string \<Rightarrow> nat \<times> nat" where
  "decode_rune [] = (rune_error, 0)"
| "decode_rune (a # s) =
     (if bv a < 128 then (bv a, 1)
      else case s of
        [] \<Rightarrow> (rune_error, 1)
      | b # t \<Rightarrow>
          if ok2 a b then (decode2 a b, 2)
          else case t of
            [] \<Rightarrow> (rune_error, 1)
          | c # u \<Rightarrow>
              if ok3 a b c then (decode3 a b c, 3)
              else case u of
                [] \<Rightarrow> (rune_error, 1)
              | d # _ \<Rightarrow> if ok4 a b c d then (decode4 a b c d, 4) else (rune_error, 1))"

lemma decode_rune_width: "s \<noteq> [] \<Longrightarrow> 0 < snd (decode_rune s) \<and> snd (decode_rune s) \<le> length s"
  by (cases s) (auto split: list.splits)

text \<open>\<^verbatim>\<open>for _, r := range s\<close>: the runes of a string, ill-formed bytes as \<^verbatim>\<open>RuneError\<close>.\<close>

function runes :: "string \<Rightarrow> nat list" where
  "runes s = (if s = [] then []
     else fst (decode_rune s) # runes (drop (snd (decode_rune s)) s))"
  by pat_completeness auto
termination
  by (relation "measure length") (use decode_rune_width in \<open>auto simp: neq_Nil_conv diff_less\<close>)

declare runes.simps [simp del]

lemma runes_Nil [simp]: "runes [] = []"
  by (simp add: runes.simps)

text \<open>\<^verbatim>\<open>utf8.Valid\<close> and \<^verbatim>\<open>utf8.ValidString\<close>.\<close>

function utf8_valid :: "string \<Rightarrow> bool" where
  "utf8_valid s =
     (if s = [] then True
      else if decode_rune s = (rune_error, 1) then False
      else utf8_valid (drop (snd (decode_rune s)) s))"
  by pat_completeness auto
termination
  by (relation "measure length") (use decode_rune_width in \<open>auto simp: neq_Nil_conv diff_less\<close>)

declare utf8_valid.simps [simp del]

lemma utf8_valid_Nil [simp]: "utf8_valid []"
  by (simp add: utf8_valid.simps)

lemma utf8_valid_code [code]:
  "utf8_valid [] = True"
  "utf8_valid (a # s) = (decode_rune (a # s) \<noteq> (rune_error, 1) \<and>
     utf8_valid (drop (snd (decode_rune (a # s))) (a # s)))"
  by (simp_all add: utf8_valid.simps [of "a # s"] del: decode_rune.simps)

lemma runes_code [code]:
  "runes [] = []"
  "runes (a # s) = fst (decode_rune (a # s)) # runes (drop (snd (decode_rune (a # s))) (a # s))"
  by (simp_all add: runes.simps [of "a # s"] del: decode_rune.simps)

lemma utf8_valid_ascii [simp]: "bv a < 128 \<Longrightarrow> utf8_valid (a # s) \<longleftrightarrow> utf8_valid s"
  by (subst utf8_valid.simps) (simp add: rune_error_def)

lemma runes_ascii [simp]: "bv a < 128 \<Longrightarrow> runes (a # s) = bv a # runes s"
  by (subst runes.simps) simp

text \<open>A well-formed rune keeps its decoding when more bytes follow it.\<close>

lemma decode_rune_append:
  assumes "decode_rune s \<noteq> (rune_error, 1)" "s \<noteq> []"
  shows "decode_rune (s @ t) = decode_rune s"
  using assms by (cases s) (auto split: list.splits if_splits)

lemma utf8_valid_append: "utf8_valid s \<Longrightarrow> utf8_valid (s @ t) \<longleftrightarrow> utf8_valid t"
proof (induction s rule: utf8_valid.induct)
  case (1 s)
  show ?case
  proof (cases "s = []")
    case False
    let ?w = "snd (decode_rune s)"
    from 1(2) False have ok: "decode_rune s \<noteq> (rune_error, 1)" and tl: "utf8_valid (drop ?w s)"
      by (simp_all add: utf8_valid.simps [of s] split: if_splits)
    have "decode_rune (s @ t) = decode_rune s" using ok False by (rule decode_rune_append)
    moreover have "drop ?w (s @ t) = drop ?w s @ t"
      using decode_rune_width [OF False] by simp
    ultimately show ?thesis
      using 1(1) [OF False ok tl] ok False by (simp add: utf8_valid.simps [of "s @ t"])
  qed simp
qed

lemma runes_append: "utf8_valid s \<Longrightarrow> runes (s @ t) = runes s @ runes t"
proof (induction s rule: utf8_valid.induct)
  case (1 s)
  show ?case
  proof (cases "s = []")
    case False
    let ?w = "snd (decode_rune s)"
    from 1(2) False have ok: "decode_rune s \<noteq> (rune_error, 1)" and tl: "utf8_valid (drop ?w s)"
      by (simp_all add: utf8_valid.simps [of s] split: if_splits)
    have "decode_rune (s @ t) = decode_rune s" using ok False by (rule decode_rune_append)
    moreover have "drop ?w (s @ t) = drop ?w s @ t"
      using decode_rune_width [OF False] by simp
    ultimately show ?thesis
      using 1(1) [OF False ok tl] ok False
      by (simp add: runes.simps [of "s @ t"] runes.simps [of s])
  qed simp
qed

lemma utf8_valid_concat_sep:
  assumes "\<forall>p \<in> set ps. utf8_valid p" "bv c < 128"
  shows "utf8_valid (concat (map (\<lambda>p. c # p) ps))"
  using assms by (induction ps) (auto simp: utf8_valid_append)

text \<open>\<^verbatim>\<open>unicode.IsControl\<close>: category Cc, that is U+0000 to U+001F and U+007F to U+009F.\<close>

definition IsControl :: "nat \<Rightarrow> bool" where
  "IsControl r \<longleftrightarrow> r < 32 \<or> (127 \<le> r \<and> r < 160)"

lemma NUL_not_in_plain:
  assumes "utf8_valid s" "\<not> list_ex IsControl (runes s)"
  shows "CHR 0x00 \<notin> set s"
  using assms
proof (induction s rule: utf8_valid.induct)
  case (1 s)
  show ?case
  proof (cases "s = []")
    case False
    let ?w = "snd (decode_rune s)"
    from 1(2) False have ok: "decode_rune s \<noteq> (rune_error, 1)" and tl: "utf8_valid (drop ?w s)"
      by (simp_all add: utf8_valid.simps [of s] split: if_splits)
    from 1(3) False have hd: "\<not> IsControl (fst (decode_rune s))"
      and tl': "\<not> list_ex IsControl (runes (drop ?w s))"
      by (auto simp: runes.simps [of s])
    have rest: "CHR 0x00 \<notin> set (drop ?w s)" using 1(1) [OF False ok tl tl'] by simp
    have "CHR 0x00 \<notin> set (take ?w s)"
      using ok hd False
      by (cases s)
         (auto split: list.splits if_splits
            simp: IsControl_def ok2_def ok3_def ok4_def cont_def in_range_def)
    then show ?thesis using rest by (metis append_take_drop_id UnE set_append)
  qed simp
qed

section \<open>Trimming\<close>

text \<open>The UTF-8 encodings of the runes for which \<^verbatim>\<open>unicode.IsSpace\<close> holds.\<close>

definition space_encs :: "string list" where
  "space_encs =
     [[CHR 0x09], [CHR 0x0A], [CHR 0x0B], [CHR 0x0C], [CHR 0x0D], [CHR 0x20],
      [CHR 0xC2, CHR 0x85], [CHR 0xC2, CHR 0xA0], [CHR 0xE1, CHR 0x9A, CHR 0x80],
      [CHR 0xE2, CHR 0x80, CHR 0x80], [CHR 0xE2, CHR 0x80, CHR 0x81],
      [CHR 0xE2, CHR 0x80, CHR 0x82], [CHR 0xE2, CHR 0x80, CHR 0x83],
      [CHR 0xE2, CHR 0x80, CHR 0x84], [CHR 0xE2, CHR 0x80, CHR 0x85],
      [CHR 0xE2, CHR 0x80, CHR 0x86], [CHR 0xE2, CHR 0x80, CHR 0x87],
      [CHR 0xE2, CHR 0x80, CHR 0x88], [CHR 0xE2, CHR 0x80, CHR 0x89],
      [CHR 0xE2, CHR 0x80, CHR 0x8A], [CHR 0xE2, CHR 0x80, CHR 0xA8],
      [CHR 0xE2, CHR 0x80, CHR 0xA9], [CHR 0xE2, CHR 0x80, CHR 0xAF],
      [CHR 0xE2, CHR 0x81, CHR 0x9F], [CHR 0xE3, CHR 0x80, CHR 0x80]]"

lemma space_encs_nonempty: "e \<in> set space_encs \<Longrightarrow> e \<noteq> []"
  by (auto simp: space_encs_def)

definition leading_space :: "string \<Rightarrow> string option" where
  "leading_space s = find (\<lambda>e. prefix e s) space_encs"

definition trailing_space :: "string \<Rightarrow> string option" where
  "trailing_space s = find (\<lambda>e. suffix e s) space_encs"

lemma find_SomeD: "find P xs = Some x \<Longrightarrow> x \<in> set xs \<and> P x"
  by (induction xs) (auto split: if_splits)

lemma leading_space_SomeD: "leading_space s = Some e \<Longrightarrow> e \<noteq> [] \<and> prefix e s"
  unfolding leading_space_def by (drule find_SomeD) (auto dest: space_encs_nonempty)

lemma trailing_space_SomeD: "trailing_space s = Some e \<Longrightarrow> e \<noteq> [] \<and> suffix e s"
  unfolding trailing_space_def by (drule find_SomeD) (auto dest: space_encs_nonempty)

lemma leading_space_shorter:
  assumes "leading_space s = Some e"
  shows "length (drop (length e) s) < length s"
proof -
  have "0 < length e" "length e \<le> length s"
    using leading_space_SomeD [OF assms] by (auto dest: prefix_length_le)
  then show ?thesis unfolding length_drop by arith
qed

lemma trailing_space_shorter:
  assumes "trailing_space s = Some e"
  shows "length (take (length s - length e) s) < length s"
proof -
  have "0 < length e" "length e \<le> length s"
    using trailing_space_SomeD [OF assms] by (auto dest: suffix_length_le)
  then show ?thesis unfolding length_take by arith
qed

function TrimLeftSpace :: "string \<Rightarrow> string" where
  "TrimLeftSpace s = (case leading_space s of None \<Rightarrow> s | Some e \<Rightarrow> TrimLeftSpace (drop (length e) s))"
  by pat_completeness auto
termination
  by (relation "measure length") (simp_all only: wf_measure in_measure leading_space_shorter)

function TrimRightSpace :: "string \<Rightarrow> string" where
  "TrimRightSpace s =
     (case trailing_space s of None \<Rightarrow> s | Some e \<Rightarrow> TrimRightSpace (take (length s - length e) s))"
  by pat_completeness auto
termination
  by (relation "measure length") (simp_all only: wf_measure in_measure trailing_space_shorter)

declare TrimLeftSpace.simps [simp del] TrimRightSpace.simps [simp del]

definition TrimSpace :: "string \<Rightarrow> string" where
  "TrimSpace s = TrimRightSpace (TrimLeftSpace s)"

lemma TrimLeftSpace_suffix: "suffix (TrimLeftSpace s) s"
proof (induction s rule: TrimLeftSpace.induct)
  case (1 s)
  show ?case
  proof (cases "leading_space s")
    case (Some e)
    then have "suffix (TrimLeftSpace (drop (length e) s)) (drop (length e) s)" by (rule 1)
    then show ?thesis using Some suffix_order.trans [OF _ suffix_drop]
      by (simp add: TrimLeftSpace.simps [of s])
  qed (simp add: TrimLeftSpace.simps [of s])
qed

lemma TrimRightSpace_prefix: "prefix (TrimRightSpace s) s"
proof (induction s rule: TrimRightSpace.induct)
  case (1 s)
  show ?case
  proof (cases "trailing_space s")
    case (Some e)
    let ?t = "take (length s - length e) s"
    have "prefix (TrimRightSpace ?t) ?t" using Some by (rule 1)
    then show ?thesis using Some prefix_order.trans [OF _ take_is_prefix]
      by (simp add: TrimRightSpace.simps [of s])
  qed (simp add: TrimRightSpace.simps [of s])
qed

lemma TrimLeftSpace_leading: "leading_space (TrimLeftSpace s) = None"
proof (induction s rule: TrimLeftSpace.induct)
  case (1 s)
  then show ?case by (cases "leading_space s") (simp_all add: TrimLeftSpace.simps [of s])
qed

lemma TrimRightSpace_trailing: "trailing_space (TrimRightSpace s) = None"
proof (induction s rule: TrimRightSpace.induct)
  case (1 s)
  then show ?case by (cases "trailing_space s") (simp_all add: TrimRightSpace.simps [of s])
qed

lemma leading_space_prefix:
  assumes "leading_space s = None" "prefix t s"
  shows "leading_space t = None"
  using assms prefix_order.trans [OF _ assms(2)]
  unfolding leading_space_def find_None_iff by blast

lemma TrimSpace_no_space:
  "leading_space (TrimSpace s) = None \<and> trailing_space (TrimSpace s) = None"
  using leading_space_prefix [OF TrimLeftSpace_leading TrimRightSpace_prefix]
  by (simp add: TrimSpace_def TrimRightSpace_trailing)

lemma TrimSpace_id_iff: "TrimSpace s = s \<longleftrightarrow> leading_space s = None \<and> trailing_space s = None"
proof
  assume "TrimSpace s = s"
  then show "leading_space s = None \<and> trailing_space s = None"
    using TrimSpace_no_space [of s] by simp
next
  assume "leading_space s = None \<and> trailing_space s = None"
  then show "TrimSpace s = s"
    by (simp add: TrimSpace_def TrimLeftSpace.simps [of s] TrimRightSpace.simps [of s])
qed

lemma TrimSpace_idem [simp]: "TrimSpace (TrimSpace s) = TrimSpace s"
  unfolding TrimSpace_id_iff by (rule TrimSpace_no_space)

section \<open>Splitting and joining\<close>

text \<open>\<^verbatim>\<open>strings.Split(s, sep)\<close> for a one-byte separator; the empty string splits into one empty part.\<close>

fun split_on :: "char \<Rightarrow> string \<Rightarrow> string list" where
  "split_on c [] = [[]]"
| "split_on c (x # xs) =
     (if x = c then [] # split_on c xs
      else case split_on c xs of [] \<Rightarrow> [[x]] | p # ps \<Rightarrow> (x # p) # ps)"

text \<open>\<^verbatim>\<open>strings.Join(parts, sep)\<close> for a one-byte separator.\<close>

fun join_on :: "char \<Rightarrow> string list \<Rightarrow> string" where
  "join_on c [] = []"
| "join_on c [p] = p"
| "join_on c (p # q # ps) = p @ c # join_on c (q # ps)"

text \<open>\<^verbatim>\<open>strings.Cut(s, sep)\<close> for a one-byte separator: the text before and after the first one.\<close>

fun cut_on :: "char \<Rightarrow> string \<Rightarrow> (string \<times> string) option" where
  "cut_on c [] = None"
| "cut_on c (x # xs) =
     (if x = c then Some ([], xs)
      else case cut_on c xs of None \<Rightarrow> None | Some (a, b) \<Rightarrow> Some (x # a, b))"

lemma split_on_not_Nil [simp]: "split_on c s \<noteq> []"
  by (induction s) (auto split: list.splits)

lemma split_on_no_sep: "c \<notin> set p \<Longrightarrow> split_on c p = [p]"
  by (induction p) auto

lemma split_on_append: "c \<notin> set p \<Longrightarrow> split_on c (p @ c # s) = p # split_on c s"
  by (induction p) auto

lemma join_on_Cons_char: "join_on c ((x # p) # ps) = x # join_on c (p # ps)"
  by (cases ps) simp_all

lemma join_on_Cons_Nil: "ps \<noteq> [] \<Longrightarrow> join_on c ([] # ps) = c # join_on c ps"
  by (cases ps) simp_all

lemma join_on_split_on: "join_on c (split_on c s) = s"
proof (induction s)
  case (Cons x xs)
  show ?case
  proof (cases "x = c")
    case False
    obtain p ps where "split_on c xs = p # ps" by (meson neq_Nil_conv split_on_not_Nil)
    then show ?thesis using Cons False by (simp add: join_on_Cons_char)
  qed (simp add: Cons join_on_Cons_Nil)
qed simp

lemma split_on_parts: "p \<in> set (split_on c s) \<Longrightarrow> c \<notin> set p"
  by (induction s arbitrary: p) (auto split: list.splits if_splits)

lemma split_on_join_on:
  "ps \<noteq> [] \<Longrightarrow> (\<And>p. p \<in> set ps \<Longrightarrow> c \<notin> set p) \<Longrightarrow> split_on c (join_on c ps) = ps"
  by (induction c ps rule: join_on.induct) (auto simp: split_on_no_sep split_on_append)

lemma cut_on_append: "c \<notin> set a \<Longrightarrow> cut_on c (a @ c # b) = Some (a, b)"
  by (induction a) auto

lemma cut_on_SomeD: "cut_on c s = Some (a, b) \<Longrightarrow> s = a @ c # b \<and> c \<notin> set a"
  by (induction s arbitrary: a) (auto split: if_splits option.splits)

lemma cut_on_Some_iff: "cut_on c s = Some (a, b) \<longleftrightarrow> s = a @ c # b \<and> c \<notin> set a"
  using cut_on_append cut_on_SomeD by blast

lemma cut_on_None_iff: "cut_on c s = None \<longleftrightarrow> c \<notin> set s"
  by (induction s) (auto split: option.splits)

lemma append_sep_eq_iff:
  fixes c :: char
  assumes "c \<notin> set a" "c \<notin> set a'"
  shows "a @ c # b = a' @ c # b' \<longleftrightarrow> a = a' \<and> b = b'"
  using cut_on_Some_iff [of c "a @ c # b" a b] cut_on_Some_iff [of c "a @ c # b" a' b'] assms
  by auto

text \<open>\<^verbatim>\<open>strings.ContainsAny\<close>.\<close>

definition ContainsAny :: "string \<Rightarrow> string \<Rightarrow> bool" where
  "ContainsAny s chars = list_ex (\<lambda>c. c \<in> set chars) s"

lemma ContainsAny_iff: "ContainsAny s chars \<longleftrightarrow> set s \<inter> set chars \<noteq> {}"
  by (auto simp: ContainsAny_def list_ex_iff)

section \<open>Decimal digits\<close>

definition is_digit :: "char \<Rightarrow> bool" where
  "is_digit c \<longleftrightarrow> in_range 48 57 c"

definition digits_val :: "string \<Rightarrow> int" where
  "digits_val s = foldl (\<lambda>a c. 10 * a + (int (bv c) - 48)) 0 s"

definition digit_char :: "int \<Rightarrow> char" where
  "digit_char n = char_of (48 + nat n)"

lemma digit_char_bv: "0 \<le> n \<Longrightarrow> n \<le> 9 \<Longrightarrow> bv (digit_char n) = 48 + nat n"
  by (simp add: digit_char_def)

lemma is_digit_char [simp]: "0 \<le> n \<Longrightarrow> n \<le> 9 \<Longrightarrow> is_digit (digit_char n)"
  by (simp add: is_digit_def in_range_def digit_char_bv)

definition ascii :: "string \<Rightarrow> bool" where
  "ascii s \<longleftrightarrow> list_all (\<lambda>c. bv c < 128) s"

lemma ascii_utf8: "ascii s \<Longrightarrow> utf8_valid s"
  by (induction s) (auto simp: ascii_def)

lemma ascii_append [simp]: "ascii (s @ t) \<longleftrightarrow> ascii s \<and> ascii t"
  by (simp add: ascii_def)

lemma digits_ascii: "list_all is_digit s \<Longrightarrow> ascii s"
  by (auto simp: ascii_def list_all_iff is_digit_def in_range_def)

lemma digits_val_Nil [simp]: "digits_val [] = 0"
  by (simp add: digits_val_def)

lemma digits_val_snoc [simp]: "digits_val (s @ [c]) = 10 * digits_val s + (int (bv c) - 48)"
  by (simp add: digits_val_def)

lemma digits_val_nonneg: "list_all is_digit s \<Longrightarrow> 0 \<le> digits_val s"
  by (induction s rule: rev_induct) (auto simp: is_digit_def in_range_def)

text \<open>\<^verbatim>\<open>strconv.Itoa\<close> and \<^verbatim>\<open>%d\<close> on natural numbers.\<close>

fun itoa_nat :: "nat \<Rightarrow> string" where
  "itoa_nat n = (if n < 10 then [char_of (48 + n)] else itoa_nat (n div 10) @ [char_of (48 + n mod 10)])"

declare itoa_nat.simps [simp del]

definition itoa :: "int \<Rightarrow> string" where
  "itoa n = (if n < 0 then CHR ''-'' # itoa_nat (nat (- n)) else itoa_nat (nat n))"

lemma itoa_nat_props:
  "itoa_nat n \<noteq> [] \<and> list_all is_digit (itoa_nat n) \<and> digits_val (itoa_nat n) = int n"
proof (induction n rule: itoa_nat.induct)
  case (1 n)
  show ?case
  proof (cases "n < 10")
    case True
    then show ?thesis
      using digits_val_snoc [of "[]"]
      by (simp add: itoa_nat.simps [of n] is_digit_def in_range_def)
  next
    case False
    have "int n = 10 * int (n div 10) + int (n mod 10)" by (simp add: zdiv_int zmod_int)
    then show ?thesis
      using 1 [OF False] False
      by (simp add: itoa_nat.simps [of n] is_digit_def in_range_def)
  qed
qed

lemma itoa_nat_inject [simp]: "itoa_nat m = itoa_nat n \<longleftrightarrow> m = n"
  by (metis itoa_nat_props of_nat_eq_iff)

end
