(* ===== verification/Go_Json.thy ===== *)
theory Go_Json
  imports Go_Strings
begin

text \<open>
  What the repository uses of Go's \<^verbatim>\<open>encoding/json\<close>: the lexical grammar, \<^verbatim>\<open>json.Valid\<close> with
  its nesting limit, the token stream of \<^verbatim>\<open>Decoder.Token\<close>, decoding of string literals, and
  \<^verbatim>\<open>json.Marshal\<close> of a string. Lexing is lossless, so that the raw bytes of a member
  (\<^verbatim>\<open>json.RawMessage\<close>) can be read off the tokens.
\<close>

section \<open>Lexical grammar\<close>

abbreviation dquote :: char where "dquote \<equiv> CHR 0x22"
abbreviation backslash :: char where "backslash \<equiv> CHR 0x5C"

definition is_ws :: "char \<Rightarrow> bool" where
  "is_ws c \<longleftrightarrow> c = CHR 0x20 \<or> c = CHR 0x09 \<or> c = CHR 0x0A \<or> c = CHR 0x0D"

definition is_hex :: "char \<Rightarrow> bool" where
  "is_hex c \<longleftrightarrow> in_range 48 57 c \<or> in_range 97 102 c \<or> in_range 65 70 c"

definition hex_val :: "char \<Rightarrow> nat" where
  "hex_val c =
     (if in_range 48 57 c then bv c - 48 else if in_range 97 102 c then bv c - 87 else bv c - 55)"

definition hex4 :: "char \<Rightarrow> char \<Rightarrow> char \<Rightarrow> char \<Rightarrow> nat" where
  "hex4 a b c d = hex_val a * 4096 + hex_val b * 256 + hex_val c * 16 + hex_val d"

definition simple_escape :: "char \<Rightarrow> bool" where
  "simple_escape c \<longleftrightarrow> c \<in> set [CHR ''b'', CHR ''f'', CHR ''n'', CHR ''r'', CHR ''t'', backslash, CHR ''/'', dquote]"

datatype jtok =
    TDelim char
  | TComma
  | TColon
  | TStr string
  | TNum string
  | TTrue
  | TFalse
  | TNull

text \<open>
  The body of a string literal after its opening quote, up to the closing one: a sequence of
  units, each an escape of two or six bytes or one byte that is not a control character.
\<close>

definition unit_len :: "string \<Rightarrow> nat option" where
  "unit_len s = (case s of
       [] \<Rightarrow> None
     | c # r \<Rightarrow>
         if c = backslash then
           (case r of
              [] \<Rightarrow> None
            | e # t \<Rightarrow>
                if e = CHR ''u'' then
                  (if 4 \<le> length t \<and> list_all is_hex (take 4 t) then Some 6 else None)
                else if simple_escape e then Some 2
                else None)
         else if bv c < 32 then None
         else Some 1)"

lemma unit_len_bounds: "unit_len s = Some n \<Longrightarrow> 0 < n \<and> n \<le> length s"
  by (auto simp: unit_len_def split: list.splits if_splits)

function lex_str :: "string \<Rightarrow> (string \<times> string) option" where
  "lex_str s = (case s of
       [] \<Rightarrow> None
     | c # r \<Rightarrow>
         if c = dquote then Some ([], r)
         else (case unit_len s of
                 None \<Rightarrow> None
               | Some n \<Rightarrow> map_option (\<lambda>(b, r'). (take n s @ b, r')) (lex_str (drop n s))))"
  by pat_completeness auto
termination
proof (relation "measure length")
  fix s :: string and c r n
  assume "s = c # r" "unit_len s = Some n"
  then show "(drop n s, s) \<in> measure length" using unit_len_bounds [of s n] by simp
qed simp

declare lex_str.simps [simp del]

lemma lex_str_Nil [simp]: "lex_str [] = None"
  by (simp add: lex_str.simps)

lemma lex_str_quote [simp]: "lex_str (dquote # r) = Some ([], r)"
  by (simp add: lex_str.simps)

text \<open>\<^verbatim>\<open>-? (0 | [1-9][0-9]*) (. [0-9]+)? ([eE] [+-]? [0-9]+)?\<close>, each part as long as possible.\<close>

definition lex_digits :: "string \<Rightarrow> (string \<times> string) option" where
  "lex_digits s = (if takeWhile is_digit s = [] then None
     else Some (takeWhile is_digit s, dropWhile is_digit s))"

definition lex_int :: "string \<Rightarrow> (string \<times> string) option" where
  "lex_int s = (case s of
       [] \<Rightarrow> None
     | c # t \<Rightarrow> if c = CHR ''0'' then Some ([c], t) else lex_digits s)"

definition lex_frac :: "string \<Rightarrow> (string \<times> string) option" where
  "lex_frac s = (case s of
       [] \<Rightarrow> Some ([], [])
     | c # t \<Rightarrow>
         if c = CHR ''.'' then map_option (\<lambda>(d, r). (c # d, r)) (lex_digits t)
         else Some ([], s))"

definition lex_exp :: "string \<Rightarrow> (string \<times> string) option" where
  "lex_exp s = (case s of
       [] \<Rightarrow> Some ([], [])
     | e # t \<Rightarrow>
         if e = CHR ''e'' \<or> e = CHR ''E'' then
           (case t of
              g # u \<Rightarrow>
                if g = CHR ''+'' \<or> g = CHR ''-''
                then map_option (\<lambda>(d, r). (e # g # d, r)) (lex_digits u)
                else map_option (\<lambda>(d, r). (e # d, r)) (lex_digits t)
            | [] \<Rightarrow> None)
         else Some ([], s))"

definition lex_unsigned :: "string \<Rightarrow> (string \<times> string) option" where
  "lex_unsigned s =
     (case lex_int s of None \<Rightarrow> None
      | Some (i, r1) \<Rightarrow> (case lex_frac r1 of None \<Rightarrow> None
      | Some (f, r2) \<Rightarrow> (case lex_exp r2 of None \<Rightarrow> None
      | Some (e, r3) \<Rightarrow> Some (i @ f @ e, r3))))"

definition lex_num :: "string \<Rightarrow> (string \<times> string) option" where
  "lex_num s = (case s of
       [] \<Rightarrow> None
     | c # t \<Rightarrow>
         if c = CHR ''-'' then map_option (\<lambda>(n, r). (c # n, r)) (lex_unsigned t)
         else lex_unsigned s)"

definition lex_word :: "string \<Rightarrow> jtok \<Rightarrow> string \<Rightarrow> (jtok \<times> string) option" where
  "lex_word w t s = (if prefix w s then Some (t, drop (length w) s) else None)"

definition lex_one :: "string \<Rightarrow> (jtok \<times> string) option" where
  "lex_one s = (case s of
       [] \<Rightarrow> None
     | c # r \<Rightarrow>
         if c = CHR ''{'' \<or> c = CHR ''}'' \<or> c = CHR ''['' \<or> c = CHR '']'' then Some (TDelim c, r)
         else if c = CHR '','' then Some (TComma, r)
         else if c = CHR '':'' then Some (TColon, r)
         else if c = dquote then map_option (\<lambda>(b, r'). (TStr b, r')) (lex_str r)
         else if c = CHR ''t'' then lex_word ''true'' TTrue s
         else if c = CHR ''f'' then lex_word ''false'' TFalse s
         else if c = CHR ''n'' then lex_word ''null'' TNull s
         else map_option (\<lambda>(n, r'). (TNum n, r')) (lex_num s))"

text \<open>The bytes of a token.\<close>

fun lexeme :: "jtok \<Rightarrow> string" where
  "lexeme (TDelim c) = [c]"
| "lexeme TComma = '',''"
| "lexeme TColon = '':''"
| "lexeme (TStr b) = dquote # b @ [dquote]"
| "lexeme (TNum n) = n"
| "lexeme TTrue = ''true''"
| "lexeme TFalse = ''false''"
| "lexeme TNull = ''null''"

subsection \<open>Lexing is lossless and makes progress\<close>

lemma lex_str_sound: "lex_str s = Some (b, r) \<Longrightarrow> s = b @ dquote # r"
proof (induction s arbitrary: b rule: lex_str.induct)
  case (1 s)
  then obtain c t where s: "s = c # t" by (auto simp: lex_str.simps [of s] split: list.splits)
  show ?case
  proof (cases "c = dquote")
    case False
    with 1(2) s obtain n b' where n: "unit_len s = Some n" and b': "lex_str (drop n s) = Some (b', r)"
      and b: "b = take n s @ b'"
      by (auto simp: lex_str.simps [of "c # t"] split: option.splits)
    have "drop n s = b' @ dquote # r" using 1(1) [OF s False n b'] .
    then show ?thesis using b by (metis append.assoc append_take_drop_id)
  qed (use 1(2) s in auto)
qed

lemma lex_digits_sound: "lex_digits s = Some (d, r) \<Longrightarrow> s = d @ r \<and> d \<noteq> []"
  by (auto simp: lex_digits_def split: if_splits)

lemma lex_int_sound: "lex_int s = Some (d, r) \<Longrightarrow> s = d @ r \<and> d \<noteq> []"
  by (auto simp: lex_int_def split: list.splits if_splits dest!: lex_digits_sound)

lemma lex_frac_sound: "lex_frac s = Some (d, r) \<Longrightarrow> s = d @ r"
  by (auto simp: lex_frac_def split: list.splits if_splits dest!: lex_digits_sound)

lemma lex_exp_sound: "lex_exp s = Some (d, r) \<Longrightarrow> s = d @ r"
  by (auto simp: lex_exp_def split: list.splits if_splits dest!: lex_digits_sound)

lemma lex_unsigned_sound: "lex_unsigned s = Some (d, r) \<Longrightarrow> s = d @ r \<and> d \<noteq> []"
  by (auto simp: lex_unsigned_def split: option.splits
      dest!: lex_int_sound lex_frac_sound lex_exp_sound)

lemma lex_num_sound: "lex_num s = Some (d, r) \<Longrightarrow> s = d @ r \<and> d \<noteq> []"
  by (auto simp: lex_num_def split: list.splits if_splits dest!: lex_unsigned_sound)

lemma lex_word_sound: "lex_word w t s = Some (t', r) \<Longrightarrow> t' = t \<and> s = w @ r"
  by (auto simp: lex_word_def prefix_def split: if_splits)

lemma lexeme_not_Nil: "lex_one s = Some (t, r) \<Longrightarrow> lexeme t \<noteq> []"
  by (auto simp: lex_one_def split: list.splits if_splits dest!: lex_word_sound lex_num_sound)

lemma lex_one_sound: "lex_one s = Some (t, r) \<Longrightarrow> s = lexeme t @ r"
  by (auto simp: lex_one_def split: list.splits if_splits
      dest!: lex_word_sound lex_num_sound lex_str_sound)

lemma lex_one_shorter: "lex_one s = Some (t, r) \<Longrightarrow> length r < length s"
  using lex_one_sound lexeme_not_Nil by fastforce

section \<open>Token lists\<close>

text \<open>
  The tokens of a text, each with the white space before it, and the white space after the last
  one. \<^verbatim>\<open>None\<close> when some part of the text is not a token.
\<close>

function lex_all :: "string \<Rightarrow> ((string \<times> jtok) list \<times> string) option" where
  "lex_all s = (case dropWhile is_ws s of
       [] \<Rightarrow> Some ([], s)
     | c # r \<Rightarrow>
         (case lex_one (c # r) of
            None \<Rightarrow> None
          | Some (t, r') \<Rightarrow>
              map_option (\<lambda>(ts, tr). ((takeWhile is_ws s, t) # ts, tr)) (lex_all r')))"
  by pat_completeness auto
termination
proof (relation "measure length")
  fix s :: string and c r t r' and p :: "jtok \<times> string"
  assume "dropWhile is_ws s = c # r" "lex_one (c # r) = Some p" "(t, r') = p"
  then have "length r' < length (dropWhile is_ws s)" using lex_one_shorter [of "c # r" t r'] by auto
  then show "(r', s) \<in> measure length" using length_dropWhile_le [of is_ws s] by simp
qed simp

declare lex_all.simps [simp del]

definition unlex :: "(string \<times> jtok) list \<Rightarrow> string" where
  "unlex ts = concat (map (\<lambda>(w, t). w @ lexeme t) ts)"

lemma unlex_simps [simp]:
  "unlex [] = []" "unlex ((w, t) # ts) = w @ lexeme t @ unlex ts" "unlex (xs @ ys) = unlex xs @ unlex ys"
  by (simp_all add: unlex_def)

lemma lex_cases:
  assumes "lex_all s = Some (ts, tr)"
  obtains (Done) "dropWhile is_ws s = []" "ts = []" "tr = s"
  | (Step) t r ts' where "dropWhile is_ws s = lexeme t @ r" "lex_one (lexeme t @ r) = Some (t, r)"
      "lex_all r = Some (ts', tr)" "ts = (takeWhile is_ws s, t) # ts'"
proof (cases "dropWhile is_ws s")
  case Nil
  then have "lex_all s = Some ([], s)" by (subst lex_all.simps) (simp del: dropWhile_eq_Nil_conv)
  then show ?thesis using assms Nil that(1) by simp
next
  case (Cons c x)
  with assms obtain t r ts' where "lex_one (c # x) = Some (t, r)" "lex_all r = Some (ts', tr)"
    "ts = (takeWhile is_ws s, t) # ts'"
    by (auto simp: lex_all.simps [of s] split: option.splits)
  moreover from this(1) have "c # x = lexeme t @ r" by (rule lex_one_sound)
  ultimately show ?thesis using that(2) Cons by metis
qed

lemma lex_lossless: "lex_all s = Some (ts, tr) \<Longrightarrow> s = unlex ts @ tr"
proof (induction "length s" arbitrary: s ts rule: less_induct)
  case less
  from less(2) show ?case
  proof (cases rule: lex_cases)
    case (Step t r ts')
    have "length r < length (dropWhile is_ws s)"
      using lex_one_shorter [OF Step(2)] by (simp only: Step(1))
    also have "\<dots> \<le> length s" by (rule length_dropWhile_le)
    finally have "length r < length s" .
    then have "r = unlex ts' @ tr" using Step(3) less(1) by blast
    then have "dropWhile is_ws s = lexeme t @ unlex ts' @ tr" using Step(1) by simp
    then show ?thesis using Step(4) takeWhile_dropWhile_id [of is_ws s, symmetric] by simp
  qed simp
qed

section \<open>Values\<close>

text \<open>Members keep their decoded key, the raw bytes of their value, and the value.\<close>

datatype json =
    JNull
  | JBool bool
  | JNum string
  | JStr string
  | JArr "json list"
  | JObj "(string \<times> string \<times> json) list"

text \<open>\<^verbatim>\<open>utf8.EncodeRune\<close>; surrogates and values above U+10FFFF become U+FFFD.\<close>

definition encode_rune :: "nat \<Rightarrow> string" where
  "encode_rune r =
     (if r < 128 then [char_of r]
      else if r < 2048 then [char_of (192 + r div 64), char_of (128 + r mod 64)]
      else if 1114111 < r \<or> (55296 \<le> r \<and> r \<le> 57343) then [CHR 0xEF, CHR 0xBF, CHR 0xBD]
      else if r < 65536 then
        [char_of (224 + r div 4096), char_of (128 + r div 64 mod 64), char_of (128 + r mod 64)]
      else
        [char_of (240 + r div 262144), char_of (128 + r div 4096 mod 64),
         char_of (128 + r div 64 mod 64), char_of (128 + r mod 64)])"

definition is_high :: "nat \<Rightarrow> bool" where
  "is_high u \<longleftrightarrow> 55296 \<le> u \<and> u \<le> 56319"

definition is_low :: "nat \<Rightarrow> bool" where
  "is_low u \<longleftrightarrow> 56320 \<le> u \<and> u \<le> 57343"

text \<open>\<^verbatim>\<open>getu4\<close>: the code unit of a \<^verbatim>\<open>\uXXXX\<close> at the front.\<close>

definition getu4 :: "string \<Rightarrow> nat option" where
  "getu4 s = (case s of
       a # b # h1 # h2 # h3 # h4 # _ \<Rightarrow>
         if a = backslash \<and> b = CHR ''u'' \<and> list_all is_hex [h1, h2, h3, h4]
         then Some (hex4 h1 h2 h3 h4) else None
     | _ \<Rightarrow> None)"

definition unescape :: "char \<Rightarrow> char" where
  "unescape e =
     (if e = CHR ''b'' then CHR 0x08 else if e = CHR ''f'' then CHR 0x0C
      else if e = CHR ''n'' then CHR 0x0A else if e = CHR ''r'' then CHR 0x0D
      else if e = CHR ''t'' then CHR 0x09 else e)"

text \<open>
  The front of a literal's body: how many bytes are decoded together and to which bytes.
  A high surrogate pairs with a low one right after it; other surrogates become U+FFFD, as do
  bytes that are not UTF-8.
\<close>

definition unquote_step :: "string \<Rightarrow> nat \<times> string" where
  "unquote_step s = (case s of
       [] \<Rightarrow> (1, [])
     | c # r \<Rightarrow>
         if c = backslash then
           (case getu4 s of
              Some u \<Rightarrow>
                if is_high u then
                  (case getu4 (drop 6 s) of
                     Some v \<Rightarrow>
                       if is_low v
                       then (12, encode_rune ((u - 55296) * 1024 + (v - 56320) + 65536))
                       else (6, encode_rune rune_error)
                   | None \<Rightarrow> (6, encode_rune rune_error))
                else if is_low u then (6, encode_rune rune_error)
                else (6, encode_rune u)
            | None \<Rightarrow> (2, map unescape (take 1 r)))
         else if bv c < 128 then (1, [c])
         else (snd (decode_rune s), encode_rune (fst (decode_rune s))))"

lemma unquote_step_pos: "s \<noteq> [] \<Longrightarrow> 0 < fst (unquote_step s)"
  using decode_rune_width [of s]
  by (auto simp: unquote_step_def simp del: decode_rune.simps split: list.splits option.splits)

function unquote :: "string \<Rightarrow> string" where
  "unquote s = (case s of
       [] \<Rightarrow> []
     | _ # _ \<Rightarrow> snd (unquote_step s) @ unquote (drop (fst (unquote_step s)) s))"
  by pat_completeness auto
termination
proof (relation "measure length")
  fix s :: string and c r
  assume "s = c # r"
  then show "(drop (fst (unquote_step s)) s, s) \<in> measure length"
    using unquote_step_pos [of s] by simp
qed simp

declare unquote.simps [simp del]

section \<open>Parsing\<close>

definition maxNestingDepth :: nat where
  "maxNestingDepth = 10000"

text \<open>The bytes of a value: its tokens without the white space before the first one.\<close>

definition raw_of :: "(string \<times> jtok) list \<Rightarrow> string" where
  "raw_of ts = (case ts of [] \<Rightarrow> [] | (w, t) # ts' \<Rightarrow> lexeme t @ unlex ts')"

definition raw_upto :: "(string \<times> jtok) list \<Rightarrow> (string \<times> jtok) list \<Rightarrow> string" where
  "raw_upto ts rest = raw_of (take (length ts - length rest) ts)"

text \<open>
  Recursive descent over the tokens; \<open>d\<close> counts the open arrays and objects. The comparisons of
  lengths always succeed, because a value takes at least one token (\<open>parse_shorter\<close> below).
\<close>

function p_value :: "nat \<Rightarrow> (string \<times> jtok) list \<Rightarrow> (json \<times> (string \<times> jtok) list) option"
  and p_elems :: "nat \<Rightarrow> (string \<times> jtok) list \<Rightarrow> (json list \<times> (string \<times> jtok) list) option"
  and p_members :: "nat \<Rightarrow> (string \<times> jtok) list \<Rightarrow>
    ((string \<times> string \<times> json) list \<times> (string \<times> jtok) list) option"
where
  "p_value d [] = None"
| "p_value d ((w, TStr b) # r) = Some (JStr (unquote b), r)"
| "p_value d ((w, TNum n) # r) = Some (JNum n, r)"
| "p_value d ((w, TTrue) # r) = Some (JBool True, r)"
| "p_value d ((w, TFalse) # r) = Some (JBool False, r)"
| "p_value d ((w, TNull) # r) = Some (JNull, r)"
| "p_value d ((w, TComma) # r) = None"
| "p_value d ((w, TColon) # r) = None"
| "p_value d ((w, TDelim c) # r) =
     (if maxNestingDepth \<le> d then None
      else if c = CHR ''['' then
        (if r \<noteq> [] \<and> snd (hd r) = TDelim CHR '']'' then Some (JArr [], tl r)
         else map_option (\<lambda>(vs, r'). (JArr vs, r')) (p_elems (Suc d) r))
      else if c = CHR ''{'' then
        (if r \<noteq> [] \<and> snd (hd r) = TDelim CHR ''}'' then Some (JObj [], tl r)
         else map_option (\<lambda>(ms, r'). (JObj ms, r')) (p_members (Suc d) r))
      else None)"
| "p_elems d ts =
     (case p_value d ts of
        None \<Rightarrow> None
      | Some (v, r) \<Rightarrow>
          if r = [] then None
          else if snd (hd r) = TDelim CHR '']'' then Some ([v], tl r)
          else if snd (hd r) = TComma \<and> length r < length ts then
            map_option (\<lambda>(vs, r'). (v # vs, r')) (p_elems d (tl r))
          else None)"
| "p_members d ts =
     (case ts of
        (_, TStr k) # (_, TColon) # q \<Rightarrow>
          (case p_value d q of
             None \<Rightarrow> None
           | Some (v, r) \<Rightarrow>
               if r = [] then None
               else if snd (hd r) = TDelim CHR ''}''
                 then Some ([(unquote k, raw_upto q r, v)], tl r)
               else if snd (hd r) = TComma \<and> length r < length q then
                 map_option (\<lambda>(ms, r'). ((unquote k, raw_upto q r, v) # ms, r')) (p_members d (tl r))
               else None)
      | _ \<Rightarrow> None)"
  by pat_completeness auto
termination
  by (relation "measure (case_sum (\<lambda>(d, ts). 2 * length ts)
        (case_sum (\<lambda>(d, ts). 2 * length ts + 1) (\<lambda>(d, ts). 2 * length ts + 1)))")
     (auto simp: neq_Nil_conv)

declare p_elems.simps [simp del] p_members.simps [simp del]

lemma parse_shorter:
  "p_value d ts = Some (v, r) \<Longrightarrow> length r < length ts"
  "p_elems d ts = Some (vs, r) \<Longrightarrow> length r < length ts"
  "p_members d ts = Some (ms, r) \<Longrightarrow> length r < length ts"
proof (induction d ts and d ts and d ts arbitrary: v r and vs r and ms r
    rule: p_value_p_elems_p_members.induct)
  case (9 d w c r0)
  then show ?case by (fastforce split: if_splits)
next
  case (10 d ts)
  show ?case
    using 10(1,2,3) unfolding p_elems.simps [of d ts]
    by (fastforce split: option.splits if_splits prod.splits)
next
  case (11 d ts)
  show ?case
    using 11 unfolding p_members.simps [of d ts]
    by (fastforce split: option.splits if_splits prod.splits list.splits jtok.splits)
qed simp_all

text \<open>\<^verbatim>\<open>json.Unmarshal\<close> into \<^verbatim>\<open>any\<close> with numbers kept as text, and \<^verbatim>\<open>json.Valid\<close>.\<close>

definition json_tokens :: "string \<Rightarrow> (string \<times> jtok) list option" where
  "json_tokens s = map_option fst (lex_all s)"

definition json_parse :: "string \<Rightarrow> json option" where
  "json_parse s =
     (case json_tokens s of
        None \<Rightarrow> None
      | Some ts \<Rightarrow> (case p_value 0 ts of Some (v, []) \<Rightarrow> Some v | _ \<Rightarrow> None))"

definition json_valid :: "string \<Rightarrow> bool" where
  "json_valid s \<longleftrightarrow> json_parse s \<noteq> None"

text \<open>
  The tokens that successive calls of \<^verbatim>\<open>Decoder.Token\<close> return on a valid text: commas and colons
  are consumed silently.
\<close>

definition token_stream :: "string \<Rightarrow> jtok list" where
  "token_stream s =
     (case json_tokens s of
        None \<Rightarrow> []
      | Some ts \<Rightarrow> filter (\<lambda>t. t \<noteq> TComma \<and> t \<noteq> TColon) (map snd ts))"

section \<open>Printing of strings\<close>

text \<open>
  \<^verbatim>\<open>json.Marshal\<close> of a string, with the default escaping of \<^verbatim>\<open><\<close>, \<^verbatim>\<open>>\<close>, \<^verbatim>\<open>&\<close>, U+2028 and U+2029.
\<close>

definition hex_digit :: "nat \<Rightarrow> char" where
  "hex_digit n = (if n < 10 then char_of (48 + n) else char_of (87 + n))"

definition quote_ascii :: "char \<Rightarrow> string" where
  "quote_ascii c =
     (if c = dquote \<or> c = backslash then [backslash, c]
      else if c = CHR 0x08 then [backslash, CHR ''b'']
      else if c = CHR 0x0C then [backslash, CHR ''f'']
      else if c = CHR 0x0A then [backslash, CHR ''n'']
      else if c = CHR 0x0D then [backslash, CHR ''r'']
      else if c = CHR 0x09 then [backslash, CHR ''t'']
      else if bv c < 32 \<or> c = CHR ''<'' \<or> c = CHR ''>'' \<or> c = CHR ''&'' then
        backslash # ''u00'' @ [hex_digit (bv c div 16), hex_digit (bv c mod 16)]
      else [c])"

definition quote_step :: "string \<Rightarrow> nat \<times> string" where
  "quote_step s = (case s of
       [] \<Rightarrow> (1, [])
     | c # r \<Rightarrow>
         if bv c < 128 then (1, quote_ascii c)
         else if decode_rune s = (rune_error, 1) then (1, backslash # ''ufffd'')
         else if fst (decode_rune s) = 8232 then (3, backslash # ''u2028'')
         else if fst (decode_rune s) = 8233 then (3, backslash # ''u2029'')
         else (snd (decode_rune s), take (snd (decode_rune s)) s))"

lemma quote_step_pos: "s \<noteq> [] \<Longrightarrow> 0 < fst (quote_step s)"
  using decode_rune_width [of s]
  by (auto simp: quote_step_def simp del: decode_rune.simps split: list.splits)

function quote_body :: "string \<Rightarrow> string" where
  "quote_body s = (case s of
       [] \<Rightarrow> []
     | _ # _ \<Rightarrow> snd (quote_step s) @ quote_body (drop (fst (quote_step s)) s))"
  by pat_completeness auto
termination
proof (relation "measure length")
  fix s :: string and c r
  assume "s = c # r"
  then show "(drop (fst (quote_step s)) s, s) \<in> measure length"
    using quote_step_pos [of s] by simp
qed simp

declare quote_body.simps [simp del]

definition json_quote :: "string \<Rightarrow> string" where
  "json_quote s = dquote # quote_body s @ [dquote]"

text \<open>
  \<^verbatim>\<open>json.Marshal\<close> of a \<^verbatim>\<open>json.RawMessage\<close>: the text without insignificant white space and with the
  same escaping; \<^verbatim>\<open>nil\<close> is \<^verbatim>\<open>null\<close>, and a text that is not JSON is an error.
\<close>

fun html_escape :: "string \<Rightarrow> string" where
  "html_escape [] = []"
| "html_escape (c # s) =
     (if c = CHR ''<'' \<or> c = CHR ''>'' \<or> c = CHR ''&'' then quote_ascii c @ html_escape s
      else if c = CHR 0xE2 then
        (case s of
           a # b # t \<Rightarrow>
             if a = CHR 0x80 \<and> b = CHR 0xA8 then (backslash # ''u2028'') @ html_escape t
             else if a = CHR 0x80 \<and> b = CHR 0xA9 then (backslash # ''u2029'') @ html_escape t
             else c # html_escape s
         | _ \<Rightarrow> c # html_escape s)
      else c # html_escape s)"

definition marshal_raw :: "string \<Rightarrow> string option" where
  "marshal_raw s =
     (if s = [] then Some ''null''
      else if json_valid s then
        map_option (\<lambda>ts. concat (map (html_escape \<circ> lexeme \<circ> snd) ts)) (json_tokens s)
      else None)"

lemma marshal_raw_valid: "json_valid s \<Longrightarrow> marshal_raw s \<noteq> None"
  by (auto simp: marshal_raw_def json_valid_def json_parse_def split: option.splits)

section \<open>Numbers\<close>

text \<open>\<^verbatim>\<open>strconv.ParseInt(s, 10, bits)\<close>: an optional sign and at least one decimal digit.\<close>

definition ParseInt :: "nat \<Rightarrow> string \<Rightarrow> int option" where
  "ParseInt bits s =
     (let neg = (s \<noteq> [] \<and> hd s = CHR ''-'');
          d = (if s \<noteq> [] \<and> (hd s = CHR ''-'' \<or> hd s = CHR ''+'') then tl s else s);
          n = (if neg then - digits_val d else digits_val d)
      in if d = [] \<or> \<not> list_all is_digit d then None
         else if n < - (2 ^ (bits - 1)) \<or> n \<ge> 2 ^ (bits - 1) then None
         else Some n)"

lemma ParseInt_bounds: "ParseInt bits s = Some n \<Longrightarrow> - (2 ^ (bits - 1)) \<le> n \<and> n < 2 ^ (bits - 1)"
  by (auto simp: ParseInt_def Let_def split: if_splits)

end
