(* ===== verification/Contracts_Fields.thy ===== *)
theory Contracts_Fields
  imports Go_Strings
begin

text \<open>
  The string contracts of \<^verbatim>\<open>internal/contracts\<close>: storage fields (\<^verbatim>\<open>fields.go\<close>), topic parts, tenant
  identifiers, MQTT topics and user names (\<^verbatim>\<open>topic.go\<close>), tenant, product, device and command
  metadata (\<^verbatim>\<open>metadata.go\<close>), idempotency keys (\<^verbatim>\<open>idempotency.go\<close>) and device secrets
  (\<^verbatim>\<open>jsonb.go\<close>). Topics and user names are built and parsed by separate functions; the lemmas show
  that the two are inverse to each other and that distinct devices never share a topic, a user
  name or a storage key.
\<close>

section \<open>Definitions\<close>

record Envelope =
  env_MsgID :: string
  env_TenantID :: string
  env_DeviceID :: string
  env_Ts :: int
  env_Type :: string
  env_Version :: string
  env_TraceID :: string
  env_ProductID :: string
  env_Region :: string
  env_Seq :: int
  env_Payload :: string

definition TelemetryFieldMaxBytes :: nat where
  "TelemetryFieldMaxBytes = 64"

definition TelemetryVersionMaxBytes :: nat where
  "TelemetryVersionMaxBytes = 32"

text \<open>The error text names the field; only the wrapped sentinel is observable to callers.\<close>

definition ValidateStorageField :: "string \<Rightarrow> string \<Rightarrow> nat \<Rightarrow> gerror option" where
  "ValidateStorageField name value maxBytes =
     (if value = [] \<or> length value > maxBytes \<or> \<not> utf8_valid value then Some [ErrInvalidEnvelope]
      else if list_ex IsControl (runes value) then Some [ErrInvalidEnvelope]
      else None)"

definition IsValidTopicPart :: "string \<Rightarrow> bool" where
  "IsValidTopicPart part \<longleftrightarrow>
     part = TrimSpace part \<and> \<not> ContainsAny part ''/#+'' \<and>
     ValidateStorageField ''topic part'' part TelemetryFieldMaxBytes = None"

definition IsValidTenantID :: "string \<Rightarrow> bool" where
  "IsValidTenantID ident \<longleftrightarrow> IsValidTopicPart ident \<and> \<not> ContainsAny ident '':''"

fun first_error :: "gerror option list \<Rightarrow> gerror option" where
  "first_error [] = None"
| "first_error (None # es) = first_error es"
| "first_error (Some e # es) = Some e"

definition ValidateTelemetryFields :: "Envelope \<Rightarrow> gerror option" where
  "ValidateTelemetryFields env =
     (case first_error (map (\<lambda>(name, value, limit). ValidateStorageField name value limit)
        [(''msgId'', env_MsgID env, TelemetryFieldMaxBytes),
         (''tenantId'', env_TenantID env, TelemetryFieldMaxBytes),
         (''deviceId'', env_DeviceID env, TelemetryFieldMaxBytes),
         (''type'', env_Type env, TelemetryFieldMaxBytes),
         (''version'', env_Version env, TelemetryVersionMaxBytes)]) of
        Some err \<Rightarrow> Some err
      | None \<Rightarrow>
          if \<not> IsValidTenantID (env_TenantID env) \<or> \<not> IsValidTopicPart (env_DeviceID env)
          then Some [ErrInvalidEnvelope]
          else None)"

definition TopicSuffixTelemetry :: string where
  "TopicSuffixTelemetry = ''telemetry''"

definition TopicSuffixCommand :: string where
  "TopicSuffixCommand = ''command''"

definition TopicSuffixAck :: string where
  "TopicSuffixAck = ''ack''"

definition TelemetryTopicFilter :: string where
  "TelemetryTopicFilter = ''tenant/+/device/+/telemetry''"

definition AckTopicFilter :: string where
  "AckTopicFilter = ''tenant/+/device/+/ack''"

definition SharedTelemetryTopicFilter :: string where
  "SharedTelemetryTopicFilter = ''$share/iot-telemetry/tenant/+/device/+/telemetry''"

definition SharedAckTopicFilter :: string where
  "SharedAckTopicFilter = ''$share/iot-device-worker/tenant/+/device/+/ack''"

definition BuildDeviceTopic :: "string \<Rightarrow> string \<Rightarrow> string \<Rightarrow> string result" where
  "BuildDeviceTopic tenantID deviceID suff =
     (if \<not> IsValidTenantID tenantID \<or> \<not> IsValidTopicPart deviceID \<or> \<not> IsValidTopicPart suff
      then Inl [ErrInvalidTopicPart]
      else Inr (''tenant/'' @ tenantID @ ''/device/'' @ deviceID @ ''/'' @ suff))"

definition BuildDeviceUsername :: "string \<Rightarrow> string \<Rightarrow> string result" where
  "BuildDeviceUsername tenantID deviceID =
     (if \<not> IsValidTenantID tenantID \<or> \<not> IsValidTopicPart deviceID
      then Inl [ErrInvalidTopicPart]
      else Inr (tenantID @ '':'' @ deviceID))"

definition ParseDeviceUsername :: "string \<Rightarrow> (string \<times> string) option" where
  "ParseDeviceUsername username =
     (case cut_on CHR '':'' username of
        None \<Rightarrow> None
      | Some (tenantID, deviceID) \<Rightarrow>
          if \<not> IsValidTenantID tenantID \<or> \<not> IsValidTopicPart deviceID then None
          else Some (tenantID, deviceID))"

definition BuildTelemetryTopic :: "string \<Rightarrow> string \<Rightarrow> string result" where
  "BuildTelemetryTopic tenantID deviceID = BuildDeviceTopic tenantID deviceID TopicSuffixTelemetry"

definition BuildCommandTopic :: "string \<Rightarrow> string \<Rightarrow> string result" where
  "BuildCommandTopic tenantID deviceID = BuildDeviceTopic tenantID deviceID TopicSuffixCommand"

definition BuildAckTopic :: "string \<Rightarrow> string \<Rightarrow> string result" where
  "BuildAckTopic tenantID deviceID = BuildDeviceTopic tenantID deviceID TopicSuffixAck"

definition BuildTenantCommandTopicFilter :: "string \<Rightarrow> string result" where
  "BuildTenantCommandTopicFilter tenantID =
     (if \<not> IsValidTenantID tenantID then Inl [ErrInvalidTopicPart]
      else Inr (''tenant/'' @ tenantID @ ''/device/+/'' @ TopicSuffixCommand))"

definition ParseDeviceTopic :: "string \<Rightarrow> (string \<times> string \<times> string) option" where
  "ParseDeviceTopic topic =
     (case split_on CHR ''/'' topic of
        [p0, p1, p2, p3, p4] \<Rightarrow>
          if p0 \<noteq> ''tenant'' \<or> p2 \<noteq> ''device'' then None
          else if \<not> IsValidTenantID p1 \<or> \<not> IsValidTopicPart p3 \<or> \<not> IsValidTopicPart p4 then None
          else Some (p1, p3, p4)
      | _ \<Rightarrow> None)"

definition ValidateTenantName :: "string \<Rightarrow> gerror option" where
  "ValidateTenantName value =
     (if TrimSpace value = [] \<or> length value > 256 \<or> \<not> utf8_valid value
      then Some [ErrInvalidPayload]
      else if list_ex IsControl (runes value) then Some [ErrInvalidPayload]
      else None)"

definition product_char :: "nat \<Rightarrow> char \<Rightarrow> bool" where
  "product_char i c \<longleftrightarrow>
     in_range 97 122 c \<or> in_range 65 90 c \<or> in_range 48 57 c \<or>
     (i > 0 \<and> (c = CHR ''.'' \<or> c = CHR ''_'' \<or> c = CHR ''-''))"

definition ValidateProductID :: "string \<Rightarrow> gerror option" where
  "ValidateProductID value =
     (if length value = 0 \<or> length value > 64 then Some [ErrInvalidPayload]
      else if \<not> list_all (\<lambda>(i, c). product_char i c) (enumerate 0 value) then Some [ErrInvalidPayload]
      else None)"

definition ValidateDeviceIdentity :: "string \<Rightarrow> string \<Rightarrow> gerror option" where
  "ValidateDeviceIdentity tenant device =
     (if \<not> IsValidTenantID tenant \<or> \<not> IsValidTopicPart device then Some [ErrInvalidEnvelope] else None)"

definition ValidateCommandID :: "string \<Rightarrow> gerror option" where
  "ValidateCommandID ident = (if \<not> IsValidTopicPart ident then Some [ErrInvalidEnvelope] else None)"

definition ValidateIdempotencyKey :: "string \<Rightarrow> gerror option" where
  "ValidateIdempotencyKey key =
     (if length key > 128 then Some [ErrInvalidIdempotencyKey]
      else if list_ex (\<lambda>c. bv c < 33 \<or> bv c > 126) key then Some [ErrInvalidIdempotencyKey]
      else None)"

definition ValidateDeviceSecret :: "string \<Rightarrow> gerror option" where
  "ValidateDeviceSecret secret =
     (if length secret = 0 \<or> length secret > 72 \<or> \<not> utf8_valid secret
      then Some [ErrInvalidDeviceSecret] else None)"

text \<open>\<^verbatim>\<open>deviceKey\<close> of \<^verbatim>\<open>memory_store.go\<close>, the key under which a store keeps a device.\<close>

definition deviceKey :: "string \<Rightarrow> string \<Rightarrow> string" where
  "deviceKey tenantID deviceID = tenantID @ '':'' @ deviceID"

section \<open>Lemmas\<close>

lemma valid_part_chars:
  assumes "IsValidTopicPart p"
  shows "CHR ''/'' \<notin> set p" "CHR ''#'' \<notin> set p" "CHR ''+'' \<notin> set p"
  using assms by (auto simp: IsValidTopicPart_def ContainsAny_iff)

lemma valid_part_storage:
  assumes "IsValidTopicPart p"
  shows "p \<noteq> []" "length p \<le> 64" "utf8_valid p" "CHR 0x00 \<notin> set p" "TrimSpace p = p"
  using assms NUL_not_in_plain [of p]
  by (auto simp: IsValidTopicPart_def ValidateStorageField_def TelemetryFieldMaxBytes_def
      split: if_splits)

lemma valid_tenant_part: "IsValidTenantID t \<Longrightarrow> IsValidTopicPart t"
  by (simp add: IsValidTenantID_def)

lemma valid_tenant_colon: "IsValidTenantID t \<Longrightarrow> CHR '':'' \<notin> set t"
  by (auto simp: IsValidTenantID_def ContainsAny_iff)

lemmas valid_tenant_chars = valid_part_chars [OF valid_tenant_part] valid_tenant_colon

lemma first_error_None_iff: "first_error es = None \<longleftrightarrow> (\<forall>e \<in> set es. e = None)"
  by (induction es rule: first_error.induct) auto

lemma first_error_SomeD: "first_error es = Some e \<Longrightarrow> Some e \<in> set es"
  by (induction es rule: first_error.induct) auto

lemma ValidateStorageField_err: "ValidateStorageField n v m = Some e \<Longrightarrow> e = [ErrInvalidEnvelope]"
  by (auto simp: ValidateStorageField_def split: if_splits)

lemma field_errors:
  "Some e \<in> set (map (\<lambda>(n, v, l). ValidateStorageField n v l) fs) \<Longrightarrow> e = [ErrInvalidEnvelope]"
  by (auto dest: ValidateStorageField_err [OF sym])

lemma ValidateTelemetryFields_err:
  assumes "ValidateTelemetryFields env = Some e"
  shows "e = [ErrInvalidEnvelope]"
  using assms field_errors [OF first_error_SomeD]
  unfolding ValidateTelemetryFields_def by (auto simp del: list.map split: option.splits if_splits)

lemma ValidateTelemetryFields_ok:
  assumes "ValidateTelemetryFields env = None"
  shows "IsValidTenantID (env_TenantID env)" "IsValidTopicPart (env_DeviceID env)"
    "ValidateStorageField ''msgId'' (env_MsgID env) 64 = None"
    "ValidateStorageField ''type'' (env_Type env) 64 = None"
    "ValidateStorageField ''version'' (env_Version env) 32 = None"
  using assms
  by (auto simp: ValidateTelemetryFields_def first_error_None_iff TelemetryFieldMaxBytes_def
      TelemetryVersionMaxBytes_def split: option.splits if_splits)

lemma topic_as_join:
  "''tenant/'' @ t @ ''/device/'' @ d @ ''/'' @ s = join_on CHR ''/'' [''tenant'', t, ''device'', d, s]"
  by simp

lemma split_topic:
  assumes "CHR ''/'' \<notin> set t" "CHR ''/'' \<notin> set d" "CHR ''/'' \<notin> set s"
  shows "split_on CHR ''/'' (''tenant/'' @ t @ ''/device/'' @ d @ ''/'' @ s) =
    [''tenant'', t, ''device'', d, s]"
  unfolding topic_as_join by (rule split_on_join_on) (use assms in auto)

lemma split_topic_conv:
  assumes "split_on CHR ''/'' topic = [''tenant'', t, ''device'', d, s]"
  shows "topic = ''tenant/'' @ t @ ''/device/'' @ d @ ''/'' @ s"
  using join_on_split_on [of "CHR ''/''" topic] by (simp add: assms)

lemma ParseDeviceTopic_Some_iff:
  "ParseDeviceTopic topic = Some (t, d, s) \<longleftrightarrow>
     split_on CHR ''/'' topic = [''tenant'', t, ''device'', d, s] \<and>
     IsValidTenantID t \<and> IsValidTopicPart d \<and> IsValidTopicPart s"
  by (auto simp: ParseDeviceTopic_def split: list.splits if_splits)

lemma topic_round_trip: "BuildDeviceTopic t d s = Inr topic \<longleftrightarrow> ParseDeviceTopic topic = Some (t, d, s)"
proof
  assume "BuildDeviceTopic t d s = Inr topic"
  then show "ParseDeviceTopic topic = Some (t, d, s)"
    unfolding ParseDeviceTopic_Some_iff
    by (auto simp: BuildDeviceTopic_def split_topic valid_part_chars valid_tenant_chars
        simp del: append.simps split: if_splits)
next
  assume "ParseDeviceTopic topic = Some (t, d, s)"
  then have parts: "split_on CHR ''/'' topic = [''tenant'', t, ''device'', d, s]"
    and valid: "IsValidTenantID t" "IsValidTopicPart d" "IsValidTopicPart s"
    by (simp_all add: ParseDeviceTopic_Some_iff)
  show "BuildDeviceTopic t d s = Inr topic"
    unfolding split_topic_conv [OF parts] BuildDeviceTopic_def using valid by simp
qed

lemma ParseDeviceUsername_Some_iff:
  "ParseDeviceUsername u = Some (t, d) \<longleftrightarrow>
     u = t @ '':'' @ d \<and> IsValidTenantID t \<and> IsValidTopicPart d"
proof -
  have "ParseDeviceUsername u = Some (t, d) \<longleftrightarrow>
      cut_on CHR '':'' u = Some (t, d) \<and> IsValidTenantID t \<and> IsValidTopicPart d"
    by (cases "cut_on CHR '':'' u") (auto simp: ParseDeviceUsername_def split: if_splits)
  then show ?thesis using cut_on_Some_iff [of "CHR '':''" u t d] valid_tenant_colon [of t] by auto
qed

lemma username_round_trip: "BuildDeviceUsername t d = Inr u \<longleftrightarrow> ParseDeviceUsername u = Some (t, d)"
  unfolding ParseDeviceUsername_Some_iff BuildDeviceUsername_def by auto

lemma deviceKey_inject:
  assumes "IsValidTenantID t" "IsValidTenantID t'"
  shows "deviceKey t d = deviceKey t' d' \<longleftrightarrow> t = t' \<and> d = d'"
  using append_sep_eq_iff [of "CHR '':''" t t'] valid_tenant_colon assms
  by (simp add: deviceKey_def)

lemma valid_suffixes [simp]:
  "IsValidTopicPart TopicSuffixTelemetry" "IsValidTopicPart TopicSuffixCommand"
  "IsValidTopicPart TopicSuffixAck"
  by (code_simp, code_simp, code_simp)

section \<open>Properties\<close>

text \<open>
  C25: building a device topic and parsing one are inverse to each other. A topic is the result of
  \<^verbatim>\<open>BuildDeviceTopic\<close> on a tenant, a device and a suffix exactly when \<^verbatim>\<open>ParseDeviceTopic\<close> returns
  these three on it, so no two triples share a topic and no topic has a second reading.
\<close>

theorem device_topic_build_parse:
  "BuildDeviceTopic t d s = Inr topic \<longleftrightarrow> ParseDeviceTopic topic = Some (t, d, s)"
  by (rule topic_round_trip)

text \<open>
  C26: the MQTT user name of a device is \<^verbatim>\<open>tenantId:deviceId\<close>; although a device identifier may
  contain further colons, \<^verbatim>\<open>BuildDeviceUsername\<close> and \<^verbatim>\<open>ParseDeviceUsername\<close> are inverse to each other.
\<close>

theorem device_username_build_parse:
  "BuildDeviceUsername t d = Inr u \<longleftrightarrow> ParseDeviceUsername u = Some (t, d)"
  by (rule username_round_trip)

end
