(* ===== verification/Contracts_Command.thy ===== *)
theory Contracts_Command
  imports Iot_Prelude
begin

text \<open>
  The command life cycle of \<^verbatim>\<open>internal/contracts/command_state.go\<close>: the statuses and events, their
  wire strings, and \<^verbatim>\<open>AdvanceCommandStatus\<close>. The lemmas describe the transition graph: progress is
  strict, the three final statuses have no successor, and the graph is exactly the edges listed in
  the source.
\<close>

datatype CommandStatus =
    CommandStatusCreated
  | CommandStatusPublished
  | CommandStatusSent
  | CommandStatusAcked
  | CommandStatusFailed
  | CommandStatusTimeout
  | CommandStatusOther string

datatype CommandEvent =
    CommandEventPublished
  | CommandEventDelivered
  | CommandEventAcked
  | CommandEventFailed
  | CommandEventTimeout
  | CommandEventOther string

text \<open>
  Both Go types are named strings, so any string can occur; the last constructor holds the strings
  that no constant names.
\<close>

fun status_string :: "CommandStatus \<Rightarrow> string" where
  "status_string CommandStatusCreated = ''created''"
| "status_string CommandStatusPublished = ''published''"
| "status_string CommandStatusSent = ''sent''"
| "status_string CommandStatusAcked = ''acked''"
| "status_string CommandStatusFailed = ''failed''"
| "status_string CommandStatusTimeout = ''timeout''"
| "status_string (CommandStatusOther s) = s"

definition status_of_string :: "string \<Rightarrow> CommandStatus" where
  "status_of_string s =
     (if s = ''created'' then CommandStatusCreated
      else if s = ''published'' then CommandStatusPublished
      else if s = ''sent'' then CommandStatusSent
      else if s = ''acked'' then CommandStatusAcked
      else if s = ''failed'' then CommandStatusFailed
      else if s = ''timeout'' then CommandStatusTimeout
      else CommandStatusOther s)"

text \<open>The conversion \<^verbatim>\<open>contracts.CommandEvent(status)\<close> between the two string types.\<close>

definition event_of_string :: "string \<Rightarrow> CommandEvent" where
  "event_of_string s =
     (if s = ''published'' then CommandEventPublished
      else if s = ''delivered'' then CommandEventDelivered
      else if s = ''acked'' then CommandEventAcked
      else if s = ''failed'' then CommandEventFailed
      else if s = ''timeout'' then CommandEventTimeout
      else CommandEventOther s)"

definition event_of_status :: "CommandStatus \<Rightarrow> CommandEvent" where
  "event_of_status st = event_of_string (status_string st)"

definition AdvanceCommandStatus :: "CommandStatus \<Rightarrow> CommandEvent \<Rightarrow> CommandStatus result" where
  "AdvanceCommandStatus current event =
     (case current of
        CommandStatusCreated \<Rightarrow>
          (case event of
             CommandEventFailed \<Rightarrow> Inr CommandStatusFailed
           | CommandEventPublished \<Rightarrow> Inr CommandStatusPublished
           | CommandEventAcked \<Rightarrow> Inr CommandStatusAcked
           | _ \<Rightarrow> Inl [ErrInvalidCommandTransition])
      | CommandStatusPublished \<Rightarrow>
          (case event of
             CommandEventDelivered \<Rightarrow> Inr CommandStatusSent
           | CommandEventAcked \<Rightarrow> Inr CommandStatusAcked
           | CommandEventFailed \<Rightarrow> Inr CommandStatusFailed
           | _ \<Rightarrow> Inl [ErrInvalidCommandTransition])
      | CommandStatusSent \<Rightarrow>
          (case event of
             CommandEventAcked \<Rightarrow> Inr CommandStatusAcked
           | CommandEventFailed \<Rightarrow> Inr CommandStatusFailed
           | CommandEventTimeout \<Rightarrow> Inr CommandStatusTimeout
           | _ \<Rightarrow> Inl [ErrInvalidCommandTransition])
      | _ \<Rightarrow> Inl [ErrInvalidCommandTransition])"

section \<open>The transition graph\<close>

fun status_rank :: "CommandStatus \<Rightarrow> nat" where
  "status_rank CommandStatusCreated = 0"
| "status_rank CommandStatusPublished = 1"
| "status_rank CommandStatusSent = 2"
| "status_rank _ = 3"

definition terminal :: "CommandStatus \<Rightarrow> bool" where
  "terminal st \<longleftrightarrow> st \<in> {CommandStatusAcked, CommandStatusFailed, CommandStatusTimeout}"

definition named_status :: "CommandStatus \<Rightarrow> bool" where
  "named_status st \<longleftrightarrow> (case st of CommandStatusOther _ \<Rightarrow> False | _ \<Rightarrow> True)"

lemma status_round_trip: "named_status st \<Longrightarrow> status_of_string (status_string st) = st"
  by (cases st) (simp_all add: named_status_def status_of_string_def)

lemma status_string_of_string [simp]: "status_string (status_of_string s) = s"
  by (simp add: status_of_string_def)

lemma event_of_status_simps [simp]:
  "event_of_status CommandStatusAcked = CommandEventAcked"
  "event_of_status CommandStatusFailed = CommandEventFailed"
  by (simp_all add: event_of_status_def event_of_string_def)

lemma Advance_strict:
  "AdvanceCommandStatus st ev = Inr st' \<Longrightarrow> status_rank st < status_rank st' \<and> named_status st'"
  by (auto simp: AdvanceCommandStatus_def named_status_def
      split: CommandStatus.splits CommandEvent.splits)

lemma Advance_terminal: "terminal st \<Longrightarrow> AdvanceCommandStatus st ev = Inl [ErrInvalidCommandTransition]"
  by (auto simp: AdvanceCommandStatus_def terminal_def)

lemma Advance_error: "AdvanceCommandStatus st ev = Inl e \<Longrightarrow> e = [ErrInvalidCommandTransition]"
  by (auto simp: AdvanceCommandStatus_def split: CommandStatus.splits CommandEvent.splits)

text \<open>Runs of the state machine over a sequence of events; a rejected event stops the run.\<close>

fun run_events :: "CommandStatus \<Rightarrow> CommandEvent list \<Rightarrow> CommandStatus result" where
  "run_events st [] = Inr st"
| "run_events st (ev # evs) = bind_res (AdvanceCommandStatus st ev) (\<lambda>st'. run_events st' evs)"

lemma run_events_length:
  "run_events st evs = Inr st' \<Longrightarrow> status_rank st + length evs \<le> status_rank st'"
proof (induction evs arbitrary: st)
  case (Cons ev evs)
  then obtain st1 where "AdvanceCommandStatus st ev = Inr st1" "run_events st1 evs = Inr st'"
    by (auto simp: bind_res_eq_Inr)
  then show ?case using Cons.IH [of st1] Advance_strict [of st ev st1] by fastforce
qed simp

lemma status_rank_le: "status_rank st \<le> 3"
  by (cases st) simp_all

lemma run_events_bound: "run_events st evs = Inr st' \<Longrightarrow> length evs \<le> 3"
  using run_events_length [of st evs st'] status_rank_le [of st'] by simp

lemma run_events_terminal: "terminal st \<Longrightarrow> run_events st evs = Inr st' \<Longrightarrow> evs = [] \<and> st' = st"
  by (cases evs) (auto simp: bind_res_eq_Inr Advance_terminal)

section \<open>Properties\<close>

text \<open>
  C27: a command accepts at most three events in its life, whatever their order; each accepted
  event moves it strictly forward, and a command that reached \<^verbatim>\<open>acked\<close>, \<^verbatim>\<open>failed\<close> or
  \<^verbatim>\<open>timeout\<close> accepts none.
\<close>

theorem command_events_bounded:
  assumes "run_events st evs = Inr st'"
  shows "length evs \<le> 3 \<and> status_rank st + length evs \<le> status_rank st' \<and>
    (terminal st \<longrightarrow> evs = [] \<and> st' = st)"
  using assms run_events_bound run_events_length run_events_terminal by blast

theorem command_events_bounded_witness:
  "length [CommandEventPublished, CommandEventDelivered, CommandEventTimeout] \<le> 3 \<and>
   run_events CommandStatusCreated [CommandEventPublished, CommandEventDelivered, CommandEventTimeout]
     = Inr CommandStatusTimeout"
  using command_events_bounded
    [of CommandStatusCreated "[CommandEventPublished, CommandEventDelivered, CommandEventTimeout]"
      CommandStatusTimeout]
  by (simp add: AdvanceCommandStatus_def)

end
