(* ===== verification/Contracts_Json.thy ===== *)
theory Contracts_Json
  imports Go_Json Contracts_Fields Contracts_Command
begin

text \<open>
  The JSON contracts of \<^verbatim>\<open>internal/contracts\<close>: the JSONB budget of \<^verbatim>\<open>jsonb.go\<close>, the check for
  ambiguous object keys of \<^verbatim>\<open>request_json.go\<close>, telemetry envelopes (\<^verbatim>\<open>envelope.go\<close>) and command
  payloads and results (\<^verbatim>\<open>metadata.go\<close>, \<^verbatim>\<open>command_result.go\<close>). The lemmas give the exact set of texts
  each validator accepts, and show that the index arithmetic of the surrogate scan stays in range.
\<close>

section \<open>The JSONB budget\<close>

definition MaxJSONBBytes :: nat where
  "MaxJSONBBytes = 1048576"

definition MaxTelemetryPayloadBytes :: nat where
  "MaxTelemetryPayloadBytes = MaxJSONBBytes - 4096"

datatype scan = ScanOk | ScanReject | ScanPanic

text \<open>\<^verbatim>\<open>strconv.ParseUint(s, 16, 16)\<close> of four bytes; the value is 0 when there is an error.\<close>

definition parse_hex4 :: "string \<Rightarrow> nat option" where
  "parse_hex4 s = (case s of
       [a, b, c, d] \<Rightarrow> if list_all is_hex s then Some (hex4 a b c d) else None
     | _ \<Rightarrow> None)"

text \<open>
  The part of the inner loop that handles \<^verbatim>\<open>\u\<close>, on the text after the \<^verbatim>\<open>u\<close>: how many bytes of it
  the loop consumes. A slice or an index out of range is \<open>Inl ScanPanic\<close>.
\<close>

definition scan_u :: "string \<Rightarrow> scan + nat" where
  "scan_u t =
     (if length t < 4 then Inl ScanPanic
      else
        let u = (case parse_hex4 (take 4 t) of Some u \<Rightarrow> u | None \<Rightarrow> 0) in
        if 55296 \<le> u \<and> u \<le> 56319 then
          (if length t < 10 \<or> t ! 4 \<noteq> backslash \<or> t ! 5 \<noteq> CHR ''u'' then Inl ScanReject
           else case parse_hex4 (take 4 (drop 6 t)) of
                  None \<Rightarrow> Inl ScanReject
                | Some low \<Rightarrow> if low < 56320 \<or> 57343 < low then Inl ScanReject else Inr 10)
        else if 56320 \<le> u \<and> u \<le> 57343 then Inl ScanReject
        else Inr 4)"

lemma scan_u_bounds: "scan_u t = Inr n \<Longrightarrow> n \<le> length t"
  by (auto simp: scan_u_def Let_def split: if_splits option.splits)

text \<open>
  The two nested loops over \<^verbatim>\<open>raw[i:]\<close>: the flag says whether \<^verbatim>\<open>i\<close> is inside a string literal.
\<close>

function scan_from :: "bool \<Rightarrow> string \<Rightarrow> scan" where
  "scan_from inside [] = ScanOk"
| "scan_from inside (c # s) =
     (if \<not> inside then scan_from (c = dquote) s
      else if c = dquote then scan_from False s
      else if c = backslash then
        (case s of
           [] \<Rightarrow> ScanPanic
         | e # t \<Rightarrow>
             if e = CHR ''u'' then
               (case scan_u t of Inl r \<Rightarrow> r | Inr n \<Rightarrow> scan_from True (drop n t))
             else scan_from True t)
      else scan_from True s)"
  by pat_completeness auto
termination
  by (relation "measure (\<lambda>(b, s). length s)") auto

text \<open>The bytes a number may take once PostgreSQL has expanded its exponent.\<close>

definition number_cost :: "string \<Rightarrow> int option" where
  "number_cost v =
     (let number = (if prefix ''-'' v then tl v else v);
          mantissa = takeWhile (\<lambda>c. c \<noteq> CHR ''e'' \<and> c \<noteq> CHR ''E'') number;
          rest = dropWhile (\<lambda>c. c \<noteq> CHR ''e'' \<and> c \<noteq> CHR ''E'') number
      in case (if rest = [] then Some 0 else ParseInt 32 (tl rest)) of
           None \<Rightarrow> None
         | Some ex \<Rightarrow>
             let (integer, fraction) = (case cut_on CHR ''.'' mantissa of
                                          None \<Rightarrow> (mantissa, []) | Some p \<Rightarrow> p);
                 digits = integer @ fraction;
                 leading = length (takeWhile (\<lambda>c. c = CHR ''0'') digits);
                 il = int (length integer); fl = int (length fraction)
             in if il - int leading + ex > 131072 \<or> fl - ex > 16383 \<or> ex > 131072 \<or> ex < - 16383 - il
                then None
                else
                  let integerBytes = max 1 (il + ex);
                      fractionBytes = max 0 (fl - ex)
                  in Some (integerBytes + fractionBytes + (if fractionBytes > 0 then 1 else 0) +
                           (if prefix ''-'' v then 1 else 0)))"

fun token_cost :: "jtok \<Rightarrow> int option" where
  "token_cost (TStr b) =
     (if CHR 0x00 \<in> set (unquote b) then None else Some (int (length (json_quote (unquote b)))))"
| "token_cost (TNum n) = number_cost n"
| "token_cost (TDelim c) = Some 1"
| "token_cost _ = Some 5"

fun budget_loop :: "int \<Rightarrow> int \<Rightarrow> jtok list \<Rightarrow> gerror option" where
  "budget_loop limit used [] = None"
| "budget_loop limit used (t # ts) =
     (case token_cost t of
        None \<Rightarrow> Some [ErrInvalidPayload]
      | Some k \<Rightarrow>
          if used + 2 + k > limit then Some [ErrInvalidPayload]
          else budget_loop limit (used + 2 + k) ts)"

definition validateJSONBBudget :: "string \<Rightarrow> nat \<Rightarrow> gerror option" where
  "validateJSONBBudget raw limit =
     (if length raw > limit then Some [ErrInvalidPayload]
      else if \<not> utf8_valid raw \<or> \<not> json_valid raw then Some [ErrInvalidPayload]
      else case scan_from False raw of
             ScanPanic \<Rightarrow> Some [ErrPanic]
           | ScanReject \<Rightarrow> Some [ErrInvalidPayload]
           | ScanOk \<Rightarrow> budget_loop (int limit) 0 (token_stream raw))"

definition ValidateJSONB :: "string \<Rightarrow> gerror option" where
  "ValidateJSONB raw = validateJSONBBudget raw MaxJSONBBytes"

subsection \<open>The loop over the tokens\<close>

definition token_ok :: "jtok \<Rightarrow> bool" where
  "token_ok t \<longleftrightarrow> token_cost t \<noteq> None"

definition total_cost :: "jtok list \<Rightarrow> int" where
  "total_cost ts = sum_list (map (\<lambda>t. 2 + the (token_cost t)) ts)"

lemma total_cost_simps [simp]:
  "total_cost [] = 0" "total_cost (t # ts) = 2 + the (token_cost t) + total_cost ts"
  by (simp_all add: total_cost_def)

lemma number_cost_pos: "number_cost v = Some k \<Longrightarrow> 0 < k"
  by (auto simp: number_cost_def Let_def split: option.splits prod.splits if_splits)

lemma token_cost_pos: "token_cost t = Some k \<Longrightarrow> 0 < k"
  by (cases t) (auto simp: json_quote_def dest: number_cost_pos split: if_splits)

lemma total_cost_nonneg: "list_all token_ok ts \<Longrightarrow> 0 \<le> total_cost ts"
proof (induction ts)
  case (Cons t ts)
  then show ?case using token_cost_pos [of t] by (auto simp: token_ok_def)
qed simp

lemma budget_loop_iff:
  "budget_loop limit used ts = None \<longleftrightarrow>
     list_all token_ok ts \<and> (ts = [] \<or> used + total_cost ts \<le> limit)"
proof (induction ts arbitrary: used)
  case (Cons t ts)
  show ?case
  proof (cases "token_cost t")
    case (Some k)
    then have "token_ok t" by (simp add: token_ok_def)
    then show ?thesis
      using Cons.IH [of "used + 2 + k"] Some total_cost_nonneg [of ts]
      by (cases "list_all token_ok ts"; cases "ts = []") auto
  qed (simp add: token_ok_def)
qed simp

lemma budget_loop_err: "budget_loop limit used ts = Some e \<Longrightarrow> e = [ErrInvalidPayload]"
  by (induction ts arbitrary: used) (auto split: option.splits if_splits)

subsection \<open>The surrogate scan\<close>

text \<open>
  A string literal whose surrogate escapes are properly paired, following the units of the lexer.
\<close>

function surrogates_ok :: "string \<Rightarrow> bool" where
  "surrogates_ok b = (case b of
       [] \<Rightarrow> True
     | c # _ \<Rightarrow>
         (case getu4 b of
            None \<Rightarrow> surrogates_ok (drop (if c = backslash then 2 else 1) b)
          | Some u \<Rightarrow>
              if is_high u then
                (case getu4 (drop 6 b) of
                   None \<Rightarrow> False
                 | Some v \<Rightarrow> is_low v \<and> surrogates_ok (drop 12 b))
              else \<not> is_low u \<and> surrogates_ok (drop 6 b)))"
  by pat_completeness auto
termination
  by (relation "measure length") auto

declare surrogates_ok.simps [simp del]

lemma getu4_Some_iff:
  "getu4 s = Some u \<longleftrightarrow> (\<exists>a b c d r. s = backslash # CHR ''u'' # a # b # c # d # r \<and>
     is_hex a \<and> is_hex b \<and> is_hex c \<and> is_hex d \<and> u = hex4 a b c d)"
  by (auto simp: getu4_def split: list.splits if_splits)

lemma parse_hex4_Some_iff:
  "parse_hex4 s = Some u \<longleftrightarrow>
     (\<exists>a b c d. s = [a, b, c, d] \<and> list_all is_hex s \<and> u = hex4 a b c d)"
  by (auto simp: parse_hex4_def split: list.splits)

lemma lex_str_unit:
  assumes "lex_str s = Some (b, r)" "s = c # t" "c \<noteq> dquote"
  obtains n b' where "unit_len s = Some n" "b = take n s @ b'" "lex_str (drop n s) = Some (b', r)"
  using assms by (auto simp: lex_str.simps [of "c # t"] split: option.splits)

lemma getu4_lex_str:
  assumes "lex_str s = Some (b, r)"
  shows "getu4 b = getu4 s"
proof (cases "getu4 s")
  case (Some u)
  then obtain h1 h2 h3 h4 t where s: "s = backslash # CHR ''u'' # h1 # h2 # h3 # h4 # t"
    and hex: "is_hex h1" "is_hex h2" "is_hex h3" "is_hex h4" and u: "u = hex4 h1 h2 h3 h4"
    by (auto simp: getu4_Some_iff)
  from assms s obtain n b' where "unit_len s = Some n" "b = take n s @ b'" by (rule lex_str_unit) simp
  then have "b = take 6 s @ b'" using s hex by (simp add: unit_len_def)
  then show ?thesis using Some s hex u by (auto simp: getu4_def)
next
  case None
  have "s = b @ dquote # r" using assms by (rule lex_str_sound)
  then have "getu4 b = Some u \<Longrightarrow> getu4 s = Some u" for u by (auto simp: getu4_Some_iff)
  then show ?thesis using None by (cases "getu4 b") auto
qed

lemma scan_u_getu4:
  assumes "is_hex h1" "is_hex h2" "is_hex h3" "is_hex h4"
  shows "scan_u (h1 # h2 # h3 # h4 # t) =
    (if is_high (hex4 h1 h2 h3 h4) then
       (case getu4 t of
          None \<Rightarrow> Inl ScanReject
        | Some v \<Rightarrow> if is_low v then Inr 10 else Inl ScanReject)
     else if is_low (hex4 h1 h2 h3 h4) then Inl ScanReject else Inr 4)"
proof -
  have p: "parse_hex4 [h1, h2, h3, h4] = Some (hex4 h1 h2 h3 h4)"
    using assms by (simp add: parse_hex4_def)
  show ?thesis
  proof (cases "getu4 t")
    case (Some v)
    then obtain a b c d r where "t = backslash # CHR ''u'' # a # b # c # d # r"
      "is_hex a" "is_hex b" "is_hex c" "is_hex d" "v = hex4 a b c d"
      by (auto simp: getu4_Some_iff)
    then show ?thesis
      using p Some by (auto simp: scan_u_def Let_def is_high_def is_low_def parse_hex4_def)
  next
    case None
    have "parse_hex4 (take 4 (drop 2 t)) = None"
      if len: "6 \<le> length t" and front: "t ! 0 = backslash" "t ! 1 = CHR ''u''"
    proof -
      obtain x y a b c d r where "t = x # y # a # b # c # d # r"
        using len by (auto simp: numeral_eq_Suc Suc_le_length_iff)
      then show ?thesis using front None by (auto simp: getu4_def parse_hex4_def)
    qed
    then show ?thesis
      using p None by (auto simp: scan_u_def Let_def is_high_def is_low_def not_less)
  qed
qed

lemma surrogates_ok_Nil [simp]: "surrogates_ok []"
  by (simp add: surrogates_ok.simps)

lemma surrogates_ok_None:
  "b \<noteq> [] \<Longrightarrow> getu4 b = None \<Longrightarrow>
     surrogates_ok b = surrogates_ok (drop (if hd b = backslash then 2 else 1) b)"
  by (subst surrogates_ok.simps) (auto split: list.splits)

lemma surrogates_ok_Some:
  "getu4 b = Some u \<Longrightarrow>
     surrogates_ok b =
       (if is_high u then
          (case getu4 (drop 6 b) of None \<Rightarrow> False | Some v \<Rightarrow> is_low v \<and> surrogates_ok (drop 12 b))
        else \<not> is_low u \<and> surrogates_ok (drop 6 b))"
  by (cases b) (simp add: getu4_def, subst surrogates_ok.simps, simp)

lemma unit_without_u:
  assumes n: "unit_len (c # t) = Some n" and u: "getu4 (c # t) = None"
  shows "c \<noteq> backslash \<and> n = 1 \<or>
    c = backslash \<and> n = 2 \<and> (\<exists>e t'. t = e # t' \<and> e \<noteq> CHR ''u'')"
proof (cases "c = backslash")
  case True
  then obtain e t' where t: "t = e # t'" using n by (cases t) (auto simp: unit_len_def)
  have "e \<noteq> CHR ''u''"
  proof
    assume "e = CHR ''u''"
    then have "4 \<le> length t'" "list_all is_hex (take 4 t')"
      using n t True by (auto simp: unit_len_def split: if_splits)
    moreover obtain h1 h2 h3 h4 r where "t' = h1 # h2 # h3 # h4 # r"
      using \<open>4 \<le> length t'\<close> by (auto simp: numeral_eq_Suc Suc_le_length_iff)
    ultimately show False using u t True \<open>e = CHR ''u''\<close> by (simp add: getu4_def)
  qed
  then show ?thesis using n t True by (auto simp: unit_len_def split: if_splits)
qed (use n in \<open>auto simp: unit_len_def split: if_splits\<close>)

lemma lex_str_u:
  assumes lex: "lex_str s = Some (b, r)" and u: "getu4 s = Some u"
  obtains b' where "drop 6 b = b'" "getu4 b = Some u" "lex_str (drop 6 s) = Some (b', r)" "6 \<le> length s"
proof -
  obtain h1 h2 h3 h4 t where s: "s = backslash # CHR ''u'' # h1 # h2 # h3 # h4 # t"
    and hex: "is_hex h1" "is_hex h2" "is_hex h3" "is_hex h4"
    using u by (auto simp: getu4_Some_iff)
  obtain n b' where n: "unit_len s = Some n" and b: "b = take n s @ b'"
    and rest: "lex_str (drop n s) = Some (b', r)"
    using lex s by (rule lex_str_unit) simp
  have "n = 6" using n s hex by (simp add: unit_len_def)
  then show ?thesis using that [of b'] b rest s getu4_lex_str [OF lex] u by simp
qed

lemma scan_from_u:
  assumes "getu4 s = Some u"
  shows "scan_from True s =
    (if is_high u then
       (case getu4 (drop 6 s) of
          None \<Rightarrow> ScanReject
        | Some v \<Rightarrow> if is_low v then scan_from True (drop 12 s) else ScanReject)
     else if is_low u then ScanReject else scan_from True (drop 6 s))"
proof -
  obtain h1 h2 h3 h4 t where s: "s = backslash # CHR ''u'' # h1 # h2 # h3 # h4 # t"
    and hex: "is_hex h1" "is_hex h2" "is_hex h3" "is_hex h4" and u: "u = hex4 h1 h2 h3 h4"
    using assms by (auto simp: getu4_Some_iff)
  show ?thesis
    unfolding s using u by (auto simp: scan_u_getu4 [OF hex] split: option.splits)
qed

lemma scan_from_plain:
  assumes "unit_len (c # t) = Some n" "getu4 (c # t) = None" "c \<noteq> dquote"
  shows "scan_from True (c # t) = scan_from True (drop n (c # t))"
  using unit_without_u [OF assms(1,2)] assms(3) by auto

lemma scan_from_lex_str:
  "lex_str s = Some (b, r) \<Longrightarrow>
     scan_from True s = (if surrogates_ok b then scan_from False r else ScanReject)"
proof (induction "length s" arbitrary: s b rule: less_induct)
  case less
  note IH = less(1) and lex = less(2)
  obtain c t where s: "s = c # t" using lex by (cases s) auto
  show ?case
  proof (cases "getu4 s")
    case (Some u)
    obtain b' where b': "drop 6 b = b'" "getu4 b = Some u" "lex_str (drop 6 s) = Some (b', r)"
      and len: "6 \<le> length s" using lex Some by (rule lex_str_u)
    have one: "scan_from True (drop 6 s) =
        (if surrogates_ok b' then scan_from False r else ScanReject)"
      using IH [OF _ b'(3)] len by simp
    show ?thesis
    proof (cases "getu4 (drop 6 s)")
      case None
      then show ?thesis
        using one b' Some getu4_lex_str [OF b'(3)] by (simp add: scan_from_u surrogates_ok_Some)
    next
      case v: (Some v)
      obtain b2 where b2: "drop 6 b' = b2" "lex_str (drop 6 (drop 6 s)) = Some (b2, r)"
        using b'(3) v by (rule lex_str_u)
      have "drop 12 b = b2" "drop 6 (drop 6 s) = drop 12 s" using b'(1) b2(1) by auto
      moreover have "scan_from True (drop 12 s) =
          (if surrogates_ok b2 then scan_from False r else ScanReject)"
        using IH [OF _ b2(2)] len by simp
      ultimately show ?thesis
        using one b' v Some getu4_lex_str [OF b'(3)] by (simp add: scan_from_u surrogates_ok_Some)
    qed
  next
    case None
    show ?thesis
    proof (cases "c = dquote")
      case False
      obtain n b' where n: "unit_len s = Some n" and b: "b = take n s @ b'"
        and rest: "lex_str (drop n s) = Some (b', r)"
        using lex s False by (rule lex_str_unit)
      have "drop (if c = backslash then 2 else 1) b = b'" "b \<noteq> []" "hd b = c"
        using unit_without_u [of c t n] None n b s by auto
      moreover have "getu4 b = None" using getu4_lex_str [OF lex] None by simp
      ultimately show ?thesis
        using IH [OF _ rest] unit_len_bounds [OF n] scan_from_plain [of c t n] None n s False
        by (simp add: surrogates_ok_None)
    qed (use s lex in auto)
  qed
qed

text \<open>From one literal to a whole text: outside literals there is no quote.\<close>

fun literal_ok :: "jtok \<Rightarrow> bool" where
  "literal_ok (TStr b) = surrogates_ok b"
| "literal_ok _ = True"

lemma scan_from_skip: "dquote \<notin> set w \<Longrightarrow> scan_from False (w @ s) = scan_from False s"
  by (induction w) auto

lemma takeWhile_no_dquote: "\<not> P dquote \<Longrightarrow> dquote \<notin> set (takeWhile P s)"
  by (induction s) auto

lemma dquote_not_digit: "\<not> is_digit dquote" and dquote_not_ws: "\<not> is_ws dquote"
  by (simp_all add: is_digit_def is_ws_def in_range_def)

lemma lex_digits_no_dquote: "lex_digits s = Some (d, r) \<Longrightarrow> dquote \<notin> set d"
  by (auto simp: lex_digits_def dquote_not_digit takeWhile_no_dquote split: if_splits)

lemma lex_parts_no_dquote:
  "lex_int s = Some (d, r) \<Longrightarrow> dquote \<notin> set d"
  "lex_frac s = Some (d, r) \<Longrightarrow> dquote \<notin> set d"
  "lex_exp s = Some (d, r) \<Longrightarrow> dquote \<notin> set d"
  by (auto simp: lex_int_def lex_frac_def lex_exp_def split: list.splits if_splits
      dest!: lex_digits_no_dquote)

lemma lex_num_no_dquote: "lex_num s = Some (d, r) \<Longrightarrow> dquote \<notin> set d"
  by (auto simp: lex_num_def lex_unsigned_def split: list.splits if_splits option.splits
      dest!: lex_parts_no_dquote)

lemma scan_from_lex_one:
  assumes "lex_one s = Some (t, r)"
  shows "scan_from False s = (if literal_ok t then scan_from False r else ScanReject)"
proof (cases "\<exists>b. t = TStr b")
  case True
  then obtain b x where "t = TStr b" "s = dquote # x" "lex_str x = Some (b, r)"
    using assms by (auto simp: lex_one_def lex_word_def split: list.splits if_splits)
  then show ?thesis using scan_from_lex_str by simp
next
  case False
  then have "dquote \<notin> set (lexeme t)" "literal_ok t"
    using assms
    by (auto simp: lex_one_def lex_word_def split: list.splits if_splits dest: lex_num_no_dquote)
  then show ?thesis using lex_one_sound [OF assms] scan_from_skip by simp
qed

lemma scan_from_lex_all:
  "lex_all s = Some (ts, tr) \<Longrightarrow>
     scan_from False s = (if \<forall>t \<in> set (map snd ts). literal_ok t then ScanOk else ScanReject)"
proof (induction "length s" arbitrary: s ts rule: less_induct)
  case less
  have ws: "scan_from False s = scan_from False (dropWhile is_ws s)"
    using scan_from_skip [of "takeWhile is_ws s" "dropWhile is_ws s"]
      takeWhile_no_dquote [of is_ws s] dquote_not_ws by simp
  from less(2) show ?case
  proof (cases rule: lex_cases)
    case (Step t r ts')
    have "length r < length (dropWhile is_ws s)"
      using lex_one_shorter [OF Step(2)] by (simp only: Step(1))
    also have "\<dots> \<le> length s" by (rule length_dropWhile_le)
    finally show ?thesis
      using less(1) [OF _ Step(3)] scan_from_lex_one [OF Step(2)] ws Step(1,4) by simp
  next
    case Done
    show ?thesis unfolding ws Done(1) by (simp add: Done(2))
  qed
qed

lemma json_valid_tokens:
  assumes "json_valid s"
  obtains ts tr v where "lex_all s = Some (ts, tr)" "json_tokens s = Some ts"
    "p_value 0 ts = Some (v, [])" "json_parse s = Some v"
  using assms by (auto simp: json_valid_def json_parse_def json_tokens_def split: option.splits list.splits)

lemma scan_from_valid:
  assumes "json_valid s"
  shows "scan_from False s = (if list_all literal_ok (token_stream s) then ScanOk else ScanReject)"
proof -
  obtain ts tr where ts: "lex_all s = Some (ts, tr)" "json_tokens s = Some ts"
    using assms by (rule json_valid_tokens)
  have "list_all literal_ok (token_stream s) = (\<forall>t \<in> set (map snd ts). literal_ok t)"
    using ts by (auto simp: token_stream_def list_all_iff)
  then show ?thesis using scan_from_lex_all [OF ts(1)] by simp
qed

lemma token_stream_not_Nil: "json_valid s \<Longrightarrow> token_stream s \<noteq> []"
proof (erule json_valid_tokens)
  fix ts tr v
  assume "json_tokens s = Some ts" "p_value 0 ts = Some (v, [])"
  then show "token_stream s \<noteq> []"
    by (cases ts; cases "snd (hd ts)") (auto simp: token_stream_def)
qed

text \<open>
  What \<^verbatim>\<open>validateJSONBBudget\<close> accepts: a valid UTF-8 JSON text within the limit, whose literals have
  paired surrogates and no NUL, whose numbers PostgreSQL can represent, and whose expanded form
  fits the limit as well.
\<close>

definition jsonb_ok :: "string \<Rightarrow> nat \<Rightarrow> bool" where
  "jsonb_ok raw limit \<longleftrightarrow>
     length raw \<le> limit \<and> utf8_valid raw \<and> json_valid raw \<and>
     list_all literal_ok (token_stream raw) \<and> list_all token_ok (token_stream raw) \<and>
     total_cost (token_stream raw) \<le> int limit"

lemma validateJSONBBudget_iff: "validateJSONBBudget raw limit = None \<longleftrightarrow> jsonb_ok raw limit"
  using scan_from_valid [of raw] token_stream_not_Nil [of raw]
  by (auto simp: validateJSONBBudget_def jsonb_ok_def budget_loop_iff not_less)

lemma validateJSONBBudget_err: "validateJSONBBudget raw limit = Some e \<Longrightarrow> e = [ErrInvalidPayload]"
  using scan_from_valid [of raw]
  by (auto simp: validateJSONBBudget_def dest: budget_loop_err split: if_splits scan.splits)

lemma jsonb_ok_mono: "jsonb_ok raw l \<Longrightarrow> l \<le> l' \<Longrightarrow> jsonb_ok raw l'"
  by (auto simp: jsonb_ok_def)

section \<open>Unambiguous objects\<close>

text \<open>
  \<^verbatim>\<open>foldJSONField\<close>: each rune becomes the smallest one of its orbit under \<^verbatim>\<open>unicode.SimpleFold\<close>.
  The folding table is Unicode data and a parameter \<open>sf\<close>; its orbits are cycles of at most four
  runes, so eight steps return to the start.
\<close>

fun fold_orbit :: "(nat \<Rightarrow> nat) \<Rightarrow> nat \<Rightarrow> nat \<Rightarrow> nat \<Rightarrow> nat \<Rightarrow> nat" where
  "fold_orbit sf 0 r next smallest = smallest"
| "fold_orbit sf (Suc n) r next smallest =
     (if next = r then smallest
      else fold_orbit sf n r (sf next) (if next < smallest then next else smallest))"

definition foldJSONField :: "(nat \<Rightarrow> nat) \<Rightarrow> string \<Rightarrow> string" where
  "foldJSONField sf name = concat (map (\<lambda>r. encode_rune (fold_orbit sf 8 r (sf r) r)) (runes name))"

text \<open>
  \<^verbatim>\<open>validateUniqueJSON\<close> walks the value with the token decoder: values nested deeper than 128 levels
  and repeated names are errors, names of the root object are folded when \<^verbatim>\<open>foldRoot\<close> is set.
\<close>

definition field_name :: "(nat \<Rightarrow> nat) \<Rightarrow> bool \<Rightarrow> nat \<Rightarrow> string \<Rightarrow> string" where
  "field_name sf foldRoot depth key = (if depth = 0 \<and> foldRoot then foldJSONField sf key else key)"

function unique_value :: "(nat \<Rightarrow> nat) \<Rightarrow> bool \<Rightarrow> nat \<Rightarrow> json \<Rightarrow> bool"
  and unique_elems :: "(nat \<Rightarrow> nat) \<Rightarrow> bool \<Rightarrow> nat \<Rightarrow> json list \<Rightarrow> bool"
  and unique_members :: "(nat \<Rightarrow> nat) \<Rightarrow> bool \<Rightarrow> nat \<Rightarrow> string list \<Rightarrow> (string \<times> string \<times> json) list \<Rightarrow> bool"
where
  "unique_value sf fr depth v =
     (if depth > 128 then False
      else case v of
             JObj ms \<Rightarrow> unique_members sf fr depth [] ms
           | JArr vs \<Rightarrow> unique_elems sf fr depth vs
           | _ \<Rightarrow> True)"
| "unique_elems sf fr depth [] = True"
| "unique_elems sf fr depth (v # vs) =
     (unique_value sf fr (Suc depth) v \<and> unique_elems sf fr depth vs)"
| "unique_members sf fr depth seen [] = True"
| "unique_members sf fr depth seen ((key, raw, v) # ms) =
     (field_name sf fr depth key \<notin> set seen \<and>
      unique_value sf fr (Suc depth) v \<and>
      unique_members sf fr depth (field_name sf fr depth key # seen) ms)"
  by pat_completeness auto
termination
  by (relation "measure (case_sum (\<lambda>(sf, fr, d, v). 2 * size v)
        (case_sum (\<lambda>(sf, fr, d, vs). 2 * size_list size vs + 1)
                  (\<lambda>(sf, fr, d, seen, ms). 2 * size_list (size_prod (\<lambda>_. 0) (size_prod (\<lambda>_. 0) size)) ms + 1)))")
     auto

declare unique_value.simps [simp del]

definition validateUniqueJSON :: "(nat \<Rightarrow> nat) \<Rightarrow> string \<Rightarrow> bool \<Rightarrow> gerror option" where
  "validateUniqueJSON sf raw foldRoot =
     (case json_parse raw of
        None \<Rightarrow> Some [ErrOpaque ''invalid JSON'']
      | Some v \<Rightarrow> if unique_value sf foldRoot 0 v then None else Some [ErrOpaque ''ambiguous JSON''])"

definition ValidateUniqueJSON :: "string \<Rightarrow> gerror option" where
  "ValidateUniqueJSON raw = validateUniqueJSON id raw False"

definition DecodeRequestJSON :: "(nat \<Rightarrow> nat) \<Rightarrow> (json \<Rightarrow> 'a result) \<Rightarrow> string result \<Rightarrow> 'a result" where
  "DecodeRequestJSON sf decode body =
     bind_res (map_sum id (take (MaxJSONBBytes + 1)) body) (\<lambda>raw.
       if length raw > MaxJSONBBytes then Inl [ErrOpaque ''too large'']
       else if \<not> utf8_valid raw then Inl [ErrOpaque ''invalid UTF-8'']
       else guard_err (validateUniqueJSON sf raw True)
         (if TrimSpace raw = [] \<or> hd (TrimSpace raw) \<noteq> CHR ''{'' then Inl [ErrOpaque ''not an object'']
          else guard_err (ValidateJSONB raw)
            (case json_parse raw of None \<Rightarrow> Inl [ErrOpaque ''invalid JSON''] | Some v \<Rightarrow> decode v)))"

text \<open>The specification: a bound on the nesting and, in every object, pairwise distinct names.\<close>

fun json_depth :: "json \<Rightarrow> nat" where
  "json_depth (JArr vs) = (if vs = [] then 0 else Suc (Max (set (map json_depth vs))))"
| "json_depth (JObj ms) = (if ms = [] then 0 else Suc (Max (set (map (\<lambda>(k, r, v). json_depth v) ms))))"
| "json_depth _ = 0"

fun subvalues :: "json \<Rightarrow> json list" where
  "subvalues (JArr vs) = JArr vs # concat (map subvalues vs)"
| "subvalues (JObj ms) = JObj ms # concat (map (\<lambda>(k, r, v). subvalues v) ms)"
| "subvalues v = [v]"

fun keys_distinct :: "json \<Rightarrow> bool" where
  "keys_distinct (JObj ms) = distinct (map fst ms)"
| "keys_distinct _ = True"

lemma unique_elems_iff:
  "unique_elems sf fr d vs \<longleftrightarrow> (\<forall>v \<in> set vs. unique_value sf fr (Suc d) v)"
  by (induction vs) auto

lemma seen_step:
  "(A \<and> U \<and> D \<and> (\<forall>m \<in> S. \<not> (f m = a \<or> f m \<in> X)) \<and> V) =
   ((\<not> (\<exists>x \<in> S. a = f x) \<and> D) \<and> (A \<and> (\<forall>m \<in> S. f m \<notin> X)) \<and> U \<and> V)"
  by auto

lemma unique_members_iff:
  "unique_members sf fr d seen ms \<longleftrightarrow>
     distinct (map (field_name sf fr d \<circ> fst) ms) \<and>
     (\<forall>m \<in> set ms. field_name sf fr d (fst m) \<notin> set seen) \<and>
     (\<forall>m \<in> set ms. unique_value sf fr (Suc d) (snd (snd m)))"
proof (induction ms arbitrary: seen)
  case (Cons m ms)
  obtain k r v where m: "m = (k, r, v)" by (cases m)
  show ?case
    unfolding m unique_members.simps Cons.IH list.map distinct.simps comp_apply fst_conv snd_conv
      list.set set_map image_iff ball_simps insert_iff comp_def by (rule seen_step)
qed simp

lemma Suc_Max_le_iff:
  assumes "finite S" "S \<noteq> {}"
  shows "d + Suc (Max S) \<le> n \<longleftrightarrow> (\<forall>x \<in> S. Suc d + x \<le> n)"
proof -
  have "d + Suc (Max S) \<le> n \<longleftrightarrow> Suc d \<le> n \<and> Max S \<le> n - Suc d" by auto
  also have "\<dots> \<longleftrightarrow> Suc d \<le> n \<and> (\<forall>x \<in> S. x \<le> n - Suc d)" using assms by simp
  also have "\<dots> \<longleftrightarrow> (\<forall>x \<in> S. Suc d + x \<le> n)" using assms(2) by auto
  finally show ?thesis .
qed

lemma Suc_Max_map_le_iff:
  "d + (if xs = [] then 0 else Suc (Max (set (map f xs)))) \<le> n \<longleftrightarrow>
     d \<le> n \<and> (\<forall>x \<in> set xs. Suc d + f x \<le> n)"
proof (cases "xs = []")
  case False
  then have "(if xs = [] then 0 else Suc (Max (set (map f xs)))) = Suc (Max (f ` set xs))" by simp
  moreover have "d + Suc (Max (f ` set xs)) \<le> n \<longleftrightarrow> (\<forall>y \<in> f ` set xs. Suc d + y \<le> n)"
    using False by (intro Suc_Max_le_iff) auto
  moreover obtain x where "x \<in> set xs" using False by (cases xs) auto
  ultimately show ?thesis by fastforce
qed simp

lemma unique_value_iff:
  "\<not> fr \<or> 0 < d \<Longrightarrow>
     unique_value sf fr d v \<longleftrightarrow> d + json_depth v \<le> 128 \<and> list_all keys_distinct (subvalues v)"
proof (induction v arbitrary: d)
  case (JArr vs)
  have "unique_value sf fr d (JArr vs) \<longleftrightarrow>
      d \<le> 128 \<and> (\<forall>v \<in> set vs. Suc d + json_depth v \<le> 128 \<and> list_all keys_distinct (subvalues v))"
    using JArr.IH by (auto simp: unique_value.simps [of sf fr d "JArr vs"] unique_elems_iff)
  then show ?case
    unfolding json_depth.simps Suc_Max_map_le_iff by (auto simp: list_all_iff)
next
  case (JObj ms)
  have names: "map (field_name sf fr d \<circ> fst) ms = map fst ms"
    using JObj.prems by (auto simp: field_name_def)
  have members: "unique_value sf fr (Suc d) (snd (snd m)) \<longleftrightarrow>
      Suc d + json_depth (snd (snd m)) \<le> 128 \<and> list_all keys_distinct (subvalues (snd (snd m)))"
    if "m \<in> set ms" for m
    using JObj.IH [OF that, of "snd m" "snd (snd m)" "Suc d"] by (cases m) (auto simp: prod_set_simps)
  have "unique_value sf fr d (JObj ms) \<longleftrightarrow>
      d \<le> 128 \<and> distinct (map fst ms) \<and>
      (\<forall>m \<in> set ms. Suc d + json_depth (snd (snd m)) \<le> 128 \<and>
        list_all keys_distinct (subvalues (snd (snd m))))"
    by (auto simp: unique_value.simps [of sf fr d "JObj ms"] unique_members_iff names members)
  then show ?case
    unfolding json_depth.simps Suc_Max_map_le_iff by (fastforce simp: list_all_iff)
qed (auto simp: unique_value.simps)

section \<open>Envelopes\<close>

definition minEnvelopeTsMillis :: int where
  "minEnvelopeTsMillis = 946684800000"

definition maxEnvelopeClockSkew :: duration where
  "maxEnvelopeClockSkew = 5 * minute"

definition ValidateTelemetryPayload :: "string \<Rightarrow> gerror option" where
  "ValidateTelemetryPayload raw =
     (let value = TrimSpace raw in
      if value = [] \<or> hd value \<noteq> CHR ''{'' \<or> \<not> utf8_valid raw \<or> \<not> json_valid raw
      then Some [ErrInvalidEnvelope]
      else map_option (\<lambda>err. ErrInvalidEnvelope # err) (validateJSONBBudget raw MaxTelemetryPayloadBytes))"

definition validateEnvelopeAt :: "Envelope \<Rightarrow> gtime \<Rightarrow> gerror option" where
  "validateEnvelopeAt env now =
     (case ValidateTelemetryPayload (env_Payload env) of
        Some err \<Rightarrow> Some err
      | None \<Rightarrow>
          if env_Ts env \<le> 0 then Some [ErrInvalidEnvelope]
          else case ValidateTelemetryFields env of
                 Some err \<Rightarrow> Some err
               | None \<Rightarrow>
                   if env_Ts env < minEnvelopeTsMillis \<or>
                      env_Ts env > UnixMilli (now + maxEnvelopeClockSkew)
                   then Some [ErrEnvelopeTimestampOutOfRange, ErrInvalidEnvelope]
                   else None)"

definition ValidateEnvelope :: "gtime \<Rightarrow> Envelope \<Rightarrow> gerror option" where
  "ValidateEnvelope now env = validateEnvelopeAt env now"

text \<open>
  \<^verbatim>\<open>json.Unmarshal\<close> into a struct: a member belongs to the field with exactly its name, else to the
  first field whose folded name agrees, else it is skipped; \<^verbatim>\<open>null\<close> leaves a field alone; a value of
  another type is an error.
\<close>

definition lookup_field :: "(nat \<Rightarrow> nat) \<Rightarrow> string list \<Rightarrow> string \<Rightarrow> string option" where
  "lookup_field sf names key =
     (if key \<in> set names then Some key
      else find (\<lambda>n. foldJSONField sf n = foldJSONField sf key) names)"

definition set_string :: "(string \<Rightarrow> 'a \<Rightarrow> 'a) \<Rightarrow> json \<Rightarrow> 'a \<Rightarrow> 'a option" where
  "set_string upd v x = (case v of JStr s \<Rightarrow> Some (upd s x) | JNull \<Rightarrow> Some x | _ \<Rightarrow> None)"

definition set_int64 :: "(int \<Rightarrow> 'a \<Rightarrow> 'a) \<Rightarrow> json \<Rightarrow> 'a \<Rightarrow> 'a option" where
  "set_int64 upd v x =
     (case v of
        JNum n \<Rightarrow> map_option (\<lambda>i. upd i x) (ParseInt 64 n)
      | JNull \<Rightarrow> Some x
      | _ \<Rightarrow> None)"

definition envelope_fields :: "string list" where
  "envelope_fields = [''msgId'', ''tenantId'', ''deviceId'', ''ts'', ''type'', ''version'', ''traceId'',
     ''productId'', ''region'', ''seq'', ''payload'']"

definition envelope_set :: "string \<Rightarrow> string \<Rightarrow> json \<Rightarrow> Envelope \<Rightarrow> Envelope option" where
  "envelope_set field raw v =
     (if field = ''msgId'' then set_string (\<lambda>s. env_MsgID_update (\<lambda>_. s)) v
      else if field = ''tenantId'' then set_string (\<lambda>s. env_TenantID_update (\<lambda>_. s)) v
      else if field = ''deviceId'' then set_string (\<lambda>s. env_DeviceID_update (\<lambda>_. s)) v
      else if field = ''ts'' then set_int64 (\<lambda>i. env_Ts_update (\<lambda>_. i)) v
      else if field = ''type'' then set_string (\<lambda>s. env_Type_update (\<lambda>_. s)) v
      else if field = ''version'' then set_string (\<lambda>s. env_Version_update (\<lambda>_. s)) v
      else if field = ''traceId'' then set_string (\<lambda>s. env_TraceID_update (\<lambda>_. s)) v
      else if field = ''productId'' then set_string (\<lambda>s. env_ProductID_update (\<lambda>_. s)) v
      else if field = ''region'' then set_string (\<lambda>s. env_Region_update (\<lambda>_. s)) v
      else if field = ''seq'' then set_int64 (\<lambda>i. env_Seq_update (\<lambda>_. i)) v
      else (\<lambda>env. Some (env_Payload_update (\<lambda>_. raw) env)))"

definition zero_envelope :: Envelope where
  "zero_envelope = \<lparr>env_MsgID = [], env_TenantID = [], env_DeviceID = [], env_Ts = 0, env_Type = [],
     env_Version = [], env_TraceID = [], env_ProductID = [], env_Region = [], env_Seq = 0,
     env_Payload = []\<rparr>"

fun decode_members :: "(nat \<Rightarrow> nat) \<Rightarrow> string list \<Rightarrow> (string \<Rightarrow> string \<Rightarrow> json \<Rightarrow> 'a \<Rightarrow> 'a option) \<Rightarrow>
    (string \<times> string \<times> json) list \<Rightarrow> 'a \<Rightarrow> 'a option" where
  "decode_members sf names setf [] x = Some x"
| "decode_members sf names setf ((k, raw, v) # ms) x =
     (case lookup_field sf names k of
        None \<Rightarrow> decode_members sf names setf ms x
      | Some f \<Rightarrow>
          (case setf f raw v x of
             None \<Rightarrow> None
           | Some x' \<Rightarrow> decode_members sf names setf ms x'))"

definition decode_envelope :: "(nat \<Rightarrow> nat) \<Rightarrow> json \<Rightarrow> Envelope option" where
  "decode_envelope sf v =
     (case v of
        JObj ms \<Rightarrow> decode_members sf envelope_fields envelope_set ms zero_envelope
      | JNull \<Rightarrow> Some zero_envelope
      | _ \<Rightarrow> None)"

definition ParseEnvelope :: "(nat \<Rightarrow> nat) \<Rightarrow> gtime \<Rightarrow> string \<Rightarrow> Envelope result" where
  "ParseEnvelope sf now raw =
     (case json_parse raw of
        None \<Rightarrow> Inl [ErrInvalidEnvelope]
      | Some v \<Rightarrow>
          (case decode_envelope sf v of
             None \<Rightarrow> Inl [ErrInvalidEnvelope]
           | Some env \<Rightarrow> guard_err (ValidateEnvelope now env) (Inr env)))"

section \<open>Command payloads and results\<close>

definition ValidateCommandPayload :: "string \<Rightarrow> gerror option" where
  "ValidateCommandPayload payload =
     (if payload = [] then None
      else case ValidateJSONB payload of
             Some err \<Rightarrow> Some err
           | None \<Rightarrow>
               (case ValidateUniqueJSON payload of
                  Some _ \<Rightarrow> Some [ErrInvalidPayload]
                | None \<Rightarrow>
                    let trimmed = TrimSpace payload in
                    if trimmed = [] \<or> hd trimmed \<noteq> CHR ''{'' then Some [ErrInvalidPayload] else None))"

record CommandResult =
  res_Status :: CommandStatus
  res_ErrorCode :: string
  res_Payload :: string

definition NormalizeCommandResult :: "CommandResult \<Rightarrow> CommandResult result" where
  "NormalizeCommandResult res =
     (if res_Status res \<noteq> CommandStatusAcked \<and> res_Status res \<noteq> CommandStatusFailed
      then Inl [ErrInvalidPayload]
      else if length (res_ErrorCode res) > 64 \<or> TrimSpace (res_ErrorCode res) \<noteq> res_ErrorCode res
      then Inl [ErrInvalidPayload]
      else if res_ErrorCode res \<noteq> [] \<and> ValidateStorageField ''errorCode'' (res_ErrorCode res) 64 \<noteq> None
      then Inl [ErrInvalidPayload]
      else if res_Status res = CommandStatusAcked \<and> res_ErrorCode res \<noteq> []
      then Inl [ErrInvalidPayload]
      else
        let res = (if res_Payload res = [] then res\<lparr>res_Payload := ''{}''\<rparr> else res) in
        if length (res_Payload res) > 65536 then Inl [ErrInvalidPayload]
        else guard_err (validateJSONBBudget (res_Payload res) 65536)
          (guard_err (ValidateCommandPayload (res_Payload res)) (Inr res)))"

end
