(* ===== verification/Contracts_Validation.thy ===== *)
theory Contracts_Validation
  imports Contracts_Json
begin

text \<open>
  What the validators of \<^verbatim>\<open>internal/contracts\<close> accept, in terms of parsed values: the test
  \<^verbatim>\<open>TrimSpace(raw)[0] == '{'\<close> recognises exactly the object texts, command payloads are objects with
  unambiguous keys, normalised results are fixed points of the normalisation, and an accepted
  envelope satisfies every field contract the stores and the MQTT topics rely on.
\<close>

section \<open>Object texts\<close>

lemma space_encs_first: "list_all (\<lambda>e. bv (hd e) < 33 \<or> 126 < bv (hd e)) space_encs"
  by code_simp

lemma leading_space_plain:
  assumes "33 \<le> bv c" "bv c \<le> 126"
  shows "leading_space (c # s) = None"
proof -
  have "\<not> prefix e (c # s)" if "e \<in> set space_encs" for e
  proof
    assume "prefix e (c # s)"
    then have "hd e = c" using space_encs_nonempty [OF that] by (cases e) auto
    then show False using space_encs_first that assms by (auto simp: list_all_iff)
  qed
  then show ?thesis unfolding leading_space_def find_None_iff by blast
qed

lemma leading_space_ws: "is_ws c \<Longrightarrow> leading_space (c # s) = Some [c]"
  unfolding is_ws_def by (elim disjE) (simp_all add: leading_space_def space_encs_def)

lemma leading_space_Nil [simp]: "leading_space [] = None"
  by (simp add: leading_space_def space_encs_def)

lemma TrimLeftSpace_ws: "list_all is_ws w \<Longrightarrow> TrimLeftSpace (w @ s) = TrimLeftSpace s"
proof (induction w)
  case (Cons c w)
  then show ?case by (subst TrimLeftSpace.simps) (simp add: leading_space_ws)
qed simp

lemma TrimLeftSpace_plain: "leading_space s = None \<Longrightarrow> TrimLeftSpace s = s"
  by (simp add: TrimLeftSpace.simps [of s])

lemma TrimRightSpace_nonempty:
  "leading_space s = None \<Longrightarrow> s \<noteq> [] \<Longrightarrow> TrimRightSpace s \<noteq> []"
proof (induction s rule: TrimRightSpace.induct)
  case (1 s)
  show ?case
  proof (cases "trailing_space s")
    case (Some e)
    then have e: "e \<in> set space_encs" "suffix e s"
      unfolding trailing_space_def by (auto dest: find_SomeD)
    let ?p = "take (length s - length e) s"
    have "e \<noteq> s" using e(1) 1(2) unfolding leading_space_def find_None_iff by auto
    then have "length e < length s"
      using e(2) by (metis le_neq_implies_less suffix_length_le suffix_def append_self_conv2
          append_eq_append_conv)
    then have "?p \<noteq> []" using 1(3) by auto
    moreover have "leading_space ?p = None"
      using 1(2) take_is_prefix by (rule leading_space_prefix)
    ultimately show ?thesis using 1(1) [OF Some] Some by (simp add: TrimRightSpace.simps [of s])
  qed (use 1 in \<open>simp add: TrimRightSpace.simps [of s]\<close>)
qed

lemma lex_num_first: "lex_num (c # x) = Some (n, r) \<Longrightarrow> c = CHR ''-'' \<or> 48 \<le> bv c \<and> bv c \<le> 57"
  by (auto simp: lex_num_def lex_unsigned_def lex_int_def lex_digits_def is_digit_def in_range_def
      split: if_splits option.splits)

lemma lex_one_first:
  assumes "lex_one s = Some (t, r)"
  obtains c x where "s = c # x" "33 \<le> bv c" "bv c \<le> 126" "c = CHR ''{'' \<longleftrightarrow> t = TDelim CHR ''{''"
proof -
  obtain c x where s: "s = c # x" using assms by (cases s) (auto simp: lex_one_def)
  let ?first = "dquote # ''{}[],:tfn''"
  have "c \<in> set ?first \<or> c = CHR ''-'' \<or> 48 \<le> bv c \<and> bv c \<le> 57"
  proof (cases "c \<in> set ?first")
    case False
    then have "lex_one s = map_option (\<lambda>(n, r'). (TNum n, r')) (lex_num s)"
      by (simp add: s lex_one_def)
    then obtain n where "lex_num (c # x) = Some (n, r)" using assms s by (cases "lex_num s") auto
    then show ?thesis using lex_num_first by blast
  qed blast
  moreover have "list_all (\<lambda>c. 33 \<le> bv c \<and> bv c \<le> 126) ?first" by code_simp
  moreover have "33 \<le> bv CHR ''-'' \<and> bv CHR ''-'' \<le> (126::nat)" by code_simp
  ultimately have "33 \<le> bv c \<and> bv c \<le> 126"
    unfolding list_all_iff by (elim disjE conjE) (blast, blast, linarith)
  moreover have "c = CHR ''{'' \<Longrightarrow> t = TDelim CHR ''{''" using assms by (simp add: s lex_one_def)
  moreover have "t = TDelim CHR ''{'' \<Longrightarrow> c = CHR ''{''" using lex_one_sound [OF assms] s by simp
  ultimately show ?thesis using that s by blast
qed

lemma p_value_obj_iff:
  assumes "p_value d ((w, t) # ts) = Some (v, r)"
  shows "(\<exists>ms. v = JObj ms) \<longleftrightarrow> t = TDelim CHR ''{''"
  using assms by (cases t) (auto split: if_splits)

lemma object_text:
  assumes "json_parse raw = Some v"
  shows "(TrimSpace raw \<noteq> [] \<and> hd (TrimSpace raw) = CHR ''{'') \<longleftrightarrow> (\<exists>ms. v = JObj ms)"
proof -
  obtain ts tr where lex: "lex_all raw = Some (ts, tr)" and p: "p_value 0 ts = Some (v, [])"
    using assms by (auto simp: json_parse_def json_tokens_def split: option.splits list.splits)
  from lex show ?thesis
  proof (cases rule: lex_cases)
    case Done
    then show ?thesis using p by simp
  next
    case (Step t r ts')
    obtain c x where c: "lexeme t @ r = c # x" "33 \<le> bv c" "bv c \<le> 126"
        "c = CHR ''{'' \<longleftrightarrow> t = TDelim CHR ''{''"
      using Step(2) by (rule lex_one_first)
    have ls: "leading_space (c # x) = None" using c(2,3) by (rule leading_space_plain)
    have "list_all is_ws (takeWhile is_ws raw)" by (auto simp: list_all_iff dest: set_takeWhileD)
    then have "TrimLeftSpace raw = TrimLeftSpace (dropWhile is_ws raw)"
      using TrimLeftSpace_ws [of "takeWhile is_ws raw" "dropWhile is_ws raw"] by simp
    then have "TrimLeftSpace raw = c # x"
      by (simp only: Step(1) c(1) TrimLeftSpace_plain [OF ls])
    moreover have "prefix (TrimRightSpace (c # x)) (c # x)" "TrimRightSpace (c # x) \<noteq> []"
      using TrimRightSpace_prefix TrimRightSpace_nonempty [OF ls] by auto
    ultimately have "TrimSpace raw \<noteq> []" "hd (TrimSpace raw) = c"
      by (auto simp: TrimSpace_def prefix_Cons)
    then show ?thesis using c(4) p_value_obj_iff p Step(4) by simp
  qed
qed

section \<open>Acceptance\<close>

lemma ValidateTelemetryPayload_iff:
  "ValidateTelemetryPayload raw = None \<longleftrightarrow>
     jsonb_ok raw MaxTelemetryPayloadBytes \<and> (\<exists>ms. json_parse raw = Some (JObj ms))"
proof (cases "json_parse raw")
  case None
  then show ?thesis by (simp add: ValidateTelemetryPayload_def json_valid_def Let_def)
next
  case (Some v)
  then show ?thesis
    using object_text [OF Some] validateJSONBBudget_iff [of raw MaxTelemetryPayloadBytes]
    by (auto simp: ValidateTelemetryPayload_def json_valid_def jsonb_ok_def Let_def)
qed

lemma ValidateTelemetryPayload_err:
  "ValidateTelemetryPayload raw = Some e \<Longrightarrow> errors_is e ErrInvalidEnvelope \<and> \<not> errors_is e ErrPanic"
  by (auto simp: ValidateTelemetryPayload_def Let_def dest: validateJSONBBudget_err split: if_splits)

definition unambiguous :: "json \<Rightarrow> bool" where
  "unambiguous v \<longleftrightarrow> json_depth v \<le> 128 \<and> list_all keys_distinct (subvalues v)"

lemma ValidateUniqueJSON_iff:
  "ValidateUniqueJSON raw = None \<longleftrightarrow> (\<exists>v. json_parse raw = Some v \<and> unambiguous v)"
  by (auto simp: ValidateUniqueJSON_def validateUniqueJSON_def unambiguous_def unique_value_iff
      split: option.splits)

lemma ValidateCommandPayload_iff:
  "ValidateCommandPayload p = None \<longleftrightarrow>
     p = [] \<or> jsonb_ok p MaxJSONBBytes \<and> (\<exists>ms. json_parse p = Some (JObj ms) \<and> unambiguous (JObj ms))"
proof (cases "json_parse p")
  case None
  then show ?thesis
    by (auto simp: ValidateCommandPayload_def ValidateJSONB_def validateJSONBBudget_def json_valid_def)
next
  case (Some v)
  then show ?thesis
    using object_text [OF Some] validateJSONBBudget_iff [of p MaxJSONBBytes] ValidateUniqueJSON_iff [of p]
    by (auto simp: ValidateCommandPayload_def ValidateJSONB_def Let_def split: option.splits)
qed

lemma ValidateCommandPayload_err: "ValidateCommandPayload p = Some e \<Longrightarrow> e = [ErrInvalidPayload]"
  by (auto simp: ValidateCommandPayload_def ValidateJSONB_def Let_def
      dest: validateJSONBBudget_err split: if_splits option.splits)

lemma NormalizeCommandResult_err: "NormalizeCommandResult r = Inl e \<Longrightarrow> e = [ErrInvalidPayload]"
  by (auto simp: NormalizeCommandResult_def Let_def guard_err_eq_Inl
      dest: validateJSONBBudget_err ValidateCommandPayload_err split: if_splits)

lemma NormalizeCommandResult_ok:
  assumes "NormalizeCommandResult r = Inr r'"
  shows "res_Status r' = res_Status r" "res_ErrorCode r' = res_ErrorCode r"
    "res_Status r' \<in> {CommandStatusAcked, CommandStatusFailed}"
    "res_Payload r' = (if res_Payload r = [] then ''{}'' else res_Payload r)"
    "jsonb_ok (res_Payload r') 65536" "ValidateCommandPayload (res_Payload r') = None"
  using assms
  by (auto simp: NormalizeCommandResult_def Let_def validateJSONBBudget_iff [symmetric]
      split: if_splits)

lemma NormalizeCommandResult_default:
  assumes "res_Payload r = []"
  shows "NormalizeCommandResult r = NormalizeCommandResult (r\<lparr>res_Payload := ''{}''\<rparr>)"
  using assms unfolding NormalizeCommandResult_def Let_def by simp

lemma NormalizeCommandResult_idem:
  assumes "NormalizeCommandResult r = Inr r'"
  shows "NormalizeCommandResult r' = Inr r'"
proof (cases "res_Payload r = []")
  case True
  then have "r' = r\<lparr>res_Payload := ''{}''\<rparr>"
    using NormalizeCommandResult_ok(1,2,4) [OF assms] by (cases r; cases r') simp
  then show ?thesis using assms NormalizeCommandResult_default [OF True] by simp
next
  case False
  then have "r' = r" using NormalizeCommandResult_ok(1,2,4) [OF assms] by (cases r; cases r') simp
  then show ?thesis using assms by simp
qed

lemma validateEnvelopeAt_iff:
  "validateEnvelopeAt env now = None \<longleftrightarrow>
     ValidateTelemetryPayload (env_Payload env) = None \<and> ValidateTelemetryFields env = None \<and>
     minEnvelopeTsMillis \<le> env_Ts env \<and> env_Ts env \<le> UnixMilli (now + maxEnvelopeClockSkew)"
  by (auto simp: validateEnvelopeAt_def minEnvelopeTsMillis_def split: option.splits if_splits)

lemma validateEnvelopeAt_err:
  "validateEnvelopeAt env now = Some e \<Longrightarrow> errors_is e ErrInvalidEnvelope \<and> \<not> errors_is e ErrPanic"
  by (auto simp: validateEnvelopeAt_def dest: ValidateTelemetryPayload_err ValidateTelemetryFields_err
      split: option.splits if_splits)

lemma ParseEnvelope_ok:
  "ParseEnvelope sf now raw = Inr env \<Longrightarrow> validateEnvelopeAt env now = None"
  by (auto simp: ParseEnvelope_def ValidateEnvelope_def split: option.splits)

lemma ParseEnvelope_err:
  "ParseEnvelope sf now raw = Inl e \<Longrightarrow> errors_is e ErrInvalidEnvelope \<and> \<not> errors_is e ErrPanic"
  by (auto simp: ParseEnvelope_def ValidateEnvelope_def guard_err_eq_Inl split: option.splits
      dest: validateEnvelopeAt_err)

section \<open>Properties\<close>


text \<open>
  C28: a command payload is accepted exactly when it is absent or a JSONB-compatible object in which
  no object at any level repeats a key and which nests at most 128 levels.
\<close>

theorem command_payload_exact:
  "ValidateCommandPayload p = None \<longleftrightarrow>
     p = [] \<or> jsonb_ok p MaxJSONBBytes \<and> (\<exists>ms. json_parse p = Some (JObj ms) \<and> unambiguous (JObj ms))"
  by (rule ValidateCommandPayload_iff)

text \<open>
  C29: a normalised command result is \<^verbatim>\<open>acked\<close> or \<^verbatim>\<open>failed\<close>, carries an object payload of at most 64 KiB,
  has no error code when it is \<^verbatim>\<open>acked\<close>, and normalising it again changes nothing.
\<close>

theorem normalized_result_stable:
  assumes "NormalizeCommandResult r = Inr r'"
  shows "NormalizeCommandResult r' = Inr r' \<and> jsonb_ok (res_Payload r') 65536 \<and>
    (\<exists>ms. json_parse (res_Payload r') = Some (JObj ms) \<and> unambiguous (JObj ms)) \<and>
    (res_Status r' = CommandStatusAcked \<and> res_ErrorCode r' = [] \<or> res_Status r' = CommandStatusFailed)"
proof -
  have "res_Payload r' \<noteq> []" using NormalizeCommandResult_ok(4) [OF assms] by simp
  moreover have "res_Status r' = CommandStatusAcked \<Longrightarrow> res_ErrorCode r' = []"
    using NormalizeCommandResult_idem [OF assms]
    by (auto simp: NormalizeCommandResult_def split: if_splits)
  ultimately show ?thesis
    using NormalizeCommandResult_idem [OF assms] NormalizeCommandResult_ok(3,5,6) [OF assms]
    by (auto simp: ValidateCommandPayload_iff)
qed

theorem normalized_result_stable_witness:
  "NormalizeCommandResult \<lparr>res_Status = CommandStatusFailed, res_ErrorCode = ''E42'', res_Payload = []\<rparr> =
     Inr \<lparr>res_Status = CommandStatusFailed, res_ErrorCode = ''E42'', res_Payload = ''{}''\<rparr> \<and>
   jsonb_ok ''{}'' 65536"
proof -
  have "NormalizeCommandResult \<lparr>res_Status = CommandStatusFailed, res_ErrorCode = ''E42'', res_Payload = []\<rparr> =
     Inr \<lparr>res_Status = CommandStatusFailed, res_ErrorCode = ''E42'', res_Payload = ''{}''\<rparr>"
    by code_simp
  then show ?thesis using normalized_result_stable by fastforce
qed

text \<open>
  C20: every envelope that ingestion accepts has valid tenant and device parts, so that its telemetry
  and acknowledgement topics exist, an object payload within the JSONB budget, and a time stamp
  between the year 2000 and five minutes ahead of the clock; every other text is rejected with an
  error that wraps \<^verbatim>\<open>ErrInvalidEnvelope\<close>.
\<close>

theorem parse_envelope_contract:
  "case ParseEnvelope sf now raw of
     Inr env \<Rightarrow>
       is_ok (BuildTelemetryTopic (env_TenantID env) (env_DeviceID env)) \<and>
       is_ok (BuildAckTopic (env_TenantID env) (env_DeviceID env)) \<and>
       jsonb_ok (env_Payload env) MaxTelemetryPayloadBytes \<and>
       (\<exists>ms. json_parse (env_Payload env) = Some (JObj ms)) \<and>
       946684800000 \<le> env_Ts env \<and> env_Ts env \<le> UnixMilli (now + 5 * minute)
   | Inl e \<Rightarrow> errors_is e ErrInvalidEnvelope"
proof (cases "ParseEnvelope sf now raw")
  case (Inl e)
  then show ?thesis using ParseEnvelope_err by simp
next
  case (Inr env)
  then have "validateEnvelopeAt env now = None" by (rule ParseEnvelope_ok)
  then show ?thesis
    using ValidateTelemetryFields_ok [of env] Inr
    by (auto simp: validateEnvelopeAt_iff ValidateTelemetryPayload_iff minEnvelopeTsMillis_def
        maxEnvelopeClockSkew_def BuildTelemetryTopic_def BuildAckTopic_def BuildDeviceTopic_def)
qed

end
