(* ===== verification/Go_Json_Strings.thy ===== *)
theory Go_Json_Strings
  imports Go_Json
begin

text \<open>
  Round trip of JSON strings: a quoted string lexes as one literal, and decoding the literal
  gives the string back, for every string of well-formed UTF-8.
\<close>

section \<open>Encoding inverts decoding of a rune\<close>

lemma char_of_bv [simp]: "char_of (bv c) = c"
  by simp

lemma encode_decode2:
  assumes "ok2 a b"
  shows "encode_rune (decode2 a b) = [a, b]"
proof -
  define x y where "x = bv a - 192" and "y = bv b - 128"
  have xy: "bv a = 192 + x" "bv b = 128 + y" "2 \<le> x" "x < 32" "y < 64"
    using assms by (auto simp: ok2_def cont_def in_range_def x_def y_def)
  have r: "decode2 a b = x * 64 + y" by (simp add: decode2_def x_def y_def)
  have "128 \<le> x * 64 + y" "x * 64 + y < 2048" using xy by linarith+
  then show ?thesis
    unfolding r encode_rune_def using digit_join [OF xy(5), of x] char_of_bv [of a] char_of_bv [of b]
    by (simp add: xy(1,2))
qed

lemma encode_decode3:
  assumes "ok3 a b c"
  shows "encode_rune (decode3 a b c) = [a, b, c]"
proof -
  define x y z where "x = bv a - 224" and "y = bv b - 128" and "z = bv c - 128"
  have xyz: "bv a = 224 + x" "bv b = 128 + y" "bv c = 128 + z" "x < 16" "y < 64" "z < 64"
    and lo: "x = 0 \<longrightarrow> 32 \<le> y" and su: "x = 13 \<longrightarrow> y < 32"
    using assms by (auto simp: ok3_def cont_def in_range_def x_def y_def z_def split: if_splits)
  have r: "decode3 a b c = (x * 64 + y) * 64 + z" by (simp add: decode3_def x_def y_def z_def)
  have low: "2048 \<le> (x * 64 + y) * 64 + z" using lo by (cases "x = 0") auto
  have high: "(x * 64 + y) * 64 + z < 65536"
    using digit_bound [OF xyz(6) digit_bound [OF xyz(5) xyz(4)]] by simp
  consider "x < 13" | "x = 13" | "13 < x" by linarith
  then have gap: "\<not> (55296 \<le> (x * 64 + y) * 64 + z \<and> (x * 64 + y) * 64 + z \<le> 57343)"
    by cases (use xyz su in auto)
  have parts: "((x * 64 + y) * 64 + z) div 64 = x * 64 + y" "((x * 64 + y) * 64 + z) mod 64 = z"
    "(x * 64 + y) div 64 = x" "(x * 64 + y) mod 64 = y"
    using digit_join [OF xyz(6)] digit_join [OF xyz(5)] by blast+
  then have "((x * 64 + y) * 64 + z) div 4096 = x" using div_mult2_eq [of _ 64 64] by simp
  then show ?thesis
    unfolding r encode_rune_def using low high gap parts char_of_bv [of a] char_of_bv [of b] char_of_bv [of c]
    by (simp add: xyz(1-3) del: de_Morgan_conj)
qed

lemma encode_decode4:
  assumes "ok4 a b c d"
  shows "encode_rune (decode4 a b c d) = [a, b, c, d]"
proof -
  define x y z w where "x = bv a - 240" and "y = bv b - 128" and "z = bv c - 128" and "w = bv d - 128"
  have xyz: "bv a = 240 + x" "bv b = 128 + y" "bv c = 128 + z" "bv d = 128 + w" "x < 5" "y < 64" "z < 64" "w < 64"
    and lo: "x = 0 \<longrightarrow> 16 \<le> y" and hi: "x = 4 \<longrightarrow> y < 16"
    using assms by (auto simp: ok4_def cont_def in_range_def x_def y_def z_def w_def split: if_splits)
  define r where "r = ((x * 64 + y) * 64 + z) * 64 + w"
  have r: "decode4 a b c d = r" by (simp add: decode4_def x_def y_def z_def w_def r_def)
  have low: "65536 \<le> r" using lo unfolding r_def by (cases "x = 0") auto
  have high: "r \<le> 1114111" using xyz hi unfolding r_def by (cases "x = 4") auto
  have parts: "r div 64 = (x * 64 + y) * 64 + z" "r mod 64 = w" "((x * 64 + y) * 64 + z) div 64 = x * 64 + y"
    "((x * 64 + y) * 64 + z) mod 64 = z" "(x * 64 + y) div 64 = x" "(x * 64 + y) mod 64 = y"
    unfolding r_def using digit_join [OF xyz(8)] digit_join [OF xyz(7)] digit_join [OF xyz(6)] by blast+
  have "r div 4096 = x * 64 + y" "r div 262144 = x"
    using div_mult2_eq [of r 64 64] div_mult2_eq [of r 4096 64] parts by simp_all
  then show ?thesis
    unfolding r encode_rune_def
    using low high parts char_of_bv [of a] char_of_bv [of b] char_of_bv [of c] char_of_bv [of d]
    by (simp add: xyz(1-4))
qed

lemma encode_decode:
  assumes "decode_rune s = (r, n)" "(r, n) \<noteq> (rune_error, 1)" "s \<noteq> []"
  shows "encode_rune r = take n s"
  using assms
  by (cases s) (auto split: list.splits if_splits simp: encode_decode2 encode_decode3 encode_decode4
      encode_rune_def [of "bv _"])

section \<open>Units of a quoted string\<close>

text \<open>
  \<open>reads out u\<close>: whatever follows, the lexer takes \<open>out\<close> as part of a literal and decoding turns it
  into \<open>u\<close>.
\<close>

definition reads :: "string \<Rightarrow> string \<Rightarrow> bool" where
  "reads out u \<longleftrightarrow>
     out \<noteq> [] \<and>
     (\<forall>t. lex_str (out @ t) = map_option (\<lambda>(b, r). (out @ b, r)) (lex_str t)) \<and>
     (\<forall>t. unquote_step (out @ t) = (length out, u))"

lemma lex_str_by_unit:
  assumes "c \<noteq> dquote" "unit_len (c # s) = Some n"
  shows "lex_str (c # s) = map_option (\<lambda>(b, r). (take n (c # s) @ b, r)) (lex_str (drop n (c # s)))"
  by (subst lex_str.simps) (simp add: assms)

lemma lex_str_plain:
  assumes "c \<noteq> dquote" "c \<noteq> backslash" "32 \<le> bv c"
  shows "lex_str (c # s) = map_option (\<lambda>(b, r). (c # b, r)) (lex_str s)"
  using lex_str_by_unit [of c s 1] assms by (simp add: unit_len_def)

lemma lex_str_escape:
  assumes "simple_escape e"
  shows "lex_str (backslash # e # s) = map_option (\<lambda>(b, r). (backslash # e # b, r)) (lex_str s)"
proof -
  have "e \<noteq> CHR ''u''" using assms by (auto simp: simple_escape_def)
  then show ?thesis
    using lex_str_by_unit [of backslash "e # s" 2] assms by (simp add: unit_len_def)
qed

lemma lex_str_hex:
  assumes "is_hex a" "is_hex b" "is_hex c" "is_hex d"
  shows "lex_str (backslash # CHR ''u'' # a # b # c # d # s) =
    map_option (\<lambda>(x, r). (backslash # CHR ''u'' # a # b # c # d # x, r)) (lex_str s)"
  using lex_str_by_unit [of backslash "CHR ''u'' # a # b # c # d # s" 6] assms by (simp add: unit_len_def)

lemma lex_str_plain_list:
  assumes "\<forall>c \<in> set out. 128 \<le> bv c"
  shows "lex_str (out @ t) = map_option (\<lambda>(b, r). (out @ b, r)) (lex_str t)"
  using assms
proof (induction out)
  case Nil
  then show ?case by (cases "lex_str t") auto
next
  case (Cons c out)
  have "c \<noteq> dquote" "c \<noteq> backslash" "32 \<le> bv c" using Cons.prems by auto
  then show ?case using Cons by (cases "lex_str t") (auto simp: lex_str_plain)
qed

lemma getu4_hex:
  assumes "is_hex a" "is_hex b" "is_hex c" "is_hex d"
  shows "getu4 (backslash # CHR ''u'' # a # b # c # d # s) = Some (hex4 a b c d)"
  using assms by (simp add: getu4_def)

lemma reads_plain: "c \<noteq> dquote \<Longrightarrow> c \<noteq> backslash \<Longrightarrow> 32 \<le> bv c \<Longrightarrow> bv c < 128 \<Longrightarrow> reads [c] [c]"
  by (simp add: reads_def lex_str_plain unquote_step_def)

lemma reads_escape:
  assumes "simple_escape e"
  shows "reads [backslash, e] [unescape e]"
proof -
  have "e \<noteq> CHR ''u''" using assms by (auto simp: simple_escape_def)
  then have "getu4 (backslash # e # t) = None" for t by (simp add: getu4_def split: list.splits)
  then show ?thesis using assms by (simp add: reads_def lex_str_escape unquote_step_def)
qed

lemma reads_hex:
  assumes "is_hex a" "is_hex b" "is_hex c" "is_hex d" "\<not> is_high (hex4 a b c d)" "\<not> is_low (hex4 a b c d)"
  shows "reads [backslash, CHR ''u'', a, b, c, d] (encode_rune (hex4 a b c d))"
  using assms by (simp add: reads_def lex_str_hex getu4_hex unquote_step_def)

lemma hex_digit_ok: "n < 16 \<Longrightarrow> is_hex (hex_digit n) \<and> hex_val (hex_digit n) = n"
  by (auto simp: hex_digit_def is_hex_def hex_val_def in_range_def)

lemma zero_hex: "is_hex CHR ''0''" "hex_val CHR ''0'' = 0" "is_hex CHR ''2''" "hex_val CHR ''2'' = 2"
    "is_hex CHR ''8''" "hex_val CHR ''8'' = 8" "is_hex CHR ''9''" "hex_val CHR ''9'' = 9"
  by (simp_all add: is_hex_def hex_val_def in_range_def)

lemma reads_u00:
  assumes "bv c < 128"
  shows "reads (backslash # ''u00'' @ [hex_digit (bv c div 16), hex_digit (bv c mod 16)]) [c]"
proof -
  have "bv c div 16 < 16" "bv c mod 16 < 16" using assms by auto
  then have h: "is_hex (hex_digit (bv c div 16))" "is_hex (hex_digit (bv c mod 16))"
    and v: "hex4 CHR ''0'' CHR ''0'' (hex_digit (bv c div 16)) (hex_digit (bv c mod 16)) = bv c"
    using hex_digit_ok zero_hex by (auto simp: hex4_def)
  have "encode_rune (bv c) = [c]" using assms by (simp add: encode_rune_def)
  then show ?thesis
    using reads_hex [OF zero_hex(1) zero_hex(1) h] assms by (simp add: v is_high_def is_low_def)
qed

lemma quote_ascii_escapes:
  "reads (quote_ascii dquote) [dquote]" "reads (quote_ascii backslash) [backslash]"
  "reads (quote_ascii CHR 0x08) [CHR 0x08]" "reads (quote_ascii CHR 0x0C) [CHR 0x0C]"
  "reads (quote_ascii CHR 0x0A) [CHR 0x0A]" "reads (quote_ascii CHR 0x0D) [CHR 0x0D]"
  "reads (quote_ascii CHR 0x09) [CHR 0x09]"
  using reads_escape [of dquote] reads_escape [of backslash] reads_escape [of "CHR ''b''"]
    reads_escape [of "CHR ''f''"] reads_escape [of "CHR ''n''"] reads_escape [of "CHR ''r''"]
    reads_escape [of "CHR ''t''"]
  by (simp_all add: quote_ascii_def simple_escape_def unescape_def)

lemma reads_quote_ascii:
  assumes "bv c < 128"
  shows "reads (quote_ascii c) [c]"
proof (cases "c \<in> {dquote, backslash, CHR 0x08, CHR 0x0C, CHR 0x0A, CHR 0x0D, CHR 0x09}")
  case True
  then show ?thesis
    by (elim insertE emptyE; hypsubst) (rule quote_ascii_escapes)+
next
  case False
  then have plain: "c \<noteq> dquote" "c \<noteq> backslash"
    and q: "quote_ascii c =
      (if bv c < 32 \<or> c = CHR ''<'' \<or> c = CHR ''>'' \<or> c = CHR ''&''
       then backslash # ''u00'' @ [hex_digit (bv c div 16), hex_digit (bv c mod 16)] else [c])"
    by (simp_all add: quote_ascii_def)
  show ?thesis
  proof (cases "bv c < 32 \<or> c = CHR ''<'' \<or> c = CHR ''>'' \<or> c = CHR ''&''")
    case True
    then show ?thesis unfolding q using reads_u00 [OF assms] by (simp only: if_True)
  next
    case no: False
    then have "32 \<le> bv c" by simp
    then show ?thesis unfolding q using no reads_plain plain assms by (simp only: if_False)
  qed
qed

lemma decode_rune_take:
  assumes "decode_rune s = (r, n)" "(r, n) \<noteq> (rune_error, 1)" "s \<noteq> []"
  shows "decode_rune (take n s @ t) = (r, n)"
  using assms by (cases s) (auto split: list.splits if_splits)

lemma multibyte_bytes:
  assumes "decode_rune s = (r, n)" "(r, n) \<noteq> (rune_error, 1)" "s = c # x" "128 \<le> bv c"
  shows "\<forall>b \<in> set (take n s). 128 \<le> bv b"
  using assms
  by (auto split: list.splits if_splits simp: ok2_def ok3_def ok4_def cont_def in_range_def)

lemma reads_multibyte:
  assumes "decode_rune s = (r, n)" "(r, n) \<noteq> (rune_error, 1)" "s = c # x" "128 \<le> bv c"
  shows "reads (take n s) (take n s)"
proof -
  have len: "length (take n s) = n" "take n s \<noteq> []"
    using decode_rune_width [of s] assms(1,3) by auto
  then obtain y where y: "take n s = c # y" using assms(3) by (cases n) auto
  have "unquote_step (take n s @ t) = (n, take n s)" for t
    using decode_rune_take [OF assms(1,2), of t] encode_decode [OF assms(1,2)] assms(3,4)
    unfolding y by (auto simp: unquote_step_def simp del: decode_rune.simps)
  then show ?thesis
    using len lex_str_plain_list [OF multibyte_bytes [OF assms]] by (simp add: reads_def)
qed

section \<open>Whole strings\<close>

lemma encode_line_separators:
  "encode_rune 8232 = [CHR 0xE2, CHR 0x80, CHR 0xA8]" "encode_rune 8233 = [CHR 0xE2, CHR 0x80, CHR 0xA9]"
  by code_simp+

lemma reads_line_separators:
  "reads (backslash # ''u2028'') (encode_rune 8232)" "reads (backslash # ''u2029'') (encode_rune 8233)"
  using reads_hex [OF zero_hex(3,1,3,5)] reads_hex [OF zero_hex(3,1,3,7)]
  by (simp_all add: hex4_def zero_hex is_high_def is_low_def)

lemma reads_quote_step:
  assumes dec: "decode_rune s = (r, n)" and ok: "(r, n) \<noteq> (rune_error, 1)" and s: "s = c # x"
  shows "reads (snd (quote_step s)) (take n s) \<and> fst (quote_step s) = n"
proof (cases "bv c < 128")
  case True
  then have "n = 1" using dec s by simp
  then show ?thesis using True s reads_quote_ascii by (simp add: quote_step_def)
next
  case False
  have enc: "encode_rune r = take n s" using encode_decode [OF dec ok] s by simp
  have len: "length (take n s) = n" using decode_rune_width [of s] dec s by simp
  show ?thesis
  proof (cases "r = 8232 \<or> r = 8233")
    case True
    then have "length (encode_rune r) = 3" using encode_line_separators by auto
    then have "n = 3" using enc len by simp
    then show ?thesis
      using True False dec ok s enc reads_line_separators
      by (auto simp: quote_step_def simp del: decode_rune.simps)
  next
    case no: False
    then show ?thesis
      using False dec ok s reads_multibyte [OF dec ok s]
      by (auto simp: quote_step_def simp del: decode_rune.simps)
  qed
qed

lemma unquote_reads: "reads out u \<Longrightarrow> unquote (out @ t) = u @ unquote t"
  by (subst unquote.simps) (auto simp: reads_def neq_Nil_conv)

lemma lex_str_reads: "reads out u \<Longrightarrow> lex_str t = Some (b, r) \<Longrightarrow> lex_str (out @ t) = Some (out @ b, r)"
  by (simp add: reads_def)

lemma quote_body_Nil [simp]: "quote_body [] = []"
  by (simp add: quote_body.simps)

lemma quote_round_trip:
  "utf8_valid s \<Longrightarrow> unquote (quote_body s) = s \<and> lex_str (quote_body s @ dquote # t) = Some (quote_body s, t)"
proof (induction s rule: utf8_valid.induct)
  case (1 s)
  show ?case
  proof (cases s)
    case (Cons c x)
    then have ne: "s \<noteq> []" by simp
    obtain r n where dec: "decode_rune s = (r, n)" by fastforce
    have ok: "(r, n) \<noteq> (rune_error, 1)" and tl: "utf8_valid (drop n s)"
      using 1(2) dec ne unfolding utf8_valid.simps [of s] by (auto split: if_splits)
    have rd: "reads (snd (quote_step s)) (take n s)" and n: "fst (quote_step s) = n"
      using reads_quote_step [OF dec ok Cons] by auto
    have q: "quote_body s = snd (quote_step s) @ quote_body (drop n s)"
      using Cons n by (subst quote_body.simps) simp
    have IH: "unquote (quote_body (drop n s)) = drop n s"
      "lex_str (quote_body (drop n s) @ dquote # t) = Some (quote_body (drop n s), t)"
      using 1(1) [OF ne] dec ok tl by auto
    show ?thesis
      unfolding q using unquote_reads [OF rd] lex_str_reads [OF rd IH(2)] IH(1) by simp
  qed (simp add: unquote.simps)
qed

text \<open>A quoted string is one token, and parses to the string.\<close>

lemma lex_one_quote:
  assumes "utf8_valid s"
  shows "lex_one (json_quote s @ t) = Some (TStr (quote_body s), t)"
  using quote_round_trip [OF assms, of t] by (simp add: json_quote_def lex_one_def)

lemma unquote_quote: "utf8_valid s \<Longrightarrow> unquote (quote_body s) = s"
  using quote_round_trip by blast

end
