(* ===== verification/Go_Json_Writer.thy ===== *)
theory Go_Json_Writer
  imports Go_Json_Strings
begin

text \<open>
  What \<^verbatim>\<open>json.Marshal\<close> writes for a struct is read back by \<^verbatim>\<open>json.Unmarshal\<close>: \<open>writes d v j\<close> says that the
  text \<open>v\<close>, written at nesting depth \<open>d\<close>, parses to \<open>j\<close> wherever a value may stand. Strings, integers,
  constants and objects of such values write themselves.
\<close>

definition json_field :: "string \<Rightarrow> string \<Rightarrow> string" where
  "json_field name value = json_quote name @ '':'' @ value"

definition json_object :: "(string \<times> string) list \<Rightarrow> string" where
  "json_object fields = ''{'' @ join_on CHR '','' (map (\<lambda>(k, v). json_field k v) fields) @ ''}''"

text \<open>The bytes that may follow a value written without white space.\<close>

definition ends_value :: "string \<Rightarrow> bool" where
  "ends_value t \<longleftrightarrow> t = [] \<or> hd t \<in> {CHR '','', CHR ''}'', CHR '']''}"

definition prepend :: "(string \<times> jtok) list \<Rightarrow> ((string \<times> jtok) list \<times> string) option \<Rightarrow>
    ((string \<times> jtok) list \<times> string) option" where
  "prepend ts m = map_option (\<lambda>(us, tr). (ts @ us, tr)) m"

definition writes :: "nat \<Rightarrow> string \<Rightarrow> json \<Rightarrow> bool" where
  "writes d v j \<longleftrightarrow> (\<exists>ts. ts \<noteq> [] \<and> fst (hd ts) = [] \<and> unlex ts = v \<and> snd (hd ts) \<noteq> TDelim CHR ''}'' \<and>
     (\<forall>t. ends_value t \<longrightarrow> lex_all (v @ t) = prepend ts (lex_all t)) \<and>
     (\<forall>r. p_value d (ts @ r) = Some (j, r)))"

lemma prepend_prepend [simp]: "prepend ts (prepend us m) = prepend (ts @ us) m"
  by (cases m) (auto simp: prepend_def)

lemma lex_all_token:
  assumes "lex_one s = Some (t, r)" "s = c # x" "\<not> is_ws c"
  shows "lex_all s = prepend [([], t)] (lex_all r)"
  using assms by (subst lex_all.simps) (simp add: prepend_def)

lemma not_ws [simp]: "\<not> is_ws dquote" "\<not> is_ws CHR ''{''" "\<not> is_ws CHR ''}''" "\<not> is_ws CHR '',''"
  "\<not> is_ws CHR '':''"
  by (simp_all add: is_ws_def)

lemma lex_all_punct:
  "lex_all (CHR ''{'' # r) = prepend [([], TDelim CHR ''{'')] (lex_all r)"
  "lex_all (CHR ''}'' # r) = prepend [([], TDelim CHR ''}'')] (lex_all r)"
  "lex_all (CHR '','' # r) = prepend [([], TComma)] (lex_all r)"
  "lex_all (CHR '':'' # r) = prepend [([], TColon)] (lex_all r)"
  by (auto simp: lex_one_def intro!: lex_all_token)

lemma lex_all_quote: "utf8_valid s \<Longrightarrow> lex_all (json_quote s @ t) = prepend [([], TStr (quote_body s))] (lex_all t)"
  by (rule lex_all_token [OF lex_one_quote, where c = dquote]) (simp_all add: json_quote_def)

lemma writes_parse: "writes 0 v j \<Longrightarrow> json_parse v = Some j"
  by (auto simp: writes_def json_parse_def json_tokens_def ends_value_def prepend_def lex_all.simps [of "[]"]
      dest!: spec [of _ "[]"])

lemma writes_string [intro]: "utf8_valid s \<Longrightarrow> writes d (json_quote s) (JStr s)"
  unfolding writes_def
  by (rule exI [of _ "[([], TStr (quote_body s))]"])
     (simp add: lex_all_quote unquote_quote unlex_def, simp add: json_quote_def)

lemma ends_value_first:
  assumes "ends_value (c # x)"
  shows "\<not> is_digit c \<and> c \<noteq> CHR ''.'' \<and> c \<noteq> CHR ''e'' \<and> c \<noteq> CHR ''E''"
proof -
  have "c = CHR '','' \<or> c = CHR ''}'' \<or> c = CHR '']''" using assms unfolding ends_value_def by simp
  then show ?thesis by (elim disjE) (simp_all add: is_digit_def in_range_def)
qed

lemma ends_value_digits: "ends_value t \<Longrightarrow> list_all is_digit n \<Longrightarrow> takeWhile is_digit (n @ t) = n \<and> dropWhile is_digit (n @ t) = t"
proof -
  assume "ends_value t" "list_all is_digit n"
  then have "takeWhile is_digit t = []" "dropWhile is_digit t = t"
    by (cases t; simp add: ends_value_first)+
  then show ?thesis using \<open>list_all is_digit n\<close> by (simp add: list_all_iff takeWhile_append dropWhile_append)
qed

lemma punct_not_digit:
  "\<not> is_digit CHR ''{''" "\<not> is_digit CHR ''}''" "\<not> is_digit CHR ''[''" "\<not> is_digit CHR '']''"
  "\<not> is_digit CHR '',''" "\<not> is_digit CHR '':''" "\<not> is_digit dquote" "\<not> is_digit CHR ''t''"
  "\<not> is_digit CHR ''f''" "\<not> is_digit CHR ''n''" "\<not> is_digit CHR ''-''"
  by (simp_all add: is_digit_def in_range_def)

lemma digit_neqI: "\<not> is_digit x \<Longrightarrow> is_digit c \<Longrightarrow> c \<noteq> x"
  by blast

lemmas digit_neqs = punct_not_digit [THEN digit_neqI]

lemma digit_not_ws: "is_digit c \<Longrightarrow> \<not> is_ws c"
  unfolding is_ws_def by (rule notI, elim disjE) (simp_all add: is_digit_def in_range_def)

lemma lex_one_digit: "is_digit c \<Longrightarrow> lex_one (c # x) = map_option (\<lambda>(n, r). (TNum n, r)) (lex_unsigned (c # x))"
  by (simp add: lex_one_def lex_num_def digit_neqs)

lemma writes_number [intro]:
  assumes "list_all is_digit n" "n \<noteq> []" "n = ''0'' \<or> hd n \<noteq> CHR ''0''"
  shows "writes d n (JNum n)"
proof -
  obtain c x where n: "n = c # x" using assms(2) by (cases n) auto
  have c: "is_digit c" using assms(1) n by simp
  have tok: "lex_one (n @ t) = Some (TNum n, t)" if "ends_value t" for t
  proof -
    have "lex_int (n @ t) = Some (n, t)"
      using ends_value_digits [OF that assms(1)] assms(3) n by (auto simp: lex_int_def lex_digits_def)
    moreover have "lex_frac t = Some ([], t)" "lex_exp t = Some ([], t)"
      using that by (cases t; simp add: lex_frac_def lex_exp_def ends_value_first)+
    ultimately have "lex_unsigned (n @ t) = Some (n, t)" by (simp add: lex_unsigned_def)
    then show ?thesis using n c by (simp add: lex_one_digit)
  qed
  have "lex_all (n @ t) = prepend [([], TNum n)] (lex_all t)" if "ends_value t" for t
    using lex_all_token [OF tok [OF that], of c "x @ t"] n digit_not_ws [OF c] by simp
  then show ?thesis
    unfolding writes_def by (intro exI [of _ "[([], TNum n)]"]) (simp add: unlex_def)
qed

section \<open>Objects\<close>

lemma raw_of_unlex: "fst (hd ts) = [] \<Longrightarrow> raw_of ts = unlex ts"
  by (cases ts) (auto simp: raw_of_def unlex_def)

lemma p_members_step:
  assumes "p_value d (ts @ r) = Some (j, r)" "raw_of ts = v"
  shows "p_members d (([], TStr k) # ([], TColon) # ts @ r) =
    (if r = [] then None
     else if snd (hd r) = TDelim CHR ''}'' then Some ([(unquote k, v, j)], tl r)
     else if snd (hd r) = TComma then map_option (\<lambda>(ms, r'). ((unquote k, v, j) # ms, r')) (p_members d (tl r))
     else None)"
  using parse_shorter(1) [OF assms(1)] assms by (simp add: p_members.simps raw_upto_def)

definition fields_tail :: "(string \<times> string) list \<Rightarrow> string" where
  "fields_tail fields = join_on CHR '','' (map (\<lambda>(k, v). json_field k v) fields) @ ''}''"

lemma fields_tail_Cons:
  "fields_tail ((k, v) # fs) = json_field k v @ (if fs = [] then ''}'' else CHR '','' # fields_tail fs)"
  by (cases fs) (simp_all add: fields_tail_def)

lemma members_written:
  assumes "fs \<noteq> []" "\<And>k v j. (k, v, j) \<in> set fs \<Longrightarrow> utf8_valid k \<and> writes d v j"
  shows "\<exists>ts. ts \<noteq> [] \<and> snd (hd ts) \<noteq> TDelim CHR ''}'' \<and> fst (hd ts) = [] \<and>
    unlex ts = fields_tail (map (\<lambda>(k, v, j). (k, v)) fs) \<and>
    (\<forall>t. lex_all (fields_tail (map (\<lambda>(k, v, j). (k, v)) fs) @ t) = prepend ts (lex_all t)) \<and>
    (\<forall>r. p_members d (ts @ r) = Some (fs, r))"
  using assms
proof (induction fs)
  case (Cons f fs)
  obtain k v j where f: "f = (k, v, j)" by (cases f)
  have k: "utf8_valid k" and "writes d v j" using Cons.prems(2) [of k v j] f by auto
  then obtain ts where ts: "ts \<noteq> []" "unlex ts = v" "raw_of ts = v"
    and lx: "\<And>t. ends_value t \<Longrightarrow> lex_all (v @ t) = prepend ts (lex_all t)"
    and pv: "\<And>r. p_value d (ts @ r) = Some (j, r)"
    by (auto simp: writes_def raw_of_unlex)
  let ?K = "[([], TStr (quote_body k)), ([], TColon)]"
  have key: "lex_all (json_field k v @ t) = prepend (?K @ ts) (lex_all t)" if "ends_value t" for t
    using lx [OF that] k by (simp add: json_field_def lex_all_quote lex_all_punct)
  have un: "unlex (?K @ ts) = json_field k v"
    using ts by (auto simp: unlex_def json_field_def json_quote_def)
  show ?case
  proof (cases "fs = []")
    case True
    then show ?thesis
      using f key un pv p_members_step [OF pv ts(3), of "quote_body k"]
      by (intro exI [of _ "?K @ ts @ [([], TDelim CHR ''}'')]"])
         (auto simp: fields_tail_Cons lex_all_punct unlex_def ends_value_def unquote_quote [OF k])
  next
    case False
    then obtain us where us: "us \<noteq> []" "unlex us = fields_tail (map (\<lambda>(k, v, j). (k, v)) fs)"
      and lu: "\<And>t. lex_all (fields_tail (map (\<lambda>(k, v, j). (k, v)) fs) @ t) = prepend us (lex_all t)"
      and pu: "\<And>r. p_members d (us @ r) = Some (fs, r)"
      using Cons by auto
    show ?thesis
      using False f key un us lu pu p_members_step [OF pv ts(3), of "quote_body k"]
      by (intro exI [of _ "?K @ ts @ [([], TComma)] @ us"])
         (auto simp: fields_tail_Cons lex_all_punct unlex_def ends_value_def unquote_quote [OF k])
  qed
qed simp

lemma writes_object:
  assumes "fs \<noteq> []" "d < maxNestingDepth"
    and "\<And>k v j. (k, v, j) \<in> set fs \<Longrightarrow> utf8_valid k \<and> writes (Suc d) v j"
  shows "writes d (json_object (map (\<lambda>(k, v, j). (k, v)) fs)) (JObj fs)"
proof -
  let ?text = "fields_tail (map (\<lambda>(k, v, j). (k, v)) fs)"
  obtain ts where ts: "ts \<noteq> []" "snd (hd ts) \<noteq> TDelim CHR ''}''" "unlex ts = ?text"
    and lx: "\<And>t. lex_all (?text @ t) = prepend ts (lex_all t)"
    and pm: "\<And>r. p_members (Suc d) (ts @ r) = Some (fs, r)"
    using members_written [OF assms(1,3)] by metis
  have obj: "json_object (map (\<lambda>(k, v, j). (k, v)) fs) = CHR ''{'' # ?text"
    by (simp add: json_object_def fields_tail_def)
  show ?thesis
    unfolding writes_def obj
    by (rule exI [of _ "([], TDelim CHR ''{'') # ts"])
       (use ts lx pm assms(2) in \<open>auto simp: lex_all_punct unlex_def\<close>)
qed

text \<open>Quoting expands a string at most sixfold.\<close>

lemma quote_step_length:
  "s \<noteq> [] \<Longrightarrow> length (snd (quote_step s)) \<le> 6 * length (take (fst (quote_step s)) s)"
  by (cases s) (auto simp: quote_step_def quote_ascii_def simp del: decode_rune.simps)

lemma quote_body_length: "length (quote_body s) \<le> 6 * length s"
proof (induction s rule: quote_body.induct)
  case (1 s)
  show ?case
  proof (cases "s = []")
    case False
    let ?n = "fst (quote_step s)"
    have "length (quote_body s) = length (snd (quote_step s)) + length (quote_body (drop ?n s))"
      using False by (subst quote_body.simps) (simp split: list.split)
    also have "\<dots> \<le> 6 * length (take ?n s) + 6 * length (drop ?n s)"
      using 1 False quote_step_length [OF False] by (intro add_mono) (auto simp: neq_Nil_conv)
    also have "\<dots> = 6 * length (take ?n s @ drop ?n s)" by (simp only: length_append distrib_left)
    finally show ?thesis by simp
  qed simp
qed

end
