(* ===== verification/Platform_Domain.thy ===== *)
theory Platform_Domain
  imports Contracts_Validation Go_Json_Writer
begin

text \<open>
  The domain types of \<^verbatim>\<open>internal/platform/domain.go\<close> and \<^verbatim>\<open>mqtt_messages.go\<close>, the size check of
  \<^verbatim>\<open>command_capacity.go\<close> and the response budget of \<^verbatim>\<open>page_budget.go\<close>. The budget loop is proved once
  for any row type: a page is a prefix of the rows, within the count and byte limits, and as long
  as both allow.
\<close>

section \<open>Domain types\<close>

record Tenant =
  ten_ID :: string
  ten_Name :: string

record Device =
  dev_TenantID :: string
  dev_DeviceID :: string
  dev_ProductID :: string
  dev_Secret :: string
  dev_CreatedAt :: gtime

record DeviceStatus =
  ds_TenantID :: string
  ds_DeviceID :: string
  ds_Online :: bool
  ds_LastSeenAt :: gtime

record TelemetryRecord =
  rec_MsgID :: string
  rec_TenantID :: string
  rec_DeviceID :: string
  rec_Ts :: int
  rec_Type :: string
  rec_Version :: string
  rec_Payload :: string
  rec_TDengineWritten :: bool
  rec_ReceivedAt :: gtime

record Command =
  cmd_ID :: string
  cmd_TenantID :: string
  cmd_DeviceID :: string
  cmd_Status :: CommandStatus
  cmd_Payload :: string
  cmd_CreatedAt :: gtime
  cmd_UpdatedAt :: gtime
  cmd_DispatchAttempts :: int
  cmd_DeadlineAt :: gtime
  cmd_Result :: "CommandResult option"

record CommandDownlink =
  dl_ID :: string
  dl_TenantID :: string
  dl_DeviceID :: string
  dl_Status :: CommandStatus
  dl_Payload :: string
  dl_CreatedAt :: gtime
  dl_UpdatedAt :: gtime

record CommandAckMessage =
  ack_CommandID :: string
  ack_TenantID :: string
  ack_DeviceID :: string
  ack_Status :: string
  ack_ErrorCode :: string
  ack_Payload :: string

definition IsNotFound :: "gerror \<Rightarrow> bool" where
  "IsNotFound e = errors_is e ErrNotFound"

definition IsAlreadyExists :: "gerror \<Rightarrow> bool" where
  "IsAlreadyExists e = errors_is e ErrAlreadyExists"

definition IsTelemetryDuplicate :: "gerror \<Rightarrow> bool" where
  "IsTelemetryDuplicate e = errors_is e ErrDuplicateTelemetry"

section \<open>Encoded sizes\<close>

text \<open>\<^verbatim>\<open>json.Marshal\<close> of a result: \<^verbatim>\<open>errorCode\<close> is omitted when empty.\<close>

definition marshal_result :: "CommandResult \<Rightarrow> string option" where
  "marshal_result r =
     map_option (\<lambda>p.
       json_object
         ([(''status'', json_quote (status_string (res_Status r)))] @
          (if res_ErrorCode r = [] then [] else [(''errorCode'', json_quote (res_ErrorCode r))]) @
          [(''payload'', p)]))
       (marshal_raw (res_Payload r))"

definition businessBatchBytes :: nat where
  "businessBatchBytes = 1048576"

definition maxCommandValueBytes :: nat where
  "maxCommandValueBytes = businessBatchBytes - 1024"

text \<open>The probe value of \<^verbatim>\<open>ValidateCommandInput\<close>: a command with every variable field at its longest.\<close>

definition stamp_9999 :: string where
  "stamp_9999 = ''9999-12-31T23:59:59.999999999Z''"

definition probe_command :: "string \<Rightarrow> string \<Rightarrow> string \<Rightarrow> string option" where
  "probe_command tenant device payload =
     map_option (\<lambda>p.
       json_object
         [(''id'', json_quote (replicate 36 CHR ''x'')),
          (''tenantId'', json_quote tenant),
          (''deviceId'', json_quote device),
          (''status'', json_quote ''published''),
          (''payload'', p),
          (''createdAt'', json_quote stamp_9999),
          (''updatedAt'', json_quote stamp_9999),
          (''dispatchAttempts'', ''2147483647''),
          (''deadlineAt'', json_quote stamp_9999)])
       (marshal_raw payload)"

definition ValidateCommandInput :: "string \<Rightarrow> string \<Rightarrow> string \<Rightarrow> gerror option" where
  "ValidateCommandInput tenant device payload0 =
     (let payload = (if payload0 = [] then ''{}'' else payload0) in
      case ValidateCommandPayload payload of
        Some err \<Rightarrow> Some err
      | None \<Rightarrow>
          (case probe_command tenant device payload of
             None \<Rightarrow> Some [ErrOpaque ''json'']
           | Some value \<Rightarrow>
               if length value > maxCommandValueBytes then Some [ErrInvalidPayload] else None))"

lemma ValidateCommandInput_payload:
  assumes "ValidateCommandInput t d p = None"
  shows "ValidateCommandPayload (if p = [] then ''{}'' else p) = None"
  using assms by (auto simp: ValidateCommandInput_def Let_def split: option.splits)

lemma json_valid_payload:
  "ValidateCommandPayload p = None \<Longrightarrow> p \<noteq> [] \<Longrightarrow> json_valid p \<and> length p \<le> MaxJSONBBytes"
  by (auto simp: ValidateCommandPayload_iff jsonb_ok_def)

text \<open>A valid payload can always be marshalled, so the only errors are contract violations.\<close>

lemma ValidateCommandInput_err: "ValidateCommandInput t d p = Some e \<Longrightarrow> e = [ErrInvalidPayload]"
proof -
  assume err: "ValidateCommandInput t d p = Some e"
  let ?p = "if p = [] then ''{}'' else p"
  have "ValidateCommandPayload ?p = None \<Longrightarrow> probe_command t d ?p \<noteq> None"
    using json_valid_payload [of ?p] marshal_raw_valid [of ?p] by (auto simp: probe_command_def)
  then show ?thesis
    using err ValidateCommandPayload_err [of ?p e]
    by (auto simp: ValidateCommandInput_def Let_def split: option.splits if_splits)
qed

section \<open>The response budget\<close>

definition MaxListResponseBytes :: nat where
  "MaxListResponseBytes = 2097152"

definition listContentBytes :: nat where
  "listContentBytes = MaxListResponseBytes - 4096"

text \<open>\<^verbatim>\<open>responsePageBudget.accept\<close>: whether the row is accepted, and the bytes used afterwards.\<close>

definition budget_accept :: "nat \<Rightarrow> nat \<Rightarrow> nat \<Rightarrow> nat \<Rightarrow> (bool \<times> nat) result" where
  "budget_accept used bytes count limit =
     (if count \<ge> limit then Inr (False, used)
      else if bytes > listContentBytes - used then
        (if count = 0 then Inl [ErrListItemTooLarge] else Inr (False, used))
      else Inr (True, used + bytes))"

definition tenantListBytes :: "Tenant \<Rightarrow> nat" where
  "tenantListBytes t = 512 + length (ten_ID t) + length (ten_Name t)"

definition deviceListBytes :: "Device \<Rightarrow> nat" where
  "deviceListBytes d = 512 + length (dev_TenantID d) + length (dev_DeviceID d) + length (dev_ProductID d)"

definition commandListBytes :: "Command \<Rightarrow> nat" where
  "commandListBytes c =
     length (case cmd_Result c of None \<Rightarrow> ''null'' | Some r \<Rightarrow> (case marshal_result r of None \<Rightarrow> [] | Some x \<Rightarrow> x)) +
     512 + length (cmd_ID c) + length (cmd_TenantID c) + length (cmd_DeviceID c) +
     length (status_string (cmd_Status c)) + length (cmd_Payload c)"

definition telemetryListBytes :: "TelemetryRecord \<Rightarrow> nat" where
  "telemetryListBytes t = 512 + length (rec_MsgID t) + length (rec_TenantID t) + length (rec_DeviceID t) +
     length (rec_Type t) + length (rec_Version t) + length (rec_Payload t)"

text \<open>
  The loop all list operations share: rows are accepted one by one; at the first refusal the
  cursor of the last accepted row is the continuation. \<open>out\<close> is never empty there, because a
  refusal of the very first row is an error.
\<close>

fun page_loop :: "('a \<Rightarrow> nat) \<Rightarrow> nat \<Rightarrow> ('a \<Rightarrow> string) \<Rightarrow> nat \<Rightarrow> 'a list \<Rightarrow> 'a list \<Rightarrow> ('a list \<times> string) result" where
  "page_loop cost psize cursor used out [] = Inr (out, [])"
| "page_loop cost psize cursor used out (r # rows) =
     bind_res (budget_accept used (cost r) (length out) psize) (\<lambda>(ok, used').
       if \<not> ok then
         (if out = [] then Inl [ErrPanic] else Inr (out, cursor (last out)))
       else page_loop cost psize cursor used' (out @ [r]) rows)"

definition list_page :: "('a \<Rightarrow> nat) \<Rightarrow> nat \<Rightarrow> ('a \<Rightarrow> string) \<Rightarrow> 'a list \<Rightarrow> ('a list \<times> string) result" where
  "list_page cost psize cursor rows = page_loop cost psize cursor 0 [] rows"

lemma page_loop_ok:
  assumes "page_loop cost psize cursor used out rows = Inr (page, next)"
    and "used = sum_list (map cost out)" "used \<le> listContentBytes" "length out \<le> psize"
  shows "\<exists>rest. out @ rows = page @ rest \<and> prefix out page \<and> length page \<le> psize \<and>
    sum_list (map cost page) \<le> listContentBytes \<and>
    (rest = [] \<and> next = [] \<or>
     rest \<noteq> [] \<and> page \<noteq> [] \<and> next = cursor (last page) \<and>
     (length page = psize \<or> sum_list (map cost page) + cost (hd rest) > listContentBytes))"
  using assms
proof (induction rows arbitrary: used out)
  case (Cons r rows)
  show ?case
  proof (cases "length out < psize \<and> cost r \<le> listContentBytes - used")
    case True
    then have "page_loop cost psize cursor (used + cost r) (out @ [r]) rows = Inr (page, next)"
      using Cons.prems by (simp add: budget_accept_def)
    from Cons.IH [OF this] show ?thesis
      using True Cons.prems by (fastforce dest: append_prefixD)
  next
    case False
    then have "page = out" "next = cursor (last out)" "out \<noteq> []"
      using Cons.prems by (auto simp: budget_accept_def split: if_splits)
    then show ?thesis using False Cons.prems by (intro exI [of _ "r # rows"]) auto
  qed
qed auto

lemma page_loop_err:
  assumes "page_loop cost psize cursor used out rows = Inl e" "0 < psize"
  shows "e = [ErrListItemTooLarge] \<and> out = [] \<and> rows \<noteq> [] \<and> listContentBytes < used + cost (hd rows)"
  using assms
proof (induction rows arbitrary: used out)
  case (Cons r rows)
  then show ?case
    by (fastforce simp: budget_accept_def bind_res_eq_Inl split: if_splits)
qed simp

end
