(* ===== verification/Go_Base64.thy ===== *)
theory Go_Base64
  imports Go_Strings
begin

text \<open>
  \<^verbatim>\<open>base64.RawURLEncoding\<close> of Go: no padding, the URL alphabet, line breaks ignored when decoding,
  and unused trailing bits not checked. Decoding inverts encoding.
\<close>

definition b64_chr :: "nat \<Rightarrow> char" where
  "b64_chr n =
     (if n < 26 then char_of (65 + n)
      else if n < 52 then char_of (71 + n)
      else if n < 62 then char_of (n - 4)
      else if n = 62 then CHR ''-''
      else CHR ''_'')"

definition b64_val :: "char \<Rightarrow> nat option" where
  "b64_val c =
     (if in_range 65 90 c then Some (bv c - 65)
      else if in_range 97 122 c then Some (bv c - 71)
      else if in_range 48 57 c then Some (bv c + 4)
      else if c = CHR ''-'' then Some 62
      else if c = CHR ''_'' then Some 63
      else None)"

fun b64_encode :: "string \<Rightarrow> string" where
  "b64_encode [] = []"
| "b64_encode [a] = [b64_chr (bv a div 4), b64_chr (bv a mod 4 * 16)]"
| "b64_encode [a, b] =
     [b64_chr (bv a div 4), b64_chr (bv a mod 4 * 16 + bv b div 16), b64_chr (bv b mod 16 * 4)]"
| "b64_encode (a # b # c # s) =
     [b64_chr (bv a div 4), b64_chr (bv a mod 4 * 16 + bv b div 16),
      b64_chr (bv b mod 16 * 4 + bv c div 64), b64_chr (bv c mod 64)] @ b64_encode s"

definition byte :: "nat \<Rightarrow> char" where
  "byte n = char_of (n mod 256)"

fun b64_groups :: "nat list \<Rightarrow> string option" where
  "b64_groups [] = Some []"
| "b64_groups [w] = None"
| "b64_groups [w, x] = Some [byte (w * 4 + x div 16)]"
| "b64_groups [w, x, y] = Some [byte (w * 4 + x div 16), byte (x mod 16 * 16 + y div 4)]"
| "b64_groups (w # x # y # z # r) =
     map_option (\<lambda>t. [byte (w * 4 + x div 16), byte (x mod 16 * 16 + y div 4), byte (y mod 4 * 64 + z)] @ t)
       (b64_groups r)"

fun all_some :: "'a option list \<Rightarrow> 'a list option" where
  "all_some [] = Some []"
| "all_some (None # xs) = None"
| "all_some (Some x # xs) = map_option (\<lambda>ys. x # ys) (all_some xs)"

definition b64_decode :: "string \<Rightarrow> string option" where
  "b64_decode s =
     Option.bind (all_some (map b64_val (filter (\<lambda>c. c \<noteq> CHR 0x0D \<and> c \<noteq> CHR 0x0A) s))) b64_groups"

lemma char_of_neq: "n < 256 \<Longrightarrow> n \<noteq> bv c \<Longrightarrow> char_of n \<noteq> c"
  by (metis of_char_of mod_less)

lemma b64_val_chr:
  assumes "n < 64"
  shows "b64_val (b64_chr n) = Some n" "b64_chr n \<noteq> CHR 0x0D" "b64_chr n \<noteq> CHR 0x0A"
proof -
  consider "n < 26" | "26 \<le> n" "n < 52" | "52 \<le> n" "n < 62" | "n = 62" | "n = 63" using assms by linarith
  then have "b64_val (b64_chr n) = Some n \<and> b64_chr n \<noteq> CHR 0x0D \<and> b64_chr n \<noteq> CHR 0x0A"
    by cases (auto simp: b64_chr_def b64_val_def in_range_def char_of_neq)
  then show "b64_val (b64_chr n) = Some n" "b64_chr n \<noteq> CHR 0x0D" "b64_chr n \<noteq> CHR 0x0A" by auto
qed

lemma byte_bv [simp]: "byte (bv c) = c"
  by (simp add: byte_def)

fun b64_sextets :: "string \<Rightarrow> nat list" where
  "b64_sextets [] = []"
| "b64_sextets [a] = [bv a div 4, bv a mod 4 * 16]"
| "b64_sextets [a, b] = [bv a div 4, bv a mod 4 * 16 + bv b div 16, bv b mod 16 * 4]"
| "b64_sextets (a # b # c # s) =
     [bv a div 4, bv a mod 4 * 16 + bv b div 16, bv b mod 16 * 4 + bv c div 64, bv c mod 64] @ b64_sextets s"

lemma b64_encode_sextets: "b64_encode s = map b64_chr (b64_sextets s)"
  by (induction s rule: b64_encode.induct) simp_all

lemma quotients_less:
  fixes a :: nat
  assumes "a < 256"
  shows "a div 4 < 64" "a div 16 < 16" "a div 64 < 4"
  using assms by (simp_all add: less_mult_imp_div_less)

lemma sextet_bounds:
  fixes a b c :: nat
  assumes "a < 256" "b < 256" "c < 256"
  shows "a div 4 < 64" "a mod 4 * 16 + b div 16 < 64" "b mod 16 * 4 + c div 64 < 64" "c mod 64 < 64"
    "a mod 4 * 16 < 64" "b mod 16 * 4 < 64"
  using digit_bound [OF quotients_less(2) [OF assms(2)], of "a mod 4" 4]
    digit_bound [OF quotients_less(3) [OF assms(3)], of "b mod 16" 16]
    digit_bound [of 0 16 "a mod 4" 4] digit_bound [of 0 4 "b mod 16" 16] quotients_less(1) [OF assms(1)]
  by simp_all

lemma sextet_joins:
  fixes a b c :: nat
  assumes "a < 256" "b < 256" "c < 256"
  shows "a div 4 * 4 + (a mod 4 * 16 + b div 16) div 16 = a"
    "(a mod 4 * 16 + b div 16) mod 16 * 16 + (b mod 16 * 4 + c div 64) div 4 = b"
    "(b mod 16 * 4 + c div 64) mod 4 * 64 + c mod 64 = c"
    "a div 4 * 4 + (a mod 4 * 16) div 16 = a"
    "(a mod 4 * 16 + b div 16) mod 16 * 16 + (b mod 16 * 4) div 4 = b"
  by (simp_all only: digit_join [OF quotients_less(2) [OF assms(2)]]
      digit_join [OF quotients_less(3) [OF assms(3)]] div_mult_mod_eq
      nonzero_mult_div_cancel_right [OF numeral_neq_zero])

lemmas sextet_bv = sextet_bounds [OF bv_less bv_less bv_less] sextet_joins [OF bv_less bv_less bv_less]

lemma b64_sextets_less: "n \<in> set (b64_sextets s) \<Longrightarrow> n < 64"
  by (induction s rule: b64_sextets.induct) (auto simp: sextet_bv)

lemma b64_groups_sextets: "b64_groups (b64_sextets s) = Some s"
  by (induction s rule: b64_sextets.induct)
     (simp_all only: b64_sextets.simps b64_groups.simps append.simps sextet_bv byte_bv
       option.map)

lemma all_some_map: "(\<And>n. n \<in> set ns \<Longrightarrow> f n = Some n) \<Longrightarrow> all_some (map f ns) = Some ns"
  by (induction ns) auto

lemma b64_decode_encode [simp]: "b64_decode (b64_encode s) = Some s"
proof -
  have "filter (\<lambda>c. c \<noteq> CHR 0x0D \<and> c \<noteq> CHR 0x0A) (b64_encode s) = b64_encode s"
    unfolding b64_encode_sextets filter_id_conv set_map
    by (simp add: b64_val_chr(2,3) b64_sextets_less)
  moreover have "all_some (map b64_val (b64_encode s)) = Some (b64_sextets s)"
    unfolding b64_encode_sextets map_map
    by (rule all_some_map) (simp add: b64_val_chr b64_sextets_less)
  ultimately show ?thesis by (simp add: b64_decode_def b64_groups_sextets)
qed

lemma b64_encode_inject [simp]: "b64_encode s = b64_encode t \<longleftrightarrow> s = t"
  by (metis b64_decode_encode option.inject)

lemma b64_encode_Nil_iff [simp]: "b64_encode s = [] \<longleftrightarrow> s = []"
  by (cases s rule: b64_encode.cases) auto

lemma length_b64_encode: "length (b64_encode s) = (4 * length s + 2) div 3"
  by (induction s rule: b64_encode.induct) auto

end
