(* ===== verification/Go_Time.thy ===== *)
theory Go_Time
  imports Go_Strings
begin

text \<open>
  Calendar dates and the layout \<^verbatim>\<open>time.RFC3339Nano\<close> of Go's \<^verbatim>\<open>time\<close> package: \<^verbatim>\<open>Format\<close> of an instant in
  UTC, and the strict grammar that \<^verbatim>\<open>time.Parse\<close> tries first. Texts outside the strict grammar go to
  Go's layout-driven parser, which is a parameter. Parsing inverts formatting for the years 0
  to 9999.
\<close>

section \<open>The calendar\<close>

text \<open>Days are counted from 1 January of the year 1.\<close>

definition days_before :: "int \<Rightarrow> int" where
  "days_before y = 365 * (y - 1) + (y - 1) div 4 - (y - 1) div 100 + (y - 1) div 400"

definition is_leap :: "int \<Rightarrow> bool" where
  "is_leap y \<longleftrightarrow> y mod 4 = 0 \<and> (y mod 100 \<noteq> 0 \<or> y mod 400 = 0)"

definition year_of_day :: "int \<Rightarrow> int" where
  "year_of_day d =
     (let n400 = d div 146097; r = d mod 146097;
          n100 = min 3 (r div 36524); r1 = r - n100 * 36524;
          n4 = r1 div 1461; r2 = r1 mod 1461;
          n1 = min 3 (r2 div 365)
      in 400 * n400 + 100 * n100 + 4 * n4 + n1 + 1)"

definition month_lengths :: "bool \<Rightarrow> int list" where
  "month_lengths leap = [31, if leap then 29 else 28, 31, 30, 31, 30, 31, 31, 30, 31, 30, 31]"

text \<open>Month and day within a year, from the zero-based day of the year.\<close>

fun month_day :: "int \<Rightarrow> int list \<Rightarrow> int \<Rightarrow> int \<times> int" where
  "month_day m [] d = (m, d + 1)"
| "month_day m [l] d = (m, d + 1)"
| "month_day m (l # l' # ls) d = (if d < l then (m, d + 1) else month_day (m + 1) (l' # ls) (d - l))"

definition days_in_month :: "int \<Rightarrow> int \<Rightarrow> int" where
  "days_in_month y m = month_lengths (is_leap y) ! nat (m - 1)"

definition day_number :: "int \<Rightarrow> int \<Rightarrow> int \<Rightarrow> int" where
  "day_number y m d = days_before y + sum_list (take (nat (m - 1)) (month_lengths (is_leap y))) + (d - 1)"

definition epoch_day :: int where
  "epoch_day = 719162"

definition ns_per_day :: int where
  "ns_per_day = 86400000000000"

definition Year :: "gtime \<Rightarrow> int" where
  "Year t = year_of_day (t div ns_per_day + epoch_day)"

subsection \<open>Every day falls into its year\<close>

lemma days_before_parts:
  assumes "0 \<le> b" "b \<le> 3" "0 \<le> c" "c \<le> 24" "0 \<le> e" "e \<le> 3"
  shows "days_before (400 * a + 100 * b + 4 * c + e + 1) = 146097 * a + 36524 * b + 1461 * c + 365 * e"
proof -
  let ?x = "400 * a + 100 * b + 4 * c + e"
  have "?x div 4 = 100 * a + 25 * b + c"
    by (rule int_div_pos_eq [where r = e]) (use assms in auto)
  moreover have "?x div 100 = 4 * a + b"
    by (rule int_div_pos_eq [where r = "4 * c + e"]) (use assms in auto)
  moreover have "?x div 400 = a"
    by (rule int_div_pos_eq [where r = "100 * b + 4 * c + e"]) (use assms in auto)
  ultimately show ?thesis by (simp add: days_before_def)
qed

lemma div_pred:
  fixes y n :: int
  assumes "0 < n"
  shows "y div n = (y - 1) div n + (if y mod n = 0 then 1 else 0)"
proof (cases "y mod n = 0")
  case True
  then have "y = n * (y div n)" using mult_div_mod_eq [of n y] by simp
  then have "y - 1 = n * (y div n - 1) + (n - 1)" by (simp add: right_diff_distrib)
  then have "(y - 1) div n = y div n - 1" by (rule int_div_pos_eq) (use assms in auto)
  then show ?thesis using True by simp
next
  case False
  have "y - 1 = n * (y div n) + (y mod n - 1)" using mult_div_mod_eq [of n y] by simp
  moreover have "0 \<le> y mod n - 1" "y mod n - 1 < n"
    using False assms pos_mod_sign [of n y] pos_mod_bound [of n y] by linarith+
  ultimately have "(y - 1) div n = y div n" by (rule int_div_pos_eq)
  then show ?thesis using False by simp
qed

lemma days_before_step:
  fixes y :: int
  assumes "q4 = p4 + i4" "q100 = p100 + i100" "q400 = p400 + i400"
  shows "365 * y + q4 - q100 + q400 = 365 * (y - 1) + p4 - p100 + p400 + 365 + i4 - i100 + i400"
  using assms by simp

lemma days_before_next:
  "days_before (y + 1) = days_before y + (if is_leap y then 366 else 365)"
proof -
  let ?i = "\<lambda>n. if y mod n = 0 then 1 else 0 :: int"
  have mods: "y mod 400 = 0 \<Longrightarrow> y mod 100 = 0" "y mod 100 = 0 \<Longrightarrow> y mod 4 = 0"
    by (auto elim!: dvd_trans [rotated] simp flip: dvd_eq_mod_eq_0)
  have "y div 4 = (y - 1) div 4 + ?i 4" "y div 100 = (y - 1) div 100 + ?i 100"
    "y div 400 = (y - 1) div 400 + ?i 400"
    by (rule div_pred; simp)+
  then have "days_before (y + 1) = days_before y + 365 + ?i 4 - ?i 100 + ?i 400"
    unfolding days_before_def add_diff_cancel_right' by (rule days_before_step)
  moreover have "365 + ?i 4 - ?i 100 + ?i 400 = (if is_leap y then 366 else 365)"
    using mods unfolding is_leap_def by (cases "y mod 4 = 0"; cases "y mod 100 = 0"; cases "y mod 400 = 0") simp_all
  ultimately show ?thesis by simp
qed

lemma capped_digit:
  fixes r :: int
  assumes "0 \<le> r" "r \<le> 4 * m" "0 < m"
  shows "0 \<le> r - min 3 (r div m) * m" "r - min 3 (r div m) * m \<le> m"
    "min 3 (r div m) < 3 \<longrightarrow> r - min 3 (r div m) * m < m" "0 \<le> min 3 (r div m)"
proof -
  have q: "r = r div m * m + r mod m" "0 \<le> r mod m" "r mod m < m" "0 \<le> r div m"
    using assms by (simp_all add: pos_imp_zdiv_nonneg_iff)
  show "0 \<le> min 3 (r div m)" using q by simp
  show "min 3 (r div m) < 3 \<longrightarrow> r - min 3 (r div m) * m < m" using q by (simp add: min_def minus_div_mult_eq_mod)
  show "0 \<le> r - min 3 (r div m) * m"
  proof (cases "r div m \<le> 3")
    case False
    then have "3 * m \<le> r div m * m" using assms(3) by (intro mult_right_mono) auto
    then have "3 * m \<le> r" using q(1,2) by linarith
    then show ?thesis using False by (simp add: min_def)
  qed (use q in \<open>simp add: min_def minus_div_mult_eq_mod\<close>)
  show "r - min 3 (r div m) * m \<le> m"
  proof (cases "r div m \<le> 3")
    case True
    then show ?thesis using q(3) by (simp add: min_def minus_div_mult_eq_mod)
  next
    case False
    then show ?thesis using assms(2) by (simp add: min_def)
  qed
qed

lemma leap_year_form:
  fixes a b c :: int
  assumes "0 \<le> c" "c < 24 \<or> b = 3 \<and> c = 24"
  shows "is_leap (400 * a + 100 * b + 4 * c + 3 + 1)"
proof -
  have "400 * a + 100 * b + 4 * c + 3 + 1 = (100 * a + 25 * b + c + 1) * 4" by simp
  then have 4: "(400 * a + 100 * b + 4 * c + 3 + 1) mod 4 = 0" by (metis mod_mult_self2_is_0)
  show ?thesis
  proof (cases "c < 24")
    case True
    have "400 * a + 100 * b + 4 * c + 3 + 1 = (4 * c + 4) + (4 * a + b) * 100" by simp
    then have "(400 * a + 100 * b + 4 * c + 3 + 1) mod 100 = (4 * c + 4) mod 100"
      by (metis mod_mult_self1)
    also have "\<dots> = 4 * c + 4" using True assms(1) by (intro mod_pos_pos_trivial) auto
    finally show ?thesis using 4 assms(1) by (simp add: is_leap_def)
  next
    case False
    then have "400 * a + 100 * b + 4 * c + 3 + 1 = (a + 1) * 400" using assms(2) by auto
    then have "(400 * a + 100 * b + 4 * c + 3 + 1) mod 400 = 0" by (metis mod_mult_self2_is_0)
    then show ?thesis using 4 by (simp add: is_leap_def)
  qed
qed

lemma year_of_day_bounds:
  "days_before (year_of_day d) \<le> d" "d < days_before (year_of_day d + 1)"
proof -
  define a r where "a = d div 146097" and "r = d mod 146097"
  define b where "b = min 3 (r div 36524)"
  define r1 where "r1 = r - b * 36524"
  define c r2 where "c = r1 div 1461" and "r2 = r1 mod 1461"
  define e where "e = min 3 (r2 div 365)"
  have d: "d = 146097 * a + r" "0 \<le> r" "r < 146097" by (simp_all add: a_def r_def)
  have le: "r \<le> 4 * 36524" using d(3) by simp
  have b: "0 \<le> r1" "r1 \<le> 36524" "b < 3 \<longrightarrow> r1 < 36524" "0 \<le> b" "b \<le> 3"
    unfolding r1_def b_def
    by (fact capped_digit [OF d(2) le zero_less_numeral] | rule min.cobounded1)+
  have c: "r1 = 1461 * c + r2" "0 \<le> r2" "r2 < 1461" "0 \<le> c"
    using b(1) by (simp_all add: c_def r2_def pos_imp_zdiv_nonneg_iff)
  have c24: "c \<le> 24" using b(2) c by linarith
  have le2: "r2 \<le> 4 * 365" using c(3) by simp
  have e: "0 \<le> r2 - e * 365" "r2 - e * 365 \<le> 365" "e < 3 \<longrightarrow> r2 - e * 365 < 365" "0 \<le> e" "e \<le> 3"
    unfolding e_def
    by (fact capped_digit [OF c(2) le2 zero_less_numeral] | rule min.cobounded1)+
  have y: "year_of_day d = 400 * a + 100 * b + 4 * c + e + 1"
    unfolding year_of_day_def Let_def a_def r_def b_def r1_def c_def r2_def e_def by (rule refl)
  have before: "days_before (year_of_day d) = 146097 * a + 36524 * b + 1461 * c + 365 * e"
    unfolding y using b c24 c e by (intro days_before_parts) auto
  show "days_before (year_of_day d) \<le> d"
    using d(1) c(1) e(1) before unfolding r1_def by linarith
  show "d < days_before (year_of_day d + 1)"
  proof (cases "r2 - e * 365 < 365")
    case True
    then show ?thesis
      using d(1) c(1) before days_before_next [of "year_of_day d"] unfolding r1_def
      by (auto split: if_splits)
  next
    case False
    then have last: "e = 3" "r2 = 1460" using e c(3) by auto
    have "c < 24 \<or> b = 3 \<and> c = 24" using b c last c24 by (cases "b < 3") auto
    then have "is_leap (year_of_day d)"
      unfolding y last(1) using c(4) by (intro leap_year_form) auto
    then show ?thesis
      using d(1) c(1) before last days_before_next [of "year_of_day d"] unfolding r1_def by simp
  qed
qed

lemma month_day_ok:
  assumes "0 \<le> d" "d < sum_list ls" "month_day m ls d = (m', d')" "\<forall>l \<in> set ls. 0 < l"
  shows "m \<le> m' \<and> m' < m + int (length ls) \<and> 1 \<le> d' \<and> d' \<le> ls ! nat (m' - m) \<and>
    d = sum_list (take (nat (m' - m)) ls) + (d' - 1)"
  using assms
proof (induction m ls d rule: month_day.induct)
  case (3 m l l' ls d)
  show ?case
  proof (cases "d < l")
    case False
    then have "m + 1 \<le> m' \<and> m' < m + 1 + int (length (l' # ls)) \<and> 1 \<le> d' \<and>
        d' \<le> (l' # ls) ! nat (m' - (m + 1)) \<and>
        d - l = sum_list (take (nat (m' - (m + 1))) (l' # ls)) + (d' - 1)"
      using 3 by (intro 3(1)) auto
    moreover from this have "nat (m' - m) = Suc (nat (m' - (m + 1)))" by auto
    ultimately show ?thesis by auto
  qed (use 3 in auto)
qed auto

lemma month_lengths_sum: "sum_list (month_lengths leap) = (if leap then 366 else 365)"
  by (simp add: month_lengths_def)

section \<open>RFC 3339\<close>

definition two_digits :: "int \<Rightarrow> string" where
  "two_digits n = [digit_char (n div 10), digit_char (n mod 10)]"

definition four_digits :: "int \<Rightarrow> string" where
  "four_digits n = two_digits (n div 100) @ two_digits (n mod 100)"

text \<open>Nine digits of nanoseconds with trailing zeros removed, and nothing for a whole second.\<close>

definition nine_digits :: "int \<Rightarrow> string" where
  "nine_digits n = digit_char (n div 100000000) # four_digits (n div 10000 mod 10000) @ four_digits (n mod 10000)"

definition fraction :: "int \<Rightarrow> string" where
  "fraction ns =
     (let ds = rev (dropWhile (\<lambda>c. c = CHR ''0'') (rev (nine_digits ns)))
      in if ds = [] then [] else CHR ''.'' # ds)"

definition year_text :: "int \<Rightarrow> string" where
  "year_text y =
     (if 0 \<le> y \<and> y \<le> 9999 then four_digits y
      else if y < 0 then ''-'' @ (if y > - 10000 then four_digits (- y) else itoa (- y))
      else itoa y)"

text \<open>\<^verbatim>\<open>t.UTC().Format(time.RFC3339Nano)\<close>.\<close>

definition FormatRFC3339Nano :: "gtime \<Rightarrow> string" where
  "FormatRFC3339Nano t =
     (let day = t div ns_per_day + epoch_day;
          y = year_of_day day;
          (m, d) = month_day 1 (month_lengths (is_leap y)) (day - days_before y);
          sec = t mod ns_per_day div second
      in year_text y @ ''-'' @ two_digits m @ ''-'' @ two_digits d @ ''T'' @
         two_digits (sec div 3600) @ '':'' @ two_digits (sec div 60 mod 60) @ '':'' @ two_digits (sec mod 60) @
         fraction (t mod second) @ ''Z'')"

definition num_field :: "string \<Rightarrow> nat \<Rightarrow> nat \<Rightarrow> int option" where
  "num_field s i n =
     (let f = take n (drop i s) in if length f = n \<and> list_all is_digit f then Some (digits_val f) else None)"

text \<open>The optional fraction: its nanoseconds and the text after it. Digits after the ninth are dropped.\<close>

definition parse_fraction :: "string \<Rightarrow> int \<times> string" where
  "parse_fraction s =
     (case s of
        c # r \<Rightarrow>
          if c = CHR ''.'' \<and> r \<noteq> [] \<and> is_digit (hd r) then
            (digits_val (take 9 (takeWhile is_digit r @ replicate 9 CHR ''0'')), dropWhile is_digit r)
          else (0, s)
      | [] \<Rightarrow> (0, s))"

definition parse_zone :: "string \<Rightarrow> int option" where
  "parse_zone s =
     (if s = ''Z'' then Some 0
      else case (num_field s 1 2, num_field s 4 2) of
             (Some h, Some m) \<Rightarrow>
               if length s = 6 \<and> s ! 3 = CHR '':'' \<and> h \<le> 23 \<and> m \<le> 59 \<and> (s ! 0 = CHR ''+'' \<or> s ! 0 = CHR ''-'')
               then Some ((if s ! 0 = CHR ''-'' then - 1 else 1) * (h * 60 + m) * 60)
               else None
           | _ \<Rightarrow> None)"

definition parse_rfc3339 :: "string \<Rightarrow> gtime option" where
  "parse_rfc3339 s =
     (case (num_field s 0 4, num_field s 5 2, num_field s 8 2, num_field s 11 2, num_field s 14 2, num_field s 17 2) of
        (Some y, Some mo, Some d, Some h, Some mi, Some sec) \<Rightarrow>
          if s ! 4 = CHR ''-'' \<and> s ! 7 = CHR ''-'' \<and> s ! 10 = CHR ''T'' \<and> s ! 13 = CHR '':'' \<and>
             s ! 16 = CHR '':'' \<and> 1 \<le> mo \<and> mo \<le> 12 \<and> 1 \<le> d \<and> d \<le> days_in_month y mo \<and>
             h \<le> 23 \<and> mi \<le> 59 \<and> sec \<le> 59
          then
            (let (ns, zone) = parse_fraction (drop 19 s)
             in map_option (\<lambda>off. (day_number y mo d - epoch_day) * ns_per_day +
                                  (h * 3600 + mi * 60 + sec - off) * second + ns) (parse_zone zone))
          else None
      | _ \<Rightarrow> None)"

text \<open>\<^verbatim>\<open>time.Parse(time.RFC3339Nano, s)\<close>; \<open>other\<close> is the layout-driven parser.\<close>

definition ParseRFC3339Nano :: "(string \<Rightarrow> gtime option) \<Rightarrow> string \<Rightarrow> gtime option" where
  "ParseRFC3339Nano other s = (case parse_rfc3339 s of Some t \<Rightarrow> Some t | None \<Rightarrow> other s)"

subsection \<open>Parsing inverts formatting\<close>

lemma length_digits [simp]:
  "length (two_digits n) = 2" "length (four_digits n) = 4" "length (nine_digits n) = 9"
  by (simp_all add: two_digits_def four_digits_def nine_digits_def)

lemma digits_val_append: "digits_val (s @ t) = digits_val s * 10 ^ length t + digits_val t"
proof (induction t rule: rev_induct)
  case (snoc c t)
  have "digits_val (s @ t @ [c]) = digits_val ((s @ t) @ [c])" by simp
  also have "\<dots> = 10 * digits_val (s @ t) + (int (bv c) - 48)" by (rule digits_val_snoc)
  finally show ?case using snoc by (simp add: algebra_simps)
qed simp

lemma two_digits_ok:
  assumes "0 \<le> n" "n \<le> 99"
  shows "list_all is_digit (two_digits n)" "digits_val (two_digits n) = n"
proof -
  have "n div 10 < 10" using assms by (intro div_less_dividend [THEN order.strict_trans2] | simp)+
  have b: "0 \<le> n div 10" "n div 10 \<le> 9" "0 \<le> n mod 10" "n mod 10 \<le> 9"
    using assms \<open>n div 10 < 10\<close> pos_mod_bound [of 10 n] by (auto simp: pos_imp_zdiv_nonneg_iff)
  show "list_all is_digit (two_digits n)" using b by (simp add: two_digits_def)
  show "digits_val (two_digits n) = n"
    using b digits_val_snoc [of "[digit_char (n div 10)]" "digit_char (n mod 10)"]
      digits_val_snoc [of "[]" "digit_char (n div 10)"]
    by (simp add: two_digits_def digit_char_bv)
qed

lemma four_digits_ok:
  assumes "0 \<le> n" "n \<le> 9999"
  shows "list_all is_digit (four_digits n)" "digits_val (four_digits n) = n"
proof -
  have b: "0 \<le> n div 100" "n div 100 \<le> 99" "0 \<le> n mod 100" "n mod 100 \<le> 99"
    using zdiv_mono1 [OF assms(2), of 100] assms(1) pos_mod_bound [of 100 n]
    by (auto simp: pos_imp_zdiv_nonneg_iff)
  show "list_all is_digit (four_digits n)" using b by (simp add: four_digits_def two_digits_ok)
  show "digits_val (four_digits n) = n"
    using b by (simp add: four_digits_def digits_val_append two_digits_ok)
qed

lemma nine_join:
  fixes n :: int
  assumes "d = a * 10000 + b" "n = d * 10000 + c"
  shows "a * 100000000 + (b * 10000 + c) = n"
  using assms by simp

lemma nine_digits_ok:
  assumes "0 \<le> n" "n < second"
  shows "list_all is_digit (nine_digits n)" "digits_val (nine_digits n) = n"
proof -
  define a b c where "a = n div 100000000" and "b = n div 10000 mod 10000" and "c = n mod 10000"
  have nine: "nine_digits n = [digit_char a] @ four_digits b @ four_digits c"
    by (simp only: nine_digits_def a_def b_def c_def append_Cons append_Nil)
  have "n \<le> 999999999" using assms(2) by simp
  from zdiv_mono1 [OF this, of 100000000] have a9: "a \<le> 9" by (simp add: a_def)
  have a0: "0 \<le> a" using assms(1) by (simp only: a_def pos_imp_zdiv_nonneg_iff zero_less_numeral)
  have bc: "0 \<le> b" "b \<le> 9999" "0 \<le> c" "c \<le> 9999" by (simp_all add: b_def c_def)
  show "list_all is_digit (nine_digits n)"
    unfolding nine using a0 a9 bc by (simp add: four_digits_ok)
  have "n div 10000 = a * 10000 + b"
    using div_mult_mod_eq [of "n div 10000" 10000] zdiv_zmult2_eq [of 10000 n 10000]
    by (simp add: a_def b_def)
  from nine_join [OF this div_mult_mod_eq [symmetric]] have "a * 100000000 + (b * 10000 + c) = n"
    by (simp only: c_def)
  moreover have "digits_val [digit_char a] = a"
    using a0 a9 digits_val_snoc [of "[]" "digit_char a"] by (simp add: digit_char_bv)
  ultimately show "digits_val (nine_digits n) = n"
    unfolding nine digits_val_append using bc by (simp add: four_digits_ok)
qed

lemma num_field_at:
  assumes "length pre = i" "length f = n" "list_all is_digit f"
  shows "num_field (pre @ f @ post) i n = Some (digits_val f)"
  using assms by (auto simp: num_field_def)

lemma zero_suffix:
  fixes xs :: string
  defines "ds \<equiv> rev (dropWhile (\<lambda>c. c = CHR ''0'') (rev xs))"
  shows "xs = ds @ replicate (length xs - length ds) CHR ''0''"
proof -
  let ?zs = "rev (takeWhile (\<lambda>c. c = CHR ''0'') (rev xs))"
  have "rev xs = takeWhile (\<lambda>c. c = CHR ''0'') (rev xs) @ dropWhile (\<lambda>c. c = CHR ''0'') (rev xs)" by simp
  then have xs: "xs = ds @ ?zs" unfolding ds_def by (metis rev_append rev_rev_ident)
  have "\<forall>c \<in> set ?zs. c = CHR ''0''" by (auto dest: set_takeWhileD)
  then have "?zs = replicate (length ?zs) CHR ''0''" by (metis replicate_length_same)
  moreover have "length ?zs = length xs - length ds" using xs by (metis add_diff_cancel_left' length_append)
  ultimately show ?thesis using xs by simp
qed

lemma parse_fraction_ok:
  assumes "0 \<le> ns" "ns < second"
  shows "parse_fraction (fraction ns @ ''Z'') = (ns, ''Z'')"
proof -
  define ds where "ds = rev (dropWhile (\<lambda>c. c = CHR ''0'') (rev (nine_digits ns)))"
  have nine: "nine_digits ns = ds @ replicate (9 - length ds) CHR ''0''"
    using zero_suffix [of "nine_digits ns"] unfolding ds_def by simp
  have all: "list_all is_digit ds" using nine_digits_ok(1) [OF assms] nine by (metis list_all_append)
  have len: "length ds \<le> 9" using nine length_digits(3) [of ns] by (metis le_add1 length_append)
  have val: "digits_val (ds @ replicate (9 - length ds) CHR ''0'') = ns"
    using nine_digits_ok(2) [OF assms] nine by simp
  have Z: "\<not> is_digit CHR ''Z''" "\<not> is_digit CHR ''.''" by (simp_all add: is_digit_def in_range_def)
  have span: "takeWhile is_digit (ds @ ''Z'') = ds" "dropWhile is_digit (ds @ ''Z'') = ''Z''"
    using all Z by (simp_all add: takeWhile_append2 dropWhile_append2 list_all_iff)
  have pad: "take 9 (ds @ replicate 9 CHR ''0'') = ds @ replicate (9 - length ds) CHR ''0''"
    using len by simp
  show ?thesis
  proof (cases "ds = []")
    case True
    then have "ns = 0" using val by (simp add: numeral_eq_Suc digits_val_def)
    moreover have "fraction ns = []" unfolding fraction_def Let_def ds_def [symmetric] using True by simp
    ultimately show ?thesis by (simp add: parse_fraction_def)
  next
    case False
    then have "is_digit (hd (ds @ ''Z''))" using all by (cases ds) auto
    moreover have "fraction ns = CHR ''.'' # ds"
      unfolding fraction_def Let_def ds_def [symmetric] using False by simp
    ultimately show ?thesis using val by (simp add: parse_fraction_def span pad del: take_append)
  qed
qed

lemma parse_rfc3339_text:
  assumes "0 \<le> y" "y \<le> 9999" "1 \<le> m" "m \<le> 12" "1 \<le> d" "d \<le> days_in_month y m" "d \<le> 99"
    and "0 \<le> h" "h \<le> 23" "0 \<le> mi" "mi \<le> 59" "0 \<le> sc" "sc \<le> 59"
    and rest: "parse_fraction rest = (ns, ''Z'')"
  defines "text \<equiv> four_digits y @ ''-'' @ two_digits m @ ''-'' @ two_digits d @ ''T'' @ two_digits h @ '':'' @
    two_digits mi @ '':'' @ two_digits sc @ rest"
  shows "parse_rfc3339 text =
    Some ((day_number y m d - epoch_day) * ns_per_day + (h * 3600 + mi * 60 + sc) * second + ns)"
proof -
  note ok = two_digits_ok four_digits_ok
  have "num_field text 0 4 = Some y"
    using num_field_at [of "[]" 0 "four_digits y" 4 "drop 4 text"] assms(1,2)
    by (simp add: text_def ok)
  moreover have "num_field text 5 2 = Some m"
    using num_field_at [of "four_digits y @ ''-''" 5 "two_digits m" 2 "drop 7 text"] assms(3,4)
    by (simp add: text_def ok)
  moreover have "num_field text 8 2 = Some d"
    using num_field_at [of "four_digits y @ ''-'' @ two_digits m @ ''-''" 8 "two_digits d" 2 "drop 10 text"]
      assms(5,7) by (simp add: text_def ok)
  moreover have "num_field text 11 2 = Some h"
    using num_field_at [of "four_digits y @ ''-'' @ two_digits m @ ''-'' @ two_digits d @ ''T''" 11
        "two_digits h" 2 "drop 13 text"] assms(8,9) by (simp add: text_def ok)
  moreover have "num_field text 14 2 = Some mi"
    using num_field_at [of "four_digits y @ ''-'' @ two_digits m @ ''-'' @ two_digits d @ ''T'' @
        two_digits h @ '':''" 14 "two_digits mi" 2 "drop 16 text"] assms(10,11) by (simp add: text_def ok)
  moreover have "num_field text 17 2 = Some sc"
    using num_field_at [of "four_digits y @ ''-'' @ two_digits m @ ''-'' @ two_digits d @ ''T'' @
        two_digits h @ '':'' @ two_digits mi @ '':''" 17 "two_digits sc" 2 "drop 19 text"] assms(12,13)
    by (simp add: text_def ok)
  moreover have "text ! 4 = CHR ''-''" "text ! 7 = CHR ''-''" "text ! 10 = CHR ''T''"
    "text ! 13 = CHR '':''" "text ! 16 = CHR '':''" "drop 19 text = rest"
    by (simp_all add: text_def nth_append)
  ultimately show ?thesis using assms(3-13) rest by (simp add: parse_rfc3339_def parse_zone_def)
qed

lemma date_parts:
  fixes day :: int
  defines "y \<equiv> year_of_day day"
  assumes md: "month_day 1 (month_lengths (is_leap y)) (day - days_before y) = (m, d)"
  shows "1 \<le> m" "m \<le> 12" "1 \<le> d" "d \<le> days_in_month y m" "d \<le> 99" "day_number y m d = day"
proof -
  have yd: "0 \<le> day - days_before y" "day - days_before y < sum_list (month_lengths (is_leap y))"
    using year_of_day_bounds [of day] days_before_next [of y]
    by (auto simp: y_def month_lengths_sum split: if_splits)
  have pos: "\<forall>l \<in> set (month_lengths (is_leap y)). 0 < l \<and> l \<le> 31" by (auto simp: month_lengths_def)
  have *: "1 \<le> m \<and> m < 1 + int (length (month_lengths (is_leap y))) \<and> 1 \<le> d \<and>
      d \<le> month_lengths (is_leap y) ! nat (m - 1) \<and>
      day - days_before y = sum_list (take (nat (m - 1)) (month_lengths (is_leap y))) + (d - 1)"
    using yd md pos by (intro month_day_ok) auto
  then show "1 \<le> m" "m \<le> 12" "1 \<le> d" "d \<le> days_in_month y m" "day_number y m d = day"
    by (auto simp: days_in_month_def day_number_def month_lengths_def)
  have "month_lengths (is_leap y) ! nat (m - 1) \<in> set (month_lengths (is_leap y))"
    using * by (intro nth_mem) auto
  then show "d \<le> 99" using * pos by fastforce
qed

lemma clock_parts:
  fixes sec :: int
  assumes "0 \<le> sec" "sec \<le> 86399"
  shows "0 \<le> sec div 3600" "sec div 3600 \<le> 23" "0 \<le> sec div 60 mod 60" "sec div 60 mod 60 \<le> 59"
    "0 \<le> sec mod 60" "sec mod 60 \<le> 59" "sec div 3600 * 3600 + sec div 60 mod 60 * 60 + sec mod 60 = sec"
proof -
  show "0 \<le> sec div 3600" using assms(1) by (simp only: pos_imp_zdiv_nonneg_iff zero_less_numeral)
  show "sec div 3600 \<le> 23" using zdiv_mono1 [OF assms(2), of 3600] by simp
  show "0 \<le> sec div 60 mod 60" "sec div 60 mod 60 \<le> 59" "0 \<le> sec mod 60" "sec mod 60 \<le> 59"
    by simp_all
  have "sec div 60 = sec div 3600 * 60 + sec div 60 mod 60"
    using div_mult_mod_eq [of "sec div 60" 60] zdiv_zmult2_eq [of 60 sec 60] by simp
  moreover have "sec = sec div 60 * 60 + sec mod 60" by (rule div_mult_mod_eq [symmetric])
  moreover have "q = a * 60 + b \<Longrightarrow> n = q * 60 + c \<Longrightarrow> a * 3600 + b * 60 + c = n" for q a b c n :: int
    by simp
  ultimately show "sec div 3600 * 3600 + sec div 60 mod 60 * 60 + sec mod 60 = sec" by blast
qed

lemma instant_parts:
  fixes t :: gtime
  defines "sec \<equiv> t mod ns_per_day div second"
  shows "0 \<le> sec" "sec \<le> 86399" "t = t div ns_per_day * ns_per_day + sec * second + t mod second"
    "0 \<le> t mod second" "t mod second < second"
proof -
  have b: "0 \<le> t mod ns_per_day" "t mod ns_per_day \<le> 86399999999999"
    using pos_mod_bound [of ns_per_day t] by (simp_all add: ns_per_day_def)
  show "0 \<le> sec" unfolding sec_def using b(1) by (simp only: pos_imp_zdiv_nonneg_iff zero_less_numeral)
  show "sec \<le> 86399" unfolding sec_def using zdiv_mono1 [OF b(2), of second] by simp
  have "t mod ns_per_day mod second = t mod second"
    by (rule mod_mod_cancel) (simp add: ns_per_day_def)
  then have "t mod ns_per_day = sec * second + t mod second"
    unfolding sec_def by (metis div_mult_mod_eq)
  then show "t = t div ns_per_day * ns_per_day + sec * second + t mod second"
    by (metis add.assoc div_mult_mod_eq)
  show "0 \<le> t mod second" "t mod second < second" by simp_all
qed

lemma format_text:
  assumes "0 \<le> Year t" "Year t \<le> 9999"
  obtains y m d h mi sc where
    "FormatRFC3339Nano t = four_digits y @ ''-'' @ two_digits m @ ''-'' @ two_digits d @ ''T'' @
      two_digits h @ '':'' @ two_digits mi @ '':'' @ two_digits sc @ fraction (t mod second) @ ''Z''"
    "0 \<le> y" "y \<le> 9999" "1 \<le> m" "m \<le> 12" "1 \<le> d" "d \<le> days_in_month y m" "d \<le> 99"
    "0 \<le> h" "h \<le> 23" "0 \<le> mi" "mi \<le> 59" "0 \<le> sc" "sc \<le> 59"
    "t = (day_number y m d - epoch_day) * ns_per_day + (h * 3600 + mi * 60 + sc) * second + t mod second"
proof -
  define day where "day = t div ns_per_day + epoch_day"
  define y where "y = year_of_day day"
  obtain m d where md: "month_day 1 (month_lengths (is_leap y)) (day - days_before y) = (m, d)"
    by fastforce
  define sec where "sec = t mod ns_per_day div second"
  have y: "0 \<le> y" "y \<le> 9999" using assms by (simp_all add: Year_def y_def day_def)
  note date = date_parts [OF md [unfolded y_def], folded y_def]
  note inst = instant_parts [of t, folded sec_def]
  note clock = clock_parts [OF inst(1,2)]
  have fmt: "FormatRFC3339Nano t = four_digits y @ ''-'' @ two_digits m @ ''-'' @ two_digits d @ ''T'' @
      two_digits (sec div 3600) @ '':'' @ two_digits (sec div 60 mod 60) @ '':'' @ two_digits (sec mod 60) @
      fraction (t mod second) @ ''Z''"
    using y md
    by (simp only: FormatRFC3339Nano_def Let_def day_def [symmetric] y_def [symmetric] sec_def [symmetric]
        year_text_def split_conv if_True simp_thms)
  have "t = (day_number y m d - epoch_day) * ns_per_day +
      (sec div 3600 * 3600 + sec div 60 mod 60 * 60 + sec mod 60) * second + t mod second"
    unfolding date(6) clock(7) using inst(3) by (simp only: day_def add_diff_cancel_right')
  from that [OF fmt y date(1-5) clock(1-6) this] show ?thesis .
qed

lemma parse_format:
  assumes "0 \<le> Year t" "Year t \<le> 9999"
  shows "parse_rfc3339 (FormatRFC3339Nano t) = Some t"
proof (rule format_text [OF assms])
  fix y m d h mi sc
  assume fmt: "FormatRFC3339Nano t = four_digits y @ ''-'' @ two_digits m @ ''-'' @ two_digits d @ ''T'' @
      two_digits h @ '':'' @ two_digits mi @ '':'' @ two_digits sc @ fraction (t mod second) @ ''Z''"
    and b: "0 \<le> y" "y \<le> 9999" "1 \<le> m" "m \<le> 12" "1 \<le> d" "d \<le> days_in_month y m" "d \<le> 99"
      "0 \<le> h" "h \<le> 23" "0 \<le> mi" "mi \<le> 59" "0 \<le> sc" "sc \<le> 59"
    and t: "t = (day_number y m d - epoch_day) * ns_per_day + (h * 3600 + mi * 60 + sc) * second + t mod second"
  show ?thesis
    unfolding fmt parse_rfc3339_text [OF b parse_fraction_ok [OF instant_parts(4,5)]]
    using t by (simp only:)
qed

lemma fraction_ascii:
  assumes "0 \<le> ns" "ns < second"
  shows "ascii (fraction ns)" "length (fraction ns) \<le> 10"
proof -
  define ds where "ds = rev (dropWhile (\<lambda>c. c = CHR ''0'') (rev (nine_digits ns)))"
  have "length ds \<le> 9"
    using length_dropWhile_le [of "\<lambda>c. c = CHR ''0''" "rev (nine_digits ns)"] by (simp add: ds_def)
  moreover have "list_all is_digit ds"
    using nine_digits_ok(1) [OF assms] unfolding ds_def list_all_iff by (auto dest: set_dropWhileD)
  ultimately show "ascii (fraction ns)" "length (fraction ns) \<le> 10"
    using digits_ascii [of ds] unfolding fraction_def Let_def ds_def [symmetric] by (auto simp: ascii_def)
qed

lemma format_ascii:
  assumes "0 \<le> Year t" "Year t \<le> 9999"
  shows "ascii (FormatRFC3339Nano t) \<and> length (FormatRFC3339Nano t) \<le> 30"
proof (rule format_text [OF assms])
  fix y m d h mi sc
  assume fmt: "FormatRFC3339Nano t = four_digits y @ ''-'' @ two_digits m @ ''-'' @ two_digits d @ ''T'' @
      two_digits h @ '':'' @ two_digits mi @ '':'' @ two_digits sc @ fraction (t mod second) @ ''Z''"
    and b: "0 \<le> y" "y \<le> 9999" "1 \<le> m" "m \<le> 12" "1 \<le> d" "d \<le> days_in_month y m" "d \<le> 99"
      "0 \<le> h" "h \<le> 23" "0 \<le> mi" "mi \<le> 59" "0 \<le> sc" "sc \<le> 59"
  have lits: "ascii ''-''" "ascii ''T''" "ascii '':''" "ascii ''Z''" by (simp_all add: ascii_def)
  have two: "ascii (two_digits n)" if "0 \<le> n" "n \<le> 99" for n
    using two_digits_ok(1) [OF that] by (rule digits_ascii)
  have "ascii (FormatRFC3339Nano t)"
    unfolding fmt ascii_append
    using b fraction_ascii(1) [OF instant_parts(4,5)] digits_ascii [OF four_digits_ok(1) [OF b(1,2)]] lits
    by (intro conjI two) linarith+
  moreover have "length (FormatRFC3339Nano t) \<le> 30"
    unfolding fmt using fraction_ascii(2) [OF instant_parts(4,5), of t] by simp
  ultimately show ?thesis by blast
qed

lemma ParseRFC3339Nano_format:
  "0 \<le> Year t \<Longrightarrow> Year t \<le> 9999 \<Longrightarrow> ParseRFC3339Nano other (FormatRFC3339Nano t) = Some t"
  by (simp add: ParseRFC3339Nano_def parse_format)

text \<open>Reference values.\<close>

lemma format_samples:
  "FormatRFC3339Nano 0 = ''1970-01-01T00:00:00Z''"
  "FormatRFC3339Nano zero_time = ''0001-01-01T00:00:00Z''"
  "FormatRFC3339Nano (fromUnixMilli 951827696789) = ''2000-02-29T12:34:56.789Z''"
  by code_simp+

end
