(* ===== verification/Platform_Paging.thy ===== *)
theory Platform_Paging
  imports Platform_Domain Go_Base64 Go_Time Go_Json_Strings
begin

text \<open>
  Keyset pagination: \<^verbatim>\<open>internal/platform/pagination.go\<close> (request normalisation, NUL-separated base64
  cursors) and \<^verbatim>\<open>list_filters.go\<close> (list filters, scoped JSON cursors). SHA-256, whose digest scopes a
  cursor to its query, is an argument \<open>sha\<close> that yields the hexadecimal text; the folding table
  and the layout-driven time parser are the arguments \<open>sf\<close> and \<open>other\<close> of the Go library theories.
\<close>

section \<open>Requests\<close>

record PageRequest =
  page_Size :: int
  page_Cursor :: string
  page_TenantID :: string
  page_DeviceID :: string
  page_StartTime :: gtime
  page_HasStartTime :: bool
  page_EndTime :: gtime
  page_HasEndTime :: bool
  page_Type :: string
  page_Status :: string
  page_Sort :: string

definition zero_page :: PageRequest where
  "zero_page = \<lparr>page_Size = 0, page_Cursor = [], page_TenantID = [], page_DeviceID = [],
     page_StartTime = zero_time, page_HasStartTime = False, page_EndTime = zero_time,
     page_HasEndTime = False, page_Type = [], page_Status = [], page_Sort = []\<rparr>"

definition errInvalidCursor :: gerror where
  "errInvalidCursor = [ErrInvalidPage]"

definition defaultPageSize :: int where
  "defaultPageSize = 50"

definition maxPageSize :: int where
  "maxPageSize = 100"

definition NormalizePageRequest :: "int \<Rightarrow> string \<Rightarrow> PageRequest result" where
  "NormalizePageRequest size0 cursor =
     (if length cursor > 4096 then Inl errInvalidCursor
      else
        let psize = (if size0 = 0 then defaultPageSize else size0) in
        if psize < 1 \<or> psize > maxPageSize then Inl [ErrInvalidPage]
        else Inr (zero_page\<lparr>page_Size := psize, page_Cursor := cursor\<rparr>))"

definition stamp_ok :: "gtime \<Rightarrow> bool" where
  "stamp_ok t \<longleftrightarrow> IsZero t \<or> 1 \<le> Year t \<and> Year t \<le> 9999 \<and> Nanosecond t mod 1000000 = 0"

text \<open>The defaults that \<^verbatim>\<open>NormalizeListRequest\<close> fills in: the sort order and the range flags.\<close>

definition list_defaults :: "PageRequest \<Rightarrow> PageRequest" where
  "list_defaults page = page
     \<lparr>page_Sort := (if page_Sort page = [] then ''desc'' else page_Sort page),
      page_HasStartTime := page_HasStartTime page \<or> \<not> IsZero (page_StartTime page),
      page_HasEndTime := page_HasEndTime page \<or> \<not> IsZero (page_EndTime page)\<rparr>"

text \<open>The checks, in the order of the source; the first that fails is the error returned.\<close>

definition page_check :: "bool \<Rightarrow> gerror option" where
  "page_check b = (if b then None else Some [ErrInvalidPage])"

definition list_checks :: "string \<Rightarrow> PageRequest \<Rightarrow> gerror option list" where
  "list_checks kind page =
     [page_check (IsValidTenantID (page_TenantID page)),
      page_check ((kind = ''telemetry'' \<or> page_DeviceID page \<noteq> []) \<longrightarrow>
        ValidateDeviceIdentity (page_TenantID page) (page_DeviceID page) = None),
      page_check (page_Sort page = ''asc'' \<or> page_Sort page = ''desc''),
      page_check (page_HasStartTime page \<and> page_HasEndTime page \<longrightarrow> page_StartTime page < page_EndTime page),
      page_check (stamp_ok (page_StartTime page)),
      page_check (stamp_ok (page_EndTime page)),
      page_check (page_Type page \<noteq> [] \<longrightarrow> ValidateStorageField ''type'' (page_Type page) 64 = None),
      page_check (page_Status page \<noteq> [] \<longrightarrow> named_status (status_of_string (page_Status page)))]"

definition NormalizeListRequest :: "PageRequest \<Rightarrow> string \<Rightarrow> PageRequest result" where
  "NormalizeListRequest page0 kind =
     bind_res (NormalizePageRequest (page_Size page0) (page_Cursor page0)) (\<lambda>n.
       let page = list_defaults (page0\<lparr>page_Size := page_Size n\<rparr>) in
       guard_err (first_error (list_checks kind page)) (Inr page))"

lemma NormalizePageRequest_ok:
  "NormalizePageRequest s c = Inr n \<Longrightarrow> 1 \<le> page_Size n \<and> page_Size n \<le> 100 \<and> length c \<le> 4096"
  by (auto simp: NormalizePageRequest_def Let_def defaultPageSize_def maxPageSize_def split: if_splits)

lemma list_defaults_simps [simp]:
  "page_Size (list_defaults p) = page_Size p" "page_Cursor (list_defaults p) = page_Cursor p"
  "page_TenantID (list_defaults p) = page_TenantID p" "page_DeviceID (list_defaults p) = page_DeviceID p"
  "page_StartTime (list_defaults p) = page_StartTime p" "page_EndTime (list_defaults p) = page_EndTime p"
  "page_Type (list_defaults p) = page_Type p" "page_Status (list_defaults p) = page_Status p"
  by (simp_all add: list_defaults_def)

lemma page_check_None [simp]: "page_check b = None \<longleftrightarrow> b"
  by (simp add: page_check_def)

lemma NormalizeListRequest_iff:
  "NormalizeListRequest page0 kind = Inr page \<longleftrightarrow>
     (\<exists>n. NormalizePageRequest (page_Size page0) (page_Cursor page0) = Inr n \<and>
       page = list_defaults (page0\<lparr>page_Size := page_Size n\<rparr>) \<and> first_error (list_checks kind page) = None)"
  by (auto simp: NormalizeListRequest_def Let_def)

lemma list_checks_ok:
  "first_error (list_checks kind page) = None \<longleftrightarrow>
     IsValidTenantID (page_TenantID page) \<and>
     (kind = ''telemetry'' \<or> page_DeviceID page \<noteq> [] \<longrightarrow>
       ValidateDeviceIdentity (page_TenantID page) (page_DeviceID page) = None) \<and>
     (page_Sort page = ''asc'' \<or> page_Sort page = ''desc'') \<and>
     (page_HasStartTime page \<and> page_HasEndTime page \<longrightarrow> page_StartTime page < page_EndTime page) \<and>
     stamp_ok (page_StartTime page) \<and> stamp_ok (page_EndTime page) \<and>
     (page_Type page \<noteq> [] \<longrightarrow> ValidateStorageField ''type'' (page_Type page) 64 = None) \<and>
     (page_Status page \<noteq> [] \<longrightarrow> named_status (status_of_string (page_Status page)))"
  by (simp only: list_checks_def first_error_None_iff list.set ball_simps page_check_None simp_thms)

lemma NormalizeListRequest_Inr:
  assumes "NormalizeListRequest page0 kind = Inr page"
  shows "1 \<le> page_Size page" "page_Size page \<le> 100" "length (page_Cursor page) \<le> 4096"
    "page_Cursor page = page_Cursor page0" "page_TenantID page = page_TenantID page0"
    "page_DeviceID page = page_DeviceID page0" "page_Status page = page_Status page0"
    "IsValidTenantID (page_TenantID page)" "page_Sort page = ''asc'' \<or> page_Sort page = ''desc''"
    "kind = ''telemetry'' \<or> page_DeviceID page \<noteq> [] \<longrightarrow>
      ValidateDeviceIdentity (page_TenantID page) (page_DeviceID page) = None"
proof -
  obtain n where n: "NormalizePageRequest (page_Size page0) (page_Cursor page0) = Inr n"
    and page: "page = list_defaults (page0\<lparr>page_Size := page_Size n\<rparr>)"
    and ok: "first_error (list_checks kind page) = None"
    using assms unfolding NormalizeListRequest_iff by blast
  show "page_Cursor page = page_Cursor page0" "page_TenantID page = page_TenantID page0"
    "page_DeviceID page = page_DeviceID page0" "page_Status page = page_Status page0"
    by (simp_all add: page)
  show "1 \<le> page_Size page" "page_Size page \<le> 100" "length (page_Cursor page) \<le> 4096"
    using NormalizePageRequest_ok [OF n] by (simp_all add: page)
  show "IsValidTenantID (page_TenantID page)" "page_Sort page = ''asc'' \<or> page_Sort page = ''desc''"
    "kind = ''telemetry'' \<or> page_DeviceID page \<noteq> [] \<longrightarrow>
      ValidateDeviceIdentity (page_TenantID page) (page_DeviceID page) = None"
    using ok unfolding list_checks_ok by blast+
qed

lemma NormalizeListRequest_err:
  assumes "NormalizeListRequest page0 kind = Inl e"
  shows "e = [ErrInvalidPage]"
proof (cases "NormalizePageRequest (page_Size page0) (page_Cursor page0)")
  case (Inl e')
  then show ?thesis
    using assms by (auto simp: NormalizeListRequest_def NormalizePageRequest_def errInvalidCursor_def Let_def
        split: if_splits)
next
  case (Inr n)
  then have "Some e \<in> set (list_checks kind (list_defaults (page0\<lparr>page_Size := page_Size n\<rparr>)))"
    using assms by (auto simp: NormalizeListRequest_def Let_def guard_err_eq_Inl dest: first_error_SomeD)
  moreover have "set (list_checks kind q) \<subseteq> range page_check" for q by (simp add: list_checks_def)
  ultimately obtain b where "Some e = page_check b" by blast
  then show ?thesis by (simp add: page_check_def split: if_splits)
qed

section \<open>Plain cursors\<close>

definition NUL :: char where
  "NUL = CHR 0x00"

definition encodeCursor :: "string list \<Rightarrow> string" where
  "encodeCursor parts = b64_encode (join_on NUL parts)"

definition decodeCursor :: "string \<Rightarrow> nat \<Rightarrow> string list result" where
  "decodeCursor cursor count =
     (if cursor = [] then Inr []
      else case b64_decode cursor of
             None \<Rightarrow> Inl errInvalidCursor
           | Some decoded \<Rightarrow>
               if \<not> utf8_valid decoded then Inl errInvalidCursor
               else
                 let parts = split_on NUL decoded in
                 if length parts \<noteq> count then Inl errInvalidCursor
                 else if [] \<in> set parts then Inl errInvalidCursor
                 else Inr parts)"

definition encodeDeviceCursor :: "string \<Rightarrow> string \<Rightarrow> string" where
  "encodeDeviceCursor tenantID deviceID = encodeCursor [tenantID, deviceID]"

definition decodeDeviceCursor :: "string \<Rightarrow> (string \<times> string) result" where
  "decodeDeviceCursor cursor =
     bind_res (decodeCursor cursor 2) (\<lambda>parts.
       case parts of [t, d] \<Rightarrow> Inr (t, d) | _ \<Rightarrow> Inr ([], []))"

lemma utf8_join_NUL:
  "(\<And>p. p \<in> set ps \<Longrightarrow> utf8_valid p) \<Longrightarrow> utf8_valid (join_on NUL ps)"
proof (induction ps)
  case (Cons p ps)
  then show ?case by (cases ps) (auto simp: utf8_valid_append NUL_def)
qed simp

lemma join_on_Nil_iff: "join_on x ps = [] \<longleftrightarrow> ps = [] \<or> ps = [[]]"
  by (cases "(x, ps)" rule: join_on.cases) auto

lemma decode_encodeCursor:
  assumes "parts \<noteq> []" "\<And>p. p \<in> set parts \<Longrightarrow> p \<noteq> [] \<and> utf8_valid p \<and> NUL \<notin> set p"
  shows "decodeCursor (encodeCursor parts) (length parts) = Inr parts"
proof -
  have "join_on NUL parts \<noteq> []" using assms by (auto simp: join_on_Nil_iff)
  moreover have "split_on NUL (join_on NUL parts) = parts" using assms by (intro split_on_join_on) auto
  moreover have "utf8_valid (join_on NUL parts)" using assms by (intro utf8_join_NUL) auto
  moreover have "[] \<notin> set parts" using assms(2) by blast
  ultimately show ?thesis by (simp add: decodeCursor_def encodeCursor_def Let_def)
qed

lemma decodeCursor_parts:
  assumes "decodeCursor cursor n = Inr parts" "cursor \<noteq> []"
  shows "length parts = n \<and> (\<forall>p \<in> set parts. p \<noteq> [])"
  using assms by (auto simp: decodeCursor_def Let_def split: option.splits if_splits)

lemma valid_part_cursor: "IsValidTopicPart p \<Longrightarrow> p \<noteq> [] \<and> utf8_valid p \<and> NUL \<notin> set p"
  using valid_part_storage [of p] by (simp add: NUL_def)

lemma decode_encodeDeviceCursor:
  assumes "IsValidTenantID t" "IsValidTopicPart d"
  shows "decodeDeviceCursor (encodeDeviceCursor t d) = Inr (t, d)"
proof -
  have "decodeCursor (encodeCursor [t, d]) (length [t, d]) = Inr [t, d]"
    using assms valid_part_cursor valid_tenant_part by (intro decode_encodeCursor) auto
  then show ?thesis by (simp add: decodeDeviceCursor_def encodeDeviceCursor_def numeral_2_eq_2)
qed

section \<open>Scoped cursors\<close>

record listCursor =
  lc_Version :: int
  lc_Scope :: string
  lc_Time :: string
  lc_ID :: string

definition json_bool :: "bool \<Rightarrow> string" where
  "json_bool b = (if b then ''true'' else ''false'')"

text \<open>\<^verbatim>\<open>json.Marshal\<close> of a time fails for a year outside 0 to 9999; the source then digests no bytes.\<close>

definition scope_json :: "PageRequest \<Rightarrow> string \<Rightarrow> string" where
  "scope_json page kind =
     (if Year (page_StartTime page) \<in> {0..9999} \<and> Year (page_EndTime page) \<in> {0..9999} then
        json_object
          [(''Kind'', json_quote kind),
           (''Page'', json_object
              [(''Size'', itoa (page_Size page)),
               (''Cursor'', json_quote (page_Cursor page)),
               (''TenantID'', json_quote (page_TenantID page)),
               (''DeviceID'', json_quote (page_DeviceID page)),
               (''StartTime'', json_quote (FormatRFC3339Nano (page_StartTime page))),
               (''HasStartTime'', json_bool (page_HasStartTime page)),
               (''EndTime'', json_quote (FormatRFC3339Nano (page_EndTime page))),
               (''HasEndTime'', json_bool (page_HasEndTime page)),
               (''Type'', json_quote (page_Type page)),
               (''Status'', json_quote (page_Status page)),
               (''Sort'', json_quote (page_Sort page))])]
      else [])"

definition cursorScope :: "(string \<Rightarrow> string) \<Rightarrow> PageRequest \<Rightarrow> string \<Rightarrow> string" where
  "cursorScope sha page kind = sha (scope_json (page\<lparr>page_Size := 0, page_Cursor := []\<rparr>) kind)"

definition marshal_listCursor :: "listCursor \<Rightarrow> string" where
  "marshal_listCursor c = json_object
     [(''v'', itoa (lc_Version c)), (''scope'', json_quote (lc_Scope c)),
      (''time'', json_quote (lc_Time c)), (''id'', json_quote (lc_ID c))]"

definition encodePageCursor :: "(string \<Rightarrow> string) \<Rightarrow> PageRequest \<Rightarrow> string \<Rightarrow> gtime \<Rightarrow> string \<Rightarrow> string" where
  "encodePageCursor sha page kind at uid = b64_encode (marshal_listCursor
     \<lparr>lc_Version = 1, lc_Scope = cursorScope sha page kind, lc_Time = FormatRFC3339Nano at, lc_ID = uid\<rparr>)"

definition listCursor_set :: "string \<Rightarrow> string \<Rightarrow> json \<Rightarrow> listCursor \<Rightarrow> listCursor option" where
  "listCursor_set field raw v =
     (if field = ''v'' then set_int64 (\<lambda>i. lc_Version_update (\<lambda>_. i)) v
      else if field = ''scope'' then set_string (\<lambda>s. lc_Scope_update (\<lambda>_. s)) v
      else if field = ''time'' then set_string (\<lambda>s. lc_Time_update (\<lambda>_. s)) v
      else set_string (\<lambda>s. lc_ID_update (\<lambda>_. s)) v)"

definition unmarshal_listCursor :: "(nat \<Rightarrow> nat) \<Rightarrow> string \<Rightarrow> listCursor option" where
  "unmarshal_listCursor sf raw =
     (let zero = \<lparr>lc_Version = 0, lc_Scope = [], lc_Time = [], lc_ID = []\<rparr> in
      case json_parse raw of
        Some (JObj ms) \<Rightarrow> decode_members sf [''v'', ''scope'', ''time'', ''id''] listCursor_set ms zero
      | Some JNull \<Rightarrow> Some zero
      | _ \<Rightarrow> None)"

definition decodePageCursor :: "(string \<Rightarrow> string) \<Rightarrow> (nat \<Rightarrow> nat) \<Rightarrow> (string \<Rightarrow> gtime option) \<Rightarrow>
    PageRequest \<Rightarrow> string \<Rightarrow> (gtime \<times> string) result" where
  "decodePageCursor sha sf other page kind =
     (if page_Cursor page = [] then Inr (zero_time, [])
      else if length (page_Cursor page) > 4096 then Inl errInvalidCursor
      else case b64_decode (page_Cursor page) of
        None \<Rightarrow> Inl errInvalidCursor
      | Some raw \<Rightarrow>
          (case unmarshal_listCursor sf raw of
             None \<Rightarrow> Inl errInvalidCursor
           | Some c \<Rightarrow>
               if lc_Version c \<noteq> 1 \<or> lc_Scope c \<noteq> cursorScope sha page kind \<or> lc_ID c = []
               then Inl errInvalidCursor
               else if ValidateStorageField ''cursor id'' (lc_ID c) 64 \<noteq> None then Inl errInvalidCursor
               else (case ParseRFC3339Nano other (lc_Time c) of
                       None \<Rightarrow> Inl errInvalidCursor
                     | Some stamp \<Rightarrow>
                         if kind = ''telemetry'' \<and> Nanosecond stamp mod 1000000 \<noteq> 0 \<or>
                            kind = ''commands'' \<and> Nanosecond stamp mod 1000 \<noteq> 0
                         then Inl errInvalidCursor
                         else Inr (stamp, lc_ID c))))"

subsection \<open>A cursor is read back by the query it was made for\<close>

lemma decode_listCursor:
  assumes "utf8_valid scope" "utf8_valid tm" "utf8_valid uid"
  shows "unmarshal_listCursor sf (marshal_listCursor
    \<lparr>lc_Version = 1, lc_Scope = scope, lc_Time = tm, lc_ID = uid\<rparr>) =
    Some \<lparr>lc_Version = 1, lc_Scope = scope, lc_Time = tm, lc_ID = uid\<rparr>"
proof -
  let ?fs = "[(''v'', ''1'', JNum ''1''), (''scope'', json_quote scope, JStr scope),
      (''time'', json_quote tm, JStr tm), (''id'', json_quote uid, JStr uid)]"
  have "itoa 1 = ''1''" by code_simp
  moreover have "writes 0 (json_object (map (\<lambda>(k, v, j). (k, v)) ?fs)) (JObj ?fs)"
    by (rule writes_object) (use assms in \<open>auto simp: maxNestingDepth_def is_digit_def in_range_def\<close>)
  ultimately have "json_parse (marshal_listCursor
      \<lparr>lc_Version = 1, lc_Scope = scope, lc_Time = tm, lc_ID = uid\<rparr>) = Some (JObj ?fs)"
    by (simp add: marshal_listCursor_def writes_parse)
  moreover have "ParseInt 64 ''1'' = Some 1" by code_simp
  ultimately show ?thesis
    by (simp add: unmarshal_listCursor_def lookup_field_def listCursor_set_def set_int64_def set_string_def)
qed

text \<open>What the source relies on of \<^verbatim>\<open>sha256\<close>: a digest prints as 64 lower-case hexadecimal digits.\<close>

definition hex_digest :: "(string \<Rightarrow> string) \<Rightarrow> bool" where
  "hex_digest sha \<longleftrightarrow> (\<forall>x. length (sha x) = 64 \<and> list_all (\<lambda>c. in_range 48 57 c \<or> in_range 97 102 c) (sha x))"

lemma hex_digest_ascii: "hex_digest sha \<Longrightarrow> ascii (sha x)"
  by (fastforce simp: hex_digest_def ascii_def list_all_iff in_range_def)

lemma json_quote_length: "length (json_quote s) \<le> 6 * length s + 2"
  using quote_body_length [of s] by (simp add: json_quote_def)

lemma marshal_listCursor_length:
  assumes "length scope = 64" "length tm \<le> 30" "length uid \<le> 64"
  shows "length (marshal_listCursor \<lparr>lc_Version = 1, lc_Scope = scope, lc_Time = tm, lc_ID = uid\<rparr>) \<le> 2000"
proof -
  have "itoa 1 = ''1''" by code_simp
  moreover have "length (json_quote ''v'') \<le> 20" "length (json_quote ''scope'') \<le> 40"
    "length (json_quote ''time'') \<le> 40" "length (json_quote ''id'') \<le> 20"
    by (rule order_trans [OF json_quote_length], simp)+
  ultimately show ?thesis
    using assms json_quote_length [of scope] json_quote_length [of tm] json_quote_length [of uid]
    by (simp add: marshal_listCursor_def json_object_def json_field_def)
qed

definition cursor_precision :: "string \<Rightarrow> gtime \<Rightarrow> bool" where
  "cursor_precision kind at \<longleftrightarrow>
     (kind = ''telemetry'' \<longrightarrow> Nanosecond at mod 1000000 = 0) \<and>
     (kind = ''commands'' \<longrightarrow> Nanosecond at mod 1000 = 0)"

lemma cursorScope_cursor [simp]: "cursorScope sha (page\<lparr>page_Cursor := c\<rparr>) kind = cursorScope sha page kind"
  by (simp add: cursorScope_def)

lemma encodePageCursor_length:
  assumes "hex_digest sha" "0 \<le> Year at" "Year at \<le> 9999" "length uid \<le> 64"
  shows "length (encodePageCursor sha page kind at uid) \<le> 4096"
proof -
  have "length (marshal_listCursor \<lparr>lc_Version = 1, lc_Scope = cursorScope sha page kind,
      lc_Time = FormatRFC3339Nano at, lc_ID = uid\<rparr>) \<le> 2000"
    using assms format_ascii [OF assms(2,3)]
    by (intro marshal_listCursor_length) (auto simp: cursorScope_def hex_digest_def)
  then show ?thesis by (simp add: encodePageCursor_def length_b64_encode)
qed

lemma encodePageCursor_not_Nil [simp]: "encodePageCursor sha page kind at uid \<noteq> []"
  by (simp add: encodePageCursor_def marshal_listCursor_def json_object_def)

lemma encodePageCursor_cursor [simp]:
  "encodePageCursor sha (page\<lparr>page_Cursor := c\<rparr>) kind = encodePageCursor sha page kind"
  by (simp add: encodePageCursor_def fun_eq_iff)

lemma NormalizeListRequest_cursor:
  assumes "NormalizeListRequest page0 kind = Inr page" "length c \<le> 4096"
  shows "NormalizeListRequest (page0\<lparr>page_Cursor := c\<rparr>) kind = Inr (page\<lparr>page_Cursor := c\<rparr>)"
proof -
  obtain n where n: "NormalizePageRequest (page_Size page0) (page_Cursor page0) = Inr n"
    using assms(1) by (auto simp: NormalizeListRequest_iff)
  then have n': "NormalizePageRequest (page_Size page0) c = Inr (n\<lparr>page_Cursor := c\<rparr>)"
    using assms(2) by (auto simp: NormalizePageRequest_def Let_def split: if_splits)
  have "list_defaults (page0\<lparr>page_Cursor := c, page_Size := page_Size n\<rparr>) = page\<lparr>page_Cursor := c\<rparr>"
    using assms(1) n by (simp add: NormalizeListRequest_iff list_defaults_def)
  moreover have "list_checks kind (page\<lparr>page_Cursor := c\<rparr>) = list_checks kind page"
    by (simp add: list_checks_def)
  ultimately show ?thesis
    using assms(1) n n' by (auto simp: NormalizeListRequest_iff)
qed

lemma decode_encodePageCursor:
  assumes "hex_digest sha" "0 \<le> Year at" "Year at \<le> 9999" "ValidateStorageField ''cursor id'' uid 64 = None"
  shows "decodePageCursor sha sf other (page\<lparr>page_Cursor := encodePageCursor sha page kind at uid\<rparr>) kind =
    (if cursor_precision kind at then Inr (at, uid) else Inl errInvalidCursor)"
proof -
  let ?scope = "cursorScope sha page kind"
  have scope: "length ?scope = 64" "utf8_valid ?scope"
    using assms(1) hex_digest_ascii ascii_utf8 by (auto simp: cursorScope_def hex_digest_def)
  have fmt: "utf8_valid (FormatRFC3339Nano at)" "length (FormatRFC3339Nano at) \<le> 30"
    using format_ascii [OF assms(2,3)] ascii_utf8 by auto
  have uid: "uid \<noteq> []" "length uid \<le> 64" "utf8_valid uid"
    using assms(4) by (auto simp: ValidateStorageField_def split: if_splits)
  have len: "\<not> 4096 < length (encodePageCursor sha page kind at uid)"
    using encodePageCursor_length [OF assms(1-3) uid(2)] by (simp add: not_less)
  show ?thesis
    using len encodePageCursor_not_Nil [of sha page kind at uid] uid assms(4) decode_listCursor [OF scope(2) fmt(1) uid(3)]
      ParseRFC3339Nano_format [OF assms(2,3)]
    by (auto simp: decodePageCursor_def encodePageCursor_def cursor_precision_def)
qed

text \<open>A cursor that decodes was made for the same query: its scope is the scope of the request.\<close>

lemma decodePageCursor_ok:
  assumes "decodePageCursor sha sf other page kind = Inr (stamp, uid)" "page_Cursor page \<noteq> []"
  shows "cursor_precision kind stamp \<and> ValidateStorageField ''cursor id'' uid 64 = None"
  using assms
  by (auto simp: decodePageCursor_def cursor_precision_def split: if_splits option.splits)

end
