(* ===== verification/Go_Any.thy ===== *)
theory Go_Any
  imports Go_Json_Writer "HOL-Library.Char_ord" "HOL-Library.List_Lexorder"
    "HOL-Library.Product_Lexorder" "HOL-Library.AList"
begin

text \<open>
  \<^verbatim>\<open>json.Unmarshal\<close> into \<^verbatim>\<open>any\<close>: numbers become \<^verbatim>\<open>float64\<close>, objects become maps in which the last of several
  equal keys wins. Values are kept in a canonical form, so that \<^verbatim>\<open>reflect.DeepEqual\<close> is equality.
  The order on strings is Go's, byte by byte.
\<close>

section \<open>Decimal texts as float64\<close>

text \<open>A non-negative double is \<open>n * 2 ^ k\<close> with \<open>n < 2 ^ 53\<close>, \<open>-1074 \<le> k\<close>, and \<open>2 ^ 52 \<le> n\<close> unless \<open>k = -1074\<close>.\<close>

datatype float64 = Float64 (f_neg: bool) (f_mant: nat) (f_exp: int)

definition scaled :: "nat \<Rightarrow> nat \<Rightarrow> int \<Rightarrow> nat \<times> nat" where
  "scaled num den k = (if 0 \<le> k then (num, den * 2 ^ nat k) else (num * 2 ^ nat (- k), den))"

definition half_even :: "nat \<Rightarrow> nat \<Rightarrow> nat" where
  "half_even num den =
     (let q = num div den; r = num mod den in
      if 2 * r < den \<or> 2 * r = den \<and> even q then q else Suc q)"

fun bit_length :: "nat \<Rightarrow> nat" where
  "bit_length n = (if n = 0 then 0 else Suc (bit_length (n div 2)))"

declare bit_length.simps [simp del]

text \<open>Round \<open>num / den\<close> to nearest, ties to even; \<open>None\<close> is overflow.\<close>

definition round64 :: "bool \<Rightarrow> nat \<Rightarrow> nat \<Rightarrow> float64 option" where
  "round64 neg num den =
     (if num = 0 then Some (Float64 False 0 (- 1074))
      else
        let k0 = int (bit_length num) - int (bit_length den) - 53;
            (a, b) = scaled num den k0;
            k = max (- 1074) (if a < b * 2 ^ 53 then k0 else k0 + 1);
            (a, b) = scaled num den k;
            n = half_even a b;
            (n, k) = (if n = 2 ^ 53 then (2 ^ 52, k + 1) else (n, k))
        in if k > 971 then None
           else Some (Float64 (neg \<and> n \<noteq> 0) n (if n = 0 then - 1074 else k)))"

text \<open>A number token: sign, integer part, fraction and exponent.\<close>

definition split_number :: "string \<Rightarrow> bool \<times> string \<times> string \<times> int" where
  "split_number s =
     (let neg = (s \<noteq> [] \<and> hd s = CHR ''-'');
          s = (if neg then tl s else s);
          ip = takeWhile is_digit s;
          s = dropWhile is_digit s;
          (fp, s) = (if s \<noteq> [] \<and> hd s = CHR ''.''
                     then (takeWhile is_digit (tl s), dropWhile is_digit (tl s)) else ([], s));
          e = (case s of
                 c # t \<Rightarrow>
                   if t \<noteq> [] \<and> hd t = CHR ''-'' then - digits_val (tl t)
                   else if t \<noteq> [] \<and> hd t = CHR ''+'' then digits_val (tl t)
                   else digits_val t
               | [] \<Rightarrow> 0)
      in (neg, ip, fp, e))"

definition ParseFloat64 :: "string \<Rightarrow> float64 option" where
  "ParseFloat64 s =
     (let (neg, ip, fp, e) = split_number s;
          m = nat (digits_val (ip @ fp));
          x = e - int (length fp)
      in if 0 \<le> x then round64 neg (m * 10 ^ nat x) 1 else round64 neg m (10 ^ nat (- x)))"

section \<open>Decoded values\<close>

datatype gany = ANil | ABool bool | ANum float64 | AStr string | AArr "gany list" | AMap "(string \<times> gany) list"

definition canonical_map :: "(string \<times> gany) list \<Rightarrow> (string \<times> gany) list" where
  "canonical_map ms = sort_key fst (AList.clearjunk (rev ms))"

text \<open>A number outside the range of \<^verbatim>\<open>float64\<close> decodes to \<^verbatim>\<open>nil\<close>, and \<^verbatim>\<open>Unmarshal\<close> reports an error.\<close>

fun to_any :: "json \<Rightarrow> gany" where
  "to_any JNull = ANil"
| "to_any (JBool b) = ABool b"
| "to_any (JNum n) = (case ParseFloat64 n of Some f \<Rightarrow> ANum f | None \<Rightarrow> ANil)"
| "to_any (JStr s) = AStr s"
| "to_any (JArr vs) = AArr (map to_any vs)"
| "to_any (JObj ms) = AMap (canonical_map (map (\<lambda>(k, _, v). (k, to_any v)) ms))"

fun any_ok :: "json \<Rightarrow> bool" where
  "any_ok (JNum n) \<longleftrightarrow> ParseFloat64 n \<noteq> None"
| "any_ok (JArr vs) \<longleftrightarrow> list_all any_ok vs"
| "any_ok (JObj ms) \<longleftrightarrow> list_all (\<lambda>(_, _, v). any_ok v) ms"
| "any_ok _ \<longleftrightarrow> True"

text \<open>The value and whether the call succeeds; a text that is not JSON leaves the target \<^verbatim>\<open>nil\<close>.\<close>

definition unmarshal_any :: "string \<Rightarrow> gany \<times> bool" where
  "unmarshal_any s = (case json_parse s of None \<Rightarrow> (ANil, False) | Some v \<Rightarrow> (to_any v, any_ok v))"

text \<open>Reference values; the last one is the first integer that a double cannot hold.\<close>

lemma float_samples:
  "ParseFloat64 ''0.5'' = Some (Float64 False 4503599627370496 (- 53))"
  "ParseFloat64 ''-0'' = ParseFloat64 ''0''"
  "ParseFloat64 ''9007199254740993'' = ParseFloat64 ''9007199254740992''"
  by code_simp+

end
