(* ===== verification/Paging_Keyset.thy ===== *)
theory Paging_Keyset
  imports Platform_Paging Go_Any "HOL-Library.Multiset"
begin

text \<open>
  What the keyset listings promise together: following the continuation cursors visits every
  matching row exactly once, in order. The contract between a listing and its caller is the locale
  \<open>keyset_listing\<close>; the stores interpret it for their list operations.
\<close>

section \<open>Rows in page order\<close>

text \<open>\<^verbatim>\<open>ORDER BY key ASC\<close> or \<^verbatim>\<open>DESC\<close>, and the rows strictly after a position.\<close>

definition order_rows :: "bool \<Rightarrow> ('a \<Rightarrow> 'k :: linorder) \<Rightarrow> 'a list \<Rightarrow> 'a list" where
  "order_rows asc key rows = (if asc then sort_key key rows else rev (sort_key key rows))"

definition beyond :: "bool \<Rightarrow> 'k :: linorder \<Rightarrow> 'k \<Rightarrow> bool" where
  "beyond asc pos k \<longleftrightarrow> (if asc then pos < k else k < pos)"

lemma set_order_rows [simp]: "set (order_rows asc key rows) = set rows"
  by (simp add: order_rows_def)

lemma length_order_rows [simp]: "length (order_rows asc key rows) = length rows"
  by (simp add: order_rows_def)

lemma order_rows_filter: "order_rows asc key (filter P rows) = filter P (order_rows asc key rows)"
  by (simp add: order_rows_def filter_sort rev_filter [symmetric])

lemma order_rows_sorted:
  assumes "distinct (map key rows)"
  shows "sorted_wrt (\<lambda>a b. beyond asc (key a) (key b)) (order_rows asc key rows)"
proof -
  have "distinct (map key (sort_key key rows))"
    using assms by (metis distinct_map distinct_sort set_sort)
  then have "sorted_wrt (<) (map key (sort_key key rows))"
    by (simp add: strict_sorted_iff)
  then show ?thesis
    by (auto simp: order_rows_def beyond_def sorted_wrt_map sorted_wrt_rev)
qed

text \<open>The rows beyond the key of one row are the rows listed after it.\<close>

lemma beyond_split:
  assumes "sorted_wrt (\<lambda>a b. beyond asc (key a) (key b)) (pre @ r # post)"
  shows "filter (\<lambda>x. beyond asc (key r) (key x)) (pre @ r # post) = post"
proof -
  have "\<forall>x \<in> set pre. \<not> beyond asc (key r) (key x)" "\<forall>x \<in> set post. beyond asc (key r) (key x)"
    using assms by (auto simp: sorted_wrt_append beyond_def split: if_splits)
  then show ?thesis by (simp add: beyond_def)
qed

text \<open>The order of the rows does not depend on the order in which they were collected.\<close>

lemma order_rows_mset:
  assumes "mset rows = mset rows'" "distinct (map key rows)"
  shows "order_rows asc key rows = order_rows asc key rows'"
proof -
  have "inj_on key (set rows)" using assms(2) by (simp add: distinct_map)
  then have "sort_key key rows = sort_key key rows'"
    using assms(1) by (intro sort_key_inj_key_eq) auto
  then show ?thesis by (simp add: order_rows_def)
qed

text \<open>Positions a scoped cursor can carry.\<close>

definition cursor_key_ok :: "string \<Rightarrow> gtime \<times> string \<Rightarrow> bool" where
  "cursor_key_ok kind k \<longleftrightarrow> 0 \<le> Year (fst k) \<and> Year (fst k) \<le> 9999 \<and> cursor_precision kind (fst k) \<and>
     ValidateStorageField ''cursor id'' (snd k) 64 = None"

lemma cursor_key_ok_id: "cursor_key_ok kind k \<Longrightarrow> length (snd k) \<le> 64"
  by (auto simp: cursor_key_ok_def ValidateStorageField_def split: if_splits)

lemma decode_key:
  assumes "hex_digest sha" "cursor_key_ok kind k"
  shows "decodePageCursor sha sf other (page\<lparr>page_Cursor := encodePageCursor sha page kind (fst k) (snd k)\<rparr>) kind = Inr k"
  using decode_encodePageCursor [OF assms(1), of "fst k" "snd k" sf other page kind] assms(2)
  by (simp add: cursor_key_ok_def)

lemma rows_after:
  assumes "distinct (map key rows)" "order_rows asc key rows = pre @ r # post"
  shows "filter (\<lambda>x. beyond asc (key r) (key x)) (order_rows asc key rows) = post"
  using beyond_split [of asc key pre r post] order_rows_sorted [OF assms(1), of asc] assms(2) by simp

section \<open>The page loop on truncated rows\<close>

text \<open>\<^verbatim>\<open>LIMIT size+1\<close> cuts off nothing that the loop would look at.\<close>

lemma page_loop_take:
  assumes "length out \<le> psize" "psize - length out < n"
  shows "page_loop cost psize cursor used out (take n rows) = page_loop cost psize cursor used out rows"
  using assms
proof (induction rows arbitrary: used out n)
  case (Cons r rows)
  obtain m where n: "n = Suc m" using Cons.prems by (cases n) auto
  have "page_loop cost psize cursor used' (out @ [r]) (take m rows) =
      page_loop cost psize cursor used' (out @ [r]) rows" if "length out < psize" for used'
    using that Cons.prems n by (intro Cons.IH) auto
  then show ?case
    using Cons.prems n by (cases "length out < psize") (auto simp: budget_accept_def)
qed simp

lemma list_page_take: "list_page cost psize cursor (take (Suc psize) rows) = list_page cost psize cursor rows"
  unfolding list_page_def by (rule page_loop_take) auto

lemma list_page_cases:
  assumes "0 < psize" "\<forall>r \<in> set rows. cost r \<le> listContentBytes"
  obtains (Last) "list_page cost psize cursor rows = Inr (rows, [])"
    | (More) page r rest where "list_page cost psize cursor rows = Inr (page @ [r], cursor r)"
        "rows = (page @ [r]) @ rest"
proof (cases "list_page cost psize cursor rows")
  case (Inl e)
  then have "rows \<noteq> []" "listContentBytes < cost (hd rows)"
    using page_loop_err [OF _ assms(1), of cost cursor 0 "[]" rows e] by (auto simp: list_page_def)
  then show thesis using assms(2) by (metis list.set_sel(1) not_less)
next
  case (Inr p)
  obtain page "next" where p: "p = (page, next)" by fastforce
  then obtain rest where rest: "rows = page @ rest"
    "rest = [] \<and> next = [] \<or> rest \<noteq> [] \<and> page \<noteq> [] \<and> next = cursor (last page)"
    using page_loop_ok [of cost psize cursor 0 "[]" rows page "next"] Inr by (auto simp: list_page_def)
  then consider "rest = []" "next = []" | "page \<noteq> []" "next = cursor (last page)" by auto
  then show thesis
  proof cases
    case 2
    then show thesis using Inr p rest by (intro More [of "butlast page" "last page" rest]) auto
  qed (use Inr p rest Last in auto)
qed

section \<open>The listing contract\<close>

text \<open>Follow the cursors from \<open>c\<close>, for at most \<open>fuel\<close> pages.\<close>

fun follow :: "(string \<Rightarrow> ('a list \<times> string) result) \<Rightarrow> nat \<Rightarrow> string \<Rightarrow> 'a list result option" where
  "follow page 0 c = None"
| "follow page (Suc fuel) c =
     (case page c of
        Inl e \<Rightarrow> Some (Inl e)
      | Inr (out, next) \<Rightarrow>
          if next = [] then Some (Inr out)
          else map_option (\<lambda>r. bind_res r (\<lambda>rest. Inr (out @ rest))) (follow page fuel next))"

locale keyset_listing =
  fixes rows :: "'q \<Rightarrow> 'a list"
    and cost :: "'a \<Rightarrow> nat"
    and psize :: "'q \<Rightarrow> nat"
    and cursor :: "'q \<Rightarrow> 'a \<Rightarrow> string"
    and page :: "'q \<Rightarrow> string \<Rightarrow> ('a list \<times> string) result"
    and ok :: "'q \<Rightarrow> bool"
  assumes size_pos: "ok q \<Longrightarrow> 0 < psize q"
    and cursor_not_Nil: "ok q \<Longrightarrow> r \<in> set (rows q) \<Longrightarrow> cursor q r \<noteq> []"
    and first_page: "ok q \<Longrightarrow> page q [] = list_page cost (psize q) (cursor q) (rows q)"
    and next_page: "ok q \<Longrightarrow> rows q = pre @ r # post \<Longrightarrow>
      page q (cursor q r) = list_page cost (psize q) (cursor q) post"
begin

lemma follow_rows:
  assumes "ok q" "\<forall>r \<in> set (rows q). cost r \<le> listContentBytes"
    and "rows q = pre @ post" "page q c = list_page cost (psize q) (cursor q) post" "length post < fuel"
  shows "follow (page q) fuel c = Some (Inr post)"
  using assms(3-5)
proof (induction fuel arbitrary: pre post c)
  case (Suc fuel)
  have small: "\<forall>r \<in> set post. cost r \<le> listContentBytes" using assms(2) Suc.prems(1) by auto
  show ?case
  proof (cases rule: list_page_cases [OF size_pos [OF assms(1)] small, of "cursor q", case_names Last More])
    case Last
    then show ?thesis using Suc.prems by simp
  next
    case (More out r rest)
    have rows: "rows q = (pre @ out) @ r # rest" using Suc.prems More by simp
    have "follow (page q) fuel (cursor q r) = Some (Inr rest)"
      using Suc.IH [of "pre @ out @ [r]" rest "cursor q r"] next_page [OF assms(1) rows] rows More Suc.prems
      by simp
    moreover have "cursor q r \<noteq> []" using cursor_not_Nil [OF assms(1)] rows by simp
    ultimately show ?thesis using Suc.prems More by simp
  qed
qed simp

theorem follow_all:
  assumes "ok q" "\<forall>r \<in> set (rows q). cost r \<le> listContentBytes" "length (rows q) < fuel"
  shows "follow (page q) fuel [] = Some (Inr (rows q))"
  using follow_rows [OF assms(1,2), of "[]" "rows q" "[]"] first_page [OF assms(1)] assms(3) by simp

end

section \<open>Listings in order of time\<close>

text \<open>
  The command and telemetry listings of both stores have one shape: normalise the request, decode
  the scoped cursor, and list the matching rows beyond it in the order of time and identifier.
\<close>

type_synonym ('a) timed_op =
  "(string \<Rightarrow> string) \<Rightarrow> (nat \<Rightarrow> nat) \<Rightarrow> (string \<Rightarrow> gtime option) \<Rightarrow> PageRequest \<Rightarrow> 'a"

definition rows_beyond :: "PageRequest \<Rightarrow> ('a \<Rightarrow> gtime \<times> string) \<Rightarrow> gtime \<times> string \<Rightarrow> 'a list \<Rightarrow> 'a list" where
  "rows_beyond page key k rows =
     (let asc = (page_Sort page = ''asc''); sorted = order_rows asc key rows
      in if page_Cursor page = [] then sorted else filter (\<lambda>r. beyond asc k (key r)) sorted)"

definition timed_page :: "(string \<Rightarrow> string) \<Rightarrow> PageRequest \<Rightarrow> string \<Rightarrow> ('a \<Rightarrow> gtime \<times> string) \<Rightarrow> ('a \<Rightarrow> nat) \<Rightarrow> 'a list \<Rightarrow>
    ('a list \<times> string) result" where
  "timed_page sha page kind key cost rows =
     list_page cost (nat (page_Size page)) (\<lambda>r. encodePageCursor sha page kind (fst (key r)) (snd (key r))) rows"

lemma timed_page_cursor [simp]:
  "timed_page sha (page\<lparr>page_Cursor := c\<rparr>) kind key cost rows = timed_page sha page kind key cost rows"
  by (simp add: timed_page_def)

locale timed_listing =
  fixes kind :: string
    and collect :: "'c \<Rightarrow> PageRequest \<Rightarrow> 'a list"
    and key :: "'a \<Rightarrow> gtime \<times> string"
    and cost :: "'a \<Rightarrow> nat"
    and listing :: "('c \<Rightarrow> ('a list \<times> string) result) timed_op"
    and ready :: "'c \<Rightarrow> bool"
  assumes collect_cursor: "collect c (page\<lparr>page_Cursor := x\<rparr>) = collect c page"
    and listing_eq: "ready c \<Longrightarrow> NormalizeListRequest page0 kind = Inr page \<Longrightarrow>
      decodePageCursor sha sf other page kind = Inr k \<Longrightarrow> (page_Cursor page = [] \<or> cursor_key_ok kind k \<and> \<not> IsZero (fst k)) \<Longrightarrow>
      listing sha sf other page0 c =
        timed_page sha page kind key cost (rows_beyond page key k (collect c page))"
begin

definition norm :: "PageRequest \<Rightarrow> PageRequest" where
  "norm page0 = (case NormalizeListRequest (page0\<lparr>page_Cursor := []\<rparr>) kind of Inr p \<Rightarrow> p | Inl _ \<Rightarrow> zero_page)"

text \<open>A query: the parameters of the model, the request and the store.\<close>

definition ok :: "(string \<Rightarrow> string) \<times> (nat \<Rightarrow> nat) \<times> (string \<Rightarrow> gtime option) \<times> PageRequest \<times> 'c \<Rightarrow> bool" where
  "ok = (\<lambda>(sha, sf, other, page0, c). hex_digest sha \<and> ready c \<and>
     is_ok (NormalizeListRequest (page0\<lparr>page_Cursor := []\<rparr>) kind) \<and>
     distinct (map key (collect c (norm page0))) \<and>
     (\<forall>r \<in> set (collect c (norm page0)). cursor_key_ok kind (key r) \<and> \<not> IsZero (fst (key r))))"

definition all_rows :: "(string \<Rightarrow> string) \<times> (nat \<Rightarrow> nat) \<times> (string \<Rightarrow> gtime option) \<times> PageRequest \<times> 'c \<Rightarrow> 'a list" where
  "all_rows = (\<lambda>(sha, sf, other, page0, c).
     order_rows (page_Sort (norm page0) = ''asc'') key (collect c (norm page0)))"

definition page_at :: "(string \<Rightarrow> string) \<times> (nat \<Rightarrow> nat) \<times> (string \<Rightarrow> gtime option) \<times> PageRequest \<times> 'c \<Rightarrow> string \<Rightarrow>
    ('a list \<times> string) result" where
  "page_at = (\<lambda>(sha, sf, other, page0, c) cur. listing sha sf other (page0\<lparr>page_Cursor := cur\<rparr>) c)"

lemma page_at_cursor:
  assumes q: "ok (sha, sf, other, page0, c)" and len: "length cur \<le> 4096"
    and dec: "decodePageCursor sha sf other ((norm page0)\<lparr>page_Cursor := cur\<rparr>) kind = Inr k"
    and key: "cur = [] \<or> cursor_key_ok kind k \<and> \<not> IsZero (fst k)"
  shows "page_at (sha, sf, other, page0, c) cur =
    timed_page sha (norm page0) kind key cost (rows_beyond ((norm page0)\<lparr>page_Cursor := cur\<rparr>) key k (collect c (norm page0)))"
proof -
  obtain p where p: "NormalizeListRequest (page0\<lparr>page_Cursor := []\<rparr>) kind = Inr p"
    using q by (auto simp: ok_def is_ok_def split: sum.splits)
  then have np: "norm page0 = p" by (simp add: norm_def)
  have "NormalizeListRequest (page0\<lparr>page_Cursor := cur\<rparr>) kind = Inr (p\<lparr>page_Cursor := cur\<rparr>)"
    using NormalizeListRequest_cursor [OF p len] by simp
  from listing_eq [OF _ this dec [unfolded np]] show ?thesis
    using q key by (simp add: page_at_def np collect_cursor ok_def)
qed

end

sublocale timed_listing \<subseteq> keyset: keyset_listing all_rows cost
  "\<lambda>(sha, sf, other, page0, c). nat (page_Size (norm page0))"
  "\<lambda>(sha, sf, other, page0, c) r. encodePageCursor sha (norm page0) kind (fst (key r)) (snd (key r))"
  page_at ok
proof (unfold_locales, goal_cases)
  case (1 q)
  then show ?case
    using NormalizeListRequest_Inr(1)
    by (fastforce simp: ok_def norm_def is_ok_def split: sum.splits prod.splits)
next
  case (2 q r)
  then show ?case by (auto split: prod.splits)
next
  case (3 q)
  obtain sha sf other page0 c where q: "q = (sha, sf, other, page0, c)" by (cases q)
  have "decodePageCursor sha sf other ((norm page0)\<lparr>page_Cursor := []\<rparr>) kind = Inr (zero_time, [])"
    by (simp add: decodePageCursor_def)
  from page_at_cursor [OF 3 [unfolded q] _ this] show ?case
    by (simp add: q timed_page_def rows_beyond_def all_rows_def Let_def)
next
  case (4 q pre r post)
  obtain sha sf other page0 c where q: "q = (sha, sf, other, page0, c)" by (cases q)
  let ?p = "norm page0" and ?rows = "collect c (norm page0)"
  let ?asc = "page_Sort ?p = ''asc''"
  have ok: "hex_digest sha" "distinct (map key ?rows)" and sorted: "order_rows ?asc key ?rows = pre @ r # post"
    using 4 by (auto simp: q ok_def all_rows_def)
  have "r \<in> set ?rows" using sorted set_order_rows [of ?asc key ?rows] by auto
  then have k: "cursor_key_ok kind (key r)" "\<not> IsZero (fst (key r))" using 4(1) by (auto simp: q ok_def)
  let ?cur = "encodePageCursor sha ?p kind (fst (key r)) (snd (key r))"
  have "length ?cur \<le> 4096"
    using k cursor_key_ok_id [OF k(1)] by (intro encodePageCursor_length [OF ok(1)]) (auto simp: cursor_key_ok_def)
  from page_at_cursor [OF 4(1) [unfolded q] this decode_key [OF ok(1) k(1)]] k
  show ?case using rows_after [OF ok(2) sorted] by (simp add: q timed_page_def rows_beyond_def Let_def)
qed

end
