(* ===== verification/Command_Contract.thy ===== *)
theory Command_Contract
  imports Platform_Domain
begin

text \<open>
  What the services rely on of any command store (the interfaces \<^verbatim>\<open>CommandCreator\<close> and
  \<^verbatim>\<open>CommandResultStore\<close> of \<^verbatim>\<open>interfaces.go\<close>): the locale \<open>command_store\<close> has the two operations as
  parameters and their contract as assumptions. The consequences for whole histories are proved
  here once; the in-memory store and the PostgreSQL store both interpret it.
\<close>

text \<open>What identifies a command and what a client may observe of it, timestamps left out.\<close>

record command_view =
  cv_Tenant :: string
  cv_Device :: string
  cv_Payload :: string
  cv_Status :: CommandStatus

datatype ('e, 'r) command_call =
    CallCreate 'e string string string string
  | CallAck 'e string string string 'r

locale command_store =
  fixes create :: "'e \<Rightarrow> string \<Rightarrow> string \<Rightarrow> string \<Rightarrow> string \<Rightarrow> 's \<Rightarrow> Command result \<times> 's"
    and ack :: "'e \<Rightarrow> string \<Rightarrow> string \<Rightarrow> string \<Rightarrow> CommandResult \<Rightarrow> 's \<Rightarrow> Command result \<times> 's"
    and view :: "'s \<Rightarrow> string \<Rightarrow> command_view option"
    and inv :: "'s \<Rightarrow> bool"
  assumes create_inv: "inv s \<Longrightarrow> inv (snd (create e t d k p s))"
    and ack_inv: "inv s \<Longrightarrow> inv (snd (ack e uid t d r s))"
    and create_ok: "inv s \<Longrightarrow> create e t d k p s = (Inr c, s') \<Longrightarrow>
      \<exists>v. view s' (cmd_ID c) = Some v \<and> cv_Tenant v = t \<and> cv_Device v = d \<and> cv_Status v = cmd_Status c"
    and create_frame: "inv s \<Longrightarrow> view s uid = Some v \<Longrightarrow> view (snd (create e t d k p s)) uid = Some v"
    and ack_ok: "inv s \<Longrightarrow> ack e uid t d r s = (Inr c, s') \<Longrightarrow>
      \<exists>v. view s' uid = Some v \<and> cv_Tenant v = t \<and> cv_Device v = d \<and> terminal (cv_Status v) \<and>
        cv_Status v = cmd_Status c"
    and ack_frame: "inv s \<Longrightarrow> view s i = Some v \<Longrightarrow>
      \<exists>st. view (snd (ack e uid t d r s)) i = Some (v\<lparr>cv_Status := st\<rparr>) \<and>
        (st \<noteq> cv_Status v \<longrightarrow> i = uid \<and> t = cv_Tenant v \<and> d = cv_Device v \<and> \<not> terminal (cv_Status v) \<and> terminal st)"
begin

primrec call :: "('e, CommandResult) command_call \<Rightarrow> 's \<Rightarrow> 's" where
  "call (CallCreate e t d k p) s = snd (create e t d k p s)"
| "call (CallAck e uid t d r) s = snd (ack e uid t d r s)"

primrec calls :: "('e, CommandResult) command_call list \<Rightarrow> 's \<Rightarrow> 's" where
  "calls [] s = s"
| "calls (c # cs) s = calls cs (call c s)"

lemma call_inv: "inv s \<Longrightarrow> inv (call c s)"
  by (cases c) (auto intro: create_inv ack_inv)

lemma calls_inv: "inv s \<Longrightarrow> inv (calls cs s)"
  by (induction cs arbitrary: s) (auto intro: call_inv)

lemma call_frame:
  assumes "inv s" "view s i = Some v"
  shows "\<exists>st. view (call c s) i = Some (v\<lparr>cv_Status := st\<rparr>) \<and> (terminal (cv_Status v) \<longrightarrow> st = cv_Status v)"
proof (cases c)
  case (CallCreate e t d k p)
  then show ?thesis
    using create_frame [OF assms] by (intro exI [of _ "cv_Status v"]) simp
next
  case (CallAck e uid t d r)
  then show ?thesis using ack_frame [OF assms, of e uid t d r] by auto
qed

text \<open>No sequence of calls removes a command, moves it to another device, or changes a final status.\<close>

lemma calls_frame:
  assumes "inv s" "view s i = Some v"
  shows "\<exists>st. view (calls cs s) i = Some (v\<lparr>cv_Status := st\<rparr>) \<and> (terminal (cv_Status v) \<longrightarrow> st = cv_Status v)"
  using assms
proof (induction cs arbitrary: s v)
  case Nil
  then show ?case by (intro exI [of _ "cv_Status v"]) simp
next
  case (Cons c cs)
  obtain st where st: "view (call c s) i = Some (v\<lparr>cv_Status := st\<rparr>)" "terminal (cv_Status v) \<Longrightarrow> st = cv_Status v"
    using call_frame [OF Cons.prems] by blast
  obtain st' where "view (calls cs (call c s)) i = Some (v\<lparr>cv_Status := st\<rparr>\<lparr>cv_Status := st'\<rparr>)"
    "terminal st \<longrightarrow> st' = st"
    using Cons.IH [OF call_inv [OF Cons.prems(1)] st(1)] by auto
  then show ?case using st(2) by (intro exI [of _ st']) auto
qed

text \<open>An acknowledged command keeps its outcome: the first terminal result wins.\<close>

lemma first_result_wins:
  assumes "inv s" "ack e uid t d r s = (Inr c, s')"
  shows "\<exists>v. view (calls cs s') uid = Some v \<and> cv_Status v = cmd_Status c \<and> terminal (cv_Status v)"
proof -
  obtain v where v: "view s' uid = Some v" "terminal (cv_Status v)" "cv_Status v = cmd_Status c"
    using ack_ok [OF assms] by blast
  have "inv s'" using ack_inv [OF assms(1), of e uid t d r] assms(2) by simp
  from calls_frame [OF this v(1), of cs] show ?thesis using v by auto
qed

end

end
