(* ===== verification/Memory_Store.thy ===== *)
theory Memory_Store
  imports Paging_Keyset Command_Contract
begin

text \<open>
  The in-memory repository, \<^verbatim>\<open>internal/platform/memory_store.go\<close> and \<^verbatim>\<open>memory_pages.go\<close>. A Go map is an
  association list with distinct keys; a loop over the map runs in list order, and the lemmas show
  that the results do not depend on that order. Each method holds the lock throughout, so it is one
  atomic step on the state. \<open>cx\<close> is \<^verbatim>\<open>ctx.Err()\<close>; \<open>now\<close> is what \<^verbatim>\<open>time.Now().UTC()\<close> returns.
\<close>

record memoryStore =
  ms_ttl :: duration
  ms_tenants :: "(string \<times> Tenant) list"
  ms_devices :: "(string \<times> Device) list"
  ms_statuses :: "(string \<times> DeviceStatus) list"
  ms_telemetry :: "(string \<times> TelemetryRecord list) list"
  ms_commandKeys :: "(string \<times> string) list"
  ms_commands :: "(string \<times> Command) list"
  ms_commandSeq :: int

definition newMemoryStore :: "duration \<Rightarrow> memoryStore" where
  "newMemoryStore ttl = \<lparr>ms_ttl = ttl, ms_tenants = [], ms_devices = [], ms_statuses = [],
     ms_telemetry = [], ms_commandKeys = [], ms_commands = [], ms_commandSeq = 0\<rparr>"

section \<open>Tenants and devices\<close>

definition mem_CreateTenant :: "Tenant \<Rightarrow> memoryStore \<Rightarrow> Tenant result \<times> memoryStore" where
  "mem_CreateTenant t s =
     (case ValidateTenantName (ten_Name t) of
        Some err \<Rightarrow> (Inl err, s)
      | None \<Rightarrow>
          if \<not> IsValidTenantID (ten_ID t) then (Inl [ErrInvalidTopicPart], s)
          else if map_of (ms_tenants s) (ten_ID t) \<noteq> None then (Inl [ErrAlreadyExists], s)
          else (Inr t, s\<lparr>ms_tenants := AList.update (ten_ID t) t (ms_tenants s)\<rparr>))"

definition mem_ListTenants :: "memoryStore \<Rightarrow> Tenant list" where
  "mem_ListTenants s = map snd (ms_tenants s)"

definition mem_CreateDevice :: "gtime \<Rightarrow> Device \<Rightarrow> memoryStore \<Rightarrow> Device result \<times> memoryStore" where
  "mem_CreateDevice now d s =
     (case ValidateProductID (dev_ProductID d) of
        Some err \<Rightarrow> (Inl err, s)
      | None \<Rightarrow>
     (case ValidateDeviceSecret (dev_Secret d) of
        Some err \<Rightarrow> (Inl err, s)
      | None \<Rightarrow>
          if \<not> IsValidTenantID (dev_TenantID d) \<or> \<not> IsValidTopicPart (dev_DeviceID d)
          then (Inl [ErrInvalidTopicPart], s)
          else if map_of (ms_tenants s) (dev_TenantID d) = None then (Inl [ErrNotFound], s)
          else
            let key = deviceKey (dev_TenantID d) (dev_DeviceID d) in
            if map_of (ms_devices s) key \<noteq> None then (Inl [ErrAlreadyExists], s)
            else
              let d = d\<lparr>dev_CreatedAt := now\<rparr> in
              (Inr d, s\<lparr>ms_devices := AList.update key d (ms_devices s),
                        ms_statuses := AList.update key
                          \<lparr>ds_TenantID = dev_TenantID d, ds_DeviceID = dev_DeviceID d, ds_Online = False,
                           ds_LastSeenAt = zero_time\<rparr> (ms_statuses s)\<rparr>)))"

definition mem_ListDevices :: "memoryStore \<Rightarrow> Device list" where
  "mem_ListDevices s = map snd (ms_devices s)"

definition mem_GetDevice :: "string \<Rightarrow> string \<Rightarrow> memoryStore \<Rightarrow> Device option" where
  "mem_GetDevice tenantID deviceID s = map_of (ms_devices s) (deviceKey tenantID deviceID)"

section \<open>Telemetry\<close>

definition mem_RestoreTelemetryContext :: "gerror option \<Rightarrow> TelemetryRecord \<Rightarrow> memoryStore \<Rightarrow>
    TelemetryRecord result \<times> memoryStore" where
  "mem_RestoreTelemetryContext cx rec s =
     (case cx of Some err \<Rightarrow> (Inl err, s) | None \<Rightarrow>
     (case ValidateTelemetryPayload (rec_Payload rec) of Some err \<Rightarrow> (Inl err, s) | None \<Rightarrow>
        if IsZero (rec_ReceivedAt rec) then (Inl [ErrInvalidEnvelope], s)
        else
          let key = deviceKey (rec_TenantID rec) (rec_DeviceID rec) in
          if map_of (ms_devices s) key = None then (Inl [ErrNotFound], s)
          else
            let rows = (case map_of (ms_telemetry s) key of None \<Rightarrow> [] | Some rs \<Rightarrow> rs);
                s = s\<lparr>ms_telemetry := AList.update key (rows @ [rec]) (ms_telemetry s)\<rparr>;
                seen = (case map_of (ms_statuses s) key of None \<Rightarrow> zero_time | Some st \<Rightarrow> ds_LastSeenAt st)
            in (Inr rec,
                if IsZero seen \<or> seen < rec_ReceivedAt rec
                then s\<lparr>ms_statuses := AList.update key
                          \<lparr>ds_TenantID = rec_TenantID rec, ds_DeviceID = rec_DeviceID rec, ds_Online = True,
                           ds_LastSeenAt = rec_ReceivedAt rec\<rparr> (ms_statuses s)\<rparr>
                else s)))"

definition record_of_envelope :: "gtime \<Rightarrow> Envelope \<Rightarrow> TelemetryRecord" where
  "record_of_envelope now env = \<lparr>rec_MsgID = env_MsgID env, rec_TenantID = env_TenantID env,
     rec_DeviceID = env_DeviceID env, rec_Ts = env_Ts env, rec_Type = env_Type env,
     rec_Version = env_Version env, rec_Payload = env_Payload env, rec_TDengineWritten = False,
     rec_ReceivedAt = now\<rparr>"

definition mem_RecordTelemetry :: "gtime \<Rightarrow> Envelope \<Rightarrow> memoryStore \<Rightarrow> TelemetryRecord result \<times> memoryStore" where
  "mem_RecordTelemetry now env s = mem_RestoreTelemetryContext None (record_of_envelope now env) s"

definition mem_ListTelemetry :: "string \<Rightarrow> string \<Rightarrow> memoryStore \<Rightarrow> TelemetryRecord list" where
  "mem_ListTelemetry tenantID deviceID s =
     (case map_of (ms_telemetry s) (deviceKey tenantID deviceID) of None \<Rightarrow> [] | Some rs \<Rightarrow> rs)"

definition mem_GetDeviceStatus :: "gtime \<Rightarrow> string \<Rightarrow> string \<Rightarrow> memoryStore \<Rightarrow> DeviceStatus option" where
  "mem_GetDeviceStatus now tenantID deviceID s =
     map_option (\<lambda>st.
       if \<not> IsZero (ds_LastSeenAt st) \<and> time_Sub now (ds_LastSeenAt st) > ms_ttl s
       then st\<lparr>ds_Online := False\<rparr> else st)
       (map_of (ms_statuses s) (deviceKey tenantID deviceID))"

section \<open>Commands\<close>

definition mem_createCommand :: "gtime \<Rightarrow> gtime \<Rightarrow> string \<Rightarrow> string \<Rightarrow> string \<Rightarrow> memoryStore \<Rightarrow>
    Command result \<times> memoryStore" where
  "mem_createCommand now now' tenantID deviceID payload s =
     (if map_of (ms_devices s) (deviceKey tenantID deviceID) = None then (Inl [ErrNotFound], s)
      else
        let s = s\<lparr>ms_commandSeq := ms_commandSeq s + 1\<rparr>;
            uid = ''cmd-'' @ itoa (ms_commandSeq s);
            cmd = \<lparr>cmd_ID = uid, cmd_TenantID = tenantID, cmd_DeviceID = deviceID,
                   cmd_Status = CommandStatusCreated, cmd_Payload = payload, cmd_CreatedAt = now,
                   cmd_UpdatedAt = now, cmd_DispatchAttempts = 0, cmd_DeadlineAt = zero_time,
                   cmd_Result = None\<rparr>
        in case AdvanceCommandStatus (cmd_Status cmd) CommandEventPublished of
             Inl err \<Rightarrow> (Inl err, s)
           | Inr next \<Rightarrow>
               let cmd = cmd\<lparr>cmd_Status := next, cmd_UpdatedAt := now'\<rparr> in
               (Inr cmd, s\<lparr>ms_commands := AList.update uid cmd (ms_commands s)\<rparr>))"

definition mem_CreateCommandWithKey :: "gerror option \<Rightarrow> gtime \<Rightarrow> gtime \<Rightarrow> string \<Rightarrow> string \<Rightarrow> string \<Rightarrow>
    string \<Rightarrow> memoryStore \<Rightarrow> Command result \<times> memoryStore" where
  "mem_CreateCommandWithKey cx now now' tenantID deviceID key payload s =
     (case ValidateCommandInput tenantID deviceID payload of Some err \<Rightarrow> (Inl err, s) | None \<Rightarrow>
     (case cx of Some err \<Rightarrow> (Inl err, s) | None \<Rightarrow>
     (case ValidateIdempotencyKey key of Some err \<Rightarrow> (Inl err, s) | None \<Rightarrow>
        let payload = (if payload = [] then ''{}'' else payload);
            (value, ok) = unmarshal_any payload
        in if \<not> ok then (Inl [ErrOpaque ''json''], s)
           else
             case (if key = [] then None
                   else find (\<lambda>c. cmd_TenantID c = tenantID \<and> map_of (ms_commandKeys s) (cmd_ID c) = Some key)
                          (map snd (ms_commands s))) of
               Some cmd \<Rightarrow>
                 if cmd_DeviceID cmd \<noteq> deviceID \<or> fst (unmarshal_any (cmd_Payload cmd)) \<noteq> value
                 then (Inl [ErrIdempotencyConflict], s) else (Inr cmd, s)
             | None \<Rightarrow>
                 (case mem_createCommand now now' tenantID deviceID payload s of
                    (Inl err, s) \<Rightarrow> (Inl err, s)
                  | (Inr cmd, s) \<Rightarrow>
                      (Inr cmd, if key = [] then s
                                else s\<lparr>ms_commandKeys := AList.update (cmd_ID cmd) key (ms_commandKeys s)\<rparr>)))))"

definition mem_CreateCommand :: "gtime \<Rightarrow> gtime \<Rightarrow> string \<Rightarrow> string \<Rightarrow> string \<Rightarrow> memoryStore \<Rightarrow>
    Command result \<times> memoryStore" where
  "mem_CreateCommand now now' tenantID deviceID payload =
     mem_CreateCommandWithKey None now now' tenantID deviceID [] payload"

text \<open>\<^verbatim>\<open>commandAlreadyDelivered\<close> of \<^verbatim>\<open>worker.go\<close>.\<close>

definition commandAlreadyDelivered :: "CommandStatus \<Rightarrow> bool" where
  "commandAlreadyDelivered status \<longleftrightarrow>
     status \<in> {CommandStatusSent, CommandStatusAcked, CommandStatusTimeout, CommandStatusFailed}"

text \<open>Two results are the same when their JSON decodes to the same value.\<close>

definition same_result :: "CommandResult \<Rightarrow> CommandResult \<Rightarrow> bool" where
  "same_result a b \<longleftrightarrow>
     (let enc = (\<lambda>r. case marshal_result r of None \<Rightarrow> [] | Some t \<Rightarrow> t) in
      fst (unmarshal_any (enc a)) = fst (unmarshal_any (enc b)))"

definition mem_AckCommandResultContext :: "gerror option \<Rightarrow> gtime \<Rightarrow> string \<Rightarrow> string \<Rightarrow> string \<Rightarrow>
    CommandResult \<Rightarrow> memoryStore \<Rightarrow> Command result \<times> memoryStore" where
  "mem_AckCommandResultContext cx now uid tenantID deviceID input s =
     (case cx of Some err \<Rightarrow> (Inl err, s) | None \<Rightarrow>
     (case ValidateDeviceIdentity tenantID deviceID of Some err \<Rightarrow> (Inl err, s) | None \<Rightarrow>
     (case ValidateCommandID uid of Some err \<Rightarrow> (Inl err, s) | None \<Rightarrow>
     (case NormalizeCommandResult input of Inl err \<Rightarrow> (Inl err, s) | Inr result \<Rightarrow>
     (case map_of (ms_commands s) uid of None \<Rightarrow> (Inl [ErrNotFound], s) | Some cmd \<Rightarrow>
        if cmd_TenantID cmd \<noteq> tenantID \<or> cmd_DeviceID cmd \<noteq> deviceID then (Inl [ErrNotFound], s)
        else if commandAlreadyDelivered (cmd_Status cmd) \<and> cmd_Status cmd \<noteq> CommandStatusSent then
          (case cmd_Result cmd of
             None \<Rightarrow> (Inr cmd, s)
           | Some r \<Rightarrow> if same_result r result then (Inr cmd, s) else (Inl [ErrAcknowledgementConflict], s))
        else
          (case AdvanceCommandStatus (cmd_Status cmd) (event_of_status (res_Status result)) of
             Inl err \<Rightarrow> (Inl err, s)
           | Inr next \<Rightarrow>
               let cmd = cmd\<lparr>cmd_Status := next, cmd_UpdatedAt := now, cmd_Result := Some result\<rparr> in
               (Inr cmd, s\<lparr>ms_commands := AList.update uid cmd (ms_commands s)\<rparr>)))))))"

definition mem_AckCommand :: "gtime \<Rightarrow> string \<Rightarrow> string \<Rightarrow> string \<Rightarrow> memoryStore \<Rightarrow> Command result \<times> memoryStore" where
  "mem_AckCommand now uid tenantID deviceID =
     mem_AckCommandResultContext None now uid tenantID deviceID
       \<lparr>res_Status = CommandStatusAcked, res_ErrorCode = [], res_Payload = []\<rparr>"

definition mem_ListCommands :: "memoryStore \<Rightarrow> Command list" where
  "mem_ListCommands s = map snd (ms_commands s)"

definition mem_GetCommand :: "string \<Rightarrow> memoryStore \<Rightarrow> Command option" where
  "mem_GetCommand uid s = map_of (ms_commands s) uid"

section \<open>Pages\<close>

text \<open>\<^verbatim>\<open>sort.Slice\<close> with the comparison \<open>less\<close> of \<^verbatim>\<open>memoryPage\<close> is the order of \<open>order_rows\<close>.\<close>

definition mem_ListDevicesPageContext :: "gerror option \<Rightarrow> PageRequest \<Rightarrow> memoryStore \<Rightarrow>
    (Device list \<times> string) result" where
  "mem_ListDevicesPageContext cx page s =
     guard_err cx
     (bind_res (NormalizeListRequest page ''devices'') (\<lambda>page.
      case decodeDeviceCursor (page_Cursor page) of
        Inl _ \<Rightarrow> Inl errInvalidCursor
      | Inr (tenant, after) \<Rightarrow>
          if tenant \<noteq> [] \<and> tenant \<noteq> page_TenantID page then Inl errInvalidCursor
          else
            let rows = map (\<lambda>d. d\<lparr>dev_Secret := []\<rparr>)
                         (filter (\<lambda>d. dev_TenantID d = page_TenantID page \<and> after < dev_DeviceID d) (mem_ListDevices s))
            in list_page deviceListBytes (nat (page_Size page))
                 (\<lambda>d. encodeDeviceCursor (dev_TenantID d) (dev_DeviceID d))
                 (order_rows True dev_DeviceID rows)))"

definition memoryPage :: "(string \<Rightarrow> string) \<Rightarrow> (nat \<Rightarrow> nat) \<Rightarrow> (string \<Rightarrow> gtime option) \<Rightarrow> PageRequest \<Rightarrow> string \<Rightarrow>
    'a list \<Rightarrow> ('a \<Rightarrow> gtime \<times> string) \<Rightarrow> ('a \<Rightarrow> nat) \<Rightarrow> ('a list \<times> string) result" where
  "memoryPage sha sf other page kind rows key psize =
     bind_res (decodePageCursor sha sf other page kind) (\<lambda>(at, uid).
       let asc = (page_Sort page = ''asc'');
           rows = order_rows asc key rows;
           skip = (\<lambda>r. page_Cursor page \<noteq> [] \<and>
                     (page_Sort page = ''asc'' \<and> \<not> (at, uid) < key r \<or> page_Sort page = ''desc'' \<and> \<not> key r < (at, uid)))
       in list_page psize (nat (page_Size page))
            (\<lambda>r. encodePageCursor sha page kind (fst (key r)) (snd (key r)))
            (filter (\<lambda>r. \<not> skip r) rows))"

definition command_matches :: "PageRequest \<Rightarrow> Command \<Rightarrow> bool" where
  "command_matches page c \<longleftrightarrow>
     \<not> (cmd_TenantID c \<noteq> page_TenantID page \<or>
        page_DeviceID page \<noteq> [] \<and> cmd_DeviceID c \<noteq> page_DeviceID page \<or>
        page_Status page \<noteq> [] \<and> status_string (cmd_Status c) \<noteq> page_Status page \<or>
        page_HasStartTime page \<and> cmd_CreatedAt c < page_StartTime page \<or>
        page_HasEndTime page \<and> \<not> cmd_CreatedAt c < page_EndTime page)"

definition command_key :: "Command \<Rightarrow> gtime \<times> string" where
  "command_key c = (cmd_CreatedAt c, cmd_ID c)"

definition mem_ListCommandsPageContext :: "(string \<Rightarrow> string) \<Rightarrow> (nat \<Rightarrow> nat) \<Rightarrow> (string \<Rightarrow> gtime option) \<Rightarrow>
    gerror option \<Rightarrow> PageRequest \<Rightarrow> memoryStore \<Rightarrow> (Command list \<times> string) result" where
  "mem_ListCommandsPageContext sha sf other cx page s =
     guard_err cx
     (bind_res (NormalizeListRequest page ''commands'') (\<lambda>page.
      memoryPage sha sf other page ''commands'' (filter (command_matches page) (mem_ListCommands s))
        command_key commandListBytes))"

definition telemetry_matches :: "PageRequest \<Rightarrow> TelemetryRecord \<Rightarrow> bool" where
  "telemetry_matches page r \<longleftrightarrow>
     \<not> (page_Type page \<noteq> [] \<and> rec_Type r \<noteq> page_Type page \<or>
        page_HasStartTime page \<and> fromUnixMilli (rec_Ts r) < page_StartTime page \<or>
        page_HasEndTime page \<and> \<not> fromUnixMilli (rec_Ts r) < page_EndTime page)"

definition telemetry_key :: "TelemetryRecord \<Rightarrow> gtime \<times> string" where
  "telemetry_key r = (fromUnixMilli (rec_Ts r), rec_MsgID r)"

definition mem_ListTelemetryPageContext :: "(string \<Rightarrow> string) \<Rightarrow> (nat \<Rightarrow> nat) \<Rightarrow> (string \<Rightarrow> gtime option) \<Rightarrow>
    gerror option \<Rightarrow> PageRequest \<Rightarrow> memoryStore \<Rightarrow> (TelemetryRecord list \<times> string) result" where
  "mem_ListTelemetryPageContext sha sf other cx page s =
     guard_err cx
     (bind_res (NormalizeListRequest page ''telemetry'') (\<lambda>page.
      memoryPage sha sf other page ''telemetry''
        (filter (telemetry_matches page) (mem_ListTelemetry (page_TenantID page) (page_DeviceID page) s))
        telemetry_key telemetryListBytes))"

section \<open>The invariant\<close>

definition mem_uid :: "int \<Rightarrow> string" where
  "mem_uid n = ''cmd-'' @ itoa n"

definition registry_ok :: "memoryStore \<Rightarrow> bool" where
  "registry_ok s \<longleftrightarrow>
     distinct (map fst (ms_tenants s)) \<and> distinct (map fst (ms_devices s)) \<and>
     distinct (map fst (ms_statuses s)) \<and>
     (\<forall>(k, t) \<in> set (ms_tenants s). ten_ID t = k \<and> IsValidTenantID k) \<and>
     (\<forall>(k, d) \<in> set (ms_devices s). k = deviceKey (dev_TenantID d) (dev_DeviceID d) \<and>
        IsValidTenantID (dev_TenantID d) \<and> IsValidTopicPart (dev_DeviceID d) \<and>
        ValidateProductID (dev_ProductID d) = None \<and> dev_TenantID d \<in> fst ` set (ms_tenants s)) \<and>
     fst ` set (ms_statuses s) = fst ` set (ms_devices s)"

definition command_ok :: "int \<Rightarrow> string set \<Rightarrow> string \<times> Command \<Rightarrow> bool" where
  "command_ok seq devices = (\<lambda>(k, c). cmd_ID c = k \<and> (\<exists>n. 1 \<le> n \<and> n \<le> seq \<and> k = mem_uid n) \<and>
     deviceKey (cmd_TenantID c) (cmd_DeviceID c) \<in> devices)"

definition same_key :: "(string \<times> string) list \<Rightarrow> string \<times> Command \<Rightarrow> string \<times> Command \<Rightarrow> bool" where
  "same_key keys = (\<lambda>(k, c) (k', c'). cmd_TenantID c = cmd_TenantID c' \<and> map_of keys k \<noteq> None \<and>
     map_of keys k = map_of keys k')"

text \<open>Commands have fresh identifiers, belong to registered devices, and a tenant uses a key once.\<close>

definition commands_ok :: "memoryStore \<Rightarrow> bool" where
  "commands_ok s \<longleftrightarrow>
     distinct (map fst (ms_commands s)) \<and> 0 \<le> ms_commandSeq s \<and>
     (\<forall>e \<in> set (ms_commands s). command_ok (ms_commandSeq s) (fst ` set (ms_devices s)) e) \<and>
     fst ` set (ms_commandKeys s) \<subseteq> fst ` set (ms_commands s) \<and>
     (\<forall>e \<in> set (ms_commands s). \<forall>e' \<in> set (ms_commands s). same_key (ms_commandKeys s) e e' \<longrightarrow> fst e = fst e')"

definition mem_ok :: "memoryStore \<Rightarrow> bool" where
  "mem_ok s \<longleftrightarrow> registry_ok s \<and> commands_ok s"

lemma update_new: "k \<notin> fst ` set m \<Longrightarrow> AList.update k v m = m @ [(k, v)]"
  by (induction m) auto

lemma update_same:
  "distinct (map fst m) \<Longrightarrow> map_of m k = Some v \<Longrightarrow> map fst (AList.update k w m) = map fst m"
  by (induction m) auto

lemma map_of_None_iff: "map_of m k = None \<longleftrightarrow> k \<notin> fst ` set m"
  by (rule map_of_eq_None_iff)

lemma set_update:
  "distinct (map fst m) \<Longrightarrow> set (AList.update k w m) = {(k', v). (k', v) \<in> set m \<and> k' \<noteq> k} \<union> {(k, w)}"
  by (induction m) (auto simp: image_iff)

lemma mem_uid_fresh:
  assumes "0 \<le> n" "1 \<le> m" "m \<le> n"
  shows "mem_uid (n + 1) \<noteq> mem_uid m"
  using assms by (auto simp: mem_uid_def itoa_def nat_add_distrib)

definition command_payload :: "string \<Rightarrow> string" where
  "command_payload p = (if p = [] then ''{}'' else p)"

definition accepts_command :: "string \<Rightarrow> string \<Rightarrow> string \<Rightarrow> string \<Rightarrow> bool" where
  "accepts_command t d key p \<longleftrightarrow> ValidateCommandInput t d p = None \<and> ValidateIdempotencyKey key = None \<and>
     snd (unmarshal_any (command_payload p))"

text \<open>Creating a command either leaves the store as it was or adds one new published command.\<close>

lemma mem_create_cases:
  assumes "mem_CreateCommandWithKey cx now now' t d key p s = (r, s')"
  obtains (Error) e where "r = Inl e" "s' = s"
  | (Same) c where "r = Inr c" "s' = s" "c \<in> set (map snd (ms_commands s))" "cmd_TenantID c = t" "cmd_DeviceID c = d"
      "map_of (ms_commandKeys s) (cmd_ID c) = Some key" "accepts_command t d key p"
      "fst (unmarshal_any (cmd_Payload c)) = fst (unmarshal_any (command_payload p))"
  | (New) c where "r = Inr c" "cmd_ID c = mem_uid (ms_commandSeq s + 1)" "cmd_TenantID c = t" "cmd_DeviceID c = d"
      "cmd_Status c = CommandStatusPublished" "cmd_Result c = None" "cmd_Payload c = command_payload p" "accepts_command t d key p"
      "map_of (ms_devices s) (deviceKey t d) \<noteq> None"
      "s' = s\<lparr>ms_commandSeq := ms_commandSeq s + 1,
              ms_commands := AList.update (cmd_ID c) c (ms_commands s),
              ms_commandKeys := (if key = [] then ms_commandKeys s
                                 else AList.update (cmd_ID c) key (ms_commandKeys s))\<rparr>"
      "key \<noteq> [] \<Longrightarrow> \<forall>c' \<in> set (map snd (ms_commands s)). cmd_TenantID c' = t \<longrightarrow>
         map_of (ms_commandKeys s) (cmd_ID c') \<noteq> Some key"
proof -
  let ?p = "command_payload p"
  let ?P = "\<lambda>c. cmd_TenantID c = t \<and> map_of (ms_commandKeys s) (cmd_ID c) = Some key"
  let ?found = "if key = [] then None else find ?P (map snd (ms_commands s))"
  obtain v ok where u: "unmarshal_any ?p = (v, ok)" by fastforce
  note defs = mem_CreateCommandWithKey_def Let_def command_payload_def [symmetric]
  show thesis
  proof (cases "ValidateCommandInput t d p = None \<and> cx = None \<and> ValidateIdempotencyKey key = None \<and> ok")
    case False
    then show thesis
      using assms u Error by (auto simp: defs split: option.splits)
  next
    case True
    note T = True
    have acc: "accepts_command t d key p" using T u by (simp add: accepts_command_def)
    show thesis
    proof (cases ?found)
      case (Some c)
      then have "key \<noteq> []" "c \<in> set (map snd (ms_commands s))" "?P c"
        using find_SomeD [of ?P "map snd (ms_commands s)" c] by (auto split: if_splits)
      then show thesis using T assms u Some Error Same [OF _ _ _ _ _ _ acc] by (auto simp: defs split: if_splits)
    next
      case None
      have new: "\<forall>c' \<in> set (map snd (ms_commands s)). \<not> ?P c'" if "key \<noteq> []"
        using None that by (auto simp: find_None_iff)
      let ?c = "\<lparr>cmd_ID = mem_uid (ms_commandSeq s + 1), cmd_TenantID = t, cmd_DeviceID = d,
          cmd_Status = CommandStatusPublished, cmd_Payload = ?p, cmd_CreatedAt = now, cmd_UpdatedAt = now',
          cmd_DispatchAttempts = 0, cmd_DeadlineAt = zero_time, cmd_Result = None\<rparr>"
      have eq: "mem_createCommand now now' t d ?p s =
          (if map_of (ms_devices s) (deviceKey t d) = None then (Inl [ErrNotFound], s)
           else (Inr ?c, s\<lparr>ms_commandSeq := ms_commandSeq s + 1,
                   ms_commands := AList.update (cmd_ID ?c) ?c (ms_commands s)\<rparr>))"
        by (simp add: mem_createCommand_def Let_def AdvanceCommandStatus_def mem_uid_def)
      show thesis
      proof (cases "map_of (ms_devices s) (deviceKey t d) = None")
        case True
        then show thesis using T assms u None eq by (intro Error [of "[ErrNotFound]"]) (auto simp: defs)
      next
        case False
        then have "r = Inr ?c" "s' = s\<lparr>ms_commandSeq := ms_commandSeq s + 1,
              ms_commands := AList.update (cmd_ID ?c) ?c (ms_commands s),
              ms_commandKeys := (if key = [] then ms_commandKeys s
                                 else AList.update (cmd_ID ?c) key (ms_commandKeys s))\<rparr>"
          using T assms u None eq by (auto simp: defs)
        then show thesis using False new acc by (intro New [of ?c]) auto
      qed
    qed
  qed
qed

text \<open>An acknowledgement changes at most the named command, and only from an open to a final status.\<close>

lemma mem_ack_cases:
  assumes "mem_AckCommandResultContext cx now uid t d input s = (r, s')"
  obtains (Error) e where "r = Inl e" "s' = s"
  | (Same) c where "r = Inr c" "s' = s" "map_of (ms_commands s) uid = Some c" "cmd_TenantID c = t"
      "cmd_DeviceID c = d" "terminal (cmd_Status c)"
  | (Ack) c res st where "map_of (ms_commands s) uid = Some c" "cmd_TenantID c = t" "cmd_DeviceID c = d"
      "\<not> terminal (cmd_Status c)" "terminal st" "NormalizeCommandResult input = Inr res"
      "r = Inr (c\<lparr>cmd_Status := st, cmd_UpdatedAt := now, cmd_Result := Some res\<rparr>)"
      "s' = s\<lparr>ms_commands := AList.update uid
        (c\<lparr>cmd_Status := st, cmd_UpdatedAt := now, cmd_Result := Some res\<rparr>) (ms_commands s)\<rparr>"
proof -
  note defs = mem_AckCommandResultContext_def Let_def
  show thesis
  proof (cases "cx = None \<and> ValidateDeviceIdentity t d = None \<and> ValidateCommandID uid = None")
    case False
    then show thesis using assms Error by (auto simp: defs split: option.splits)
  next
    case True
    note T = True
    show thesis
    proof (cases "NormalizeCommandResult input")
      case (Inl e)
      then show thesis using T assms Error by (auto simp: defs)
    next
      case (Inr res)
      have st: "res_Status res = CommandStatusAcked \<or> res_Status res = CommandStatusFailed"
        using NormalizeCommandResult_ok(3) [OF Inr] by simp
      show thesis
      proof (cases "map_of (ms_commands s) uid")
        case None
        then show thesis using T Inr assms Error by (auto simp: defs)
      next
        case (Some c)
        show thesis
        proof (cases "terminal (cmd_Status c)")
          case True
          then have "commandAlreadyDelivered (cmd_Status c) \<and> cmd_Status c \<noteq> CommandStatusSent"
            by (auto simp: terminal_def commandAlreadyDelivered_def)
          then show thesis
            using T Inr Some True assms Error Same by (auto simp: defs split: if_splits option.splits)
        next
          case False
          then have nd: "\<not> (commandAlreadyDelivered (cmd_Status c) \<and> cmd_Status c \<noteq> CommandStatusSent)"
            by (auto simp: terminal_def commandAlreadyDelivered_def)
          have fin: "terminal st'" if "AdvanceCommandStatus (cmd_Status c) (event_of_status (res_Status res)) = Inr st'" for st'
            using that st by (auto simp: AdvanceCommandStatus_def terminal_def split: CommandStatus.splits)
          show thesis
            using T Inr Some False nd assms Error Ack fin
            by (auto simp: defs split: if_splits sum.splits)
        qed
      qed
    qed
  qed
qed

subsection \<open>Every operation keeps it\<close>

lemma mem_ok_new: "mem_ok (newMemoryStore ttl)"
  by (simp add: mem_ok_def registry_ok_def commands_ok_def newMemoryStore_def)

lemma command_ok_mono:
  "command_ok seq D e \<Longrightarrow> seq \<le> seq' \<Longrightarrow> D \<subseteq> D' \<Longrightarrow> command_ok seq' D' e"
  by (fastforce simp: command_ok_def)

lemma fst_set_update: "fst ` set (AList.update k v m) = insert k (fst ` set m)"
  by (induction m) auto

lemma commands_ok_simps [simp]:
  "commands_ok (s\<lparr>ms_tenants := x\<rparr>) = commands_ok s"
  "commands_ok (s\<lparr>ms_statuses := y\<rparr>) = commands_ok s"
  "commands_ok (s\<lparr>ms_telemetry := z\<rparr>) = commands_ok s"
  by (simp_all add: commands_ok_def)

lemma commands_ok_device [intro]:
  assumes "commands_ok s"
  shows "commands_ok (s\<lparr>ms_devices := ms_devices s @ x\<rparr>)"
proof -
  have "command_ok (ms_commandSeq s) (fst ` set (ms_devices s @ x)) e" if "e \<in> set (ms_commands s)" for e
  proof (rule command_ok_mono)
    show "command_ok (ms_commandSeq s) (fst ` set (ms_devices s)) e"
      using that assms by (simp add: commands_ok_def)
  qed auto
  then show ?thesis using assms by (simp add: commands_ok_def)
qed

lemma mem_ok_tenant: "mem_ok s \<Longrightarrow> mem_ok (snd (mem_CreateTenant t s))"
  by (auto simp: mem_CreateTenant_def mem_ok_def registry_ok_def map_of_None_iff update_new split: option.splits)

lemma mem_ok_device: "mem_ok s \<Longrightarrow> mem_ok (snd (mem_CreateDevice now d s))"
  by (auto simp: mem_CreateDevice_def mem_ok_def registry_ok_def map_of_None_iff update_new Let_def split: option.splits)

lemma mem_ok_telemetry: "mem_ok s \<Longrightarrow> mem_ok (snd (mem_RestoreTelemetryContext cx rec s))"
  by (auto simp: mem_RestoreTelemetryContext_def mem_ok_def registry_ok_def map_of_None_iff fst_set_update
      distinct_update Let_def split: option.splits)

lemma commands_ok_replace:
  assumes "commands_ok s" "map_of (ms_commands s) uid = Some c"
    "cmd_ID c' = cmd_ID c" "cmd_TenantID c' = cmd_TenantID c" "cmd_DeviceID c' = cmd_DeviceID c"
  shows "commands_ok (s\<lparr>ms_commands := AList.update uid c' (ms_commands s)\<rparr>)"
proof -
  let ?m = "AList.update uid c' (ms_commands s)"
  have c: "(uid, c) \<in> set (ms_commands s)" using assms(2) by (rule map_of_SomeD)
  have dist: "distinct (map fst (ms_commands s))" using assms(1) by (simp add: commands_ok_def)
  have keys: "map fst ?m = map fst (ms_commands s)" by (rule update_same [OF dist assms(2)])
  then have img: "fst ` set ?m = fst ` set (ms_commands s)" by (metis list.set_map)
  have old: "\<exists>e0 \<in> set (ms_commands s). fst e0 = fst e \<and> cmd_ID (snd e0) = cmd_ID (snd e) \<and>
      cmd_TenantID (snd e0) = cmd_TenantID (snd e) \<and> cmd_DeviceID (snd e0) = cmd_DeviceID (snd e)"
    if "e \<in> set ?m" for e
    using that c assms(3-5) unfolding set_update [OF dist] by force
  have "command_ok q D e" if "e \<in> set ?m" "\<forall>e \<in> set (ms_commands s). command_ok q D e" for e q D
    using old [OF that(1)] that(2) by (fastforce simp: command_ok_def split_beta)
  moreover have "fst e = fst e'" if "e \<in> set ?m" "e' \<in> set ?m" "same_key K e e'"
    "\<forall>e \<in> set (ms_commands s). \<forall>e' \<in> set (ms_commands s). same_key K e e' \<longrightarrow> fst e = fst e'" for e e' K
    using old [OF that(1)] old [OF that(2)] that(3,4) by (fastforce simp: same_key_def split_beta)
  ultimately show ?thesis
    using assms(1) dist keys img by (simp add: commands_ok_def)
qed

lemma mem_ok_ack:
  assumes "mem_ok s"
  shows "mem_ok (snd (mem_AckCommandResultContext cx now uid t d input s))"
proof -
  obtain r s' where eq: "mem_AckCommandResultContext cx now uid t d input s = (r, s')" by fastforce
  show ?thesis
  proof (cases rule: mem_ack_cases [OF eq, case_names Error Same Ack])
    case (Ack c res st)
    then show ?thesis
      using assms eq commands_ok_replace [of s uid c] by (simp add: mem_ok_def registry_ok_def)
  qed (use assms eq in auto)
qed

lemma commands_ok_add:
  assumes ok: "commands_ok s" and ident: "cmd_ID c = mem_uid (ms_commandSeq s + 1)"
    and dev: "deviceKey (cmd_TenantID c) (cmd_DeviceID c) \<in> fst ` set (ms_devices s)"
    and new: "key \<noteq> [] \<Longrightarrow> \<forall>e \<in> set (ms_commands s). cmd_TenantID (snd e) = cmd_TenantID c \<longrightarrow>
      map_of (ms_commandKeys s) (fst e) \<noteq> Some key"
  shows "commands_ok (s\<lparr>ms_commandSeq := ms_commandSeq s + 1,
      ms_commands := AList.update (cmd_ID c) c (ms_commands s),
      ms_commandKeys := (if key = [] then ms_commandKeys s
                         else AList.update (cmd_ID c) key (ms_commandKeys s))\<rparr>)" (is "commands_ok ?s")
proof -
  let ?old = "ms_commands s" and ?K = "ms_commandKeys s" and ?D = "fst ` set (ms_devices s)"
  have seq: "0 \<le> ms_commandSeq s" and cok: "\<forall>e \<in> set ?old. command_ok (ms_commandSeq s) ?D e"
    and sub: "fst ` set ?K \<subseteq> fst ` set ?old" and dist: "distinct (map fst ?old)"
    and uniq: "\<forall>e \<in> set ?old. \<forall>e' \<in> set ?old. same_key ?K e e' \<longrightarrow> fst e = fst e'"
    using ok unfolding commands_ok_def by blast+
  have fresh: "cmd_ID c \<noteq> fst e" if "e \<in> set ?old" for e
    using that cok mem_uid_fresh [OF seq] ident by (fastforce simp: command_ok_def)
  then have notin: "cmd_ID c \<notin> fst ` set ?old" by blast
  then have nokey: "cmd_ID c \<notin> fst ` set ?K" using sub by blast
  from notin have cs: "ms_commands ?s = ?old @ [(cmd_ID c, c)]" by (simp add: update_new)
  have lk: "map_of (ms_commandKeys ?s) k =
      (if k = cmd_ID c then (if key = [] then None else Some key) else map_of ?K k)" for k
    using nokey by (auto simp: update_conv' map_of_eq_None_iff)
  have lk_old: "map_of (ms_commandKeys ?s) (fst e) = map_of ?K (fst e)" if "e \<in> set ?old" for e
    using fresh [OF that] unfolding lk by metis
  have "command_ok (ms_commandSeq ?s) ?D e" if "e \<in> set (ms_commands ?s)" for e
  proof (cases "e \<in> set ?old")
    case True
    then have "command_ok (ms_commandSeq s) ?D e" using cok by blast
    then show ?thesis by (rule command_ok_mono) auto
  next
    case False
    then have "e = (cmd_ID c, c)" using that cs by simp
    then show ?thesis using ident dev seq by (auto simp: command_ok_def intro!: exI [of _ "ms_commandSeq s + 1"])
  qed
  moreover have "fst e = fst e'"
    if e: "e \<in> set (ms_commands ?s)" "e' \<in> set (ms_commands ?s)" and k: "same_key (ms_commandKeys ?s) e e'" for e e'
  proof (cases "e \<in> set ?old"; cases "e' \<in> set ?old")
    assume old: "e \<in> set ?old" "e' \<in> set ?old"
    have "same_key ?K e e'"
      using k unfolding same_key_def split_beta lk_old [OF old(1)] lk_old [OF old(2)] .
    then show ?thesis using uniq old by blast
  next
    assume old: "e \<in> set ?old" "e' \<notin> set ?old"
    then have e': "e' = (cmd_ID c, c)" using e cs by simp
    have "key \<noteq> []" "cmd_TenantID (snd e) = cmd_TenantID c" "map_of ?K (fst e) = Some key"
      using k lk [of "cmd_ID c"] lk_old [OF old(1)] unfolding e' same_key_def by (auto split: if_splits)
    then show ?thesis using new old(1) by blast
  next
    assume old: "e \<notin> set ?old" "e' \<in> set ?old"
    then have e': "e = (cmd_ID c, c)" using e cs by simp
    have "key \<noteq> []" "cmd_TenantID (snd e') = cmd_TenantID c" "map_of ?K (fst e') = Some key"
      using k lk [of "cmd_ID c"] lk_old [OF old(2)] unfolding e' same_key_def by (auto split: if_splits)
    then show ?thesis using new old(2) by blast
  next
    assume "e \<notin> set ?old" "e' \<notin> set ?old"
    then show ?thesis using e cs by simp
  qed
  moreover have "fst ` set (ms_commandKeys ?s) \<subseteq> fst ` set (ms_commands ?s)"
    using sub by (auto simp: fst_set_update)
  moreover have "distinct (map fst (ms_commands ?s))" using dist by (simp add: distinct_update)
  ultimately show ?thesis using seq unfolding commands_ok_def by simp
qed

lemma mem_ok_create:
  assumes "mem_ok s"
  shows "mem_ok (snd (mem_CreateCommandWithKey cx now now' t d key p s))"
proof -
  obtain r s' where eq: "mem_CreateCommandWithKey cx now now' t d key p s = (r, s')" by fastforce
  show ?thesis
  proof (cases rule: mem_create_cases [OF eq, case_names Error Same New])
    case (New c)
    have ok: "commands_ok s" "registry_ok s" using assms by (auto simp: mem_ok_def)
    have "fst e = cmd_ID (snd e)" if "e \<in> set (ms_commands s)" for e
      using that ok(1) by (auto simp: commands_ok_def command_ok_def)
    then have "commands_ok s'"
      unfolding New(10) using New by (intro commands_ok_add [OF ok(1)]) (auto simp: map_of_None_iff)
    moreover have "registry_ok s'" using ok(2) New(10) by (simp add: registry_ok_def)
    ultimately show ?thesis using eq by (simp add: mem_ok_def)
  qed (use assms eq in auto)
qed

section \<open>The store keeps the command contract\<close>

definition view_of :: "Command \<Rightarrow> command_view" where
  "view_of c = \<lparr>cv_Tenant = cmd_TenantID c, cv_Device = cmd_DeviceID c, cv_Payload = cmd_Payload c,
     cv_Status = cmd_Status c\<rparr>"

definition mem_view :: "memoryStore \<Rightarrow> string \<Rightarrow> command_view option" where
  "mem_view s uid = map_option view_of (mem_GetCommand uid s)"

definition mem_create :: "gerror option \<times> gtime \<times> gtime \<Rightarrow> string \<Rightarrow> string \<Rightarrow> string \<Rightarrow> string \<Rightarrow> memoryStore \<Rightarrow>
    Command result \<times> memoryStore" where
  "mem_create = (\<lambda>(cx, now, now'). mem_CreateCommandWithKey cx now now')"

definition mem_ack :: "gerror option \<times> gtime \<times> gtime \<Rightarrow> string \<Rightarrow> string \<Rightarrow> string \<Rightarrow> CommandResult \<Rightarrow> memoryStore \<Rightarrow>
    Command result \<times> memoryStore" where
  "mem_ack = (\<lambda>(cx, now, now'). mem_AckCommandResultContext cx now)"

lemma mem_create_simp: "mem_create (cx, now, now') = mem_CreateCommandWithKey cx now now'"
  by (simp add: mem_create_def)

lemma mem_ack_simp: "mem_ack (cx, now, now') = mem_AckCommandResultContext cx now"
  by (simp add: mem_ack_def)

lemma mem_commands_id: "mem_ok s \<Longrightarrow> (k, c) \<in> set (ms_commands s) \<Longrightarrow> cmd_ID c = k"
  by (auto simp: mem_ok_def commands_ok_def command_ok_def)

lemma mem_commands_map_of: "mem_ok s \<Longrightarrow> map_of (ms_commands s) k = Some c \<longleftrightarrow> (k, c) \<in> set (ms_commands s)"
  by (simp add: mem_ok_def commands_ok_def)

lemma mem_new_id:
  assumes "mem_ok s" "map_of (ms_commands s) k = Some c"
  shows "k \<noteq> mem_uid (ms_commandSeq s + 1)"
  using assms(1) mem_commands_map_of [OF assms(1)] assms(2) mem_uid_fresh
  by (fastforce simp: mem_ok_def commands_ok_def command_ok_def)

interpretation mem_commands: command_store mem_create mem_ack mem_view mem_ok
proof
  fix e :: "gerror option \<times> gtime \<times> gtime" and s s' :: memoryStore and t d k p uid i :: string
    and r :: CommandResult and c :: Command and v :: command_view
  obtain cx now now' where e: "e = (cx, now, now')" by (cases e)
  assume ok: "mem_ok s"
  show "mem_ok (snd (mem_create e t d k p s))" by (simp add: e mem_create_def mem_ok_create ok)
  show "mem_ok (snd (mem_ack e uid t d r s))" by (simp add: e mem_ack_def mem_ok_ack ok)
  obtain rc sc where cr: "mem_CreateCommandWithKey cx now now' t d k p s = (rc, sc)" by fastforce
  obtain ra sa where ar: "mem_AckCommandResultContext cx now uid t d r s = (ra, sa)" by fastforce
  show "\<exists>v. mem_view s' (cmd_ID c) = Some v \<and> cv_Tenant v = t \<and> cv_Device v = d \<and> cv_Status v = cmd_Status c"
    if "mem_create e t d k p s = (Inr c, s')"
  proof -
    have eq: "rc = Inr c" "sc = s'" using that cr by (auto simp: e mem_create_def)
    show ?thesis
    proof (cases rule: mem_create_cases [OF cr, case_names Error Same New])
      case (Same c')
      then have "map_of (ms_commands s) (cmd_ID c) = Some c"
        using eq ok mem_commands_id [OF ok] mem_commands_map_of [OF ok] by auto
      then show ?thesis using Same eq by (simp add: mem_view_def mem_GetCommand_def view_of_def)
    next
      case (New c')
      then show ?thesis using eq by (simp add: mem_view_def mem_GetCommand_def view_of_def update_conv')
    qed (use eq in auto)
  qed
  show "mem_view (snd (mem_create e t d k p s)) uid = Some v" if "mem_view s uid = Some v"
  proof (cases rule: mem_create_cases [OF cr, case_names Error Same New])
    case (New c')
    then show ?thesis
      using that cr mem_new_id [OF ok, of uid]
      by (auto simp: e mem_create_def mem_view_def mem_GetCommand_def update_conv')
  qed (use cr that in \<open>auto simp: e mem_create_def\<close>)
  show "\<exists>v. mem_view s' uid = Some v \<and> cv_Tenant v = t \<and> cv_Device v = d \<and> terminal (cv_Status v) \<and>
      cv_Status v = cmd_Status c" if "mem_ack e uid t d r s = (Inr c, s')"
  proof -
    have eq: "ra = Inr c" "sa = s'" using that ar by (auto simp: e mem_ack_def)
    show ?thesis
      by (cases rule: mem_ack_cases [OF ar, case_names Error Same Ack])
         (use eq in \<open>auto simp: mem_view_def mem_GetCommand_def view_of_def update_conv'\<close>)
  qed
  show "\<exists>st. mem_view (snd (mem_ack e uid t d r s)) i = Some (v\<lparr>cv_Status := st\<rparr>) \<and>
      (st \<noteq> cv_Status v \<longrightarrow> i = uid \<and> t = cv_Tenant v \<and> d = cv_Device v \<and> \<not> terminal (cv_Status v) \<and> terminal st)"
    if "mem_view s i = Some v"
  proof (cases rule: mem_ack_cases [OF ar, case_names Error Same Ack])
    case (Ack c' res st)
    then show ?thesis
      using ar that
      by (intro exI [of _ "if i = uid then st else cv_Status v"])
         (auto simp: e mem_ack_def mem_view_def mem_GetCommand_def view_of_def update_conv')
  qed (use ar that in \<open>auto simp: e mem_ack_def intro!: exI [of _ "cv_Status v"]\<close>)
qed

section \<open>The listings keep the paging contract\<close>

lemma memoryPage_eq:
  assumes "decodePageCursor sha sf other page kind = Inr k" "page_Sort page = ''asc'' \<or> page_Sort page = ''desc''"
  shows "memoryPage sha sf other page kind rows key psize = timed_page sha page kind key psize (rows_beyond page key k rows)"
proof -
  obtain at uid where k: "k = (at, uid)" by fastforce
  have "filter (\<lambda>r. \<not> (page_Cursor page \<noteq> [] \<and> (page_Sort page = ''asc'' \<and> \<not> (at, uid) < key r \<or>
        page_Sort page = ''desc'' \<and> \<not> key r < (at, uid)))) (order_rows (page_Sort page = ''asc'') key rows) =
      rows_beyond page key k rows"
    using assms(2) by (auto simp: rows_beyond_def beyond_def k Let_def intro!: filter_cong)
  then show ?thesis
    using assms(1) unfolding memoryPage_def timed_page_def Let_def by (simp only: bind_res.simps k split_conv)
qed

definition mem_commands_page :: "(memoryStore \<Rightarrow> (Command list \<times> string) result) timed_op" where
  "mem_commands_page sha sf other page s = mem_ListCommandsPageContext sha sf other None page s"

definition mem_telemetry_page :: "(memoryStore \<Rightarrow> (TelemetryRecord list \<times> string) result) timed_op" where
  "mem_telemetry_page sha sf other page s = mem_ListTelemetryPageContext sha sf other None page s"

definition mem_command_rows :: "memoryStore \<Rightarrow> PageRequest \<Rightarrow> Command list" where
  "mem_command_rows s page = filter (command_matches page) (mem_ListCommands s)"

definition mem_telemetry_rows :: "memoryStore \<Rightarrow> PageRequest \<Rightarrow> TelemetryRecord list" where
  "mem_telemetry_rows s page =
     filter (telemetry_matches page) (mem_ListTelemetry (page_TenantID page) (page_DeviceID page) s)"

lemma matches_cursor [simp]:
  "command_matches (page\<lparr>page_Cursor := x\<rparr>) = command_matches page"
  "telemetry_matches (page\<lparr>page_Cursor := x\<rparr>) = telemetry_matches page"
  by (simp_all add: fun_eq_iff command_matches_def telemetry_matches_def)

interpretation mem_command_list: timed_listing "''commands''" mem_command_rows command_key commandListBytes
  mem_commands_page "\<lambda>_. True"
  by unfold_locales
     (auto simp: mem_command_rows_def mem_commands_page_def mem_ListCommandsPageContext_def
       NormalizeListRequest_Inr(9) memoryPage_eq)

interpretation mem_telemetry_list: timed_listing "''telemetry''" mem_telemetry_rows telemetry_key telemetryListBytes
  mem_telemetry_page "\<lambda>_. True"
  by unfold_locales
     (auto simp: mem_telemetry_rows_def mem_telemetry_page_def mem_ListTelemetryPageContext_def
       NormalizeListRequest_Inr(9) memoryPage_eq)

text \<open>Devices are listed in the order of their identifier, without their secrets.\<close>

definition mem_device_rows :: "PageRequest \<Rightarrow> memoryStore \<Rightarrow> Device list" where
  "mem_device_rows page s = order_rows True dev_DeviceID
     (map (\<lambda>d. d\<lparr>dev_Secret := []\<rparr>) (filter (\<lambda>d. dev_TenantID d = page_TenantID page) (mem_ListDevices s)))"

definition mem_device_query :: "PageRequest \<times> memoryStore \<Rightarrow> bool" where
  "mem_device_query = (\<lambda>(page, s). mem_ok s \<and> is_ok (NormalizeListRequest (page\<lparr>page_Cursor := []\<rparr>) ''devices''))"

definition device_page_size :: "PageRequest \<Rightarrow> nat" where
  "device_page_size page = (case NormalizeListRequest (page\<lparr>page_Cursor := []\<rparr>) ''devices'' of
     Inr p \<Rightarrow> nat (page_Size p) | Inl _ \<Rightarrow> 0)"

lemma mem_device_facts:
  assumes "mem_ok s" "d \<in> set (mem_ListDevices s)"
  shows "IsValidTenantID (dev_TenantID d) \<and> IsValidTopicPart (dev_DeviceID d)"
  using assms by (auto simp: mem_ok_def registry_ok_def mem_ListDevices_def)

lemma mem_devices_distinct:
  assumes "mem_ok s"
  shows "distinct (map dev_DeviceID (filter (\<lambda>d. dev_TenantID d = t) (mem_ListDevices s)))"
proof -
  let ?es = "filter (\<lambda>e. dev_TenantID (snd e) = t) (ms_devices s)"
  have "distinct (map fst (ms_devices s))" using assms by (simp add: mem_ok_def registry_ok_def)
  then have "distinct (map fst ?es)" by (rule distinct_map_filter)
  moreover have "map fst ?es = map (deviceKey t) (map (\<lambda>e. dev_DeviceID (snd e)) ?es)"
    using assms by (auto simp: mem_ok_def registry_ok_def)
  ultimately have "distinct (map (\<lambda>e. dev_DeviceID (snd e)) ?es)" by (metis distinct_map)
  then show ?thesis by (simp add: mem_ListDevices_def filter_map comp_def)
qed

lemma encodeDeviceCursor_not_Nil [simp]: "encodeDeviceCursor t d \<noteq> []"
  by (simp add: encodeDeviceCursor_def encodeCursor_def)

lemma encodeDeviceCursor_length:
  assumes "IsValidTenantID t" "IsValidTopicPart d"
  shows "length (encodeDeviceCursor t d) \<le> 4096"
proof -
  have "length t \<le> 64" "length d \<le> 64"
    using valid_part_storage(2) [OF valid_tenant_part [OF assms(1)]] valid_part_storage(2) [OF assms(2)] by auto
  then show ?thesis by (simp add: encodeDeviceCursor_def encodeCursor_def length_b64_encode)
qed

lemma mem_device_page:
  assumes "mem_ok s" "NormalizeListRequest (page0\<lparr>page_Cursor := []\<rparr>) ''devices'' = Inr page" "length cur \<le> 4096"
    and "decodeDeviceCursor cur = Inr (t, after)" "t = [] \<or> t = page_TenantID page0"
  shows "mem_ListDevicesPageContext None (page0\<lparr>page_Cursor := cur\<rparr>) s =
    list_page deviceListBytes (nat (page_Size page)) (\<lambda>d. encodeDeviceCursor (dev_TenantID d) (dev_DeviceID d))
      (filter (\<lambda>d. after < dev_DeviceID d) (mem_device_rows page0 s))"
proof -
  have n: "NormalizeListRequest (page0\<lparr>page_Cursor := cur\<rparr>) ''devices'' = Inr (page\<lparr>page_Cursor := cur\<rparr>)"
    using NormalizeListRequest_cursor [OF assms(2,3)] by simp
  have tn: "page_TenantID page = page_TenantID page0" using NormalizeListRequest_Inr(5) [OF assms(2)] by simp
  have "order_rows True dev_DeviceID (map (\<lambda>d. d\<lparr>dev_Secret := []\<rparr>)
      (filter (\<lambda>d. dev_TenantID d = page_TenantID page0 \<and> after < dev_DeviceID d) (mem_ListDevices s))) =
    filter (\<lambda>d. after < dev_DeviceID d) (mem_device_rows page0 s)"
    by (simp add: mem_device_rows_def order_rows_filter [symmetric] filter_map comp_def conj_commute)
  then show ?thesis
    using n assms(4,5) by (auto simp: mem_ListDevicesPageContext_def tn Let_def)
qed

lemma Nil_less_string: "[] < (s :: string) \<longleftrightarrow> s \<noteq> []"
  by (cases s) simp_all

interpretation mem_device_list: keyset_listing "\<lambda>(page, s). mem_device_rows page s" deviceListBytes
  "\<lambda>(page, s). device_page_size page" "\<lambda>_ d. encodeDeviceCursor (dev_TenantID d) (dev_DeviceID d)"
  "\<lambda>(page, s) cur. mem_ListDevicesPageContext None (page\<lparr>page_Cursor := cur\<rparr>) s" mem_device_query
proof (unfold_locales, goal_cases)
  case (1 q)
  then show ?case
    using NormalizeListRequest_Inr(1)
    by (fastforce simp: mem_device_query_def device_page_size_def is_ok_def split: sum.splits)
next
  case (2 q r)
  then show ?case by simp
next
  case (3 q)
  obtain page0 s where q: "q = (page0, s)" by fastforce
  obtain page where page: "NormalizeListRequest (page0\<lparr>page_Cursor := []\<rparr>) ''devices'' = Inr page" and ok: "mem_ok s"
    using 3 by (auto simp: q mem_device_query_def is_ok_def split: sum.splits)
  have "\<forall>d \<in> set (mem_device_rows page0 s). [] < dev_DeviceID d"
    using mem_device_facts [OF ok] valid_part_storage(1) by (auto simp: mem_device_rows_def Nil_less_string)
  then show ?case
    using mem_device_page [OF ok page, of "[]" "[]" "[]"] page
    by (simp add: q decodeDeviceCursor_def decodeCursor_def device_page_size_def)
next
  case (4 q pre r post)
  obtain page0 s where q: "q = (page0, s)" by fastforce
  obtain page where page: "NormalizeListRequest (page0\<lparr>page_Cursor := []\<rparr>) ''devices'' = Inr page" and ok: "mem_ok s"
    using 4 by (auto simp: q mem_device_query_def is_ok_def split: sum.splits)
  have rows: "mem_device_rows page0 s = pre @ r # post" using 4 by (simp add: q)
  then have "r \<in> set (mem_device_rows page0 s)" by simp
  then have r: "dev_TenantID r = page_TenantID page0" "IsValidTenantID (dev_TenantID r)" "IsValidTopicPart (dev_DeviceID r)"
    using mem_device_facts [OF ok] NormalizeListRequest_Inr(5,8) [OF page] by (auto simp: mem_device_rows_def)
  have "filter (\<lambda>d. dev_DeviceID r < dev_DeviceID d) (mem_device_rows page0 s) = post"
    using rows_after [OF _ rows [unfolded mem_device_rows_def]] mem_devices_distinct [OF ok]
    by (simp add: mem_device_rows_def [symmetric] beyond_def comp_def)
  then show ?case
    using mem_device_page [OF ok page encodeDeviceCursor_length decode_encodeDeviceCursor] r page
    by (simp add: q device_page_size_def)
qed

section \<open>Retried creations\<close>

lemma mem_same_key:
  "mem_ok s \<Longrightarrow> e \<in> set (ms_commands s) \<Longrightarrow> e' \<in> set (ms_commands s) \<Longrightarrow> same_key (ms_commandKeys s) e e' \<Longrightarrow> fst e = fst e'"
  unfolding mem_ok_def commands_ok_def by blast

lemma mem_find_key:
  assumes "mem_ok s" "c \<in> set (map snd (ms_commands s))" "cmd_TenantID c = t"
    "map_of (ms_commandKeys s) (cmd_ID c) = Some key"
  shows "find (\<lambda>c. cmd_TenantID c = t \<and> map_of (ms_commandKeys s) (cmd_ID c) = Some key) (map snd (ms_commands s)) = Some c"
    (is "find ?P _ = _")
proof (cases "find ?P (map snd (ms_commands s))")
  case None
  then show ?thesis using assms by (auto simp: find_None_iff)
next
  case (Some c')
  then have c': "c' \<in> set (map snd (ms_commands s))" "?P c'"
    using find_SomeD [of ?P "map snd (ms_commands s)" c'] by auto
  have e: "(cmd_ID c, c) \<in> set (ms_commands s)" "(cmd_ID c', c') \<in> set (ms_commands s)"
    using assms(2) c'(1) mem_commands_id [OF assms(1)] by auto
  have "cmd_ID c = cmd_ID c'"
    using mem_same_key [OF assms(1) e] assms(3,4) c'(2) by (simp add: same_key_def)
  then show ?thesis using e mem_commands_map_of [OF assms(1)] Some by (metis option.inject)
qed

text \<open>What a successful creation leaves behind: a command that a retry with the same key finds.\<close>

definition keyed :: "memoryStore \<Rightarrow> string \<Rightarrow> string \<Rightarrow> string \<Rightarrow> string \<Rightarrow> string \<Rightarrow> bool" where
  "keyed s uid t d key p \<longleftrightarrow> map_of (ms_commandKeys s) uid = Some key \<and>
     (\<exists>v. mem_view s uid = Some v \<and> cv_Tenant v = t \<and> cv_Device v = d \<and>
       fst (unmarshal_any (cv_Payload v)) = fst (unmarshal_any (command_payload p)))"

lemma mem_create_keyed:
  assumes "mem_ok s" "key \<noteq> []" "mem_CreateCommandWithKey cx now now' t d key p s = (Inr c, s')"
  shows "keyed s' (cmd_ID c) t d key p \<and> accepts_command t d key p"
proof (cases rule: mem_create_cases [OF assms(3), case_names Error Same New])
  case (Same c')
  then have "map_of (ms_commands s) (cmd_ID c) = Some c"
    using mem_commands_id [OF assms(1)] mem_commands_map_of [OF assms(1)] by auto
  then show ?thesis using Same by (auto simp: keyed_def mem_view_def mem_GetCommand_def view_of_def)
next
  case (New c')
  then show ?thesis
    using assms(2) by (auto simp: keyed_def mem_view_def mem_GetCommand_def view_of_def update_conv')
qed auto

lemma mem_retry:
  assumes "mem_ok s" "key \<noteq> []" "keyed s uid t d key p" "accepts_command t d key p"
  shows "\<exists>c. mem_CreateCommandWithKey None now now' t d key p s = (Inr c, s) \<and> cmd_ID c = uid"
proof -
  obtain v where v: "mem_view s uid = Some v" "cv_Tenant v = t" "cv_Device v = d"
    "fst (unmarshal_any (cv_Payload v)) = fst (unmarshal_any (command_payload p))"
    and key: "map_of (ms_commandKeys s) uid = Some key"
    using assms(3) unfolding keyed_def by blast
  obtain c where c0: "map_of (ms_commands s) uid = Some c" "v = view_of c"
    using v(1) by (auto simp: mem_view_def mem_GetCommand_def)
  have c: "map_of (ms_commands s) uid = Some c" "cmd_TenantID c = t" "cmd_DeviceID c = d"
    "fst (unmarshal_any (cmd_Payload c)) = fst (unmarshal_any (command_payload p))"
    using v c0 by (simp_all add: view_of_def)
  have e: "(uid, c) \<in> set (ms_commands s)" using c(1) by (rule map_of_SomeD)
  have uid: "cmd_ID c = uid" by (rule mem_commands_id [OF assms(1) e])
  have mem: "c \<in> set (map snd (ms_commands s))" using rev_image_eqI [OF e, of c snd] by simp
  have "mem_CreateCommandWithKey None now now' t d key p s = (Inr c, s)"
    using c uid key mem_find_key [OF assms(1) mem c(2), of key] assms(2,4)
    by (cases "unmarshal_any (command_payload p)")
       (simp add: mem_CreateCommandWithKey_def accepts_command_def Let_def command_payload_def [symmetric])
  then show ?thesis using uid by blast
qed

lemma mem_call_keyed:
  assumes "mem_ok s" "keyed s uid t d key p"
  shows "keyed (mem_commands.call cl s) uid t d key p"
proof -
  obtain v where v: "mem_view s uid = Some v" "cv_Tenant v = t" "cv_Device v = d"
    "fst (unmarshal_any (cv_Payload v)) = fst (unmarshal_any (command_payload p))"
    using assms(2) unfolding keyed_def by blast
  have "map_of (ms_commandKeys (mem_commands.call cl s)) uid = Some key"
  proof (cases cl)
    case (CallCreate e t' d' k' p')
    obtain cx now now' where e: "e = (cx, now, now')" by (cases e)
    obtain r s' where eq: "mem_CreateCommandWithKey cx now now' t' d' k' p' s = (r, s')" by fastforce
    have ne: "uid \<noteq> mem_uid (ms_commandSeq s + 1)"
      using v(1) mem_new_id [OF assms(1)] by (auto simp: mem_view_def mem_GetCommand_def)
    show ?thesis
      by (cases rule: mem_create_cases [OF eq, case_names Error Same New])
         (use assms(2) eq ne in \<open>auto simp: CallCreate e mem_create_simp keyed_def update_conv'\<close>)
  next
    case (CallAck e u t' d' r)
    obtain cx now now' where e: "e = (cx, now, now')" by (cases e)
    obtain ra s' where eq: "mem_AckCommandResultContext cx now u t' d' r s = (ra, s')" by fastforce
    show ?thesis
      by (cases rule: mem_ack_cases [OF eq, case_names Error Same Ack])
         (use assms(2) eq in \<open>auto simp: CallAck e mem_ack_simp keyed_def\<close>)
  qed
  moreover obtain st where "mem_view (mem_commands.call cl s) uid = Some (v\<lparr>cv_Status := st\<rparr>)"
    using mem_commands.call_frame [OF assms(1) v(1)] by blast
  ultimately show ?thesis using v by (simp add: keyed_def)
qed

lemma mem_calls_keyed:
  "mem_ok s \<Longrightarrow> keyed s uid t d key p \<Longrightarrow> keyed (mem_commands.calls cs s) uid t d key p"
  by (induction cs arbitrary: s) (auto intro: mem_call_keyed mem_commands.call_inv)

section \<open>Properties\<close>



text \<open>C32: Paging over devices is complete and exact. Starting without a cursor and following the
  cursors returns, within one page per device, every device of the tenant exactly once in the order
  of the device identifier, with the secrets removed.\<close>

theorem mem_devices_listed_once:
  assumes "mem_ok s" "NormalizeListRequest (page\<lparr>page_Cursor := []\<rparr>) ''devices'' = Inr p"
    and "length (mem_ListDevices s) < fuel"
  shows "follow (\<lambda>cur. mem_ListDevicesPageContext None (page\<lparr>page_Cursor := cur\<rparr>) s) fuel [] =
    Some (Inr (mem_device_rows page s))"
proof -
  have q: "mem_device_query (page, s)" using assms by (simp add: mem_device_query_def)
  have "deviceListBytes d \<le> listContentBytes" if mem: "d \<in> set (mem_device_rows page s)" for d
  proof -
    obtain d0 where d0: "d0 \<in> set (mem_ListDevices s)" "d = d0\<lparr>dev_Secret := []\<rparr>"
      using mem by (auto simp: mem_device_rows_def)
    have "length (dev_TenantID d0) \<le> 64" "length (dev_DeviceID d0) \<le> 64"
      using mem_device_facts [OF assms(1) d0(1)] valid_part_storage(2) valid_tenant_part by blast+
    moreover have "length (dev_ProductID d0) \<le> 64"
      using assms(1) d0(1) by (auto simp: mem_ok_def registry_ok_def mem_ListDevices_def ValidateProductID_def
          split: if_splits)
    ultimately show ?thesis
      using d0(2) by (simp add: deviceListBytes_def listContentBytes_def MaxListResponseBytes_def)
  qed
  moreover have "length (mem_device_rows page s) < fuel"
    using assms(3) le_less_trans [OF length_filter_le] by (simp add: mem_device_rows_def)
  ultimately show ?thesis using mem_device_list.follow_all [OF q] by simp
qed

text \<open>C33: A continuation cursor for commands is accepted only at microsecond precision. The store
  stamps commands with the nanosecond clock, so when the last command of a page was created between
  two microseconds, the cursor that the page returns is refused by the next request.\<close>

theorem mem_command_cursor_refused:
  assumes "hex_digest sha" "mem_ListCommandsPageContext sha sf other None page s = Inr (out, next)" "next \<noteq> []"
    and "0 \<le> Year (cmd_CreatedAt (last out))" "Year (cmd_CreatedAt (last out)) \<le> 9999"
    and "ValidateStorageField ''cursor id'' (cmd_ID (last out)) 64 = None"
    and "Nanosecond (cmd_CreatedAt (last out)) mod 1000 \<noteq> 0"
  shows "mem_ListCommandsPageContext sha sf other None (page\<lparr>page_Cursor := next\<rparr>) s = Inl [ErrInvalidPage]"
proof -
  obtain p at uid where p: "NormalizeListRequest page ''commands'' = Inr p"
    and lp: "memoryPage sha sf other p ''commands'' (filter (command_matches p) (mem_ListCommands s)) command_key
      commandListBytes = Inr (out, next)"
    using assms(2) by (auto simp: mem_ListCommandsPageContext_def)
  have nxt: "next = encodePageCursor sha p ''commands'' (cmd_CreatedAt (last out)) (cmd_ID (last out))"
    using lp assms(3) page_loop_ok [of commandListBytes "nat (page_Size p)" _ 0 "[]" _ out "next"]
    by (fastforce simp: memoryPage_def list_page_def Let_def command_key_def)
  have uid: "length (cmd_ID (last out)) \<le> 64" using assms(6) by (auto simp: ValidateStorageField_def split: if_splits)
  have "NormalizeListRequest (page\<lparr>page_Cursor := next\<rparr>) ''commands'' = Inr (p\<lparr>page_Cursor := next\<rparr>)"
    using NormalizeListRequest_cursor [OF p] encodePageCursor_length [OF assms(1,4,5) uid] nxt by simp
  moreover have "decodePageCursor sha sf other (p\<lparr>page_Cursor := next\<rparr>) ''commands'' = Inl errInvalidCursor"
    using decode_encodePageCursor [OF assms(1,4,5,6), of sf other p "''commands''"] assms(7) nxt
    by (simp add: cursor_precision_def)
  ultimately show ?thesis
    by (simp add: mem_ListCommandsPageContext_def memoryPage_def errInvalidCursor_def)
qed

section \<open>Sample runs\<close>

definition sample_store :: memoryStore where
  "sample_store = snd (mem_CreateDevice 7
     \<lparr>dev_TenantID = ''acme'', dev_DeviceID = ''d1'', dev_ProductID = ''p1'', dev_Secret = ''s'', dev_CreatedAt = 0\<rparr>
     (snd (mem_CreateTenant \<lparr>ten_ID = ''acme'', ten_Name = ''Acme''\<rparr> (newMemoryStore 60))))"

definition sample_commands :: memoryStore where
  "sample_commands = snd (mem_CreateCommandWithKey None 3 3 ''acme'' ''d1'' [] ''{}''
     (snd (mem_CreateCommandWithKey None 1 2 ''acme'' ''d1'' ''k'' ''{}'' sample_store)))"

definition sample_request :: PageRequest where
  "sample_request = zero_page\<lparr>page_TenantID := ''acme'', page_Size := 1\<rparr>"

definition sample_sha :: "string \<Rightarrow> string" where
  "sample_sha _ = replicate 64 CHR ''0''"

definition sample_result :: CommandResult where
  "sample_result = \<lparr>res_Status = CommandStatusAcked, res_ErrorCode = [], res_Payload = []\<rparr>"

lemma sample_ok: "mem_ok sample_store" "mem_ok sample_commands"
  unfolding sample_commands_def sample_store_def
  by (intro mem_ok_create mem_ok_device mem_ok_tenant mem_ok_new)+

lemma sample_sha_digest: "hex_digest sample_sha"
  by (simp add: hex_digest_def sample_sha_def list_all_iff in_range_def)



theorem mem_devices_listed_witness:
  "follow (\<lambda>cur. mem_ListDevicesPageContext None (sample_request\<lparr>page_Cursor := cur\<rparr>) sample_store) 3 [] =
     Some (Inr (mem_device_rows sample_request sample_store))"
proof -
  have "is_ok (NormalizeListRequest (sample_request\<lparr>page_Cursor := []\<rparr>) ''devices'')" by code_simp
  then obtain p where p: "NormalizeListRequest (sample_request\<lparr>page_Cursor := []\<rparr>) ''devices'' = Inr p"
    by (auto simp: is_ok_def split: sum.splits)
  have "length (mem_ListDevices sample_store) < 3" by code_simp
  from mem_devices_listed_once [OF sample_ok(1) p this] show ?thesis .
qed

theorem mem_command_cursor_witness:
  "\<exists>out nxt. mem_ListCommandsPageContext sample_sha id (\<lambda>_. None) None sample_request sample_commands = Inr (out, nxt) \<and>
     nxt \<noteq> [] \<and>
     mem_ListCommandsPageContext sample_sha id (\<lambda>_. None) None (sample_request\<lparr>page_Cursor := nxt\<rparr>) sample_commands =
       Inl [ErrInvalidPage]"
proof -
  have "case mem_ListCommandsPageContext sample_sha id (\<lambda>_. None) None sample_request sample_commands of
      Inl _ \<Rightarrow> False
    | Inr (out, nxt) \<Rightarrow> nxt \<noteq> [] \<and> 0 \<le> Year (cmd_CreatedAt (last out)) \<and> Year (cmd_CreatedAt (last out)) \<le> 9999 \<and>
        ValidateStorageField ''cursor id'' (cmd_ID (last out)) 64 = None \<and> Nanosecond (cmd_CreatedAt (last out)) mod 1000 \<noteq> 0"
    by code_simp
  then obtain out nxt where eq:
      "mem_ListCommandsPageContext sample_sha id (\<lambda>_. None) None sample_request sample_commands = Inr (out, nxt)"
    and f: "nxt \<noteq> []" "0 \<le> Year (cmd_CreatedAt (last out))" "Year (cmd_CreatedAt (last out)) \<le> 9999"
      "ValidateStorageField ''cursor id'' (cmd_ID (last out)) 64 = None" "Nanosecond (cmd_CreatedAt (last out)) mod 1000 \<noteq> 0"
    by (auto split: sum.splits)
  from mem_command_cursor_refused [OF sample_sha_digest eq f] show ?thesis using eq f(1) by blast
qed

end
