(* ===== verification/Mqtt_Auth.thy ===== *)
theory Mqtt_Auth
  imports Contracts_Validation Go_Base64
begin

text \<open>
  The EMQX authentication callback and the device credentials, \<^verbatim>\<open>internal/platform/mqtt_auth.go\<close>.
  The bcrypt package is a set of arguments: \<open>gen\<close> is \<^verbatim>\<open>GenerateFromPassword\<close>, \<open>cmp\<close> says whether
  \<^verbatim>\<open>CompareHashAndPassword\<close> returns nil, \<open>cost\<close> whether \<^verbatim>\<open>Cost\<close> returns no error. The store behind the
  callback is the argument \<open>auth\<close>.
\<close>

section \<open>Credentials\<close>

definition secureEqual :: "string \<Rightarrow> string \<Rightarrow> bool" where
  "secureEqual left right = (if left = [] \<or> right = [] then False else left = right)"

definition HashDeviceSecret :: "(string \<Rightarrow> string result) \<Rightarrow> string \<Rightarrow> string result" where
  "HashDeviceSecret gen secret = guard_err (ValidateDeviceSecret secret) (gen secret)"

definition VerifyDeviceSecret :: "(string \<Rightarrow> string \<Rightarrow> bool) \<Rightarrow> string \<Rightarrow> string \<Rightarrow> bool" where
  "VerifyDeviceSecret cmp hash secret \<longleftrightarrow> hash \<noteq> [] \<and> secret \<noteq> [] \<and> cmp hash secret"

text \<open>The strict base64 decoder with the bcrypt alphabet and no padding: unused bits must be zero.\<close>

definition bcrypt_alphabet :: string where
  "bcrypt_alphabet = ''./ABCDEFGHIJKLMNOPQRSTUVWXYZabcdefghijklmnopqrstuvwxyz0123456789''"

fun index_of :: "char \<Rightarrow> string \<Rightarrow> nat option" where
  "index_of c [] = None"
| "index_of c (x # xs) = (if c = x then Some 0 else map_option Suc (index_of c xs))"

fun strict_tail :: "nat list \<Rightarrow> bool" where
  "strict_tail (a # b # c # d # r) = strict_tail r"
| "strict_tail [a, b, c] = (c mod 4 = 0)"
| "strict_tail [a, b] = (b mod 16 = 0)"
| "strict_tail [a] = False"
| "strict_tail [] = True"

definition strict_decode :: "string \<Rightarrow> string option" where
  "strict_decode s =
     (case all_some (map (\<lambda>c. index_of c bcrypt_alphabet) s) of
        None \<Rightarrow> None
      | Some ns \<Rightarrow> if strict_tail ns then b64_groups ns else None)"

definition validBcryptEncoding :: "(string \<Rightarrow> bool) \<Rightarrow> string \<Rightarrow> bool" where
  "validBcryptEncoding cost hash =
     (case (if prefix ''$2a$'' hash \<or> prefix ''$2b$'' hash \<or> prefix ''$2y$'' hash then Some 7
            else if prefix ''$2$'' hash then Some 6
            else None) of
        None \<Rightarrow> False
      | Some offset \<Rightarrow>
          if length hash \<noteq> offset + 53 \<or> hash ! (offset - 1) \<noteq> CHR ''$'' then False
          else if \<not> cost hash then False
          else if \<not> list_all (\<lambda>c. c \<in> set bcrypt_alphabet) (drop offset hash) then False
          else
            (case strict_decode (take 22 (drop offset hash)) of
               None \<Rightarrow> False
             | Some salt \<Rightarrow>
                 if length salt \<noteq> 16 then False
                 else
                   (case strict_decode (drop (offset + 22) hash) of
                      None \<Rightarrow> False
                    | Some digest \<Rightarrow> length digest = 23)))"

section \<open>Roles and access rules\<close>

record MQTTAuthRequest =
  mreq_Username :: string
  mreq_Password :: string
  mreq_ClientID :: string

record MQTTACLRule =
  acl_Permission :: string
  acl_Action :: string
  acl_Topic :: string

record MQTTAuthResponse =
  mres_Result :: string
  mres_ClientAttrs :: "(string \<times> string) list"
  mres_ACL :: "MQTTACLRule list"

definition internalMQTTUsername :: string where
  "internalMQTTUsername = ''iot-service''"

definition aclDenyAll :: MQTTACLRule where
  "aclDenyAll = \<lparr>acl_Permission = ''deny'', acl_Action = ''all'', acl_Topic = ''#''\<rparr>"

definition withACLGuard :: "MQTTACLRule list \<Rightarrow> MQTTACLRule list" where
  "withACLGuard rules = rules @ [aclDenyAll]"

definition allow :: "string \<Rightarrow> string \<Rightarrow> MQTTACLRule" where
  "allow action topic = \<lparr>acl_Permission = ''allow'', acl_Action = action, acl_Topic = topic\<rparr>"

text \<open>\<^verbatim>\<open>strings.LastIndex\<close> of one byte, splitting the text there.\<close>

definition cut_last :: "char \<Rightarrow> string \<Rightarrow> (string \<times> string) option" where
  "cut_last c s = map_option (\<lambda>(a, b). (rev b, rev a)) (cut_on c (rev s))"

definition demoTenantFromClientID :: "string \<Rightarrow> string" where
  "demoTenantFromClientID clientID =
     (if \<not> prefix ''iot-demo-'' clientID then []
      else case cut_last CHR ''-'' (drop 9 clientID) of
             None \<Rightarrow> []
           | Some (tenant, stamp) \<Rightarrow>
               if tenant = [] then []
               else if stamp = [] then []
               else if \<not> list_all is_digit stamp then []
               else tenant)"

definition internalMQTTRole :: "string \<Rightarrow> string \<times> MQTTACLRule list" where
  "internalMQTTRole clientID =
     (if prefix ''iot-telemetry-ingestor-'' clientID then
        (''telemetry-ingestor'', withACLGuard [allow ''subscribe'' ''tenant/+/device/+/telemetry''])
      else if prefix ''iot-device-worker-'' clientID then
        (''device-worker'', withACLGuard
          [allow ''subscribe'' ''tenant/+/device/+/ack'',
           allow ''publish'' ''tenant/+/device/+/command''])
      else if prefix ''iot-demo-'' clientID then
        let tenantID = demoTenantFromClientID clientID in
        if tenantID = [] then ([], [])
        else (''demo'', withACLGuard
          [allow ''publish'' (''tenant/'' @ tenantID @ ''/device/+/telemetry''),
           allow ''publish'' (''tenant/'' @ tenantID @ ''/device/+/ack''),
           allow ''subscribe'' (''tenant/'' @ tenantID @ ''/device/+/command'')])
      else ([], []))"

definition isReservedMQTTClientID :: "string \<Rightarrow> bool" where
  "isReservedMQTTClientID ident =
     list_ex (\<lambda>p. ident = p \<or> prefix (p @ ''-'') ident)
       [''iot-device-worker'', ''iot-telemetry-ingestor'', ''iot-demo'']"

section \<open>The callback\<close>

record http_request =
  req_Method :: string
  req_Token :: string
  req_Body :: string

datatype auth_reply = AuthError nat | AuthReply MQTTAuthResponse

text \<open>
  \<^verbatim>\<open>json.Decoder.Decode\<close> reads the first value and ignores what follows; \<^verbatim>\<open>http.MaxBytesReader\<close> ends the
  input after the limit. A value that starts an object ends at the shortest valid prefix.
\<close>

definition json_first :: "string \<Rightarrow> json option" where
  "json_first s =
     (case find (\<lambda>n. json_valid (take n s)) [0..<Suc (length s)] of
        None \<Rightarrow> None | Some n \<Rightarrow> json_parse (take n s))"

definition authRequest_set :: "string \<Rightarrow> string \<Rightarrow> json \<Rightarrow> MQTTAuthRequest \<Rightarrow> MQTTAuthRequest option" where
  "authRequest_set field raw v =
     (if field = ''username'' then set_string (\<lambda>s. mreq_Username_update (\<lambda>_. s)) v
      else if field = ''password'' then set_string (\<lambda>s. mreq_Password_update (\<lambda>_. s)) v
      else set_string (\<lambda>s. mreq_ClientID_update (\<lambda>_. s)) v)"

definition decode_authRequest :: "(nat \<Rightarrow> nat) \<Rightarrow> string \<Rightarrow> MQTTAuthRequest option" where
  "decode_authRequest sf body =
     (let zero = \<lparr>mreq_Username = [], mreq_Password = [], mreq_ClientID = []\<rparr> in
      case json_first (take 16384 body) of
        Some (JObj ms) \<Rightarrow> decode_members sf [''username'', ''password'', ''clientid''] authRequest_set ms zero
      | Some JNull \<Rightarrow> Some zero
      | _ \<Rightarrow> None)"

definition deny :: MQTTAuthResponse where
  "deny = \<lparr>mres_Result = ''deny'', mres_ClientAttrs = [], mres_ACL = []\<rparr>"

definition device_reply :: "string \<Rightarrow> string \<Rightarrow> MQTTAuthResponse" where
  "device_reply tenantID deviceID =
     \<lparr>mres_Result = ''allow'',
      mres_ClientAttrs = [(''role'', ''device''), (''tenant_id'', tenantID), (''device_id'', deviceID)],
      mres_ACL = withACLGuard
        [allow ''publish'' (''eq tenant/'' @ tenantID @ ''/device/'' @ deviceID @ ''/telemetry''),
         allow ''publish'' (''eq tenant/'' @ tenantID @ ''/device/'' @ deviceID @ ''/ack''),
         allow ''subscribe'' (''eq tenant/'' @ tenantID @ ''/device/'' @ deviceID @ ''/command'')]\<rparr>"

definition authorize :: "(string \<Rightarrow> string \<Rightarrow> string \<Rightarrow> bool) option \<Rightarrow> string \<Rightarrow> MQTTAuthRequest \<Rightarrow> MQTTAuthResponse" where
  "authorize auth internalPassword req =
     (let (role, acl) = internalMQTTRole (mreq_ClientID req) in
      if mreq_Username req = internalMQTTUsername \<and> secureEqual (mreq_Password req) internalPassword \<and> role \<noteq> [] then
        \<lparr>mres_Result = ''allow'', mres_ClientAttrs = [(''role'', role)], mres_ACL = acl\<rparr>
      else if isReservedMQTTClientID (mreq_ClientID req) then deny
      else
        case ParseDeviceUsername (mreq_Username req) of
          None \<Rightarrow> deny
        | Some (tenantID, deviceID) \<Rightarrow>
            (case auth of
               None \<Rightarrow> deny
             | Some f \<Rightarrow>
                 if f tenantID deviceID (mreq_Password req) then device_reply tenantID deviceID else deny))"

definition MQTTAuthenticationHandler :: "(nat \<Rightarrow> nat) \<Rightarrow> (string \<Rightarrow> string \<Rightarrow> string \<Rightarrow> bool) option \<Rightarrow> string \<Rightarrow> string \<Rightarrow>
    http_request \<Rightarrow> auth_reply" where
  "MQTTAuthenticationHandler sf auth internalPassword callbackToken r =
     (if req_Method r \<noteq> ''POST'' then AuthError 405
      else if callbackToken = [] \<or> \<not> secureEqual (req_Token r) callbackToken then AuthError 401
      else case decode_authRequest sf (req_Body r) of
             None \<Rightarrow> AuthReply deny
           | Some req \<Rightarrow> AuthReply (authorize auth internalPassword req))"

section \<open>Lemmas\<close>

lemma reserved_roles: "fst (internalMQTTRole cid) \<noteq> [] \<Longrightarrow> isReservedMQTTClientID cid"
  by (auto simp: internalMQTTRole_def isReservedMQTTClientID_def Let_def split: if_splits)

lemma authorize_device:
  assumes "authorize auth pw req = resp" "resp \<noteq> deny" "\<not> isReservedMQTTClientID (mreq_ClientID req)"
  shows "\<exists>t d f. ParseDeviceUsername (mreq_Username req) = Some (t, d) \<and> auth = Some f \<and> f t d (mreq_Password req) \<and>
    resp = device_reply t d"
  using assms reserved_roles
  by (fastforce simp: authorize_def split: prod.splits option.splits if_splits)

text \<open>The topics of a device in a rule, read the way \<^verbatim>\<open>ParseDeviceTopic\<close> reads a topic.\<close>

lemma device_topic_parse:
  assumes "IsValidTenantID t" "IsValidTopicPart d" "IsValidTopicPart x"
  shows "ParseDeviceTopic (''tenant/'' @ t @ ''/device/'' @ d @ ''/'' @ x) = Some (t, d, x)"
proof -
  have "BuildDeviceTopic t d x = Inr (''tenant/'' @ t @ ''/device/'' @ d @ ''/'' @ x)"
    using assms by (simp add: BuildDeviceTopic_def)
  then show ?thesis by (simp only: topic_round_trip)
qed

text \<open>The service client identifiers carry a role; only the service password opens them.\<close>

lemma authorize_reserved:
  assumes "isReservedMQTTClientID (mreq_ClientID req)" "authorize auth pw req \<noteq> deny"
  shows "mreq_Username req = internalMQTTUsername \<and> mreq_Password req = pw \<and> pw \<noteq> []"
  using assms by (auto simp: authorize_def secureEqual_def split: prod.splits if_splits)

lemma decode_allow:
  assumes "MQTTAuthenticationHandler sf auth pw token r = AuthReply resp" "mres_Result resp = ''allow''"
  shows "\<exists>req. decode_authRequest sf (req_Body r) = Some req \<and> resp = authorize auth pw req \<and> resp \<noteq> deny \<and>
    req_Method r = ''POST'' \<and> token \<noteq> [] \<and> req_Token r = token"
  using assms by (auto simp: MQTTAuthenticationHandler_def deny_def secureEqual_def split: option.splits if_splits)

definition own_rule :: "string \<Rightarrow> string \<Rightarrow> MQTTACLRule \<Rightarrow> bool" where
  "own_rule t d rule \<longleftrightarrow> rule = aclDenyAll \<or>
     acl_Permission rule = ''allow'' \<and>
     (\<exists>topic part. acl_Topic rule = ''eq '' @ topic \<and> ParseDeviceTopic topic = Some (t, d, part) \<and>
       (acl_Action rule = ''publish'' \<and> part \<in> {TopicSuffixTelemetry, TopicSuffixAck} \<or>
        acl_Action rule = ''subscribe'' \<and> part = TopicSuffixCommand))"

lemma device_reply_own:
  assumes "IsValidTenantID t" "IsValidTopicPart d"
  shows "\<forall>rule \<in> set (mres_ACL (device_reply t d)). own_rule t d rule"
proof -
  have "own_rule t d (allow act (''eq tenant/'' @ t @ ''/device/'' @ d @ ''/'' @ x))"
    if "act = ''publish'' \<and> x \<in> {TopicSuffixTelemetry, TopicSuffixAck} \<or> act = ''subscribe'' \<and> x = TopicSuffixCommand" for act x
  proof -
    have "IsValidTopicPart x" using that by auto
    then show ?thesis
      using that device_topic_parse [OF assms, of x]
      by (auto simp: own_rule_def allow_def intro!: exI [of _ "''tenant/'' @ t @ ''/device/'' @ d @ ''/'' @ x"])
  qed
  from this [of "''publish''" TopicSuffixTelemetry] this [of "''publish''" TopicSuffixAck]
    this [of "''subscribe''" TopicSuffixCommand]
  show ?thesis
    by (auto simp: device_reply_def withACLGuard_def own_rule_def [of t d aclDenyAll] TopicSuffixTelemetry_def
        TopicSuffixAck_def TopicSuffixCommand_def)
qed

section \<open>Properties\<close>

text \<open>C34: What a broker callback may grant to a device. The callback answers allow only to a caller
  that presented the configured, non-empty callback token. If the client identifier is not a
  service identifier, the store has verified the password for exactly the tenant and device that
  the user name denotes, every allow rule is a literal topic of that device (publishing telemetry
  and acknowledgements, subscribing to commands), and the last rule denies everything else. If it
  is a service identifier, the request carried the service user name and the non-empty service
  password, so no device credential opens a service connection.\<close>

theorem mqtt_callback_grants:
  assumes "MQTTAuthenticationHandler sf auth internalPassword callbackToken r = AuthReply resp"
    and "mres_Result resp = ''allow''"
  shows "req_Method r = ''POST'' \<and> callbackToken \<noteq> [] \<and> req_Token r = callbackToken \<and>
    (\<exists>req. decode_authRequest sf (req_Body r) = Some req \<and>
      (if isReservedMQTTClientID (mreq_ClientID req)
       then mreq_Username req = internalMQTTUsername \<and> mreq_Password req = internalPassword \<and> internalPassword \<noteq> []
       else \<exists>t d f. ParseDeviceUsername (mreq_Username req) = Some (t, d) \<and> auth = Some f \<and> f t d (mreq_Password req) \<and>
         (\<forall>rule \<in> set (mres_ACL resp). own_rule t d rule) \<and> last (mres_ACL resp) = aclDenyAll))"
proof -
  obtain req where req: "decode_authRequest sf (req_Body r) = Some req" "resp = authorize auth internalPassword req"
    "resp \<noteq> deny" "req_Method r = ''POST''" "callbackToken \<noteq> []" "req_Token r = callbackToken"
    using decode_allow [OF assms] by blast
  show ?thesis
  proof (cases "isReservedMQTTClientID (mreq_ClientID req)")
    case True
    then show ?thesis using authorize_reserved [OF True, of auth internalPassword] req by auto
  next
    case False
    then obtain t d f where d: "ParseDeviceUsername (mreq_Username req) = Some (t, d)" "auth = Some f"
      "f t d (mreq_Password req)" "resp = device_reply t d"
      using authorize_device [OF _ req(3)] req(2) by metis
    then have "IsValidTenantID t" "IsValidTopicPart d" by (auto simp: ParseDeviceUsername_Some_iff)
    then have own: "\<forall>rule \<in> set (mres_ACL resp). own_rule t d rule" unfolding d(4) by (rule device_reply_own)
    have "last (mres_ACL resp) = aclDenyAll" by (simp add: d(4) device_reply_def withACLGuard_def)
    then show ?thesis using False req(1,4-6) d(1-3) own by simp
  qed
qed


text \<open>A demo client identifier may name the wildcard as its tenant, and its rules then span all tenants.\<close>

lemma demo_client_wildcard:
  "internalMQTTRole ''iot-demo-+-1'' = (''demo'',
     [allow ''publish'' ''tenant/+/device/+/telemetry'', allow ''publish'' ''tenant/+/device/+/ack'',
      allow ''subscribe'' ''tenant/+/device/+/command'', aclDenyAll])"
  by code_simp

definition sample_auth_request :: http_request where
  "sample_auth_request = \<lparr>req_Method = ''POST'', req_Token = ''tok'',
     req_Body = ''{'' @ json_quote ''username'' @ '':'' @ json_quote ''acme:d1'' @ '','' @
       json_quote ''password'' @ '':'' @ json_quote ''pw'' @ ''}''\<rparr>"

theorem mqtt_callback_grants_witness:
  "MQTTAuthenticationHandler id (Some (\<lambda>t d s. s = ''pw'')) ''svc'' ''tok'' sample_auth_request =
     AuthReply (device_reply ''acme'' ''d1'') \<and> last (mres_ACL (device_reply ''acme'' ''d1'')) = aclDenyAll"
proof -
  have eq: "MQTTAuthenticationHandler id (Some (\<lambda>t d s. s = ''pw'')) ''svc'' ''tok'' sample_auth_request =
     AuthReply (device_reply ''acme'' ''d1'')" by code_simp
  have "decode_authRequest id (req_Body sample_auth_request) =
     Some \<lparr>mreq_Username = ''acme:d1'', mreq_Password = ''pw'', mreq_ClientID = []\<rparr>" by code_simp
  moreover have "\<not> isReservedMQTTClientID []" by code_simp
  ultimately show ?thesis
    using eq mqtt_callback_grants [OF eq] by (auto simp: device_reply_def)
qed


end
