(* ===== verification/Postgres_Db.thy ===== *)
theory Postgres_Db
  imports Memory_Store Mqtt_Auth
begin

text \<open>
  The tables of \<^verbatim>\<open>migrations/001_init.sql\<close> and the environment of one store operation. A table is the
  list of its rows in insertion order. PostgreSQL itself is not under \<^verbatim>\<open>src/\<close>: what it may do besides
  answering the queries is in the record \<open>pgenv\<close>: the error of the n-th call of an operation, whether a
  statement that reports an error took effect all the same, the two clocks, the jsonb
  normalisation and equality, the precision of \<^verbatim>\<open>timestamptz\<close>, and the rows other transactions have
  locked. Likewise the identifier generator and bcrypt.
\<close>

section \<open>Tables\<close>

record DeviceRow =
  dr_Tenant :: string
  dr_Device :: string
  dr_Product :: string
  dr_Hash :: string
  dr_CreatedAt :: gtime
  dr_UpdatedAt :: gtime

record StateRow =
  sr_Tenant :: string
  sr_Device :: string
  sr_Connected :: bool
  sr_LastSeen :: "gtime option"
  sr_LastMsg :: "string option"
  sr_UpdatedAt :: gtime

record TelRow =
  tr_ID :: int
  tr_Rec :: TelemetryRecord

record CmdRow =
  cr_ID :: string
  cr_Tenant :: string
  cr_Device :: string
  cr_Status :: CommandStatus
  cr_Payload :: string
  cr_Next :: gtime
  cr_Attempts :: int
  cr_Deadline :: "gtime option"
  cr_CreatedAt :: gtime
  cr_UpdatedAt :: gtime
  cr_Key :: "string option"
  cr_Result :: "string option"

record AckRow =
  ar_Command :: string
  ar_Tenant :: string
  ar_Device :: string
  ar_Status :: string
  ar_Payload :: string
  ar_CreatedAt :: gtime

record EventRow =
  er_Command :: string
  er_Type :: string

record pgdb =
  db_tenants :: "Tenant list"
  db_devices :: "DeviceRow list"
  db_state :: "StateRow list"
  db_telemetry :: "TelRow list"
  db_seq :: int
  db_commands :: "CmdRow list"
  db_acks :: "AckRow list"
  db_events :: "EventRow list"

definition empty_db :: pgdb where
  "empty_db = \<lparr>db_tenants = [], db_devices = [], db_state = [], db_telemetry = [], db_seq = 0,
     db_commands = [], db_acks = [], db_events = []\<rparr>"

section \<open>The environment of an operation\<close>

record pgenv =
  pe_fault :: "nat \<Rightarrow> gerror option"
  pe_lost :: bool
  pe_now :: gtime
  pe_dbnow :: gtime
  pe_stamp :: "gtime \<Rightarrow> gtime"
  pe_jsonb :: "string \<Rightarrow> string option"
  pe_jsonb_eq :: "string \<Rightarrow> string \<Rightarrow> bool"
  pe_uuid :: "string result"
  pe_gen :: "string \<Rightarrow> string result"
  pe_cmp :: "string \<Rightarrow> string \<Rightarrow> bool"
  pe_locked :: "string \<Rightarrow> bool"
  pe_fold :: "nat \<Rightarrow> nat"

text \<open>The n-th database call of an operation: an injected error, or the continuation.\<close>

definition db_call :: "pgenv \<Rightarrow> nat \<Rightarrow> pgdb \<Rightarrow> 'a result \<times> pgdb \<Rightarrow> 'a result \<times> pgdb" where
  "db_call env n db k = (case pe_fault env n of Some err \<Rightarrow> (Inl err, db) | None \<Rightarrow> k)"

text \<open>
  A commit, or a statement outside a transaction: on error the effect \<open>db'\<close> may have happened or not.
\<close>

definition db_commit :: "pgenv \<Rightarrow> nat \<Rightarrow> pgdb \<Rightarrow> pgdb \<Rightarrow> 'a \<Rightarrow> 'a result \<times> pgdb" where
  "db_commit env n db db' v =
     (case pe_fault env n of
        Some err \<Rightarrow> (Inl err, if pe_lost env then db' else db)
      | None \<Rightarrow> (Inr v, db'))"

text \<open>A query outside a transaction.\<close>

definition db_query :: "pgenv \<Rightarrow> nat \<Rightarrow> 'a result \<Rightarrow> 'a result" where
  "db_query env n k = (case pe_fault env n of Some err \<Rightarrow> Inl err | None \<Rightarrow> k)"

section \<open>Rows of commands\<close>

text \<open>\<^verbatim>\<open>json.Unmarshal\<close> of the result column into \<^verbatim>\<open>*contracts.CommandResult\<close>.\<close>

definition result_set :: "string \<Rightarrow> string \<Rightarrow> json \<Rightarrow> CommandResult \<Rightarrow> CommandResult option" where
  "result_set field raw v =
     (if field = ''status'' then set_string (\<lambda>s. res_Status_update (\<lambda>_. status_of_string s)) v
      else if field = ''errorCode'' then set_string (\<lambda>s. res_ErrorCode_update (\<lambda>_. s)) v
      else (\<lambda>r. Some (res_Payload_update (\<lambda>_. raw) r)))"

definition unmarshal_result :: "(nat \<Rightarrow> nat) \<Rightarrow> string \<Rightarrow> CommandResult option result" where
  "unmarshal_result sf text =
     (case json_parse text of
        Some (JObj ms) \<Rightarrow>
          (case decode_members sf [''status'', ''errorCode'', ''payload''] result_set ms
                  \<lparr>res_Status = CommandStatusOther [], res_ErrorCode = [], res_Payload = []\<rparr> of
             None \<Rightarrow> Inl [ErrOpaque ''json''] | Some r \<Rightarrow> Inr (Some r))
      | Some JNull \<Rightarrow> Inr None
      | _ \<Rightarrow> Inl [ErrOpaque ''json''])"

definition scanCommandRow :: "(nat \<Rightarrow> nat) \<Rightarrow> CmdRow \<Rightarrow> Command result" where
  "scanCommandRow sf row =
     (let cmd = \<lparr>cmd_ID = cr_ID row, cmd_TenantID = cr_Tenant row, cmd_DeviceID = cr_Device row,
                 cmd_Status = cr_Status row, cmd_Payload = cr_Payload row, cmd_CreatedAt = cr_CreatedAt row,
                 cmd_UpdatedAt = cr_UpdatedAt row, cmd_DispatchAttempts = cr_Attempts row,
                 cmd_DeadlineAt = (case cr_Deadline row of None \<Rightarrow> zero_time | Some t \<Rightarrow> t), cmd_Result = None\<rparr>
      in case cr_Result row of
           None \<Rightarrow> Inr cmd
         | Some text \<Rightarrow>
             if text = [] then Inr cmd
             else bind_res (unmarshal_result sf text) (\<lambda>r. Inr (cmd\<lparr>cmd_Result := r\<rparr>)))"

fun scanCommands :: "(nat \<Rightarrow> nat) \<Rightarrow> CmdRow list \<Rightarrow> Command list result" where
  "scanCommands sf [] = Inr []"
| "scanCommands sf (row # rows) =
     bind_res (scanCommandRow sf row) (\<lambda>cmd. bind_res (scanCommands sf rows) (\<lambda>cmds. Inr (cmd # cmds)))"

definition find_command :: "string \<Rightarrow> pgdb \<Rightarrow> CmdRow option" where
  "find_command uid db = find (\<lambda>r. cr_ID r = uid) (db_commands db)"

text \<open>\<^verbatim>\<open>UPDATE commands SET f WHERE P\<close>, with one row in \<^verbatim>\<open>command_events\<close> per changed command.\<close>

definition update_commands :: "(CmdRow \<Rightarrow> CmdRow) \<Rightarrow> (CmdRow \<Rightarrow> bool) \<Rightarrow> pgdb \<Rightarrow> pgdb" where
  "update_commands f P db = db\<lparr>db_commands := map (\<lambda>r. if P r then f r else r) (db_commands db)\<rparr>"

definition add_events :: "string \<Rightarrow> string list \<Rightarrow> pgdb \<Rightarrow> pgdb" where
  "add_events event uids db = db\<lparr>db_events := db_events db @ map (\<lambda>u. \<lparr>er_Command = u, er_Type = event\<rparr>) uids\<rparr>"

definition translateSQLError :: "gerror option \<Rightarrow> gerror option" where
  "translateSQLError err =
     (case err of
        None \<Rightarrow> None
      | Some e \<Rightarrow> if errors_is e ErrDuplicateKey then Some [ErrAlreadyExists] else Some e)"

end
