(* ===== verification/Postgres_Store.thy ===== *)
theory Postgres_Store
  imports Postgres_Db
begin

text \<open>
  The PostgreSQL repository, \<^verbatim>\<open>internal/platform/postgres_store.go\<close>. Each method is a function of the
  environment, its arguments and the tables. A method is one atomic step: a statement outside a
  transaction is atomic, and the transactions lock the rows they change before they read them
  (\<^verbatim>\<open>FOR UPDATE\<close>, unique indexes), while tenants, devices and commands are never deleted.
\<close>

section \<open>Tenants and devices\<close>

definition pg_CreateTenantContext :: "pgenv \<Rightarrow> Tenant \<Rightarrow> pgdb \<Rightarrow> Tenant result \<times> pgdb" where
  "pg_CreateTenantContext env t db =
     (case ValidateTenantName (ten_Name t) of
        Some err \<Rightarrow> (Inl err, db)
      | None \<Rightarrow>
          if \<not> IsValidTenantID (ten_ID t) then (Inl [ErrInvalidTopicPart], db)
          else
            let taken = ten_ID t \<in> ten_ID ` set (db_tenants db);
                db' = (if taken then db else db\<lparr>db_tenants := db_tenants db @ [t]\<rparr>)
            in case pe_fault env 0 of
                 Some e \<Rightarrow> (Inl (the (translateSQLError (Some e))), if pe_lost env then db' else db)
               | None \<Rightarrow>
                   if taken then (Inl (the (translateSQLError (Some [ErrDuplicateKey]))), db) else (Inr t, db'))"

definition pg_ListTenantsContext :: "pgenv \<Rightarrow> pgdb \<Rightarrow> Tenant list result" where
  "pg_ListTenantsContext env db = db_query env 0 (db_query env 1 (Inr (order_rows True ten_ID (db_tenants db))))"

definition pg_ListTenantsPageContext :: "pgenv \<Rightarrow> PageRequest \<Rightarrow> pgdb \<Rightarrow> (Tenant list \<times> string) result" where
  "pg_ListTenantsPageContext env page0 db =
     bind_res (NormalizePageRequest (page_Size page0) (page_Cursor page0)) (\<lambda>page.
     bind_res (decodeCursor (page_Cursor page) 1) (\<lambda>parts.
       let after = (case parts of [p] \<Rightarrow> p | _ \<Rightarrow> []);
           rows = take (Suc (nat (page_Size page)))
                    (order_rows True ten_ID (filter (\<lambda>t. after < ten_ID t) (db_tenants db)))
       in db_query env 0
            (bind_res (list_page tenantListBytes (nat (page_Size page)) (\<lambda>t. encodeCursor [ten_ID t]) rows)
              (\<lambda>r. db_query env 1 (Inr r)))))"

definition device_of_row :: "DeviceRow \<Rightarrow> Device" where
  "device_of_row r = \<lparr>dev_TenantID = dr_Tenant r, dev_DeviceID = dr_Device r, dev_ProductID = dr_Product r,
     dev_Secret = [], dev_CreatedAt = dr_CreatedAt r\<rparr>"

definition pg_ListDevicesPageContext :: "pgenv \<Rightarrow> PageRequest \<Rightarrow> pgdb \<Rightarrow> (Device list \<times> string) result" where
  "pg_ListDevicesPageContext env page0 db =
     bind_res (NormalizeListRequest page0 ''devices'') (\<lambda>page.
     bind_res (decodeDeviceCursor (page_Cursor page)) (\<lambda>(afterTenant, afterDevice).
       if afterTenant \<noteq> [] \<and> afterTenant \<noteq> page_TenantID page then Inl errInvalidCursor
       else
         let rows = take (Suc (nat (page_Size page)))
                      (order_rows True dev_DeviceID
                        (map device_of_row (filter (\<lambda>r. dr_Tenant r = page_TenantID page \<and> afterDevice < dr_Device r)
                          (db_devices db))))
         in db_query env 0
              (bind_res (list_page deviceListBytes (nat (page_Size page))
                  (\<lambda>d. encodeDeviceCursor (dev_TenantID d) (dev_DeviceID d)) rows)
                (\<lambda>r. db_query env 1 (Inr r)))))"

definition upsert_created :: "string \<Rightarrow> string \<Rightarrow> gtime \<Rightarrow> StateRow list \<Rightarrow> StateRow list" where
  "upsert_created t d at rows =
     (if (t, d) \<in> (\<lambda>r. (sr_Tenant r, sr_Device r)) ` set rows
      then map (\<lambda>r. if sr_Tenant r = t \<and> sr_Device r = d then r\<lparr>sr_UpdatedAt := at\<rparr> else r) rows
      else rows @ [\<lparr>sr_Tenant = t, sr_Device = d, sr_Connected = False, sr_LastSeen = None, sr_LastMsg = None,
                    sr_UpdatedAt = at\<rparr>])"

definition has_device :: "string \<Rightarrow> string \<Rightarrow> pgdb \<Rightarrow> bool" where
  "has_device t d db \<longleftrightarrow> list_ex (\<lambda>r. dr_Tenant r = t \<and> dr_Device r = d) (db_devices db)"

definition pg_CreateDeviceContext :: "pgenv \<Rightarrow> Device \<Rightarrow> pgdb \<Rightarrow> Device result \<times> pgdb" where
  "pg_CreateDeviceContext env d db =
     (case ValidateProductID (dev_ProductID d) of
        Some err \<Rightarrow> (Inl err, db)
      | None \<Rightarrow>
          if \<not> IsValidTenantID (dev_TenantID d) \<or> \<not> IsValidTopicPart (dev_DeviceID d)
          then (Inl [ErrInvalidTopicPart], db)
          else db_call env 0 db (db_call env 1 db (
            if dev_TenantID d \<notin> ten_ID ` set (db_tenants db) then (Inl [ErrNotFound], db)
            else
              let d = d\<lparr>dev_CreatedAt := pe_now env\<rparr>; at = pe_stamp env (pe_now env) in
              case HashDeviceSecret (pe_gen env) (dev_Secret d) of
                Inl err \<Rightarrow> (Inl err, db)
              | Inr hash \<Rightarrow>
                  (case pe_fault env 2 of
                     Some e \<Rightarrow> (Inl (the (translateSQLError (Some e))), db)
                   | None \<Rightarrow>
                       if has_device (dev_TenantID d) (dev_DeviceID d) db
                       then (Inl (the (translateSQLError (Some [ErrDuplicateKey]))), db)
                       else db_call env 3 db (
                         db_commit env 4 db
                           (db\<lparr>db_devices := db_devices db @
                                 [\<lparr>dr_Tenant = dev_TenantID d, dr_Device = dev_DeviceID d, dr_Product = dev_ProductID d,
                                   dr_Hash = hash, dr_CreatedAt = at, dr_UpdatedAt = at\<rparr>],
                               db_state := upsert_created (dev_TenantID d) (dev_DeviceID d) at (db_state db)\<rparr>)
                           (d\<lparr>dev_Secret := []\<rparr>))))))"

definition pg_ListDevicesContext :: "pgenv \<Rightarrow> pgdb \<Rightarrow> Device list result" where
  "pg_ListDevicesContext env db =
     db_query env 0 (db_query env 1
       (Inr (order_rows True (\<lambda>d. (dev_TenantID d, dev_DeviceID d)) (map device_of_row (db_devices db)))))"

definition find_device :: "string \<Rightarrow> string \<Rightarrow> pgdb \<Rightarrow> DeviceRow option" where
  "find_device t d db = find (\<lambda>r. dr_Tenant r = t \<and> dr_Device r = d) (db_devices db)"

definition pg_GetDeviceContext :: "pgenv \<Rightarrow> string \<Rightarrow> string \<Rightarrow> pgdb \<Rightarrow> Device result" where
  "pg_GetDeviceContext env tenantID deviceID db =
     db_query env 0
       (case find_device tenantID deviceID db of
          None \<Rightarrow> Inl [ErrNotFound] | Some r \<Rightarrow> Inr (device_of_row r))"

definition pg_AuthenticateDeviceContext :: "pgenv \<Rightarrow> string \<Rightarrow> string \<Rightarrow> string \<Rightarrow> pgdb \<Rightarrow> bool" where
  "pg_AuthenticateDeviceContext env tenantID deviceID secret db =
     (case db_query env 0
             (case find_device tenantID deviceID db of None \<Rightarrow> Inl [ErrNoRows] | Some r \<Rightarrow> Inr (dr_Hash r)) of
        Inl _ \<Rightarrow> False
      | Inr hash \<Rightarrow> VerifyDeviceSecret (pe_cmp env) hash secret)"

section \<open>Telemetry\<close>

text \<open>The outcomes of recording: stored, a duplicate with the row stored earlier, or an error.\<close>

datatype tel_result = TelStored TelemetryRecord | TelDuplicate TelemetryRecord | TelFailed gerror

definition tel_error :: "tel_result \<Rightarrow> gerror option" where
  "tel_error r = (case r of TelStored _ \<Rightarrow> None | TelDuplicate _ \<Rightarrow> Some [ErrDuplicateTelemetry] | TelFailed e \<Rightarrow> Some e)"

definition requireDevice :: "pgenv \<Rightarrow> nat \<Rightarrow> string \<Rightarrow> string \<Rightarrow> pgdb \<Rightarrow> gerror option" where
  "requireDevice env n tenantID deviceID db =
     (case pe_fault env n of
        Some e \<Rightarrow> Some e
      | None \<Rightarrow> if has_device tenantID deviceID db then None else Some [ErrNotFound])"

definition telemetry_id :: "TelemetryRecord \<Rightarrow> string \<times> string \<times> string" where
  "telemetry_id r = (rec_MsgID r, rec_TenantID r, rec_DeviceID r)"

definition find_telemetry :: "string \<times> string \<times> string \<Rightarrow> pgdb \<Rightarrow> TelRow option" where
  "find_telemetry k db = find (\<lambda>r. telemetry_id (tr_Rec r) = k) (db_telemetry db)"

text \<open>The \<^verbatim>\<open>device_state\<close> upsert of \<^verbatim>\<open>RestoreTelemetryContext\<close>: only a later receive time moves the row.\<close>

definition upsert_seen :: "string \<Rightarrow> string \<Rightarrow> gtime \<Rightarrow> string \<Rightarrow> gtime \<Rightarrow> StateRow list \<Rightarrow> StateRow list" where
  "upsert_seen t d seen msg now rows =
     (if (t, d) \<in> (\<lambda>r. (sr_Tenant r, sr_Device r)) ` set rows
      then map (\<lambda>r.
        if sr_Tenant r = t \<and> sr_Device r = d \<and> (case sr_LastSeen r of None \<Rightarrow> True | Some u \<Rightarrow> u < seen)
        then r\<lparr>sr_Connected := True, sr_LastSeen := Some seen, sr_LastMsg := Some msg,
               sr_UpdatedAt := max (sr_UpdatedAt r) now\<rparr>
        else r) rows
      else rows @ [\<lparr>sr_Tenant = t, sr_Device = d, sr_Connected = True, sr_LastSeen = Some seen, sr_LastMsg = Some msg,
                    sr_UpdatedAt = now\<rparr>])"

definition pg_RestoreTelemetryContext :: "pgenv \<Rightarrow> TelemetryRecord \<Rightarrow> pgdb \<Rightarrow> tel_result \<times> pgdb" where
  "pg_RestoreTelemetryContext env rec0 db =
     (case ValidateTelemetryPayload (rec_Payload rec0) of Some err \<Rightarrow> (TelFailed err, db) | None \<Rightarrow>
      if IsZero (rec_ReceivedAt rec0) then (TelFailed [ErrInvalidEnvelope], db)
      else
        let rec = rec0\<lparr>rec_TDengineWritten := False\<rparr> in
        case pe_fault env 0 of Some err \<Rightarrow> (TelFailed err, db) | None \<Rightarrow>
        (case requireDevice env 1 (rec_TenantID rec) (rec_DeviceID rec) db of Some err \<Rightarrow> (TelFailed err, db) | None \<Rightarrow>
        (case pe_fault env 2 of Some err \<Rightarrow> (TelFailed err, db) | None \<Rightarrow>
        (case pe_jsonb env (rec_Payload rec) of None \<Rightarrow> (TelFailed [ErrOpaque ''jsonb''], db) | Some normalized \<Rightarrow>
        (case ValidateTelemetryPayload normalized of Some err \<Rightarrow> (TelFailed err, db) | None \<Rightarrow>
        (case marshal_raw (rec_Payload rec) of None \<Rightarrow> (TelFailed [ErrOpaque ''json''], db) | Some payloadBytes \<Rightarrow>
        (case pe_fault env 3 of Some err \<Rightarrow> (TelFailed err, db) | None \<Rightarrow>
        (case pe_jsonb env payloadBytes of None \<Rightarrow> (TelFailed [ErrOpaque ''jsonb''], db) | Some stored \<Rightarrow>
        (case find_telemetry (telemetry_id rec) db of
           Some row \<Rightarrow>
             (case pe_fault env 4 of Some err \<Rightarrow> (TelFailed err, db) | None \<Rightarrow> (TelDuplicate (tr_Rec row), db))
         | None \<Rightarrow>
             (case pe_fault env 4 of Some err \<Rightarrow> (TelFailed err, db) | None \<Rightarrow>
                let at = pe_stamp env (rec_ReceivedAt rec);
                    db' = db\<lparr>db_telemetry := db_telemetry db @
                               [\<lparr>tr_ID = db_seq db + 1, tr_Rec = rec\<lparr>rec_Payload := stored, rec_ReceivedAt := at\<rparr>\<rparr>],
                             db_seq := db_seq db + 1,
                             db_state := upsert_seen (rec_TenantID rec) (rec_DeviceID rec) at (rec_MsgID rec)
                               (pe_stamp env (pe_now env)) (db_state db)\<rparr>
                in case db_commit env 5 db db' rec of
                     (Inl err, db2) \<Rightarrow> (TelFailed err, db2) | (Inr r, db2) \<Rightarrow> (TelStored r, db2)))))))))))"

definition pg_RecordTelemetryContext :: "pgenv \<Rightarrow> Envelope \<Rightarrow> pgdb \<Rightarrow> tel_result \<times> pgdb" where
  "pg_RecordTelemetryContext env e db = pg_RestoreTelemetryContext env (record_of_envelope (pe_now env) e) db"

definition pg_MarkTelemetryTDengineWrittenContext :: "pgenv \<Rightarrow> string \<Rightarrow> string \<Rightarrow> string \<Rightarrow> pgdb \<Rightarrow> unit result \<times> pgdb" where
  "pg_MarkTelemetryTDengineWrittenContext env msgID tenantID deviceID db =
     db_commit env 0 db
       (db\<lparr>db_telemetry := map (\<lambda>r. if telemetry_id (tr_Rec r) = (msgID, tenantID, deviceID)
                                   then r\<lparr>tr_Rec := (tr_Rec r)\<lparr>rec_TDengineWritten := True\<rparr>\<rparr> else r) (db_telemetry db)\<rparr>) ()"

definition pg_ListUnwrittenTelemetry :: "pgenv \<Rightarrow> gtime \<Rightarrow> int \<Rightarrow> string list \<Rightarrow> int \<Rightarrow> pgdb \<Rightarrow>
    (TelemetryRecord list \<times> int) result" where
  "pg_ListUnwrittenTelemetry env olderThan afterID tenantIDs limit db =
     (if limit < 1 then Inr ([], afterID)
      else
        let rows = take (nat limit) (sort_key tr_ID (filter (\<lambda>r.
                     \<not> rec_TDengineWritten (tr_Rec r) \<and> rec_ReceivedAt (tr_Rec r) \<le> pe_stamp env olderThan \<and>
                     afterID < tr_ID r \<and> (tenantIDs \<noteq> [] \<longrightarrow> rec_TenantID (tr_Rec r) \<in> set tenantIDs))
                     (db_telemetry db)))
        in db_query env 0 (db_query env 1
             (Inr (map tr_Rec rows, if rows = [] then afterID else tr_ID (last rows)))))"

definition pg_ListTelemetryContext :: "pgenv \<Rightarrow> string \<Rightarrow> string \<Rightarrow> pgdb \<Rightarrow> TelemetryRecord list result" where
  "pg_ListTelemetryContext env tenantID deviceID db =
     db_query env 0 (db_query env 1
       (Inr (map (\<lambda>r. r\<lparr>rec_TDengineWritten := False\<rparr>)
         (sort_key rec_ReceivedAt
           (filter (\<lambda>r. rec_TenantID r = tenantID \<and> rec_DeviceID r = deviceID) (map tr_Rec (db_telemetry db)))))))"

text \<open>
  The filter of \<^verbatim>\<open>ListTelemetryPageContext\<close> compares milliseconds; the comparison with the cursor is the
  row comparison \<^verbatim>\<open>(ts,msg_id) < ($6,$7)\<close> or \<^verbatim>\<open>>\<close>.
\<close>

definition pg_telemetry_matches :: "PageRequest \<Rightarrow> TelemetryRecord \<Rightarrow> bool" where
  "pg_telemetry_matches page r \<longleftrightarrow>
     rec_TenantID r = page_TenantID page \<and> rec_DeviceID r = page_DeviceID page \<and>
     (page_HasStartTime page \<longrightarrow> UnixMilli (page_StartTime page) \<le> rec_Ts r) \<and>
     (page_HasEndTime page \<longrightarrow> rec_Ts r < UnixMilli (page_EndTime page)) \<and>
     (page_Type page = [] \<or> rec_Type r = page_Type page)"

definition pg_ListTelemetryPageContext :: "(string \<Rightarrow> string) \<Rightarrow> (string \<Rightarrow> gtime option) \<Rightarrow> pgenv \<Rightarrow> PageRequest \<Rightarrow> pgdb \<Rightarrow>
    (TelemetryRecord list \<times> string) result" where
  "pg_ListTelemetryPageContext sha other env page0 db =
     bind_res (NormalizeListRequest page0 ''telemetry'') (\<lambda>page.
     bind_res (decodePageCursor sha (pe_fold env) other page ''telemetry'') (\<lambda>(afterAt, afterID).
       let asc = (page_Sort page = ''asc'');
           afterMillis = UnixMilli afterAt;
           rows = take (Suc (nat (page_Size page)))
                    (order_rows asc (\<lambda>r. (rec_Ts r, rec_MsgID r))
                      (filter (\<lambda>r. pg_telemetry_matches page r \<and>
                          (page_Cursor page = [] \<or> beyond asc (afterMillis, afterID) (rec_Ts r, rec_MsgID r)))
                        (map (\<lambda>r. (tr_Rec r)\<lparr>rec_TDengineWritten := False\<rparr>) (db_telemetry db))))
       in db_query env 0
            (bind_res (list_page telemetryListBytes (nat (page_Size page))
                (\<lambda>r. encodePageCursor sha page ''telemetry'' (fromUnixMilli (rec_Ts r)) (rec_MsgID r)) rows)
              (\<lambda>r. db_query env 1 (Inr r)))))"

definition pg_GetDeviceStatusContext :: "duration \<Rightarrow> pgenv \<Rightarrow> string \<Rightarrow> string \<Rightarrow> pgdb \<Rightarrow> DeviceStatus result" where
  "pg_GetDeviceStatusContext ttl env tenantID deviceID db =
     db_query env 0
       (case find (\<lambda>r. sr_Tenant r = tenantID \<and> sr_Device r = deviceID) (db_state db) of
          None \<Rightarrow> Inl [ErrNotFound]
        | Some r \<Rightarrow>
            let status = \<lparr>ds_TenantID = sr_Tenant r, ds_DeviceID = sr_Device r, ds_Online = sr_Connected r,
                          ds_LastSeenAt = zero_time\<rparr>
            in case sr_LastSeen r of
                 None \<Rightarrow> Inr status
               | Some seen \<Rightarrow>
                   let status = status\<lparr>ds_LastSeenAt := seen\<rparr> in
                   Inr (if ttl > 0 \<and> time_Sub (pe_now env) seen > ttl then status\<lparr>ds_Online := False\<rparr> else status))"

section \<open>Legacy credentials\<close>

text \<open>
  \<^verbatim>\<open>migrateLegacyDeviceSecrets\<close> on the rows of an old \<^verbatim>\<open>devices\<close> table that still has the column \<^verbatim>\<open>secret\<close>:
  every plain secret is replaced by its hash, an existing hash is kept when it is well formed, and
  any bad row fails the whole migration, which is then rolled back.
\<close>

record LegacyRow =
  lr_Tenant :: string
  lr_Device :: string
  lr_Secret :: "string option"
  lr_Hash :: string

definition migrate_row :: "(string \<Rightarrow> bool) \<Rightarrow> pgenv \<Rightarrow> LegacyRow \<Rightarrow> LegacyRow result" where
  "migrate_row cost env r =
     (case lr_Secret r of
        None \<Rightarrow> Inr r
      | Some secret \<Rightarrow>
          if lr_Hash r = [] then
            bind_res (HashDeviceSecret (pe_gen env) secret) (\<lambda>hash. Inr (r\<lparr>lr_Hash := hash, lr_Secret := None\<rparr>))
          else if \<not> validBcryptEncoding cost (lr_Hash r) then Inl [ErrOpaque ''legacy device hash is invalid'']
          else Inr (r\<lparr>lr_Secret := None\<rparr>))"

fun migrate_rows :: "(string \<Rightarrow> bool) \<Rightarrow> pgenv \<Rightarrow> LegacyRow list \<Rightarrow> LegacyRow list result" where
  "migrate_rows cost env [] = Inr []"
| "migrate_rows cost env (r # rows) =
     bind_res (migrate_row cost env r) (\<lambda>r'. bind_res (migrate_rows cost env rows) (\<lambda>rows'. Inr (r' # rows')))"

definition migrateLegacyDeviceSecrets :: "(string \<Rightarrow> bool) \<Rightarrow> pgenv \<Rightarrow> bool \<Rightarrow> LegacyRow list \<Rightarrow> LegacyRow list result" where
  "migrateLegacyDeviceSecrets cost env legacy rows =
     db_query env 0 (if \<not> legacy then Inr rows
       else db_query env 1 (db_query env 2 (bind_res (migrate_rows cost env rows) (\<lambda>rows'. db_query env 3 (Inr rows')))))"

text \<open>\<^verbatim>\<open>ensureSchema\<close>: lock, upgrade, create and migrate in one transaction; on any error nothing changes.\<close>

definition ensureSchema :: "(string \<Rightarrow> bool) \<Rightarrow> pgenv \<Rightarrow> pgenv \<Rightarrow> bool \<Rightarrow> LegacyRow list \<Rightarrow> unit result \<times> LegacyRow list" where
  "ensureSchema cost env inner legacy rows =
     (case db_query env 0 (db_query env 1 (db_query env 2 (db_query env 3
             (migrateLegacyDeviceSecrets cost inner legacy rows)))) of
        Inl err \<Rightarrow> (Inl err, rows)
      | Inr rows' \<Rightarrow>
          (case pe_fault env 4 of
             Some err \<Rightarrow> (Inl err, if pe_lost env then rows' else rows)
           | None \<Rightarrow> (Inr (), rows')))"

lemma migrate_rows_no_secret:
  "migrate_rows cost env rows = Inr rows' \<Longrightarrow>
     map (\<lambda>r. (lr_Tenant r, lr_Device r)) rows' = map (\<lambda>r. (lr_Tenant r, lr_Device r)) rows \<and>
     (\<forall>r \<in> set rows'. lr_Secret r = None)"
proof (induction rows arbitrary: rows')
  case (Cons r rows)
  have "migrate_row cost env r = Inr r' \<Longrightarrow> lr_Tenant r' = lr_Tenant r \<and> lr_Device r' = lr_Device r \<and> lr_Secret r' = None" for r'
    by (auto simp: migrate_row_def split: option.splits if_splits)
  then show ?case using Cons by fastforce
qed simp

end
