(* ===== verification/Postgres_Commands.thy ===== *)
theory Postgres_Commands
  imports Postgres_Store
begin

text \<open>
  The command methods of \<^verbatim>\<open>postgres_store.go\<close>: creation with a request key, acknowledgement, claims for
  dispatch, the guarded status updates, the bounded sweeps, and the listings.
\<close>

section \<open>Creation and acknowledgement\<close>

definition maxDispatchAttempts :: int where
  "maxDispatchAttempts = 10"

definition key_taken :: "string \<Rightarrow> string \<Rightarrow> pgdb \<Rightarrow> CmdRow option" where
  "key_taken tenantID key db = find (\<lambda>r. cr_Tenant r = tenantID \<and> cr_Key r = Some key) (db_commands db)"

text \<open>The insertion, which a taken request key turns into a look-up of the command created earlier.\<close>

definition pg_insert_command :: "pgenv \<Rightarrow> string \<Rightarrow> string \<Rightarrow> string \<Rightarrow> string \<Rightarrow> string \<Rightarrow> pgdb \<Rightarrow> Command result \<times> pgdb" where
  "pg_insert_command env tenantID deviceID key normalized uid db =
     (let now = pe_now env; at = pe_stamp env now;
          cmd = \<lparr>cmd_ID = uid, cmd_TenantID = tenantID, cmd_DeviceID = deviceID, cmd_Status = CommandStatusCreated,
                 cmd_Payload = normalized, cmd_CreatedAt = now, cmd_UpdatedAt = now, cmd_DispatchAttempts = 0,
                 cmd_DeadlineAt = zero_time, cmd_Result = None\<rparr>;
          row = \<lparr>cr_ID = uid, cr_Tenant = tenantID, cr_Device = deviceID, cr_Status = CommandStatusCreated,
                 cr_Payload = normalized, cr_Next = at, cr_Attempts = 0, cr_Deadline = None, cr_CreatedAt = at,
                 cr_UpdatedAt = at, cr_Key = (if key = [] then None else Some key), cr_Result = None\<rparr>
      in db_call env 3 db
           (case (if key = [] then None else key_taken tenantID key db) of
              Some old \<Rightarrow>
                db_call env 4 db
                  (if \<not> (cr_Device old = deviceID \<and> pe_jsonb_eq env (cr_Payload old) normalized)
                   then (Inl [ErrIdempotencyConflict], db)
                   else case scanCommandRow (pe_fold env) old of
                          Inl err \<Rightarrow> (Inl err, db)
                        | Inr cmd \<Rightarrow> db_commit env 5 db db cmd)
            | None \<Rightarrow>
                if find_command uid db \<noteq> None then (Inl [ErrDuplicateKey], db)
                else db_call env 4 db
                  (db_commit env 5 db
                    (add_events ''created'' [uid] (db\<lparr>db_commands := db_commands db @ [row]\<rparr>)) cmd)))"

definition pg_CreateCommandWithKey :: "pgenv \<Rightarrow> string \<Rightarrow> string \<Rightarrow> string \<Rightarrow> string \<Rightarrow> pgdb \<Rightarrow> Command result \<times> pgdb" where
  "pg_CreateCommandWithKey env tenantID deviceID key payload db =
     (case ValidateCommandInput tenantID deviceID payload of Some err \<Rightarrow> (Inl err, db) | None \<Rightarrow>
     (case ValidateIdempotencyKey key of Some err \<Rightarrow> (Inl err, db) | None \<Rightarrow>
      db_call env 0 db
     (case requireDevice env 1 tenantID deviceID db of Some err \<Rightarrow> (Inl err, db) | None \<Rightarrow>
      db_call env 2 db
     (case pe_jsonb env (command_payload payload) of None \<Rightarrow> (Inl [ErrOpaque ''jsonb''], db) | Some normalized \<Rightarrow>
     (case ValidateCommandInput tenantID deviceID normalized of Some err \<Rightarrow> (Inl err, db) | None \<Rightarrow>
     (case pe_uuid env of
        Inl err \<Rightarrow> (Inl err, db)
      | Inr uid \<Rightarrow> pg_insert_command env tenantID deviceID key normalized uid db))))))"

text \<open>The acknowledgement of a locked row.\<close>

definition pg_apply_ack :: "pgenv \<Rightarrow> string \<Rightarrow> string \<Rightarrow> string \<Rightarrow> CommandResult \<Rightarrow> string \<Rightarrow> CmdRow \<Rightarrow> Command \<Rightarrow> pgdb \<Rightarrow>
    Command result \<times> pgdb" where
  "pg_apply_ack env uid tenantID deviceID normalized encoded row cmd db =
     (if cmd_TenantID cmd \<noteq> tenantID \<or> cmd_DeviceID cmd \<noteq> deviceID then (Inl [ErrNotFound], db)
      else if cmd_Status cmd = CommandStatusAcked \<or> cmd_Status cmd = CommandStatusTimeout \<or>
              cmd_Status cmd = CommandStatusFailed then
        (case cmd_Result cmd of
           None \<Rightarrow> db_commit env 2 db db cmd
         | Some _ \<Rightarrow>
             db_call env 2 db
               (case pe_jsonb env encoded of None \<Rightarrow> (Inl [ErrOpaque ''jsonb''], db) | Some other \<Rightarrow>
                  if \<not> pe_jsonb_eq env (the (cr_Result row)) other then (Inl [ErrAcknowledgementConflict], db)
                  else db_commit env 3 db db cmd))
      else
        (case AdvanceCommandStatus (cmd_Status cmd) (event_of_status (res_Status normalized)) of
           Inl err \<Rightarrow> (Inl err, db)
         | Inr next \<Rightarrow>
             db_call env 2 db
             (case pe_jsonb env encoded of None \<Rightarrow> (Inl [ErrOpaque ''jsonb''], db) | Some stored \<Rightarrow>
                let now = pe_now env; at = pe_stamp env now;
                    st = status_string (res_Status normalized);
                    db1 = update_commands (\<lambda>r. r\<lparr>cr_Status := next, cr_UpdatedAt := at, cr_Result := Some stored\<rparr>)
                            (\<lambda>r. cr_ID r = uid) db;
                    db2 = db1\<lparr>db_acks := db_acks db1 @
                            [\<lparr>ar_Command = uid, ar_Tenant = tenantID, ar_Device = deviceID, ar_Status = st,
                              ar_Payload = stored, ar_CreatedAt = at\<rparr>]\<rparr>;
                    db3 = add_events st [uid] db2
                in db_call env 3 db (db_call env 4 db
                     (db_commit env 5 db db3
                       (cmd\<lparr>cmd_Status := next, cmd_UpdatedAt := now, cmd_Result := Some normalized\<rparr>))))))"

definition pg_AckCommandResultContext :: "pgenv \<Rightarrow> string \<Rightarrow> string \<Rightarrow> string \<Rightarrow> CommandResult \<Rightarrow> pgdb \<Rightarrow>
    Command result \<times> pgdb" where
  "pg_AckCommandResultContext env uid tenantID deviceID input db =
     (case ValidateDeviceIdentity tenantID deviceID of Some err \<Rightarrow> (Inl err, db) | None \<Rightarrow>
     (case ValidateCommandID uid of Some err \<Rightarrow> (Inl err, db) | None \<Rightarrow>
     (case NormalizeCommandResult input of Inl err \<Rightarrow> (Inl err, db) | Inr normalized \<Rightarrow>
     (case marshal_result normalized of None \<Rightarrow> (Inl [ErrOpaque ''json''], db) | Some encoded \<Rightarrow>
      db_call env 0 db (db_call env 1 db
     (case find_command uid db of None \<Rightarrow> (Inl [ErrNotFound], db) | Some row \<Rightarrow>
     (case scanCommandRow (pe_fold env) row of
        Inl err \<Rightarrow> (Inl err, db)
      | Inr cmd \<Rightarrow> pg_apply_ack env uid tenantID deviceID normalized encoded row cmd db)))))))"

definition pg_AckCommandContext :: "pgenv \<Rightarrow> string \<Rightarrow> string \<Rightarrow> string \<Rightarrow> pgdb \<Rightarrow> Command result \<times> pgdb" where
  "pg_AckCommandContext env uid tenantID deviceID =
     pg_AckCommandResultContext env uid tenantID deviceID
       \<lparr>res_Status = CommandStatusAcked, res_ErrorCode = [], res_Payload = []\<rparr>"

section \<open>Dispatch\<close>

definition created_order :: "CmdRow \<Rightarrow> gtime \<times> string" where
  "created_order r = (cr_CreatedAt r, cr_ID r)"

text \<open>\<^verbatim>\<open>SELECT id ... ORDER BY created_at,id LIMIT n FOR UPDATE SKIP LOCKED\<close>.\<close>

definition select_batch :: "pgenv \<Rightarrow> nat \<Rightarrow> (CmdRow \<Rightarrow> bool) \<Rightarrow> pgdb \<Rightarrow> string list" where
  "select_batch env n P db =
     map cr_ID (take n (sort_key created_order (filter (\<lambda>r. P r \<and> \<not> pe_locked env (cr_ID r)) (db_commands db))))"

definition claimable :: "pgenv \<Rightarrow> CmdRow \<Rightarrow> bool" where
  "claimable env r \<longleftrightarrow> cr_Status r = CommandStatusCreated \<and> cr_Next r \<le> pe_dbnow env \<and> cr_Attempts r < maxDispatchAttempts"

definition claim_row :: "pgenv \<Rightarrow> duration \<Rightarrow> CmdRow \<Rightarrow> CmdRow" where
  "claim_row env lease r = r\<lparr>cr_Attempts := cr_Attempts r + 1, cr_Next := pe_stamp env (pe_dbnow env + lease),
     cr_UpdatedAt := pe_dbnow env\<rparr>"

definition pg_ClaimCommandsForDispatchContext :: "pgenv \<Rightarrow> int \<Rightarrow> duration \<Rightarrow> pgdb \<Rightarrow> Command list result \<times> pgdb" where
  "pg_ClaimCommandsForDispatchContext env limit lease db =
     (if limit < 1 then (Inr [], db)
      else
        let ids = select_batch env (nat limit) (claimable env) db;
            P = (\<lambda>r. cr_ID r \<in> set ids);
            db' = update_commands (claim_row env lease) P db
        in case db_commit env 0 db db' () of
             (Inl err, db2) \<Rightarrow> (Inl err, db2)
           | (Inr _, db2) \<Rightarrow> (scanCommands (pe_fold env) (filter P (db_commands db')), db2))"

text \<open>One statement changes the commands and writes one event per changed command.\<close>

definition updateCommandsWithEvent :: "pgenv \<Rightarrow> nat \<Rightarrow> (CmdRow \<Rightarrow> CmdRow) \<Rightarrow> (CmdRow \<Rightarrow> bool) \<Rightarrow> string \<Rightarrow> pgdb \<Rightarrow>
    int result \<times> pgdb" where
  "updateCommandsWithEvent env n f P event db =
     (let changed = map cr_ID (filter P (db_commands db))
      in db_commit env n db (add_events event changed (update_commands f P db)) (int (length changed)))"

definition updateCommandBatchWithEvent :: "pgenv \<Rightarrow> nat \<Rightarrow> (CmdRow \<Rightarrow> CmdRow) \<Rightarrow> (CmdRow \<Rightarrow> bool) \<Rightarrow> string \<Rightarrow> pgdb \<Rightarrow>
    int result \<times> pgdb" where
  "updateCommandBatchWithEvent env n f P event db =
     updateCommandsWithEvent env n f (\<lambda>r. cr_ID r \<in> set (select_batch env 500 P db)) event db"

definition ignore_count :: "int result \<times> pgdb \<Rightarrow> unit result \<times> pgdb" where
  "ignore_count p = (bind_res (fst p) (\<lambda>_. Inr ()), snd p)"

definition pg_MarkCommandPublishedContext :: "pgenv \<Rightarrow> string \<Rightarrow> int \<Rightarrow> pgdb \<Rightarrow> unit result \<times> pgdb" where
  "pg_MarkCommandPublishedContext env uid attempt db =
     ignore_count (updateCommandsWithEvent env 0
       (\<lambda>r. r\<lparr>cr_Status := CommandStatusPublished, cr_UpdatedAt := pe_dbnow env\<rparr>)
       (\<lambda>r. cr_ID r = uid \<and> cr_Status r = CommandStatusCreated \<and> cr_Attempts r = attempt \<and> cr_Next r > pe_dbnow env)
       ''published'' db)"

definition pg_MarkCommandSentContext :: "pgenv \<Rightarrow> string \<Rightarrow> gtime \<Rightarrow> pgdb \<Rightarrow> unit result \<times> pgdb" where
  "pg_MarkCommandSentContext env uid deadline db =
     ignore_count (updateCommandsWithEvent env 0
       (\<lambda>r. r\<lparr>cr_Status := CommandStatusSent, cr_Deadline := Some (pe_stamp env deadline), cr_UpdatedAt := pe_dbnow env\<rparr>)
       (\<lambda>r. cr_ID r = uid \<and> (cr_Status r = CommandStatusCreated \<or> cr_Status r = CommandStatusPublished))
       ''delivered'' db)"

definition pg_RescheduleCommandContext :: "pgenv \<Rightarrow> string \<Rightarrow> int \<Rightarrow> duration \<Rightarrow> pgdb \<Rightarrow> unit result \<times> pgdb" where
  "pg_RescheduleCommandContext env uid attempt retryAfter db =
     db_commit env 0 db
       (update_commands (\<lambda>r. r\<lparr>cr_Next := pe_stamp env (pe_dbnow env + retryAfter), cr_UpdatedAt := pe_dbnow env\<rparr>)
         (\<lambda>r. cr_ID r = uid \<and> cr_Status r = CommandStatusCreated \<and> cr_Attempts r = attempt \<and> cr_Next r > pe_dbnow env) db) ()"

definition pg_RequeueCommandContext :: "pgenv \<Rightarrow> string \<Rightarrow> duration \<Rightarrow> pgdb \<Rightarrow> unit result \<times> pgdb" where
  "pg_RequeueCommandContext env uid retryAfter db =
     ignore_count (updateCommandsWithEvent env 0
       (\<lambda>r. r\<lparr>cr_Status := CommandStatusCreated, cr_Next := pe_stamp env (pe_dbnow env + retryAfter),
              cr_UpdatedAt := pe_dbnow env\<rparr>)
       (\<lambda>r. cr_ID r = uid \<and> cr_Status r = CommandStatusPublished)
       ''requeued'' db)"

definition expired :: "pgenv \<Rightarrow> gtime \<Rightarrow> duration \<Rightarrow> CmdRow \<Rightarrow> bool" where
  "expired env now nullDeadlineGrace r \<longleftrightarrow>
     cr_Status r = CommandStatusSent \<and>
     (case cr_Deadline r of
        Some t \<Rightarrow> t \<le> pe_stamp env now
      | None \<Rightarrow> nullDeadlineGrace > 0 \<and> cr_UpdatedAt r + nullDeadlineGrace \<le> pe_stamp env now)"

definition pg_ExpireCommandsContext :: "pgenv \<Rightarrow> gtime \<Rightarrow> duration \<Rightarrow> pgdb \<Rightarrow> int result \<times> pgdb" where
  "pg_ExpireCommandsContext env now nullDeadlineGrace db =
     updateCommandBatchWithEvent env 0
       (\<lambda>r. r\<lparr>cr_Status := CommandStatusTimeout, cr_UpdatedAt := pe_stamp env now\<rparr>)
       (expired env now nullDeadlineGrace) ''timeout'' db"

definition stale_retry :: "pgenv \<Rightarrow> gtime \<Rightarrow> int \<Rightarrow> CmdRow \<Rightarrow> bool" where
  "stale_retry env staleBefore maxAttempts r \<longleftrightarrow>
     cr_Status r = CommandStatusPublished \<and> cr_UpdatedAt r \<le> pe_stamp env staleBefore \<and> cr_Attempts r < maxAttempts"

definition stale_failed :: "pgenv \<Rightarrow> gtime \<Rightarrow> int \<Rightarrow> CmdRow \<Rightarrow> bool" where
  "stale_failed env staleBefore maxAttempts r \<longleftrightarrow>
     cr_Attempts r \<ge> maxAttempts \<and>
     (cr_Status r = CommandStatusCreated \<and> cr_Next r \<le> pe_dbnow env \<or>
      cr_Status r = CommandStatusPublished \<and> cr_UpdatedAt r \<le> pe_stamp env staleBefore)"

definition pg_RecoverStaleCommandsContext :: "pgenv \<Rightarrow> gtime \<Rightarrow> int \<Rightarrow> pgdb \<Rightarrow> (int \<times> int) result \<times> pgdb" where
  "pg_RecoverStaleCommandsContext env staleBefore maxAttempts db =
     (case updateCommandBatchWithEvent env 0
             (\<lambda>r. r\<lparr>cr_Status := CommandStatusCreated, cr_Next := pe_dbnow env, cr_UpdatedAt := pe_dbnow env\<rparr>)
             (stale_retry env staleBefore maxAttempts) ''requeued'' db of
        (Inl err, db1) \<Rightarrow> (Inl err, db1)
      | (Inr requeued, db1) \<Rightarrow>
          (case updateCommandBatchWithEvent env 1
                  (\<lambda>r. r\<lparr>cr_Status := CommandStatusFailed, cr_UpdatedAt := pe_dbnow env\<rparr>)
                  (stale_failed env staleBefore maxAttempts) ''failed'' db1 of
             (Inl err, db2) \<Rightarrow> (Inl err, db2)
           | (Inr failed, db2) \<Rightarrow> (Inr (requeued, failed), db2)))"

section \<open>Reading commands\<close>

definition pg_GetCommandContext :: "pgenv \<Rightarrow> string \<Rightarrow> pgdb \<Rightarrow> Command result" where
  "pg_GetCommandContext env uid db =
     db_query env 0
       (case find_command uid db of None \<Rightarrow> Inl [ErrNotFound] | Some row \<Rightarrow> scanCommandRow (pe_fold env) row)"

definition pg_ListCommandsContext :: "pgenv \<Rightarrow> pgdb \<Rightarrow> Command list result" where
  "pg_ListCommandsContext env db =
     db_query env 0 (bind_res (scanCommands (pe_fold env) (order_rows False created_order (db_commands db)))
       (\<lambda>cmds. db_query env 1 (Inr cmds)))"

text \<open>\<^verbatim>\<open>nullTime\<close> and \<^verbatim>\<open>listBoundTime\<close>: SQL NULL is \<open>None\<close>.\<close>

definition nullTime :: "gtime \<Rightarrow> gtime option" where
  "nullTime t = (if IsZero t then None else Some t)"

definition listBoundTime :: "gtime \<Rightarrow> bool \<Rightarrow> gtime option" where
  "listBoundTime stamp present = (if \<not> present then None else Some stamp)"

definition pg_command_matches :: "pgenv \<Rightarrow> PageRequest \<Rightarrow> CmdRow \<Rightarrow> bool" where
  "pg_command_matches env page r \<longleftrightarrow>
     cr_Tenant r = page_TenantID page \<and>
     (page_DeviceID page = [] \<or> cr_Device r = page_DeviceID page) \<and>
     (page_Status page = [] \<or> status_string (cr_Status r) = page_Status page) \<and>
     (case listBoundTime (page_StartTime page) (page_HasStartTime page) of
        None \<Rightarrow> True | Some t \<Rightarrow> pe_stamp env t \<le> cr_CreatedAt r) \<and>
     (case listBoundTime (page_EndTime page) (page_HasEndTime page) of
        None \<Rightarrow> True | Some t \<Rightarrow> cr_CreatedAt r < pe_stamp env t)"

text \<open>The scan of a row happens just before its budget check, so a row that does not decode is an error
  only when it is reached.\<close>

fun scan_loop :: "(nat \<Rightarrow> nat) \<Rightarrow> nat \<Rightarrow> (Command \<Rightarrow> string) \<Rightarrow> nat \<Rightarrow> Command list \<Rightarrow> CmdRow list \<Rightarrow>
    (Command list \<times> string) result" where
  "scan_loop sf psize cursor used out [] = Inr (out, [])"
| "scan_loop sf psize cursor used out (r # rows) =
     bind_res (scanCommandRow sf r) (\<lambda>cmd.
     bind_res (budget_accept used (commandListBytes cmd) (length out) psize) (\<lambda>(ok, used').
       if \<not> ok then (if out = [] then Inl [ErrPanic] else Inr (out, cursor (last out)))
       else scan_loop sf psize cursor used' (out @ [cmd]) rows))"

definition pg_ListCommandsPageContext :: "(string \<Rightarrow> string) \<Rightarrow> (string \<Rightarrow> gtime option) \<Rightarrow> pgenv \<Rightarrow> PageRequest \<Rightarrow> pgdb \<Rightarrow>
    (Command list \<times> string) result" where
  "pg_ListCommandsPageContext sha other env page0 db =
     bind_res (NormalizeListRequest page0 ''commands'') (\<lambda>page.
     bind_res (decodePageCursor sha (pe_fold env) other page ''commands'') (\<lambda>(createdAt, uid).
       let asc = (page_Sort page = ''asc'');
           rows = take (Suc (nat (page_Size page)))
                    (order_rows asc created_order
                      (filter (\<lambda>r. pg_command_matches env page r \<and>
                          (case nullTime createdAt of
                             None \<Rightarrow> True | Some t \<Rightarrow> beyond asc (pe_stamp env t, uid) (created_order r)))
                        (db_commands db)))
       in db_query env 0
            (bind_res (scan_loop (pe_fold env) (nat (page_Size page))
                (\<lambda>c. encodePageCursor sha page ''commands'' (cmd_CreatedAt c) (cmd_ID c)) 0 [] rows)
              (\<lambda>r. db_query env 1 (Inr r)))))"

end
