(* ===== verification/Postgres_Invariants.thy ===== *)
theory Postgres_Invariants
  imports Postgres_Commands
begin

text \<open>
  The invariant of the tables and its preservation. Besides the keys of the schema it ties the
  command table to its audit trail: the status of a command is the one its last event denotes, and
  a command has a result exactly when it has one acknowledgement row, from its own device.
\<close>

section \<open>The invariant\<close>

definition registry_rows_ok :: "pgdb \<Rightarrow> bool" where
  "registry_rows_ok db \<longleftrightarrow>
     distinct (map ten_ID (db_tenants db)) \<and>
     (\<forall>t \<in> set (db_tenants db). IsValidTenantID (ten_ID t) \<and> ValidateTenantName (ten_Name t) = None) \<and>
     distinct (map (\<lambda>r. (dr_Tenant r, dr_Device r)) (db_devices db)) \<and>
     (\<forall>r \<in> set (db_devices db). IsValidTenantID (dr_Tenant r) \<and> IsValidTopicPart (dr_Device r) \<and>
        ValidateProductID (dr_Product r) = None \<and> dr_Tenant r \<in> ten_ID ` set (db_tenants db)) \<and>
     distinct (map (\<lambda>r. (sr_Tenant r, sr_Device r)) (db_state db)) \<and>
     (\<lambda>r. (sr_Tenant r, sr_Device r)) ` set (db_state db) = (\<lambda>r. (dr_Tenant r, dr_Device r)) ` set (db_devices db)"

definition telemetry_rows_ok :: "pgdb \<Rightarrow> bool" where
  "telemetry_rows_ok db \<longleftrightarrow>
     0 \<le> db_seq db \<and> distinct (map (\<lambda>r. telemetry_id (tr_Rec r)) (db_telemetry db)) \<and>
     sorted_wrt (<) (map tr_ID (db_telemetry db)) \<and> (\<forall>r \<in> set (db_telemetry db). 0 < tr_ID r \<and> tr_ID r \<le> db_seq db) \<and>
     (\<forall>r \<in> set (db_telemetry db). has_device (rec_TenantID (tr_Rec r)) (rec_DeviceID (tr_Rec r)) db)"

text \<open>The status an event type stands for.\<close>

definition event_status :: "string \<Rightarrow> CommandStatus option" where
  "event_status e =
     (if e = ''created'' \<or> e = ''requeued'' then Some CommandStatusCreated
      else if e = ''published'' then Some CommandStatusPublished
      else if e = ''delivered'' then Some CommandStatusSent
      else if e = ''acked'' then Some CommandStatusAcked
      else if e = ''failed'' then Some CommandStatusFailed
      else if e = ''timeout'' then Some CommandStatusTimeout
      else None)"

definition events_of :: "string \<Rightarrow> EventRow list \<Rightarrow> string list" where
  "events_of uid es = map er_Type (filter (\<lambda>e. er_Command e = uid) es)"

definition acks_of :: "string \<Rightarrow> AckRow list \<Rightarrow> AckRow list" where
  "acks_of uid as = filter (\<lambda>a. ar_Command a = uid) as"

definition status_logged :: "EventRow list \<Rightarrow> CmdRow \<Rightarrow> bool" where
  "status_logged es r \<longleftrightarrow> events_of (cr_ID r) es \<noteq> [] \<and> event_status (last (events_of (cr_ID r) es)) = Some (cr_Status r)"

definition result_logged :: "AckRow list \<Rightarrow> CmdRow \<Rightarrow> bool" where
  "result_logged as r \<longleftrightarrow>
     length (acks_of (cr_ID r) as) = (if cr_Result r = None then 0 else 1) \<and>
     (\<forall>a \<in> set (acks_of (cr_ID r) as). ar_Tenant a = cr_Tenant r \<and> ar_Device a = cr_Device r)"

definition row_ok :: "CmdRow \<Rightarrow> bool" where
  "row_ok r \<longleftrightarrow> named_status (cr_Status r) \<and> 0 \<le> cr_Attempts r \<and> cr_Attempts r \<le> maxDispatchAttempts \<and>
     (cr_Result r \<noteq> None \<longrightarrow> cr_Status r = CommandStatusAcked \<or> cr_Status r = CommandStatusFailed) \<and>
     (cr_Status r = CommandStatusAcked \<longrightarrow> cr_Result r \<noteq> None)"

definition keyed_rows :: "CmdRow list \<Rightarrow> (string \<times> string option) list" where
  "keyed_rows rs = map (\<lambda>r. (cr_Tenant r, cr_Key r)) (filter (\<lambda>r. cr_Key r \<noteq> None) rs)"

definition command_rows_ok :: "pgdb \<Rightarrow> bool" where
  "command_rows_ok db \<longleftrightarrow>
     distinct (map cr_ID (db_commands db)) \<and> distinct (keyed_rows (db_commands db)) \<and>
     (\<forall>r \<in> set (db_commands db). row_ok r \<and> has_device (cr_Tenant r) (cr_Device r) db \<and>
        status_logged (db_events db) r \<and> result_logged (db_acks db) r) \<and>
     er_Command ` set (db_events db) \<subseteq> cr_ID ` set (db_commands db) \<and>
     ar_Command ` set (db_acks db) \<subseteq> cr_ID ` set (db_commands db)"

definition db_ok :: "pgdb \<Rightarrow> bool" where
  "db_ok db \<longleftrightarrow> registry_rows_ok db \<and> telemetry_rows_ok db \<and> command_rows_ok db"

lemma db_ok_empty: "db_ok empty_db"
  by (simp add: db_ok_def registry_rows_ok_def telemetry_rows_ok_def command_rows_ok_def empty_db_def keyed_rows_def)

section \<open>Command updates\<close>

lemma events_of_append: "events_of uid (es @ map (\<lambda>u. \<lparr>er_Command = u, er_Type = e\<rparr>) us) =
    events_of uid es @ map (\<lambda>_. e) (filter (\<lambda>u. u = uid) us)"
  by (simp add: events_of_def filter_map comp_def)

lemma last_events_of:
  assumes "uid \<in> set us"
  shows "events_of uid (es @ map (\<lambda>u. \<lparr>er_Command = u, er_Type = e\<rparr>) us) \<noteq> [] \<and>
    last (events_of uid (es @ map (\<lambda>u. \<lparr>er_Command = u, er_Type = e\<rparr>) us)) = e"
proof -
  have "filter (\<lambda>u. u = uid) us \<noteq> []" using assms by (simp add: filter_empty_conv)
  then show ?thesis by (simp add: events_of_append last_map)
qed

lemma events_of_other:
  "uid \<notin> set us \<Longrightarrow> events_of uid (es @ map (\<lambda>u. \<lparr>er_Command = u, er_Type = e\<rparr>) us) = events_of uid es"
  by (auto simp: events_of_append filter_empty_conv)

text \<open>What an update of command rows leaves alone.\<close>

definition keeps_identity :: "(CmdRow \<Rightarrow> CmdRow) \<Rightarrow> bool" where
  "keeps_identity f \<longleftrightarrow> (\<forall>r. cr_ID (f r) = cr_ID r \<and> cr_Tenant (f r) = cr_Tenant r \<and> cr_Device (f r) = cr_Device r \<and>
     cr_Key (f r) = cr_Key r \<and> cr_Payload (f r) = cr_Payload r \<and> cr_CreatedAt (f r) = cr_CreatedAt r)"

lemma keeps_identityD:
  assumes "keeps_identity f"
  shows "cr_ID (f r) = cr_ID r" "cr_Tenant (f r) = cr_Tenant r" "cr_Device (f r) = cr_Device r" "cr_Key (f r) = cr_Key r"
    "cr_Payload (f r) = cr_Payload r" "cr_CreatedAt (f r) = cr_CreatedAt r"
  using assms by (simp_all add: keeps_identity_def)

definition upd_rows :: "(CmdRow \<Rightarrow> CmdRow) \<Rightarrow> (CmdRow \<Rightarrow> bool) \<Rightarrow> CmdRow list \<Rightarrow> CmdRow list" where
  "upd_rows f P rs = map (\<lambda>r. if P r then f r else r) rs"

lemma update_commands_rows: "update_commands f P db = db\<lparr>db_commands := upd_rows f P (db_commands db)\<rparr>"
  by (simp add: update_commands_def upd_rows_def)

lemma in_upd_rows: "r \<in> set (upd_rows f P rs) \<longleftrightarrow> (\<exists>r0 \<in> set rs. r = (if P r0 then f r0 else r0))"
  by (auto simp: upd_rows_def)

lemma map_ids:
  assumes "keeps_identity f"
  shows "map cr_ID (upd_rows f P rs) = map cr_ID rs"
    "keyed_rows (upd_rows f P rs) = keyed_rows rs"
    "cr_ID ` set (upd_rows f P rs) = cr_ID ` set rs"
  using keeps_identityD [OF assms] by (induction rs) (auto simp: keyed_rows_def upd_rows_def)

lemma has_device_commands [simp]:
  "has_device t d (db\<lparr>db_commands := x\<rparr>) = has_device t d db" "has_device t d (db\<lparr>db_events := y\<rparr>) = has_device t d db"
  "has_device t d (db\<lparr>db_acks := z\<rparr>) = has_device t d db" "has_device t d (db\<lparr>db_telemetry := u\<rparr>) = has_device t d db"
  "has_device t d (db\<lparr>db_state := v\<rparr>) = has_device t d db" "has_device t d (db\<lparr>db_seq := w\<rparr>) = has_device t d db"
  "has_device t d (db\<lparr>db_tenants := q\<rparr>) = has_device t d db"
  by (simp_all add: has_device_def)

lemma commands_frame [simp]:
  "registry_rows_ok (db\<lparr>db_commands := x\<rparr>) = registry_rows_ok db" "registry_rows_ok (db\<lparr>db_events := y\<rparr>) = registry_rows_ok db"
  "registry_rows_ok (db\<lparr>db_acks := z\<rparr>) = registry_rows_ok db"
  "telemetry_rows_ok (db\<lparr>db_commands := x\<rparr>) = telemetry_rows_ok db" "telemetry_rows_ok (db\<lparr>db_events := y\<rparr>) = telemetry_rows_ok db"
  "telemetry_rows_ok (db\<lparr>db_acks := z\<rparr>) = telemetry_rows_ok db"
  by (simp_all add: registry_rows_ok_def telemetry_rows_ok_def)

text \<open>An update that does not touch the status needs no event.\<close>

lemma silent_update_ok:
  assumes ok: "command_rows_ok db" and f: "keeps_identity f"
    and upd: "\<And>r. r \<in> set (db_commands db) \<Longrightarrow> P r \<Longrightarrow> row_ok (f r) \<and> cr_Status (f r) = cr_Status r \<and> cr_Result (f r) = cr_Result r"
  shows "command_rows_ok (update_commands f P db)"
proof -
  note k = keeps_identityD [OF f]
  have "row_ok r \<and> has_device (cr_Tenant r) (cr_Device r) db \<and> status_logged (db_events db) r \<and> result_logged (db_acks db) r"
    if mem: "r \<in> set (upd_rows f P (db_commands db))" for r
  proof -
    obtain r0 where r0: "r0 \<in> set (db_commands db)" "r = (if P r0 then f r0 else r0)" using mem by (auto simp: in_upd_rows)
    have "row_ok r0" "has_device (cr_Tenant r0) (cr_Device r0) db" "status_logged (db_events db) r0"
      "result_logged (db_acks db) r0" using ok r0(1) by (auto simp: command_rows_ok_def)
    then show ?thesis
      using upd [OF r0(1)] r0(2) by (cases "P r0") (simp_all add: status_logged_def result_logged_def k)
  qed
  then show ?thesis using ok map_ids [OF f] by (simp add: command_rows_ok_def update_commands_rows)
qed

text \<open>An update that moves the status of open commands and writes the event that says so.\<close>

lemma logged_update_ok:
  assumes ok: "command_rows_ok db" and f: "keeps_identity f"
    and upd: "\<And>r. r \<in> set (db_commands db) \<Longrightarrow> P r \<Longrightarrow> row_ok (f r) \<and> event_status e = Some (cr_Status (f r)) \<and>
      cr_Result (f r) = cr_Result r"
  shows "command_rows_ok (add_events e (map cr_ID (filter P (db_commands db))) (update_commands f P db))"
proof -
  note k = keeps_identityD [OF f]
  let ?ids = "map cr_ID (filter P (db_commands db))"
  let ?es = "db_events db @ map (\<lambda>u. \<lparr>er_Command = u, er_Type = e\<rparr>) ?ids"
  have "row_ok r \<and> has_device (cr_Tenant r) (cr_Device r) db \<and> status_logged ?es r \<and> result_logged (db_acks db) r"
    if mem: "r \<in> set (upd_rows f P (db_commands db))" for r
  proof -
    obtain r0 where r0: "r0 \<in> set (db_commands db)" "r = (if P r0 then f r0 else r0)" using mem by (auto simp: in_upd_rows)
    have old: "row_ok r0" "has_device (cr_Tenant r0) (cr_Device r0) db" "status_logged (db_events db) r0"
      "result_logged (db_acks db) r0" using ok r0(1) by (auto simp: command_rows_ok_def)
    show ?thesis
    proof (cases "P r0")
      case True
      then have "cr_ID r \<in> set ?ids" using r0 k by auto
      from last_events_of [OF this, of "db_events db" e] show ?thesis
        using upd [OF r0(1) True] old True r0(2) by (simp add: status_logged_def result_logged_def k)
    next
      case False
      have "cr_ID r0 \<notin> set ?ids"
        using ok r0(1) False by (auto simp: command_rows_ok_def distinct_map dest: inj_onD)
      from events_of_other [OF this, of "db_events db" e] show ?thesis
        using old False r0(2) by (simp add: status_logged_def)
    qed
  qed
  moreover have "er_Command ` set ?es \<subseteq> cr_ID ` set (db_commands db)"
    using ok by (auto simp: command_rows_ok_def)
  ultimately show ?thesis
    using ok map_ids [OF f] by (simp add: command_rows_ok_def update_commands_rows add_events_def)
qed

lemma db_commit_cases:
  assumes "db_commit env n db db' v = (r, db2)"
  obtains "db2 = db" "\<exists>e. r = Inl e" | "db2 = db'"
  using assms by (auto simp: db_commit_def split: option.splits if_splits)

lemma db_commit_ok: "db_ok db \<Longrightarrow> db_ok db' \<Longrightarrow> db_ok (snd (db_commit env n db db' v))"
  by (auto simp: db_commit_def split: option.splits)

lemma db_call_ok: "db_ok db \<Longrightarrow> db_ok (snd k) \<Longrightarrow> db_ok (snd (db_call env n db k))"
  by (auto simp: db_call_def split: option.splits)

lemma updateCommandsWithEvent_ok:
  assumes "db_ok db" "keeps_identity f"
    and "\<And>r. r \<in> set (db_commands db) \<Longrightarrow> P r \<Longrightarrow> row_ok (f r) \<and> event_status e = Some (cr_Status (f r)) \<and>
      cr_Result (f r) = cr_Result r"
  shows "db_ok (snd (updateCommandsWithEvent env n f P e db))"
proof -
  have "command_rows_ok (add_events e (map cr_ID (filter P (db_commands db))) (update_commands f P db))"
    using assms by (intro logged_update_ok) (auto simp: db_ok_def)
  then have "db_ok (add_events e (map cr_ID (filter P (db_commands db))) (update_commands f P db))"
    using assms(1) by (simp add: db_ok_def add_events_def update_commands_def)
  then show ?thesis using assms(1) by (simp add: updateCommandsWithEvent_def Let_def db_commit_ok)
qed

lemma db_ok_row: "db_ok db \<Longrightarrow> r \<in> set (db_commands db) \<Longrightarrow> row_ok r"
  by (auto simp: db_ok_def command_rows_ok_def)

lemma db_ok_ids: "db_ok db \<Longrightarrow> distinct (map cr_ID (db_commands db))"
  by (simp add: db_ok_def command_rows_ok_def)

lemma select_batch_row:
  assumes "db_ok db" "r \<in> set (db_commands db)" "cr_ID r \<in> set (select_batch env n P db)"
  shows "P r \<and> \<not> pe_locked env (cr_ID r)"
proof -
  obtain r' where r': "r' \<in> set (db_commands db)" "P r'" "\<not> pe_locked env (cr_ID r')" "cr_ID r' = cr_ID r"
    using assms(3) by (auto simp: select_batch_def dest!: in_set_takeD)
  then have "r' = r" using db_ok_ids [OF assms(1)] assms(2) by (auto simp: distinct_map dest: inj_onD)
  then show ?thesis using r' by simp
qed

lemma updateCommandBatchWithEvent_ok:
  assumes "db_ok db" "keeps_identity f"
    and "\<And>r. row_ok r \<Longrightarrow> P r \<Longrightarrow> row_ok (f r) \<and> event_status e = Some (cr_Status (f r)) \<and> cr_Result (f r) = cr_Result r"
  shows "db_ok (snd (updateCommandBatchWithEvent env n f P e db))"
  unfolding updateCommandBatchWithEvent_def
  using assms db_ok_row [OF assms(1)] select_batch_row [OF assms(1)]
  by (intro updateCommandsWithEvent_ok) blast+

lemma snd_case_result:
  "snd (case p of (Inl e, d) \<Rightarrow> (Inl e, d) | (Inr x, d) \<Rightarrow> (g x, d)) = snd p"
  by (auto split: prod.splits sum.splits)

lemma snd_ignore_count [simp]: "snd (ignore_count p) = snd p"
  by (simp add: ignore_count_def)

text \<open>The event types of the statements.\<close>

lemma event_status_simps [simp]:
  "event_status ''created'' = Some CommandStatusCreated" "event_status ''requeued'' = Some CommandStatusCreated"
  "event_status ''published'' = Some CommandStatusPublished" "event_status ''delivered'' = Some CommandStatusSent"
  "event_status ''acked'' = Some CommandStatusAcked" "event_status ''failed'' = Some CommandStatusFailed"
  "event_status ''timeout'' = Some CommandStatusTimeout"
  by (simp_all add: event_status_def)

lemma named_statuses [simp]:
  "named_status CommandStatusCreated" "named_status CommandStatusPublished" "named_status CommandStatusSent"
  "named_status CommandStatusAcked" "named_status CommandStatusFailed" "named_status CommandStatusTimeout"
  by (simp_all add: named_status_def)

section \<open>Every command method keeps the invariant\<close>

lemma published_ok: "db_ok db \<Longrightarrow> db_ok (snd (pg_MarkCommandPublishedContext env uid attempt db))"
  unfolding pg_MarkCommandPublishedContext_def snd_ignore_count
  by (rule updateCommandsWithEvent_ok) (auto simp: keeps_identity_def row_ok_def dest: db_ok_row)

lemma sent_ok: "db_ok db \<Longrightarrow> db_ok (snd (pg_MarkCommandSentContext env uid deadline db))"
  unfolding pg_MarkCommandSentContext_def snd_ignore_count
  by (rule updateCommandsWithEvent_ok) (auto simp: keeps_identity_def row_ok_def dest: db_ok_row)

lemma requeue_ok: "db_ok db \<Longrightarrow> db_ok (snd (pg_RequeueCommandContext env uid retryAfter db))"
  unfolding pg_RequeueCommandContext_def snd_ignore_count
  by (rule updateCommandsWithEvent_ok) (auto simp: keeps_identity_def row_ok_def dest: db_ok_row)

lemma expire_ok: "db_ok db \<Longrightarrow> db_ok (snd (pg_ExpireCommandsContext env now grace db))"
  unfolding pg_ExpireCommandsContext_def
  by (rule updateCommandBatchWithEvent_ok) (auto simp: keeps_identity_def row_ok_def expired_def)

lemma recover_ok:
  assumes "db_ok db"
  shows "db_ok (snd (pg_RecoverStaleCommandsContext env staleBefore maxAttempts db))"
proof -
  let ?f = "\<lambda>r. r\<lparr>cr_Status := CommandStatusCreated, cr_Next := pe_dbnow env, cr_UpdatedAt := pe_dbnow env\<rparr>"
  let ?g = "\<lambda>r. r\<lparr>cr_Status := CommandStatusFailed, cr_UpdatedAt := pe_dbnow env\<rparr>"
  have 1: "db_ok (snd (updateCommandBatchWithEvent env 0 ?f (stale_retry env staleBefore maxAttempts) ''requeued'' db))"
    using assms by (rule updateCommandBatchWithEvent_ok) (auto simp: keeps_identity_def row_ok_def stale_retry_def)
  have 2: "db_ok db1 \<Longrightarrow> db_ok (snd (updateCommandBatchWithEvent env 1 ?g (stale_failed env staleBefore maxAttempts) ''failed'' db1))" for db1
    by (rule updateCommandBatchWithEvent_ok) (auto simp: keeps_identity_def row_ok_def stale_failed_def)
  show ?thesis
    using 1 2 unfolding pg_RecoverStaleCommandsContext_def
    by (auto split: prod.splits sum.splits)
      (metis snd_conv)+
qed

lemma reschedule_ok:
  assumes "db_ok db"
  shows "db_ok (snd (pg_RescheduleCommandContext env uid attempt retryAfter db))"
proof -
  have "command_rows_ok (update_commands (\<lambda>r. r\<lparr>cr_Next := t, cr_UpdatedAt := u\<rparr>) P db)" for t u P
    by (rule silent_update_ok) (use assms db_ok_row [OF assms] in \<open>auto simp: db_ok_def keeps_identity_def row_ok_def\<close>)
  then have "db_ok (update_commands (\<lambda>r. r\<lparr>cr_Next := t, cr_UpdatedAt := u\<rparr>) P db)" for t u P
    using assms by (simp add: db_ok_def update_commands_def)
  then show ?thesis using assms by (simp add: pg_RescheduleCommandContext_def db_commit_ok)
qed

lemma claim_ok:
  assumes "db_ok db"
  shows "db_ok (snd (pg_ClaimCommandsForDispatchContext env limit lease db))"
proof -
  let ?P = "\<lambda>r. cr_ID r \<in> set (select_batch env (nat limit) (claimable env) db)"
  have "row_ok (claim_row env lease r)" if "r \<in> set (db_commands db)" "?P r" for r
  proof -
    have "claimable env r" using select_batch_row [OF assms that] by simp
    then show ?thesis
      using db_ok_row [OF assms that(1)] by (auto simp: row_ok_def claim_row_def claimable_def)
  qed
  then have "command_rows_ok (update_commands (claim_row env lease) ?P db)"
    by (intro silent_update_ok) (use assms in \<open>auto simp: db_ok_def keeps_identity_def claim_row_def\<close>)
  then have "db_ok (update_commands (claim_row env lease) ?P db)"
    using assms by (simp add: db_ok_def update_commands_def)
  then have "db_ok (snd (db_commit env 0 db (update_commands (claim_row env lease) ?P db) ()))"
    by (rule db_commit_ok [OF assms])
  then show ?thesis using assms by (simp add: pg_ClaimCommandsForDispatchContext_def Let_def snd_case_result)
qed

subsection \<open>Creation and acknowledgement\<close>

text \<open>Creating either changes nothing or adds one row with a fresh identifier and an unused key.\<close>

definition new_row :: "pgenv \<Rightarrow> string \<Rightarrow> string \<Rightarrow> string \<Rightarrow> string \<Rightarrow> string \<Rightarrow> CmdRow" where
  "new_row env t d key normalized uid =
     \<lparr>cr_ID = uid, cr_Tenant = t, cr_Device = d, cr_Status = CommandStatusCreated, cr_Payload = normalized,
      cr_Next = pe_stamp env (pe_now env), cr_Attempts = 0, cr_Deadline = None,
      cr_CreatedAt = pe_stamp env (pe_now env), cr_UpdatedAt = pe_stamp env (pe_now env),
      cr_Key = (if key = [] then None else Some key), cr_Result = None\<rparr>"

lemma db_call_cases:
  assumes "db_call env n db k = (r, db')"
  obtains (Fault) e where "r = Inl e" "db' = db" | (Done) "k = (r, db')"
  using assms by (auto simp: db_call_def split: option.splits)

lemma db_commit_same: "snd (db_commit env n db db v) = db"
  by (simp add: db_commit_def split: option.splits)

lemma db_commit_Inr: "db_commit env n db db' v = (Inr w, db2) \<Longrightarrow> w = v \<and> db2 = db'"
  by (auto simp: db_commit_def split: option.splits)

lemma pg_insert_cases:
  assumes "pg_insert_command env t d key normalized uid db = (r, db')"
  obtains (Same) "db' = db"
    "\<And>c. r = Inr c \<Longrightarrow> \<exists>row. key \<noteq> [] \<and> key_taken t key db = Some row \<and> cr_Device row = d \<and>
       pe_jsonb_eq env (cr_Payload row) normalized \<and> scanCommandRow (pe_fold env) row = Inr c"
  | (New) "key \<noteq> [] \<Longrightarrow> key_taken t key db = None" "find_command uid db = None"
      "db' = add_events ''created'' [uid] (db\<lparr>db_commands := db_commands db @ [new_row env t d key normalized uid]\<rparr>)"
      "\<And>c. r = Inr c \<Longrightarrow> cmd_ID c = uid \<and> cmd_Status c = CommandStatusCreated \<and> cmd_Payload c = normalized"
proof (cases "if key = [] then None else key_taken t key db")
  case None
  then have k: "key \<noteq> [] \<Longrightarrow> key_taken t key db = None" by simp
  let ?new = "add_events ''created'' [uid] (db\<lparr>db_commands := db_commands db @ [new_row env t d key normalized uid]\<rparr>)"
  have "(db' = db \<and> (\<exists>e. r = Inl e)) \<or> (find_command uid db = None \<and> db' = ?new \<and>
      (\<forall>c. r = Inr c \<longrightarrow> cmd_ID c = uid \<and> cmd_Status c = CommandStatusCreated \<and> cmd_Payload c = normalized))"
    using assms unfolding pg_insert_command_def None Let_def new_row_def [symmetric]
    by (auto simp: db_call_def db_commit_def split: option.splits if_splits)
  then show ?thesis
  proof (elim disjE conjE)
    assume "db' = db" "\<exists>e. r = Inl e"
    then show thesis using Same by auto
  next
    assume n: "find_command uid db = None" "db' = ?new"
      "\<forall>c. r = Inr c \<longrightarrow> cmd_ID c = uid \<and> cmd_Status c = CommandStatusCreated \<and> cmd_Payload c = normalized"
    show thesis by (rule New) (use k n in auto)
  qed
next
  case (Some old)
  then have k: "key \<noteq> []" "key_taken t key db = Some old" by (auto split: if_splits)
  have "db' = db \<and> (\<forall>c. r = Inr c \<longrightarrow> cr_Device old = d \<and> pe_jsonb_eq env (cr_Payload old) normalized \<and>
      scanCommandRow (pe_fold env) old = Inr c)"
    using assms unfolding pg_insert_command_def Some Let_def
    by (auto simp: db_call_def db_commit_def split: option.splits if_splits sum.splits)
  then show ?thesis using Same k by blast
qed

lemma requireDevice_None: "requireDevice env n t d db = None \<Longrightarrow> has_device t d db"
  by (auto simp: requireDevice_def split: option.splits sum.splits if_splits)

lemma pg_create_outcome:
  assumes "pg_CreateCommandWithKey env t d key p db = (r, db')"
  shows "(db' = db \<and> (\<exists>e. r = Inl e)) \<or>
    (\<exists>normalized uid. has_device t d db \<and> pe_jsonb env (command_payload p) = Some normalized \<and> pe_uuid env = Inr uid \<and>
       ValidateCommandInput t d normalized = None \<and> pg_insert_command env t d key normalized uid db = (r, db'))"
  using assms unfolding pg_CreateCommandWithKey_def
  by (auto simp: db_call_def split: option.splits sum.splits dest!: requireDevice_None)

lemma pg_create_cases:
  assumes "pg_CreateCommandWithKey env t d key p db = (r, db')"
  obtains (Same) "db' = db"
    "\<And>c. r = Inr c \<Longrightarrow> \<exists>row normalized. key \<noteq> [] \<and> key_taken t key db = Some row \<and> cr_Device row = d \<and>
       pe_jsonb env (command_payload p) = Some normalized \<and> pe_jsonb_eq env (cr_Payload row) normalized \<and>
       scanCommandRow (pe_fold env) row = Inr c"
  | (New) normalized uid where "has_device t d db" "pe_jsonb env (command_payload p) = Some normalized"
      "key \<noteq> [] \<Longrightarrow> key_taken t key db = None" "find_command uid db = None"
      "db' = add_events ''created'' [uid] (db\<lparr>db_commands := db_commands db @ [new_row env t d key normalized uid]\<rparr>)"
      "\<And>c. r = Inr c \<Longrightarrow> cmd_ID c = uid \<and> cmd_Status c = CommandStatusCreated \<and> cmd_Payload c = normalized"
  using pg_create_outcome [OF assms]
proof (elim disjE exE conjE)
  fix e
  assume "db' = db" "r = Inl e"
  then show thesis by (intro Same) simp_all
next
  fix normalized uid
  assume h: "has_device t d db" "pe_jsonb env (command_payload p) = Some normalized"
    and i: "pg_insert_command env t d key normalized uid db = (r, db')"
  show thesis
    using i
  proof (cases rule: pg_insert_cases)
    case Same
    then show thesis using that(1) h by blast
  next
    case New
    then show thesis using that(2) [OF h] by blast
  qed
qed

text \<open>An acknowledgement either changes nothing or gives an open command of the same device its result.\<close>

definition acked_row :: "pgenv \<Rightarrow> CommandStatus \<Rightarrow> string \<Rightarrow> CmdRow \<Rightarrow> CmdRow" where
  "acked_row env st stored r = r\<lparr>cr_Status := st, cr_UpdatedAt := pe_stamp env (pe_now env), cr_Result := Some stored\<rparr>"

definition acked_db :: "pgenv \<Rightarrow> string \<Rightarrow> string \<Rightarrow> string \<Rightarrow> CommandStatus \<Rightarrow> string \<Rightarrow> string \<Rightarrow> pgdb \<Rightarrow> pgdb" where
  "acked_db env uid t d st event stored db =
     add_events event [uid]
       (update_commands (acked_row env st stored) (\<lambda>r. cr_ID r = uid) db
          \<lparr>db_acks := db_acks db @ [\<lparr>ar_Command = uid, ar_Tenant = t, ar_Device = d, ar_Status = event,
             ar_Payload = stored, ar_CreatedAt = pe_stamp env (pe_now env)\<rparr>]\<rparr>)"

lemma scan_fields:
  assumes "scanCommandRow sf row = Inr cmd"
  shows "cmd_ID cmd = cr_ID row" "cmd_TenantID cmd = cr_Tenant row" "cmd_DeviceID cmd = cr_Device row"
    "cmd_Status cmd = cr_Status row" "cmd_Payload cmd = cr_Payload row" "cmd_CreatedAt cmd = cr_CreatedAt row"
    "cmd_DispatchAttempts cmd = cr_Attempts row"
  using assms by (auto simp: scanCommandRow_def Let_def split: option.splits if_splits)

lemma pg_apply_ack_outcome:
  assumes "pg_apply_ack env uid t d normalized encoded row cmd db = (r, db')"
  shows "(db' = db \<and> (\<forall>c. r = Inr c \<longrightarrow> c = cmd \<and> cmd_TenantID cmd = t \<and> cmd_DeviceID cmd = d \<and> terminal (cmd_Status cmd))) \<or>
    (\<exists>st stored. cmd_TenantID cmd = t \<and> cmd_DeviceID cmd = d \<and> \<not> terminal (cmd_Status cmd) \<and>
       AdvanceCommandStatus (cmd_Status cmd) (event_of_status (res_Status normalized)) = Inr st \<and>
       pe_jsonb env encoded = Some stored \<and>
       db' = acked_db env uid t d st (status_string (res_Status normalized)) stored db \<and>
       (\<forall>c. r = Inr c \<longrightarrow> cmd_Status c = st))"
proof (cases "cmd_TenantID cmd = t \<and> cmd_DeviceID cmd = d")
  case False
  then show ?thesis using assms by (auto simp: pg_apply_ack_def)
next
  case own: True
  show ?thesis
  proof (cases "terminal (cmd_Status cmd)")
    case True
    then show ?thesis
      using assms own unfolding pg_apply_ack_def terminal_def
      by (auto simp: db_call_def db_commit_def split: option.splits if_splits)
  next
    case False
    then show ?thesis
      using assms own unfolding pg_apply_ack_def terminal_def
      by (auto simp: db_call_def db_commit_def Let_def acked_db_def acked_row_def [abs_def] update_commands_def
          split: option.splits if_splits sum.splits)
  qed
qed

lemma Advance_result:
  assumes "AdvanceCommandStatus cur (event_of_status st0) = Inr st" "st0 \<in> {CommandStatusAcked, CommandStatusFailed}"
  shows "st = st0 \<and> event_status (status_string st0) = Some st \<and> \<not> terminal cur"
proof -
  have "\<not> terminal cur" using assms(1) Advance_terminal [of cur] by auto
  then show ?thesis
    using assms by (auto simp: AdvanceCommandStatus_def event_of_status_def event_of_string_def split: CommandStatus.splits)
qed

lemma pg_ack_cases:
  assumes "pg_AckCommandResultContext env uid t d input db = (r, db')"
  obtains (Same) "db' = db"
    "\<And>c. r = Inr c \<Longrightarrow> \<exists>row. find_command uid db = Some row \<and> scanCommandRow (pe_fold env) row = Inr c \<and>
       cr_Tenant row = t \<and> cr_Device row = d \<and> terminal (cr_Status row)"
  | (Ack) row st event stored where "find_command uid db = Some row" "cr_Tenant row = t" "cr_Device row = d"
      "\<not> terminal (cr_Status row)" "st = CommandStatusAcked \<or> st = CommandStatusFailed" "event_status event = Some st"
      "db' = acked_db env uid t d st event stored db" "\<And>c. r = Inr c \<Longrightarrow> cmd_Status c = st"
proof -
  have "(db' = db \<and> (\<exists>e. r = Inl e)) \<or>
    (\<exists>normalized encoded row cmd. NormalizeCommandResult input = Inr normalized \<and> find_command uid db = Some row \<and>
       scanCommandRow (pe_fold env) row = Inr cmd \<and> pg_apply_ack env uid t d normalized encoded row cmd db = (r, db'))"
    using assms unfolding pg_AckCommandResultContext_def
    by (auto simp: db_call_def split: option.splits sum.splits) metis
  then show thesis
  proof (elim disjE exE conjE)
    fix e
    assume "db' = db" "r = Inl e"
    then show thesis by (intro Same) simp_all
  next
    fix normalized encoded row cmd
    assume n: "NormalizeCommandResult input = Inr normalized" and f: "find_command uid db = Some row"
      and sc: "scanCommandRow (pe_fold env) row = Inr cmd"
      and a: "pg_apply_ack env uid t d normalized encoded row cmd db = (r, db')"
    note fields = scan_fields [OF sc]
    from pg_apply_ack_outcome [OF a] show thesis
    proof (elim disjE exE conjE)
      assume "db' = db" "\<forall>c. r = Inr c \<longrightarrow> c = cmd \<and> cmd_TenantID cmd = t \<and> cmd_DeviceID cmd = d \<and> terminal (cmd_Status cmd)"
      then show thesis using f sc fields by (intro Same) auto
    next
      fix st stored
      assume h: "cmd_TenantID cmd = t" "cmd_DeviceID cmd = d" "\<forall>c. r = Inr c \<longrightarrow> cmd_Status c = st"
        "AdvanceCommandStatus (cmd_Status cmd) (event_of_status (res_Status normalized)) = Inr st"
        "db' = acked_db env uid t d st (status_string (res_Status normalized)) stored db"
      note adv = Advance_result [OF h(4) NormalizeCommandResult_ok(3) [OF n]]
      show thesis
        by (rule Ack [of row st "status_string (res_Status normalized)" stored])
          (use f h adv fields NormalizeCommandResult_ok(3) [OF n] in auto)
    qed
  qed
qed

lemma find_command_Some: "find_command uid db = Some row \<Longrightarrow> row \<in> set (db_commands db) \<and> cr_ID row = uid"
  by (auto simp: find_command_def find_Some_iff)

lemma find_command_None: "find_command uid db = None \<longleftrightarrow> uid \<notin> cr_ID ` set (db_commands db)"
  by (auto simp: find_command_def find_None_iff)

lemma find_command_in:
  assumes "distinct (map cr_ID (db_commands db))" "row \<in> set (db_commands db)"
  shows "find_command (cr_ID row) db = Some row"
proof (cases "find_command (cr_ID row) db")
  case None
  then show ?thesis using assms(2) by (auto simp: find_command_None)
next
  case (Some r)
  then show ?thesis using find_command_Some [OF Some] assms by (auto simp: distinct_map dest: inj_onD)
qed

lemma key_taken_None: "key_taken t key db = None \<longleftrightarrow> (t, Some key) \<notin> set (keyed_rows (db_commands db))"
  by (auto simp: key_taken_def find_None_iff keyed_rows_def image_iff)

lemma new_command_ok:
  assumes ok: "db_ok db" and "has_device t d db" "key \<noteq> [] \<Longrightarrow> key_taken t key db = None" "find_command uid db = None"
  shows "db_ok (add_events ''created'' [uid] (db\<lparr>db_commands := db_commands db @ [new_row env t d key normalized uid]\<rparr>))"
proof -
  let ?es = "db_events db @ [\<lparr>er_Command = uid, er_Type = ''created''\<rparr>]"
  have fresh: "uid \<notin> cr_ID ` set (db_commands db)" using assms(4) by (simp add: find_command_None)
  have c: "command_rows_ok db" using ok by (simp add: db_ok_def)
  have "status_logged ?es r" if "r \<in> set (db_commands db)" for r
  proof -
    have "cr_ID r \<notin> set [uid]" using fresh that by auto
    from events_of_other [OF this, of "db_events db" "''created''"] show ?thesis
      using c that by (auto simp: command_rows_ok_def status_logged_def)
  qed
  moreover have "status_logged ?es (new_row env t d key normalized uid)"
    using last_events_of [of uid "[uid]" "db_events db" "''created''"] by (simp add: status_logged_def new_row_def)
  moreover have "acks_of uid (db_acks db) = []"
    using c fresh by (auto simp: command_rows_ok_def acks_of_def filter_empty_conv)
  moreover have "row_ok (new_row env t d key normalized uid)"
    by (simp add: row_ok_def new_row_def maxDispatchAttempts_def)
  moreover have "distinct (keyed_rows (db_commands db @ [new_row env t d key normalized uid]))"
    using c assms(3) by (auto simp: command_rows_ok_def key_taken_None) (auto simp: keyed_rows_def new_row_def)
  ultimately have "command_rows_ok (add_events ''created'' [uid] (db\<lparr>db_commands := db_commands db @ [new_row env t d key normalized uid]\<rparr>))"
    using c fresh assms(2) unfolding command_rows_ok_def
    by (auto simp: add_events_def result_logged_def) (auto simp: new_row_def)
  then show ?thesis using ok by (simp add: db_ok_def add_events_def)
qed

lemma pg_create_ok: "db_ok db \<Longrightarrow> db_ok (snd (pg_CreateCommandWithKey env t d key p db))"
proof -
  assume ok: "db_ok db"
  obtain r db' where c: "pg_CreateCommandWithKey env t d key p db = (r, db')" by fastforce
  then show ?thesis
  proof (cases rule: pg_create_cases)
    case Same
    then show ?thesis using c ok by simp
  next
    case (New normalized uid)
    then show ?thesis using c new_command_ok [OF ok New(1,3,4)] by simp
  qed
qed

lemma acked_db_ok:
  assumes ok: "db_ok db" and f: "find_command uid db = Some row" and own: "cr_Tenant row = t" "cr_Device row = d"
    and open_row: "\<not> terminal (cr_Status row)" and st: "st = CommandStatusAcked \<or> st = CommandStatusFailed" "event_status event = Some st"
  shows "db_ok (acked_db env uid t d st event stored db)"
proof -
  let ?P = "\<lambda>r. cr_ID r = uid" let ?f = "acked_row env st stored"
  let ?a = "\<lparr>ar_Command = uid, ar_Tenant = t, ar_Device = d, ar_Status = event,
     ar_Payload = stored, ar_CreatedAt = pe_stamp env (pe_now env)\<rparr>"
  let ?es = "db_events db @ map (\<lambda>u. \<lparr>er_Command = u, er_Type = event\<rparr>) [uid]"
  have c: "command_rows_ok db" using ok by (simp add: db_ok_def)
  have k: "keeps_identity ?f" by (simp add: keeps_identity_def acked_row_def)
  have row: "row \<in> set (db_commands db)" "cr_ID row = uid" using find_command_Some [OF f] by auto
  have only: "r = row" if "r \<in> set (db_commands db)" "cr_ID r = uid" for r
    using that row db_ok_ids [OF ok] by (auto simp: distinct_map dest: inj_onD)
  have ro: "row_ok row" "result_logged (db_acks db) row" using c row by (auto simp: command_rows_ok_def)
  have no: "acks_of uid (db_acks db) = []"
    using ro open_row row(2) by (auto simp: result_logged_def row_ok_def terminal_def split: if_splits)
  have "row_ok r \<and> has_device (cr_Tenant r) (cr_Device r) db \<and> status_logged ?es r \<and> result_logged (db_acks db @ [?a]) r"
    if mem: "r \<in> set (upd_rows ?f ?P (db_commands db))" for r
  proof -
    obtain r0 where r0: "r0 \<in> set (db_commands db)" "r = (if ?P r0 then ?f r0 else r0)" using mem by (auto simp: in_upd_rows)
    have old: "row_ok r0" "has_device (cr_Tenant r0) (cr_Device r0) db" "status_logged (db_events db) r0"
      "result_logged (db_acks db) r0" using c r0(1) by (auto simp: command_rows_ok_def)
    show ?thesis
    proof (cases "?P r0")
      case True
      then show ?thesis
        using r0 only [OF r0(1)] old own st no row(2) last_events_of [of uid "[uid]" "db_events db" event]
        by (auto simp: acked_row_def row_ok_def status_logged_def result_logged_def acks_of_def)
    next
      case False
      then show ?thesis
        using r0(2) old events_of_other [of "cr_ID r0" "[uid]" "db_events db" event]
        by (auto simp: status_logged_def result_logged_def acks_of_def)
    qed
  qed
  moreover have "uid \<in> cr_ID ` set (db_commands db)" using row by auto
  ultimately have "command_rows_ok (acked_db env uid t d st event stored db)"
    using c map_ids [OF k] by (simp add: acked_db_def command_rows_ok_def update_commands_rows add_events_def)
  then show ?thesis using ok by (simp add: db_ok_def acked_db_def add_events_def update_commands_def)
qed

lemma pg_ack_ok: "db_ok db \<Longrightarrow> db_ok (snd (pg_AckCommandResultContext env uid t d input db))"
proof -
  assume ok: "db_ok db"
  obtain r db' where a: "pg_AckCommandResultContext env uid t d input db = (r, db')" by fastforce
  then show ?thesis
  proof (cases rule: pg_ack_cases)
    case Same
    then show ?thesis using a ok by simp
  next
    case (Ack row st event stored)
    then show ?thesis using a acked_db_ok [OF ok Ack(1-6)] by simp
  qed
qed

section \<open>Tenants, devices and telemetry\<close>

lemma commit_cases2: "snd (db_commit env n db db' v) = db \<or> snd (db_commit env n db db' v) = db'"
  by (simp add: db_commit_def split: option.splits)

lemma pg_tenant_outcome:
  "snd (pg_CreateTenantContext env t db) = db \<or>
   (ValidateTenantName (ten_Name t) = None \<and> IsValidTenantID (ten_ID t) \<and> ten_ID t \<notin> ten_ID ` set (db_tenants db) \<and>
    snd (pg_CreateTenantContext env t db) = db\<lparr>db_tenants := db_tenants db @ [t]\<rparr>)"
  by (auto simp: pg_CreateTenantContext_def Let_def split: option.splits)

lemma tenant_ok:
  assumes "db_ok db"
  shows "db_ok (snd (pg_CreateTenantContext env t db))"
  using pg_tenant_outcome [of env t db]
proof (elim disjE conjE)
  assume n: "ValidateTenantName (ten_Name t) = None" "IsValidTenantID (ten_ID t)" "ten_ID t \<notin> ten_ID ` set (db_tenants db)"
  have "registry_rows_ok (db\<lparr>db_tenants := db_tenants db @ [t]\<rparr>)"
    using assms n by (auto simp: db_ok_def registry_rows_ok_def)
  moreover have "telemetry_rows_ok (db\<lparr>db_tenants := db_tenants db @ [t]\<rparr>)" "command_rows_ok (db\<lparr>db_tenants := db_tenants db @ [t]\<rparr>)"
    using assms by (simp_all add: db_ok_def telemetry_rows_ok_def command_rows_ok_def)
  moreover assume "snd (pg_CreateTenantContext env t db) = db\<lparr>db_tenants := db_tenants db @ [t]\<rparr>"
  ultimately show ?thesis by (simp add: db_ok_def)
qed (use assms in simp)

definition device_row :: "pgenv \<Rightarrow> Device \<Rightarrow> string \<Rightarrow> DeviceRow" where
  "device_row env d hash = \<lparr>dr_Tenant = dev_TenantID d, dr_Device = dev_DeviceID d, dr_Product = dev_ProductID d,
     dr_Hash = hash, dr_CreatedAt = pe_stamp env (pe_now env), dr_UpdatedAt = pe_stamp env (pe_now env)\<rparr>"

definition device_db :: "pgenv \<Rightarrow> Device \<Rightarrow> string \<Rightarrow> pgdb \<Rightarrow> pgdb" where
  "device_db env d hash db = db\<lparr>db_devices := db_devices db @ [device_row env d hash],
     db_state := upsert_created (dev_TenantID d) (dev_DeviceID d) (pe_stamp env (pe_now env)) (db_state db)\<rparr>"

lemma pg_device_outcome:
  "pg_CreateDeviceContext env d db = (r, db') \<Longrightarrow>
   (db' = db \<and> (\<exists>e. r = Inl e)) \<or>
   (\<exists>hash. ValidateProductID (dev_ProductID d) = None \<and> IsValidTenantID (dev_TenantID d) \<and> IsValidTopicPart (dev_DeviceID d) \<and>
      dev_TenantID d \<in> ten_ID ` set (db_tenants db) \<and> \<not> has_device (dev_TenantID d) (dev_DeviceID d) db \<and>
      HashDeviceSecret (pe_gen env) (dev_Secret d) = Inr hash \<and> db' = device_db env d hash db)"
  unfolding pg_CreateDeviceContext_def db_call_def db_commit_def Let_def
  by (auto simp: device_db_def device_row_def split: option.splits if_splits sum.splits)

lemma has_device_iff: "has_device t d db \<longleftrightarrow> (t, d) \<in> (\<lambda>r. (dr_Tenant r, dr_Device r)) ` set (db_devices db)"
  by (auto simp: has_device_def list_ex_iff)

lemma upsert_created_keys:
  "(\<lambda>r. (sr_Tenant r, sr_Device r)) ` set (upsert_created t d at rows) = insert (t, d) ((\<lambda>r. (sr_Tenant r, sr_Device r)) ` set rows)"
  "distinct (map (\<lambda>r. (sr_Tenant r, sr_Device r)) rows) \<Longrightarrow> distinct (map (\<lambda>r. (sr_Tenant r, sr_Device r)) (upsert_created t d at rows))"
proof -
  have m: "map (\<lambda>r. (sr_Tenant r, sr_Device r)) (map (\<lambda>r. if sr_Tenant r = t \<and> sr_Device r = d then r\<lparr>sr_UpdatedAt := at\<rparr> else r) rows)
      = map (\<lambda>r. (sr_Tenant r, sr_Device r)) rows" by (induction rows) auto
  show "(\<lambda>r. (sr_Tenant r, sr_Device r)) ` set (upsert_created t d at rows) = insert (t, d) ((\<lambda>r. (sr_Tenant r, sr_Device r)) ` set rows)"
    using arg_cong [OF m, of set] by (auto simp: upsert_created_def simp del: map_map)
  show "distinct (map (\<lambda>r. (sr_Tenant r, sr_Device r)) rows) \<Longrightarrow> distinct (map (\<lambda>r. (sr_Tenant r, sr_Device r)) (upsert_created t d at rows))"
    using m by (auto simp: upsert_created_def simp del: map_map)
qed

lemma upsert_seen_keys:
  "map (\<lambda>r. (sr_Tenant r, sr_Device r)) (upsert_seen t d seen msg now rows) =
   map (\<lambda>r. (sr_Tenant r, sr_Device r)) rows @ (if (t, d) \<in> (\<lambda>r. (sr_Tenant r, sr_Device r)) ` set rows then [] else [(t, d)])"
proof -
  have "map (\<lambda>r. (sr_Tenant r, sr_Device r)) (map (\<lambda>r. if sr_Tenant r = t \<and> sr_Device r = d \<and> (case sr_LastSeen r of None \<Rightarrow> True | Some u \<Rightarrow> u < seen)
        then r\<lparr>sr_Connected := True, sr_LastSeen := Some seen, sr_LastMsg := Some msg, sr_UpdatedAt := max (sr_UpdatedAt r) now\<rparr>
        else r) rows) = map (\<lambda>r. (sr_Tenant r, sr_Device r)) rows" by (induction rows) auto
  then show ?thesis by (simp add: upsert_seen_def)
qed

lemma device_ok:
  assumes "db_ok db"
  shows "db_ok (snd (pg_CreateDeviceContext env d db))"
proof -
  obtain r db' where c: "pg_CreateDeviceContext env d db = (r, db')" by fastforce
  from pg_device_outcome [OF c] show ?thesis
  proof (elim disjE exE conjE)
    fix hash
    assume n: "ValidateProductID (dev_ProductID d) = None" "IsValidTenantID (dev_TenantID d)" "IsValidTopicPart (dev_DeviceID d)"
      "dev_TenantID d \<in> ten_ID ` set (db_tenants db)" "\<not> has_device (dev_TenantID d) (dev_DeviceID d) db"
      and db': "db' = device_db env d hash db"
    have mono: "has_device t u db \<Longrightarrow> has_device t u (device_db env d hash db)" for t u
      by (auto simp: has_device_iff device_db_def)
    have "registry_rows_ok (device_db env d hash db)"
      using assms n unfolding has_device_iff db_ok_def registry_rows_ok_def
      by (auto simp: device_db_def device_row_def upsert_created_keys)
    moreover have "telemetry_rows_ok (device_db env d hash db)"
      using assms mono by (auto simp: db_ok_def telemetry_rows_ok_def device_db_def)
    moreover have "command_rows_ok (device_db env d hash db)"
      using assms mono by (auto simp: db_ok_def command_rows_ok_def device_db_def)
    ultimately show ?thesis using c db' by (simp add: db_ok_def)
  qed (use assms c in auto)
qed

definition tel_row :: "pgenv \<Rightarrow> TelemetryRecord \<Rightarrow> string \<Rightarrow> int \<Rightarrow> TelRow" where
  "tel_row env rec stored i = \<lparr>tr_ID = i, tr_Rec = rec\<lparr>rec_TDengineWritten := False, rec_Payload := stored,
     rec_ReceivedAt := pe_stamp env (rec_ReceivedAt rec)\<rparr>\<rparr>"

definition tel_db :: "pgenv \<Rightarrow> TelemetryRecord \<Rightarrow> string \<Rightarrow> pgdb \<Rightarrow> pgdb" where
  "tel_db env rec stored db =
     db\<lparr>db_telemetry := db_telemetry db @ [tel_row env rec stored (db_seq db + 1)], db_seq := db_seq db + 1,
        db_state := upsert_seen (rec_TenantID rec) (rec_DeviceID rec) (pe_stamp env (rec_ReceivedAt rec)) (rec_MsgID rec)
          (pe_stamp env (pe_now env)) (db_state db)\<rparr>"

lemma telemetry_id_fields [simp]:
  "telemetry_id (r\<lparr>rec_TDengineWritten := w\<rparr>) = telemetry_id r" "telemetry_id (r\<lparr>rec_Payload := p\<rparr>) = telemetry_id r"
  "telemetry_id (r\<lparr>rec_ReceivedAt := a\<rparr>) = telemetry_id r"
  by (simp_all add: telemetry_id_def)

lemma pg_restore_outcome:
  assumes "pg_RestoreTelemetryContext env rec db = (r, db')"
  shows "(db' = db \<and> (\<forall>x. r \<noteq> TelStored x) \<and>
      (\<forall>x. r = TelDuplicate x \<longrightarrow> (\<exists>row. find_telemetry (telemetry_id rec) db = Some row \<and> x = tr_Rec row))) \<or>
    (\<exists>stored. has_device (rec_TenantID rec) (rec_DeviceID rec) db \<and> find_telemetry (telemetry_id rec) db = None \<and>
       \<not> IsZero (rec_ReceivedAt rec) \<and> db' = tel_db env rec stored db \<and>
       (r = TelStored (rec\<lparr>rec_TDengineWritten := False\<rparr>) \<or> (\<exists>e. r = TelFailed e)))"
proof (cases "find_telemetry (telemetry_id rec) db")
  case None
  then show ?thesis
    using assms unfolding pg_RestoreTelemetryContext_def db_commit_def Let_def tel_db_def tel_row_def
    by (auto split: option.splits if_splits dest!: requireDevice_None)
next
  case (Some row)
  then show ?thesis
    using assms unfolding pg_RestoreTelemetryContext_def Let_def
    by (auto split: option.splits if_splits)
qed

lemma find_telemetry_None: "find_telemetry k db = None \<longleftrightarrow> k \<notin> (\<lambda>r. telemetry_id (tr_Rec r)) ` set (db_telemetry db)"
  by (auto simp: find_telemetry_def find_None_iff)

lemma tel_db_ok:
  assumes ok: "db_ok db" and dev: "has_device (rec_TenantID rec) (rec_DeviceID rec) db"
    and new: "find_telemetry (telemetry_id rec) db = None"
  shows "db_ok (tel_db env rec stored db)"
proof -
  let ?key = "\<lambda>r. (sr_Tenant r, sr_Device r)"
  have st: "?key ` set (db_state db) = (\<lambda>r. (dr_Tenant r, dr_Device r)) ` set (db_devices db)" "distinct (map ?key (db_state db))"
    using ok by (auto simp: db_ok_def registry_rows_ok_def)
  have "(rec_TenantID rec, rec_DeviceID rec) \<in> ?key ` set (db_state db)" using dev st(1) by (simp add: has_device_iff)
  then have m: "map ?key (upsert_seen (rec_TenantID rec) (rec_DeviceID rec) a b c (db_state db)) = map ?key (db_state db)" for a b c
    by (simp add: upsert_seen_keys)
  have i: "?key ` set (upsert_seen (rec_TenantID rec) (rec_DeviceID rec) a b c (db_state db)) = ?key ` set (db_state db)" for a b c
    using arg_cong [OF m, of set a b c] by (simp only: set_map)
  have "registry_rows_ok (tel_db env rec stored db)"
    using ok m i by (simp add: db_ok_def registry_rows_ok_def tel_db_def)
  moreover have "telemetry_rows_ok (tel_db env rec stored db)"
    using ok dev new unfolding find_telemetry_None telemetry_rows_ok_def db_ok_def
    by (fastforce simp: tel_db_def tel_row_def sorted_wrt_append)
  moreover have "command_rows_ok (tel_db env rec stored db)"
    using ok by (simp add: db_ok_def command_rows_ok_def tel_db_def)
  ultimately show ?thesis by (simp add: db_ok_def)
qed

lemma restore_ok:
  assumes "db_ok db"
  shows "db_ok (snd (pg_RestoreTelemetryContext env rec db))"
proof -
  obtain r db' where c: "pg_RestoreTelemetryContext env rec db = (r, db')" by fastforce
  from pg_restore_outcome [OF c] have "db' = db \<or> (\<exists>stored. has_device (rec_TenantID rec) (rec_DeviceID rec) db \<and>
      find_telemetry (telemetry_id rec) db = None \<and> db' = tel_db env rec stored db)" by blast
  then show ?thesis using c assms tel_db_ok [OF assms] by auto
qed

lemma written_ok:
  assumes "db_ok db"
  shows "db_ok (snd (pg_MarkTelemetryTDengineWrittenContext env m t d db))"
proof -
  let ?f = "\<lambda>r. if telemetry_id (tr_Rec r) = (m, t, d) then r\<lparr>tr_Rec := (tr_Rec r)\<lparr>rec_TDengineWritten := True\<rparr>\<rparr> else r"
  have m: "map (\<lambda>r. telemetry_id (tr_Rec r)) (map ?f rows) = map (\<lambda>r. telemetry_id (tr_Rec r)) rows"
    "map tr_ID (map ?f rows) = map tr_ID rows" for rows by (induction rows) auto
  have "telemetry_rows_ok (db\<lparr>db_telemetry := map ?f (db_telemetry db)\<rparr>)"
    using assms m [of "db_telemetry db"] unfolding db_ok_def telemetry_rows_ok_def
    by (simp del: map_map add: image_iff ball_simps) (auto simp: comp_def)
  then have "db_ok (db\<lparr>db_telemetry := map ?f (db_telemetry db)\<rparr>)"
    using assms by (simp add: db_ok_def registry_rows_ok_def command_rows_ok_def)
  then show ?thesis using assms by (simp add: pg_MarkTelemetryTDengineWrittenContext_def db_commit_ok)
qed

end
