(* ===== verification/Postgres_Histories.thy ===== *)
theory Postgres_Histories
  imports Postgres_Invariants
begin

text \<open>
  Histories of the PostgreSQL store. Any number of API servers, dispatchers and workers call the
  methods in any order, each call with its own environment (faults, clocks, identifiers, locks): one
  call is one step of a transition relation. The lemmas say what every reachable database satisfies
  and what later steps keep of an earlier one.
\<close>

section \<open>The transition relation\<close>

datatype pg_op =
    OpTenant Tenant
  | OpDevice Device
  | OpRecord Envelope
  | OpRestore TelemetryRecord
  | OpWritten string string string
  | OpCreate string string string string
  | OpAck string string string CommandResult
  | OpClaim int duration
  | OpPublished string int
  | OpSent string gtime
  | OpReschedule string int duration
  | OpRequeue string duration
  | OpExpire gtime duration
  | OpRecover gtime int

primrec pg_run :: "pg_op \<Rightarrow> pgenv \<Rightarrow> pgdb \<Rightarrow> pgdb" where
  "pg_run (OpTenant t) env db = snd (pg_CreateTenantContext env t db)"
| "pg_run (OpDevice d) env db = snd (pg_CreateDeviceContext env d db)"
| "pg_run (OpRecord e) env db = snd (pg_RecordTelemetryContext env e db)"
| "pg_run (OpRestore r) env db = snd (pg_RestoreTelemetryContext env r db)"
| "pg_run (OpWritten m t d) env db = snd (pg_MarkTelemetryTDengineWrittenContext env m t d db)"
| "pg_run (OpCreate t d key p) env db = snd (pg_CreateCommandWithKey env t d key p db)"
| "pg_run (OpAck uid t d res) env db = snd (pg_AckCommandResultContext env uid t d res db)"
| "pg_run (OpClaim limit lease) env db = snd (pg_ClaimCommandsForDispatchContext env limit lease db)"
| "pg_run (OpPublished uid attempt) env db = snd (pg_MarkCommandPublishedContext env uid attempt db)"
| "pg_run (OpSent uid deadline) env db = snd (pg_MarkCommandSentContext env uid deadline db)"
| "pg_run (OpReschedule uid attempt after) env db = snd (pg_RescheduleCommandContext env uid attempt after db)"
| "pg_run (OpRequeue uid after) env db = snd (pg_RequeueCommandContext env uid after db)"
| "pg_run (OpExpire now grace) env db = snd (pg_ExpireCommandsContext env now grace db)"
| "pg_run (OpRecover stale attempts) env db = snd (pg_RecoverStaleCommandsContext env stale attempts db)"

inductive pg_step :: "pgdb \<Rightarrow> pgdb \<Rightarrow> bool" where
  call: "pg_step db (pg_run op env db)"

inductive pg_reachable :: "pgdb \<Rightarrow> bool" where
  init: "pg_reachable empty_db"
| step: "pg_reachable db \<Longrightarrow> pg_step db db' \<Longrightarrow> pg_reachable db'"

inductive_cases pg_stepE: "pg_step db db'"

lemma pg_run_ok: "db_ok db \<Longrightarrow> db_ok (pg_run op env db)"
  by (cases op)
    (simp_all add: tenant_ok device_ok restore_ok pg_RecordTelemetryContext_def written_ok pg_create_ok pg_ack_ok claim_ok
      published_ok sent_ok reschedule_ok requeue_ok expire_ok recover_ok)

lemma pg_step_ok: "pg_step db db' \<Longrightarrow> db_ok db \<Longrightarrow> db_ok db'"
  by (auto elim: pg_stepE intro: pg_run_ok)

lemma pg_reachable_ok: "pg_reachable db \<Longrightarrow> db_ok db"
  by (induction rule: pg_reachable.induct) (auto intro: db_ok_empty pg_step_ok)

lemma pg_steps_ok: "pg_step\<^sup>*\<^sup>* db db' \<Longrightarrow> db_ok db \<Longrightarrow> db_ok db'"
  by (induction rule: rtranclp_induct) (auto intro: pg_step_ok)

lemma pg_reachable_run: "pg_reachable db \<Longrightarrow> pg_reachable (pg_run op env db)"
  by (blast intro: pg_reachable.step pg_step.call)

section \<open>What a later database keeps\<close>

text \<open>
  A command that waits for dispatch may go back and forth between created and published; once it is
  sent it is never queued again, and a final status stays.
\<close>

definition phase :: "CommandStatus \<Rightarrow> nat" where
  "phase st = (if st = CommandStatusCreated \<or> st = CommandStatusPublished then 0
     else if st = CommandStatusSent then 1 else 2)"

definition row_later :: "CmdRow \<Rightarrow> CmdRow \<Rightarrow> bool" where
  "row_later r r' \<longleftrightarrow>
     cr_ID r' = cr_ID r \<and> cr_Tenant r' = cr_Tenant r \<and> cr_Device r' = cr_Device r \<and> cr_Key r' = cr_Key r \<and>
     cr_Payload r' = cr_Payload r \<and> cr_CreatedAt r' = cr_CreatedAt r \<and> cr_Attempts r \<le> cr_Attempts r' \<and>
     phase (cr_Status r) \<le> phase (cr_Status r') \<and>
     (terminal (cr_Status r) \<longrightarrow> cr_Status r' = cr_Status r \<and> cr_Result r' = cr_Result r)"

lemma row_later_refl [simp]: "row_later r r"
  by (simp add: row_later_def)

lemma row_later_trans: "row_later a b \<Longrightarrow> row_later b c \<Longrightarrow> row_later a c"
  by (auto simp: row_later_def)

text \<open>The last time a device was seen, as a number that grows.\<close>

definition seen_later :: "gtime option \<Rightarrow> gtime option \<Rightarrow> bool" where
  "seen_later a b \<longleftrightarrow> (case a of None \<Rightarrow> True | Some u \<Rightarrow> (case b of None \<Rightarrow> False | Some v \<Rightarrow> u \<le> v))"

lemma seen_later_refl [simp]: "seen_later a a"
  by (simp add: seen_later_def split: option.splits)

lemma seen_later_trans: "seen_later a b \<Longrightarrow> seen_later b c \<Longrightarrow> seen_later a c"
  by (auto simp: seen_later_def split: option.splits)

definition find_state :: "string \<Rightarrow> string \<Rightarrow> StateRow list \<Rightarrow> StateRow option" where
  "find_state t d rows = find (\<lambda>r. sr_Tenant r = t \<and> sr_Device r = d) rows"

definition state_later :: "StateRow list \<Rightarrow> StateRow list \<Rightarrow> bool" where
  "state_later rows rows' \<longleftrightarrow> (\<forall>t d r. find_state t d rows = Some r \<longrightarrow>
     (\<exists>r'. find_state t d rows' = Some r' \<and> seen_later (sr_LastSeen r) (sr_LastSeen r')))"

definition commands_later :: "pgdb \<Rightarrow> pgdb \<Rightarrow> bool" where
  "commands_later db db' \<longleftrightarrow> (\<forall>uid r. find_command uid db = Some r \<longrightarrow> (\<exists>r'. find_command uid db' = Some r' \<and> row_later r r'))"

definition db_later :: "pgdb \<Rightarrow> pgdb \<Rightarrow> bool" where
  "db_later db db' \<longleftrightarrow> commands_later db db' \<and> state_later (db_state db) (db_state db') \<and>
     prefix (db_tenants db) (db_tenants db') \<and> prefix (db_devices db) (db_devices db') \<and>
     prefix (map (\<lambda>r. telemetry_id (tr_Rec r)) (db_telemetry db)) (map (\<lambda>r. telemetry_id (tr_Rec r)) (db_telemetry db')) \<and>
     prefix (db_acks db) (db_acks db') \<and> prefix (db_events db) (db_events db')"

lemma commands_later_refl [simp]: "commands_later db db"
  by (simp add: commands_later_def)

lemma state_later_refl [simp]: "state_later s s"
  by (auto simp: state_later_def)

lemma db_later_refl [simp]: "db_later db db"
  by (simp add: db_later_def)

lemma commands_later_trans: "commands_later a b \<Longrightarrow> commands_later b c \<Longrightarrow> commands_later a c"
  unfolding commands_later_def by (meson row_later_trans)

lemma state_later_trans: "state_later a b \<Longrightarrow> state_later b c \<Longrightarrow> state_later a c"
  unfolding state_later_def by (meson seen_later_trans)

lemma db_later_trans: "db_later a b \<Longrightarrow> db_later b c \<Longrightarrow> db_later a c"
  unfolding db_later_def by (meson commands_later_trans state_later_trans prefix_order.trans)

lemma db_later_commit: "db_later db db' \<Longrightarrow> db_later db (snd (db_commit env n db db' v))"
  using commit_cases2 [of env n db db' v] by auto

lemma find_update:
  assumes "keeps_identity f"
  shows "find_command uid (update_commands f P db) = map_option (\<lambda>r. if P r then f r else r) (find_command uid db)"
proof -
  have "find (\<lambda>r. cr_ID r = uid) (map (\<lambda>r. if P r then f r else r) rows) =
      map_option (\<lambda>r. if P r then f r else r) (find (\<lambda>r. cr_ID r = uid) rows)" for rows
    using keeps_identityD(1) [OF assms] by (induction rows) auto
  then show ?thesis by (simp add: find_command_def update_commands_def)
qed

lemma find_command_frame [simp]:
  "find_command uid (add_events e us db) = find_command uid db"
  "find_command uid (db\<lparr>db_acks := x\<rparr>) = find_command uid db"
  by (simp_all add: find_command_def add_events_def)

lemma update_later:
  assumes "keeps_identity f" "\<And>r. r \<in> set (db_commands db) \<Longrightarrow> P r \<Longrightarrow> row_later r (f r)"
  shows "db_later db (update_commands f P db)"
proof -
  have "commands_later db (update_commands f P db)"
    using assms(2) find_command_Some by (fastforce simp: commands_later_def find_update [OF assms(1)])
  then show ?thesis by (simp add: db_later_def update_commands_def)
qed

lemma add_events_later: "db_later db db' \<Longrightarrow> db_later db (add_events e us db')"
  by (auto simp: db_later_def commands_later_def) (auto simp: add_events_def)

lemma updateCommandsWithEvent_later:
  assumes "keeps_identity f" "\<And>r. r \<in> set (db_commands db) \<Longrightarrow> P r \<Longrightarrow> row_later r (f r)"
  shows "db_later db (snd (updateCommandsWithEvent env n f P e db))"
  unfolding updateCommandsWithEvent_def Let_def by (intro db_later_commit add_events_later update_later assms)

lemma updateCommandBatchWithEvent_later:
  assumes "db_ok db" "keeps_identity f" "\<And>r. P r \<Longrightarrow> row_later r (f r)"
  shows "db_later db (snd (updateCommandBatchWithEvent env n f P e db))"
  unfolding updateCommandBatchWithEvent_def
  using assms select_batch_row [OF assms(1)] by (intro updateCommandsWithEvent_later) blast+

section \<open>Every step leads to a later database\<close>

lemma phase_simps [simp]:
  "phase CommandStatusCreated = 0" "phase CommandStatusPublished = 0" "phase CommandStatusSent = 1"
  "phase CommandStatusAcked = 2" "phase CommandStatusFailed = 2" "phase CommandStatusTimeout = 2"
  by (simp_all add: phase_def)

lemma terminal_simps [simp]:
  "\<not> terminal CommandStatusCreated" "\<not> terminal CommandStatusPublished" "\<not> terminal CommandStatusSent"
  "terminal CommandStatusAcked" "terminal CommandStatusFailed" "terminal CommandStatusTimeout"
  by (simp_all add: terminal_def)

lemma phase_le: "phase st \<le> 2"
  by (simp add: phase_def)

lemma tenant_later: "db_later db (snd (pg_CreateTenantContext env t db))"
  using pg_tenant_outcome [of env t db] by (auto simp: db_later_def commands_later_def find_command_def)

lemma find_append_Some: "find P xs = Some x \<Longrightarrow> find P (xs @ ys) = Some x"
  by (induction xs) (auto split: if_splits)

lemma find_map_key:
  assumes "\<And>r. sr_Tenant (f r) = sr_Tenant r \<and> sr_Device (f r) = sr_Device r"
  shows "find_state t d (map f rows) = map_option f (find_state t d rows)"
  using assms by (induction rows) (auto simp: find_state_def)

lemma find_state_append: "find_state t d rows = Some r \<Longrightarrow> find_state t d (rows @ xs) = Some r"
  by (simp add: find_state_def find_append_Some)

lemma state_later_map:
  assumes "\<And>r. sr_Tenant (f r) = sr_Tenant r \<and> sr_Device (f r) = sr_Device r" "\<And>r. seen_later (sr_LastSeen r) (sr_LastSeen (f r))"
  shows "state_later rows (map f rows)"
  unfolding state_later_def find_map_key [OF assms(1)] using assms(2) by auto

lemma state_later_append: "state_later rows (rows @ xs)"
  using find_state_append by (fastforce simp: state_later_def)

lemma upsert_created_later: "state_later rows (upsert_created t d at rows)"
  unfolding upsert_created_def by (simp add: state_later_append state_later_map)

lemma upsert_seen_later: "state_later rows (upsert_seen t d seen msg now rows)"
  unfolding upsert_seen_def
  by (simp add: state_later_append) (auto intro!: state_later_map simp: seen_later_def split: option.splits)

lemma device_later: "db_later db (snd (pg_CreateDeviceContext env d db))"
proof -
  obtain r db' where c: "pg_CreateDeviceContext env d db = (r, db')" by fastforce
  have "db_later db (device_db env d hash db)" for hash
    by (simp add: db_later_def commands_later_def find_command_def device_db_def upsert_created_later)
  then show ?thesis using c pg_device_outcome [OF c] by auto
qed

lemma restore_later: "db_later db (snd (pg_RestoreTelemetryContext env rec db))"
proof -
  obtain r db' where c: "pg_RestoreTelemetryContext env rec db = (r, db')" by fastforce
  have "db_later db (tel_db env rec stored db)" for stored
    by (simp add: db_later_def commands_later_def find_command_def tel_db_def upsert_seen_later)
  then show ?thesis using c pg_restore_outcome [OF c] by auto
qed

lemma written_later: "db_later db (snd (pg_MarkTelemetryTDengineWrittenContext env m t d db))"
proof -
  let ?f = "\<lambda>r. if telemetry_id (tr_Rec r) = (m, t, d) then r\<lparr>tr_Rec := (tr_Rec r)\<lparr>rec_TDengineWritten := True\<rparr>\<rparr> else r"
  have "prefix (map (\<lambda>r. telemetry_id (tr_Rec r)) rows) (map (\<lambda>r. telemetry_id (tr_Rec r)) (map ?f rows))" for rows
    by (induction rows) auto
  then have "db_later db (db\<lparr>db_telemetry := map ?f (db_telemetry db)\<rparr>)"
    by (simp add: db_later_def commands_later_def find_command_def del: map_map)
  then show ?thesis unfolding pg_MarkTelemetryTDengineWrittenContext_def by (rule db_later_commit)
qed

lemma find_command_append:
  "find_command u db = Some x \<Longrightarrow> find_command u (db\<lparr>db_commands := db_commands db @ ys\<rparr>) = Some x"
  by (simp add: find_command_def find_append_Some)

lemma create_later: "db_later db (snd (pg_CreateCommandWithKey env t d key p db))"
proof -
  obtain r db' where c: "pg_CreateCommandWithKey env t d key p db = (r, db')" by fastforce
  then show ?thesis
  proof (cases rule: pg_create_cases)
    case Same
    then show ?thesis using c by simp
  next
    case (New normalized uid)
    have "db_later db (db\<lparr>db_commands := db_commands db @ [new_row env t d key normalized uid]\<rparr>)"
      by (auto simp: db_later_def commands_later_def find_command_append)
    then show ?thesis using c New(5) by (simp add: add_events_later)
  qed
qed

lemma acked_db_later:
  assumes "find_command uid db = Some row" "\<not> terminal (cr_Status row)" "st = CommandStatusAcked \<or> st = CommandStatusFailed" "db_ok db"
  shows "db_later db (acked_db env uid t d st event stored db)"
proof -
  have only: "r = row" if "r \<in> set (db_commands db)" "cr_ID r = uid" for r
    using that find_command_in [OF db_ok_ids [OF assms(4)], of r] assms(1) by simp
  have "phase (cr_Status row) \<le> phase st" using assms(3) phase_le by auto
  then have "db_later db (update_commands (acked_row env st stored) (\<lambda>r. cr_ID r = uid) db)"
    using assms(2) only by (intro update_later) (auto simp: keeps_identity_def acked_row_def row_later_def)
  moreover have "db_later db x \<Longrightarrow> db_acks x = db_acks db \<Longrightarrow> db_later db (x\<lparr>db_acks := db_acks db @ as\<rparr>)" for x as
    by (auto simp: db_later_def commands_later_def)
  ultimately show ?thesis
    unfolding acked_db_def by (intro add_events_later) (simp add: update_commands_def)
qed

lemma ack_later: "db_ok db \<Longrightarrow> db_later db (snd (pg_AckCommandResultContext env uid t d input db))"
proof -
  assume ok: "db_ok db"
  obtain r db' where a: "pg_AckCommandResultContext env uid t d input db = (r, db')" by fastforce
  then show ?thesis
  proof (cases rule: pg_ack_cases)
    case Same
    then show ?thesis using a by simp
  next
    case (Ack row st event stored)
    then show ?thesis using a acked_db_later [OF Ack(1,4,5) ok] by simp
  qed
qed

lemma claim_later: "db_ok db \<Longrightarrow> db_later db (snd (pg_ClaimCommandsForDispatchContext env limit lease db))"
proof -
  let ?P = "\<lambda>r. cr_ID r \<in> set (select_batch env (nat limit) (claimable env) db)"
  have "db_later db (update_commands (claim_row env lease) ?P db)"
    by (rule update_later) (auto simp: keeps_identity_def claim_row_def row_later_def)
  from db_later_commit [OF this, of env 0 "()"] show ?thesis
    by (simp add: pg_ClaimCommandsForDispatchContext_def Let_def snd_case_result)
qed

lemma dispatch_later:
  "db_later db (snd (pg_MarkCommandPublishedContext env uid attempt db))"
  "db_later db (snd (pg_MarkCommandSentContext env uid deadline db))"
  "db_later db (snd (pg_RequeueCommandContext env uid retryAfter db))"
  "db_later db (snd (pg_RescheduleCommandContext env uid attempt retryAfter db))"
  unfolding pg_MarkCommandPublishedContext_def pg_MarkCommandSentContext_def pg_RequeueCommandContext_def
    pg_RescheduleCommandContext_def snd_ignore_count
  by (rule updateCommandsWithEvent_later db_later_commit [OF update_later];
      force simp: keeps_identity_def row_later_def)+

lemma expire_later: "db_ok db \<Longrightarrow> db_later db (snd (pg_ExpireCommandsContext env now grace db))"
  unfolding pg_ExpireCommandsContext_def
  by (rule updateCommandBatchWithEvent_later) (auto simp: keeps_identity_def row_later_def expired_def)

lemma recover_later:
  assumes "db_ok db"
  shows "db_later db (snd (pg_RecoverStaleCommandsContext env staleBefore maxAttempts db))"
proof -
  let ?f = "\<lambda>r. r\<lparr>cr_Status := CommandStatusCreated, cr_Next := pe_dbnow env, cr_UpdatedAt := pe_dbnow env\<rparr>"
  let ?g = "\<lambda>r. r\<lparr>cr_Status := CommandStatusFailed, cr_UpdatedAt := pe_dbnow env\<rparr>"
  let ?first = "updateCommandBatchWithEvent env 0 ?f (stale_retry env staleBefore maxAttempts) ''requeued'' db"
  let ?second = "updateCommandBatchWithEvent env 1 ?g (stale_failed env staleBefore maxAttempts) ''failed'' (snd ?first)"
  have ok: "db_ok (snd ?first)"
    using assms by (rule updateCommandBatchWithEvent_ok) (auto simp: keeps_identity_def row_ok_def stale_retry_def)
  have 1: "db_later db (snd ?first)"
    using assms by (rule updateCommandBatchWithEvent_later) (auto simp: keeps_identity_def row_later_def stale_retry_def)
  have 2: "db_later (snd ?first) (snd ?second)"
    using ok by (rule updateCommandBatchWithEvent_later) (auto simp: keeps_identity_def row_later_def stale_failed_def)
  have "snd (pg_RecoverStaleCommandsContext env staleBefore maxAttempts db) \<in> {snd ?first, snd ?second}"
    unfolding pg_RecoverStaleCommandsContext_def by (auto split: prod.splits sum.splits)
  then show ?thesis using 1 db_later_trans [OF 1 2] by auto
qed

lemma pg_run_later: "db_ok db \<Longrightarrow> db_later db (pg_run op env db)"
  by (cases op)
    (simp_all add: tenant_later device_later restore_later pg_RecordTelemetryContext_def written_later create_later ack_later
      claim_later dispatch_later expire_later recover_later)

lemma pg_steps_later:
  assumes "pg_step\<^sup>*\<^sup>* db db'" "db_ok db"
  shows "db_later db db'"
  using assms
proof (induction rule: rtranclp_induct)
  case (step b c)
  have "db_ok b" using pg_steps_ok [OF step(1) step.prems] .
  then have "db_later b c" using step(2) by (auto elim: pg_stepE intro: pg_run_later)
  then show ?case using db_later_trans step by blast
qed simp

end
