(* ===== verification/Postgres_Safety.thy ===== *)
theory Postgres_Safety
  imports Postgres_Histories
begin

text \<open>
  The guarantees of the PostgreSQL store over whole histories: the audit trail, the first result, retries with
  a request key, delivery, claims, telemetry, credentials and the expiry sweep; and that the store
  implements the contract \<open>command_store\<close> and the abstract command machine.
\<close>

section \<open>Commands\<close>

lemma reachable_row:
  assumes "pg_reachable db" "r \<in> set (db_commands db)"
  shows "row_ok r" "has_device (cr_Tenant r) (cr_Device r) db" "status_logged (db_events db) r" "result_logged (db_acks db) r"
    "find_command (cr_ID r) db = Some r"
  using pg_reachable_ok [OF assms(1)] assms(2) find_command_in [OF db_ok_ids [OF pg_reachable_ok [OF assms(1)]] assms(2)]
  by (auto simp: db_ok_def command_rows_ok_def)

lemma later_row:
  assumes "pg_step\<^sup>*\<^sup>* db db'" "db_ok db" "find_command uid db = Some r"
  obtains r' where "find_command uid db' = Some r'" "row_later r r'"
  using pg_steps_later [OF assms(1,2)] assms(3) by (auto simp: db_later_def commands_later_def)

lemma find_snoc: "find P (xs @ [x]) = (case find P xs of Some y \<Rightarrow> Some y | None \<Rightarrow> if P x then Some x else None)"
  by (induction xs) auto

lemma find_new_row:
  assumes "find_command uid db = None"
  shows "find_command u (db\<lparr>db_commands := db_commands db @ [new_row env t d key p uid]\<rparr>) =
    (if u = uid then Some (new_row env t d key p uid) else find_command u db)"
  using assms by (auto simp: find_command_def find_snoc new_row_def split: option.split)

lemma key_taken_Some:
  assumes "key_taken t key db = Some row"
  shows "row \<in> set (db_commands db)" "cr_Tenant row = t" "cr_Key row = Some key"
  using assms by (auto simp: key_taken_def find_Some_iff)

lemma keyed_unique:
  assumes "db_ok db" "a \<in> set (db_commands db)" "b \<in> set (db_commands db)"
    "cr_Tenant a = cr_Tenant b" "cr_Key a = cr_Key b" "cr_Key a \<noteq> None"
  shows "a = b"
proof -
  have "inj_on (\<lambda>r. (cr_Tenant r, cr_Key r)) (set (filter (\<lambda>r. cr_Key r \<noteq> None) (db_commands db)))"
    using assms(1) by (simp add: db_ok_def command_rows_ok_def keyed_rows_def distinct_map)
  then show ?thesis using assms by (auto dest: inj_onD)
qed

lemma created_row:
  assumes "db_ok db" "pg_CreateCommandWithKey env t d key p db = (Inr c, db')"
  obtains row where "find_command (cmd_ID c) db' = Some row" "cr_Tenant row = t" "cr_Device row = d"
    "cr_Status row = cmd_Status c" "cr_Payload row = cmd_Payload c" "key \<noteq> [] \<Longrightarrow> cr_Key row = Some key"
  using assms(2)
proof (cases rule: pg_create_cases)
  case Same
  then obtain row where row: "key \<noteq> []" "key_taken t key db = Some row" "cr_Device row = d"
    "scanCommandRow (pe_fold env) row = Inr c" by blast
  show thesis
    using that [of row] row key_taken_Some [OF row(2)] scan_fields [OF row(4)] Same(1)
      find_command_in [OF db_ok_ids [OF assms(1)], of row] by auto
next
  case (New normalized uid)
  then show thesis
    using that [of "new_row env t d key normalized uid"] find_new_row [OF New(4)] by (simp add: new_row_def)
qed

lemma acked_row_later:
  assumes "db_ok db" "pg_AckCommandResultContext env uid t d input db = (Inr c, db')"
  obtains row where "find_command uid db' = Some row" "cr_Tenant row = t" "cr_Device row = d"
    "cr_Status row = cmd_Status c" "terminal (cr_Status row)"
  using assms(2)
proof (cases rule: pg_ack_cases)
  case Same
  then obtain row where "find_command uid db = Some row" "scanCommandRow (pe_fold env) row = Inr c"
    "cr_Tenant row = t" "cr_Device row = d" "terminal (cr_Status row)" by blast
  then show thesis using that [of row] scan_fields Same(1) by auto
next
  case (Ack row st event stored)
  have k: "keeps_identity (acked_row env st stored)" by (simp add: keeps_identity_def acked_row_def)
  have "find_command uid db' = Some (acked_row env st stored row)"
    using Ack(1,7) find_command_Some [OF Ack(1)] by (simp add: acked_db_def find_update [OF k])
  then show thesis using that [of "acked_row env st stored row"] Ack by (auto simp: acked_row_def)
qed

text \<open>
  C11: in every reachable database the audit trail agrees with the command table: the last event of a
  command denotes its status, a command has a result exactly when it has one acknowledgement row, which
  names its own tenant and device, and no command was claimed more than ten times.
\<close>

theorem pg_audit_trail:
  assumes "pg_reachable db" "r \<in> set (db_commands db)"
  shows "events_of (cr_ID r) (db_events db) \<noteq> [] \<and>
    event_status (last (events_of (cr_ID r) (db_events db))) = Some (cr_Status r) \<and>
    length (acks_of (cr_ID r) (db_acks db)) = (if cr_Result r = None then 0 else 1) \<and>
    (\<forall>a \<in> set (acks_of (cr_ID r) (db_acks db)). ar_Tenant a = cr_Tenant r \<and> ar_Device a = cr_Device r) \<and>
    0 \<le> cr_Attempts r \<and> cr_Attempts r \<le> 10"
  using reachable_row [OF assms]
  by (auto simp: status_logged_def result_logged_def row_ok_def maxDispatchAttempts_def)

text \<open>
  C1: the first result wins: once an acknowledgement has been answered with a final status, every later
  database, whatever the servers do in between, has the command of that device with exactly that status.
\<close>

theorem pg_first_result_wins:
  assumes "pg_reachable db" "pg_AckCommandResultContext env uid t d input db = (Inr c, db1)" "pg_step\<^sup>*\<^sup>* db1 db2"
  shows "\<exists>row. find_command uid db2 = Some row \<and> cr_Tenant row = t \<and> cr_Device row = d \<and>
    cr_Status row = cmd_Status c \<and> terminal (cr_Status row)"
proof -
  have ok: "db_ok db" by (rule pg_reachable_ok [OF assms(1)])
  obtain row where row: "find_command uid db1 = Some row" "cr_Tenant row = t" "cr_Device row = d"
    "cr_Status row = cmd_Status c" "terminal (cr_Status row)" using acked_row_later [OF ok assms(2)] .
  have "db_ok db1" using pg_ack_ok [OF ok, of env uid t d input] assms(2) by simp
  from later_row [OF assms(3) this row(1)] obtain row' where "find_command uid db2 = Some row'" "row_later row row'" .
  then show ?thesis using row by (auto simp: row_later_def)
qed

text \<open>
  C2: a request key creates at most one command: after a creation with a key has succeeded, every later
  creation with that key, for any device and payload, leaves the database as it is, and when it succeeds it
  returns the command created first, for the same device.
\<close>

theorem pg_retry_creates_nothing:
  assumes "pg_reachable db" "key \<noteq> []" "pg_CreateCommandWithKey env t d key p db = (Inr c, db1)" "pg_step\<^sup>*\<^sup>* db1 db2"
    "pg_CreateCommandWithKey env' t d' key p' db2 = (r, db3)"
  shows "db3 = db2 \<and> (\<forall>c'. r = Inr c' \<longrightarrow> cmd_ID c' = cmd_ID c \<and> d' = d \<and> cmd_Payload c' = cmd_Payload c)"
proof -
  have ok: "db_ok db" by (rule pg_reachable_ok [OF assms(1)])
  obtain row where row: "find_command (cmd_ID c) db1 = Some row" "cr_Tenant row = t" "cr_Device row = d"
    "cr_Payload row = cmd_Payload c" "cr_Key row = Some key" using created_row [OF ok assms(3)] assms(2) by metis
  have ok1: "db_ok db1" using pg_create_ok [OF ok, of env t d key p] assms(3) by simp
  obtain row2 where row2: "find_command (cmd_ID c) db2 = Some row2" "row_later row row2" using later_row [OF assms(4) ok1 row(1)] .
  have ok2: "db_ok db2" by (rule pg_steps_ok [OF assms(4) ok1])
  have r2: "row2 \<in> set (db_commands db2)" "cr_ID row2 = cmd_ID c" "cr_Tenant row2 = t" "cr_Device row2 = d"
    "cr_Payload row2 = cmd_Payload c" "cr_Key row2 = Some key"
    using find_command_Some [OF row2(1)] row2(2) row by (auto simp: row_later_def)
  have taken: "x = row2" if "key_taken t key db2 = Some x" for x
    using key_taken_Some [OF that] r2 keyed_unique [OF ok2, of x row2] by simp
  have "key_taken t key db2 \<noteq> None" using r2 by (auto simp: key_taken_def find_None_iff)
  with assms(5) taken assms(2) r2 show ?thesis
    by (cases rule: pg_create_cases [OF assms(5), case_names Same New]) (fastforce dest: scan_fields)+
qed

section \<open>Dispatch\<close>

lemma scanCommands_members:
  "scanCommands sf rows = Inr cmds \<Longrightarrow> c \<in> set cmds \<Longrightarrow> \<exists>r \<in> set rows. scanCommandRow sf r = Inr c"
  by (induction rows arbitrary: cmds) auto

text \<open>A command that a claim returns was claimable, and carries its new attempt number and the end of its lease.\<close>

lemma claimed_row:
  assumes ok: "db_ok db" and c: "pg_ClaimCommandsForDispatchContext env limit lease db = (Inr cmds, db')" "cmd \<in> set cmds"
  obtains r where "find_command (cmd_ID cmd) db = Some r" "claimable env r"
    "find_command (cmd_ID cmd) db' = Some (claim_row env lease r)" "cmd_DispatchAttempts cmd = cr_Attempts r + 1"
proof -
  let ?P = "\<lambda>r. cr_ID r \<in> set (select_batch env (nat limit) (claimable env) db)"
  let ?db = "update_commands (claim_row env lease) ?P db"
  have k: "keeps_identity (claim_row env lease)" by (simp add: keeps_identity_def claim_row_def)
  have "1 \<le> limit" using c by (auto simp: pg_ClaimCommandsForDispatchContext_def split: if_splits)
  then have sc: "scanCommands (pe_fold env) (filter ?P (db_commands ?db)) = Inr cmds" and db': "db' = ?db"
    using c(1) by (auto simp: pg_ClaimCommandsForDispatchContext_def Let_def db_commit_def split: option.splits)
  obtain r' where r': "r' \<in> set (db_commands ?db)" "?P r'" "scanCommandRow (pe_fold env) r' = Inr cmd"
    using scanCommands_members [OF sc c(2)] by auto
  then obtain r where r: "r \<in> set (db_commands db)" "r' = (if ?P r then claim_row env lease r else r)"
    by (auto simp: update_commands_def)
  have id: "cr_ID r' = cr_ID r" using r(2) k by (auto simp: keeps_identity_def)
  then have P: "?P r" using r'(2) by simp
  have f: "find_command (cr_ID r) db = Some r" using find_command_in [OF db_ok_ids [OF ok] r(1)] .
  show thesis
    using that [of r] f select_batch_row [OF ok r(1) P] scan_fields [OF r'(3)] P r(2) id db'
    by (simp add: find_update [OF k] claim_row_def)
qed

text \<open>
  C14: a command that was marked as sent to its device is never queued again: in every later database it
  is sent or has a final status, and no later claim hands it to a dispatcher.
\<close>

theorem pg_sent_not_claimed:
  assumes "pg_reachable db" "find_command uid db = Some r" "cr_Status r = CommandStatusSent" "pg_step\<^sup>*\<^sup>* db db1"
    "pg_ClaimCommandsForDispatchContext env limit lease db1 = (Inr cmds, db2)"
  shows "uid \<notin> cmd_ID ` set cmds \<and>
    (\<exists>r1. find_command uid db1 = Some r1 \<and> (cr_Status r1 = CommandStatusSent \<or> terminal (cr_Status r1)))"
proof -
  have ok: "db_ok db" by (rule pg_reachable_ok [OF assms(1)])
  obtain r1 where r1: "find_command uid db1 = Some r1" "row_later r r1" using later_row [OF assms(4) ok assms(2)] .
  have ok1: "db_ok db1" by (rule pg_steps_ok [OF assms(4) ok])
  have "1 \<le> phase (cr_Status r1)" using r1(2) assms(3) by (simp add: row_later_def)
  moreover have "named_status (cr_Status r1)" using db_ok_row [OF ok1] find_command_Some [OF r1(1)] by (auto simp: row_ok_def)
  ultimately have st: "cr_Status r1 = CommandStatusSent \<or> terminal (cr_Status r1)"
    by (cases "cr_Status r1") (auto simp: named_status_def)
  have "uid \<noteq> cmd_ID cmd" if mem: "cmd \<in> set cmds" for cmd
  proof -
    obtain x where "find_command (cmd_ID cmd) db1 = Some x" "claimable env x" using claimed_row [OF ok1 assms(5) mem] .
    then show ?thesis using r1(1) st by (auto simp: claimable_def)
  qed
  then show ?thesis using r1(1) st by auto
qed


section \<open>The expiry sweep\<close>

fun sweeps :: "pgenv list \<Rightarrow> gtime \<Rightarrow> duration \<Rightarrow> pgdb \<Rightarrow> pgdb" where
  "sweeps [] now grace db = db"
| "sweeps (env # envs) now grace db = sweeps envs now grace (snd (pg_ExpireCommandsContext env now grace db))"

lemma diff_min_eq: "(a::nat) - min a b = a - b"
  by (simp add: min_def)

lemma sweep_once:
  assumes ok: "db_ok db" and env: "pe_fault env 0 = None" "\<And>u. \<not> pe_locked env u"
  shows "length (filter (expired env now grace) (db_commands (snd (pg_ExpireCommandsContext env now grace db)))) =
    length (filter (expired env now grace) (db_commands db)) - 500"
proof -
  let ?E = "filter (expired env now grace) (db_commands db)"
  let ?T = "take 500 (sort_key created_order ?E)"
  let ?ids = "set (select_batch env 500 (expired env now grace) db)"
  let ?f = "\<lambda>r. r\<lparr>cr_Status := CommandStatusTimeout, cr_UpdatedAt := pe_stamp env now\<rparr>"
  have ids: "?ids = cr_ID ` set ?T" using env(2) by (simp add: select_batch_def)
  have d: "distinct (db_commands db)" "inj_on cr_ID (set (db_commands db))" using db_ok_ids [OF ok] by (auto simp: distinct_map)
  have sub: "set ?T \<subseteq> set ?E" by (auto dest: in_set_takeD)
  have memT: "cr_ID r \<in> ?ids \<longleftrightarrow> r \<in> set ?T" if "r \<in> set (db_commands db)" for r
  proof
    assume "cr_ID r \<in> ?ids"
    then obtain x where "x \<in> set ?T" "cr_ID x = cr_ID r" unfolding ids by auto
    then show "r \<in> set ?T" using sub that d(2) by (metis (no_types, lifting) filter_is_subset inj_onD subsetD)
  qed (simp add: ids)
  have "db_commands (snd (pg_ExpireCommandsContext env now grace db)) = map (\<lambda>r. if cr_ID r \<in> ?ids then ?f r else r) (db_commands db)"
    using env(1) by (simp add: pg_ExpireCommandsContext_def updateCommandBatchWithEvent_def updateCommandsWithEvent_def Let_def
        db_commit_def add_events_def update_commands_def)
  moreover have "length (filter (expired env now grace) (map (\<lambda>r. if cr_ID r \<in> ?ids then ?f r else r) rows)) =
      length (filter (\<lambda>r. expired env now grace r \<and> cr_ID r \<notin> ?ids) rows)" for rows
    by (induction rows) (auto simp: expired_def)
  moreover have "length (filter (\<lambda>r. expired env now grace r \<and> cr_ID r \<notin> ?ids) (db_commands db)) = length ?E - 500"
  proof -
    have "set (filter (\<lambda>r. expired env now grace r \<and> cr_ID r \<notin> ?ids) (db_commands db)) = set ?E - set ?T"
      using memT sub by auto
    moreover have "card (set ?E - set ?T) = card (set ?E) - card (set ?T)" using sub by (simp add: card_Diff_subset)
    moreover have "card (set ?E) = length ?E" by (rule distinct_card) (simp add: d)
    moreover have "card (set ?T) = length ?T" by (rule distinct_card) (simp add: d)
    moreover have "length ?T = min (length ?E) 500" by simp
    ultimately show ?thesis using d distinct_card [of "filter (\<lambda>r. expired env now grace r \<and> cr_ID r \<notin> ?ids) (db_commands db)"]
      by (simp only: distinct_filter diff_min_eq)
  qed
  ultimately show ?thesis by simp
qed

lemma expired_stamp: "pe_stamp env = pe_stamp env' \<Longrightarrow> expired env = expired env'"
  by (intro ext) (simp add: expired_def split: option.split)

text \<open>
  C15: the expiry sweep makes progress: each undisturbed call settles 500 overdue commands, so as many calls
  as it takes to cover the overdue ones, at 500 each, leave none.
\<close>

theorem pg_sweeps_expire_all:
  assumes "db_ok db" "\<forall>env \<in> set envs. pe_fault env 0 = None \<and> pe_stamp env = pe_stamp env0 \<and> (\<forall>u. \<not> pe_locked env u)"
    and "length (filter (expired env0 now grace) (db_commands db)) \<le> 500 * length envs"
  shows "filter (expired env0 now grace) (db_commands (sweeps envs now grace db)) = []"
  using assms
proof (induction envs arbitrary: db)
  case (Cons env envs)
  let ?db = "snd (pg_ExpireCommandsContext env now grace db)"
  have e: "expired env = expired env0" using Cons.prems(2) by (intro expired_stamp) simp
  have "length (filter (expired env0 now grace) (db_commands ?db)) \<le> 500 * length envs"
    using sweep_once [of db env now grace] Cons.prems unfolding e by simp
  then show ?case using Cons expire_ok by simp
qed simp

section \<open>Devices and telemetry\<close>

lemma find_device_iff: "find_device t d db = None \<longleftrightarrow> \<not> has_device t d db"
  by (auto simp: find_device_def has_device_def find_None_iff list_ex_iff)

text \<open>
  C19: a device that was created with a secret can authenticate with it from then on, in every later database,
  when bcrypt accepts the hashes it generates.
\<close>

theorem pg_created_device_authenticates:
  assumes bcrypt: "\<And>s h. pe_gen env s = Inr h \<Longrightarrow> h \<noteq> [] \<and> pe_cmp env2 h s"
    and "pg_reachable db" "pg_CreateDeviceContext env d db = (Inr d', db1)" "pg_step\<^sup>*\<^sup>* db1 db2" "pe_fault env2 0 = None"
  shows "pg_AuthenticateDeviceContext env2 (dev_TenantID d) (dev_DeviceID d) (dev_Secret d) db2"
proof -
  obtain hash where h: "\<not> has_device (dev_TenantID d) (dev_DeviceID d) db" "HashDeviceSecret (pe_gen env) (dev_Secret d) = Inr hash"
    "db1 = device_db env d hash db" using pg_device_outcome [OF assms(3)] by auto
  have "db_ok db1" using device_ok [OF pg_reachable_ok [OF assms(2)], of env d] assms(3) by simp
  then obtain ds where ds: "db_devices db2 = db_devices db1 @ ds"
    using pg_steps_later [OF assms(4)] by (auto simp: db_later_def elim: prefixE)
  have "find_device (dev_TenantID d) (dev_DeviceID d) db1 = Some (device_row env d hash)"
    unfolding h(3) find_device_def device_db_def
    using h(1) by (simp add: find_snoc device_row_def flip: find_device_iff) (simp add: find_device_def find_snoc)
  then have "find_device (dev_TenantID d) (dev_DeviceID d) db2 = Some (device_row env d hash)"
    using ds by (simp add: find_device_def find_append_Some)
  then show ?thesis
    using h(2) bcrypt assms(5)
    by (auto simp: pg_AuthenticateDeviceContext_def db_query_def device_row_def HashDeviceSecret_def VerifyDeviceSecret_def
        ValidateDeviceSecret_def split: if_splits)
qed

text \<open>
  C16: telemetry is stored once: after a message has been stored, every later delivery with the same message,
  tenant and device identifiers changes nothing, and no call reports it as stored again.
\<close>

theorem pg_telemetry_stored_once:
  assumes "pg_reachable db" "pg_RestoreTelemetryContext env rec db = (TelStored x, db1)" "pg_step\<^sup>*\<^sup>* db1 db2"
    "telemetry_id rec2 = telemetry_id rec" "pg_RestoreTelemetryContext env2 rec2 db2 = (r, db3)"
  shows "db3 = db2 \<and> (\<forall>y. r \<noteq> TelStored y)"
proof -
  obtain stored where st: "db1 = tel_db env rec stored db" using pg_restore_outcome [OF assms(2)] by auto
  have "db_ok db1" using restore_ok [OF pg_reachable_ok [OF assms(1)], of env rec] assms(2) by simp
  from pg_steps_later [OF assms(3) this]
  have "prefix (map (\<lambda>r. telemetry_id (tr_Rec r)) (db_telemetry db1)) (map (\<lambda>r. telemetry_id (tr_Rec r)) (db_telemetry db2))"
    by (simp add: db_later_def)
  then have "set (map (\<lambda>r. telemetry_id (tr_Rec r)) (db_telemetry db1)) \<subseteq> set (map (\<lambda>r. telemetry_id (tr_Rec r)) (db_telemetry db2))"
    by (rule set_mono_prefix)
  moreover have "telemetry_id rec \<in> set (map (\<lambda>r. telemetry_id (tr_Rec r)) (db_telemetry db1))"
    by (simp add: st tel_db_def tel_row_def)
  ultimately have "find_telemetry (telemetry_id rec2) db2 \<noteq> None" using assms(4) by (auto simp: find_telemetry_None)
  then show ?thesis using pg_restore_outcome [OF assms(5)] by auto
qed

lemma find_state_None: "find_state t d rows = None \<longleftrightarrow> (t, d) \<notin> (\<lambda>r. (sr_Tenant r, sr_Device r)) ` set rows"
  by (auto simp: find_state_def find_None_iff)

lemma seen_after_upsert:
  "\<exists>s. find_state t d (upsert_seen t d seen msg now rows) = Some s \<and> seen_later (Some seen) (sr_LastSeen s)"
proof (cases "find_state t d rows")
  case None
  then show ?thesis
    using find_state_None [of t d rows]
    by (auto simp: upsert_seen_def find_state_def find_snoc seen_later_def)
next
  case (Some r)
  let ?f = "\<lambda>r. if sr_Tenant r = t \<and> sr_Device r = d \<and> (case sr_LastSeen r of None \<Rightarrow> True | Some u \<Rightarrow> u < seen)
        then r\<lparr>sr_Connected := True, sr_LastSeen := Some seen, sr_LastMsg := Some msg, sr_UpdatedAt := max (sr_UpdatedAt r) now\<rparr>
        else r"
  have "(t, d) \<in> (\<lambda>r. (sr_Tenant r, sr_Device r)) ` set rows" using Some find_state_None [of t d rows] by (metis option.distinct(1))
  then have "upsert_seen t d seen msg now rows = map ?f rows" by (simp add: upsert_seen_def)
  moreover have "find_state t d (map ?f rows) = Some (?f r)" unfolding Some [symmetric] using Some
    by (subst find_map_key) auto
  moreover have "sr_Tenant r = t" "sr_Device r = d" using Some by (auto simp: find_state_def find_Some_iff)
  ultimately show ?thesis by (auto simp: seen_later_def split: option.splits)
qed

text \<open>
  C17: the time a device was last seen never goes back: after a message of a device has been stored, every
  later database has the device as seen at the message's receive time or later.
\<close>

theorem pg_last_seen_grows:
  assumes "pg_reachable db" "pg_RestoreTelemetryContext env rec db = (TelStored x, db1)" "pg_step\<^sup>*\<^sup>* db1 db2"
  shows "\<exists>s seen. find_state (rec_TenantID rec) (rec_DeviceID rec) (db_state db2) = Some s \<and> sr_LastSeen s = Some seen \<and>
    pe_stamp env (rec_ReceivedAt rec) \<le> seen"
proof -
  obtain stored where st: "db1 = tel_db env rec stored db" "has_device (rec_TenantID rec) (rec_DeviceID rec) db"
    using pg_restore_outcome [OF assms(2)] by auto
  have ok: "db_ok db" by (rule pg_reachable_ok [OF assms(1)])
  then have ok1: "db_ok db1" using restore_ok [OF ok, of env rec] assms(2) by simp
  obtain s1 where s1: "find_state (rec_TenantID rec) (rec_DeviceID rec) (db_state db1) = Some s1"
    "seen_later (Some (pe_stamp env (rec_ReceivedAt rec))) (sr_LastSeen s1)"
    using seen_after_upsert [of "rec_TenantID rec" "rec_DeviceID rec" "pe_stamp env (rec_ReceivedAt rec)" "rec_MsgID rec"
        "pe_stamp env (pe_now env)" "db_state db"] st(1) by (auto simp: tel_db_def)
  have "state_later (db_state db1) (db_state db2)" using pg_steps_later [OF assms(3) ok1] by (simp add: db_later_def)
  then obtain s2 where "find_state (rec_TenantID rec) (rec_DeviceID rec) (db_state db2) = Some s2"
    "seen_later (sr_LastSeen s1) (sr_LastSeen s2)"
    using s1(1) unfolding state_later_def by blast
  then show ?thesis using s1(2) by (auto simp: seen_later_def split: option.splits)
qed

section \<open>Errors\<close>

lemma create_error_same: "\<not> pe_lost env \<Longrightarrow> pg_CreateCommandWithKey env t d key p db = (Inl e, db') \<Longrightarrow> db' = db"
proof -
  assume l: "\<not> pe_lost env" and c: "pg_CreateCommandWithKey env t d key p db = (Inl e, db')"
  have "db' = db" if "pg_insert_command env t d key n uid db = (Inl e, db')" for n uid
    using that l unfolding pg_insert_command_def Let_def
    by (auto simp: db_call_def db_commit_def split: option.splits if_splits sum.splits)
  then show ?thesis using pg_create_outcome [OF c] by auto
qed

lemma ack_error_same: "\<not> pe_lost env \<Longrightarrow> pg_AckCommandResultContext env uid t d input db = (Inl e, db') \<Longrightarrow> db' = db"
proof -
  assume l: "\<not> pe_lost env" and c: "pg_AckCommandResultContext env uid t d input db = (Inl e, db')"
  have "db' = db" if "pg_apply_ack env uid t d n enc row cmd db = (Inl e, db')" for n enc row cmd
    using that l unfolding pg_apply_ack_def Let_def
    by (auto simp: db_call_def db_commit_def split: option.splits if_splits sum.splits)
  then show ?thesis
    using c unfolding pg_AckCommandResultContext_def db_call_def by (auto split: option.splits sum.splits)
qed


section \<open>The contract of a command store\<close>

definition row_view :: "CmdRow \<Rightarrow> command_view" where
  "row_view r = \<lparr>cv_Tenant = cr_Tenant r, cv_Device = cr_Device r, cv_Payload = cr_Payload r, cv_Status = cr_Status r\<rparr>"

definition pg_view :: "pgdb \<Rightarrow> string \<Rightarrow> command_view option" where
  "pg_view db uid = map_option row_view (find_command uid db)"

lemma pg_create_frame:
  assumes "pg_view db uid = Some v"
  shows "pg_view (snd (pg_CreateCommandWithKey env t d key p db)) uid = Some v"
proof -
  obtain r db' where c: "pg_CreateCommandWithKey env t d key p db = (r, db')" by fastforce
  then show ?thesis
  proof (cases rule: pg_create_cases)
    case Same
    then show ?thesis using c assms by simp
  next
    case (New normalized u)
    then show ?thesis using c assms find_command_append by (auto simp: pg_view_def)
  qed
qed

lemma pg_ack_frame:
  assumes "pg_view db i = Some v"
  shows "\<exists>st. pg_view (snd (pg_AckCommandResultContext env uid t d input db)) i = Some (v\<lparr>cv_Status := st\<rparr>) \<and>
    (st \<noteq> cv_Status v \<longrightarrow> i = uid \<and> t = cv_Tenant v \<and> d = cv_Device v \<and> \<not> terminal (cv_Status v) \<and> terminal st)"
proof -
  obtain r db' where a: "pg_AckCommandResultContext env uid t d input db = (r, db')" by fastforce
  then show ?thesis
  proof (cases rule: pg_ack_cases)
    case Same
    then show ?thesis using a assms by (intro exI [of _ "cv_Status v"]) simp
  next
    case (Ack row st event stored)
    have k: "keeps_identity (acked_row env st stored)" by (simp add: keeps_identity_def acked_row_def)
    obtain ri where ri: "find_command i db = Some ri" "v = row_view ri" using assms by (auto simp: pg_view_def)
    have id: "cr_ID ri = i" using find_command_Some [OF ri(1)] by simp
    have f: "find_command i db' = Some (if i = uid then acked_row env st stored ri else ri)"
      using Ack(7) ri(1) id by (simp add: acked_db_def find_update [OF k])
    show ?thesis
    proof (cases "i = uid")
      case True
      then have "ri = row" using ri(1) Ack(1) by simp
      then show ?thesis using f True a ri(2) Ack(2-5)
        by (intro exI [of _ st]) (auto simp: pg_view_def row_view_def acked_row_def)
    next
      case False
      then show ?thesis using f a ri by (intro exI [of _ "cv_Status v"]) (simp add: pg_view_def row_view_def)
    qed
  qed
qed

text \<open>The PostgreSQL store keeps the contract.\<close>

interpretation pg_commands: command_store pg_CreateCommandWithKey pg_AckCommandResultContext pg_view db_ok
proof
  fix e s s' t d k p uid i r c v
  assume ok: "db_ok s"
  show "db_ok (snd (pg_CreateCommandWithKey e t d k p s))" by (rule pg_create_ok [OF ok])
  show "db_ok (snd (pg_AckCommandResultContext e uid t d r s))" by (rule pg_ack_ok [OF ok])
  show "\<exists>v. pg_view s' (cmd_ID c) = Some v \<and> cv_Tenant v = t \<and> cv_Device v = d \<and> cv_Status v = cmd_Status c"
    if cr: "pg_CreateCommandWithKey e t d k p s = (Inr c, s')"
  proof -
    from created_row [OF ok cr] obtain row where "find_command (cmd_ID c) s' = Some row" "cr_Tenant row = t" "cr_Device row = d"
      "cr_Status row = cmd_Status c" .
    then show ?thesis by (simp add: pg_view_def row_view_def)
  qed
  show "pg_view (snd (pg_CreateCommandWithKey e t d k p s)) uid = Some v" if "pg_view s uid = Some v"
    using that by (rule pg_create_frame)
  show "\<exists>v. pg_view s' uid = Some v \<and> cv_Tenant v = t \<and> cv_Device v = d \<and> terminal (cv_Status v) \<and> cv_Status v = cmd_Status c"
    if ac: "pg_AckCommandResultContext e uid t d r s = (Inr c, s')"
  proof -
    from acked_row_later [OF ok ac] obtain row where "find_command uid s' = Some row" "cr_Tenant row = t" "cr_Device row = d"
      "cr_Status row = cmd_Status c" "terminal (cr_Status row)" .
    then show ?thesis by (simp add: pg_view_def row_view_def)
  qed
  show "\<exists>st. pg_view (snd (pg_AckCommandResultContext e uid t d r s)) i = Some (v\<lparr>cv_Status := st\<rparr>) \<and>
      (st \<noteq> cv_Status v \<longrightarrow> i = uid \<and> t = cv_Tenant v \<and> d = cv_Device v \<and> \<not> terminal (cv_Status v) \<and> terminal st)"
    if "pg_view s i = Some v"
    using that by (rule pg_ack_frame)
qed

section \<open>The abstract command machine\<close>

text \<open>
  The specification the table implements: a finite map from identifiers to what a client can see, in which one
  step adds one command with a fresh identifier or moves any number of commands along the edges below.
\<close>

definition machine_edge :: "CommandStatus \<Rightarrow> CommandStatus \<Rightarrow> bool" where
  "machine_edge a b \<longleftrightarrow> a = b \<or> (a, b) \<in>
     {(CommandStatusCreated, CommandStatusPublished), (CommandStatusPublished, CommandStatusCreated),
      (CommandStatusCreated, CommandStatusSent), (CommandStatusPublished, CommandStatusSent),
      (CommandStatusCreated, CommandStatusAcked), (CommandStatusPublished, CommandStatusAcked), (CommandStatusSent, CommandStatusAcked),
      (CommandStatusCreated, CommandStatusFailed), (CommandStatusPublished, CommandStatusFailed), (CommandStatusSent, CommandStatusFailed),
      (CommandStatusSent, CommandStatusTimeout)}"

type_synonym machine = "string \<Rightarrow> command_view option"

definition view_edge :: "command_view option \<Rightarrow> command_view option \<Rightarrow> bool" where
  "view_edge a b \<longleftrightarrow> (case (a, b) of
     (None, None) \<Rightarrow> True
   | (Some v, Some w) \<Rightarrow> w = v\<lparr>cv_Status := cv_Status w\<rparr> \<and> machine_edge (cv_Status v) (cv_Status w)
   | _ \<Rightarrow> False)"

inductive machine_step :: "machine \<Rightarrow> machine \<Rightarrow> bool" where
  add: "V uid = None \<Longrightarrow> cv_Status v = CommandStatusCreated \<Longrightarrow> machine_step V (V(uid \<mapsto> v))"
| move: "(\<And>uid. view_edge (V uid) (V' uid)) \<Longrightarrow> machine_step V V'"

lemma view_edge_refl [simp]: "view_edge a a"
  by (cases a) (simp_all add: view_edge_def machine_edge_def)

lemma machine_same:
  assumes "db_commands db' = db_commands db"
  shows "machine_step\<^sup>*\<^sup>* (pg_view db) (pg_view db')"
proof -
  have "pg_view db' = pg_view db" using assms by (simp add: pg_view_def find_command_def fun_eq_iff)
  then show ?thesis by simp
qed

lemma update_machine:
  assumes f: "keeps_identity f" and e: "\<And>r. r \<in> set (db_commands db) \<Longrightarrow> P r \<Longrightarrow> machine_edge (cr_Status r) (cr_Status (f r))"
  shows "machine_step\<^sup>*\<^sup>* (pg_view db) (pg_view (update_commands f P db))"
proof -
  note k = keeps_identityD [OF f]
  have "view_edge (pg_view db uid) (pg_view (update_commands f P db) uid)" for uid
  proof (cases "find_command uid db")
    case (Some r)
    then have "r \<in> set (db_commands db)" using find_command_Some by blast
    then show ?thesis
      using Some e [of r] by (cases "P r") (simp_all add: pg_view_def find_update [OF f] view_edge_def row_view_def k machine_edge_def)
  qed (simp add: pg_view_def find_update [OF f])
  then show ?thesis by (blast intro: machine_step.move)
qed

lemma pg_view_events [simp]: "pg_view (add_events e us db) = pg_view db" "pg_view (db\<lparr>db_acks := a\<rparr>) = pg_view db"
  by (simp_all add: pg_view_def fun_eq_iff)

lemma commit_machine:
  "machine_step\<^sup>*\<^sup>* (pg_view db) (pg_view db') \<Longrightarrow> machine_step\<^sup>*\<^sup>* (pg_view db) (pg_view (snd (db_commit env n db db' v)))"
  using commit_cases2 [of env n db db' v] by auto

lemma event_update_machine:
  assumes "keeps_identity f" "\<And>r. r \<in> set (db_commands db) \<Longrightarrow> P r \<Longrightarrow> machine_edge (cr_Status r) (cr_Status (f r))"
  shows "machine_step\<^sup>*\<^sup>* (pg_view db) (pg_view (snd (updateCommandsWithEvent env n f P e db)))"
  unfolding updateCommandsWithEvent_def Let_def using update_machine [OF assms] by (intro commit_machine) simp

lemma batch_update_machine:
  assumes "db_ok db" "keeps_identity f" "\<And>r. P r \<Longrightarrow> machine_edge (cr_Status r) (cr_Status (f r))"
  shows "machine_step\<^sup>*\<^sup>* (pg_view db) (pg_view (snd (updateCommandBatchWithEvent env n f P e db)))"
  unfolding updateCommandBatchWithEvent_def
  using assms select_batch_row [OF assms(1)] by (intro event_update_machine) blast+

lemma create_machine: "machine_step\<^sup>*\<^sup>* (pg_view db) (pg_view (snd (pg_CreateCommandWithKey env t d key p db)))"
proof -
  obtain r db' where c: "pg_CreateCommandWithKey env t d key p db = (r, db')" by fastforce
  then show ?thesis
  proof (cases rule: pg_create_cases)
    case Same
    then show ?thesis using c by simp
  next
    case (New normalized uid)
    let ?row = "new_row env t d key normalized uid"
    have "pg_view db' = (pg_view db)(uid \<mapsto> row_view ?row)"
      using New(5) by (simp add: pg_view_def fun_eq_iff find_new_row [OF New(4)])
    moreover have "machine_step (pg_view db) ((pg_view db)(uid \<mapsto> row_view ?row))"
      using New(4) by (intro machine_step.add) (simp_all add: pg_view_def row_view_def new_row_def)
    ultimately show ?thesis using c by simp
  qed
qed

lemma ack_machine:
  assumes ok: "db_ok db"
  shows "machine_step\<^sup>*\<^sup>* (pg_view db) (pg_view (snd (pg_AckCommandResultContext env uid t d input db)))"
proof -
  obtain r db' where a: "pg_AckCommandResultContext env uid t d input db = (r, db')" by fastforce
  then show ?thesis
  proof (cases rule: pg_ack_cases)
    case Same
    then show ?thesis using a by simp
  next
    case (Ack row st event stored)
    have only: "x = row" if "x \<in> set (db_commands db)" "cr_ID x = uid" for x
      using that find_command_in [OF db_ok_ids [OF ok], of x] Ack(1) by simp
    have "named_status (cr_Status row)" using db_ok_row [OF ok] find_command_Some [OF Ack(1)] by (auto simp: row_ok_def)
    then have "machine_edge (cr_Status row) st" using Ack(4,5) by (cases "cr_Status row") (auto simp: machine_edge_def named_status_def)
    then have "machine_step\<^sup>*\<^sup>* (pg_view db) (pg_view (update_commands (acked_row env st stored) (\<lambda>r. cr_ID r = uid) db))"
      using only by (intro update_machine) (auto simp: keeps_identity_def acked_row_def)
    then show ?thesis using a Ack(7) by (simp add: acked_db_def)
  qed
qed

lemma claim_machine: "db_ok db \<Longrightarrow> machine_step\<^sup>*\<^sup>* (pg_view db) (pg_view (snd (pg_ClaimCommandsForDispatchContext env limit lease db)))"
proof -
  let ?P = "\<lambda>r. cr_ID r \<in> set (select_batch env (nat limit) (claimable env) db)"
  have "machine_step\<^sup>*\<^sup>* (pg_view db) (pg_view (update_commands (claim_row env lease) ?P db))"
    by (rule update_machine) (auto simp: keeps_identity_def claim_row_def machine_edge_def)
  from commit_machine [OF this, of env 0 "()"] show ?thesis
    by (simp add: pg_ClaimCommandsForDispatchContext_def Let_def snd_case_result)
qed

lemma dispatch_machine:
  "machine_step\<^sup>*\<^sup>* (pg_view db) (pg_view (snd (pg_MarkCommandPublishedContext env uid attempt db)))"
  "machine_step\<^sup>*\<^sup>* (pg_view db) (pg_view (snd (pg_MarkCommandSentContext env uid deadline db)))"
  "machine_step\<^sup>*\<^sup>* (pg_view db) (pg_view (snd (pg_RequeueCommandContext env uid retryAfter db)))"
  "machine_step\<^sup>*\<^sup>* (pg_view db) (pg_view (snd (pg_RescheduleCommandContext env uid attempt retryAfter db)))"
  unfolding pg_MarkCommandPublishedContext_def pg_MarkCommandSentContext_def pg_RequeueCommandContext_def
    pg_RescheduleCommandContext_def snd_ignore_count
  by (rule event_update_machine commit_machine [OF update_machine]; force simp: keeps_identity_def machine_edge_def)+

lemma recover_machine:
  assumes "db_ok db"
  shows "machine_step\<^sup>*\<^sup>* (pg_view db) (pg_view (snd (pg_RecoverStaleCommandsContext env staleBefore maxAttempts db)))"
proof -
  let ?f = "\<lambda>r. r\<lparr>cr_Status := CommandStatusCreated, cr_Next := pe_dbnow env, cr_UpdatedAt := pe_dbnow env\<rparr>"
  let ?g = "\<lambda>r. r\<lparr>cr_Status := CommandStatusFailed, cr_UpdatedAt := pe_dbnow env\<rparr>"
  let ?first = "updateCommandBatchWithEvent env 0 ?f (stale_retry env staleBefore maxAttempts) ''requeued'' db"
  let ?second = "updateCommandBatchWithEvent env 1 ?g (stale_failed env staleBefore maxAttempts) ''failed'' (snd ?first)"
  have ok: "db_ok (snd ?first)"
    using assms by (rule updateCommandBatchWithEvent_ok) (auto simp: keeps_identity_def row_ok_def stale_retry_def)
  have 1: "machine_step\<^sup>*\<^sup>* (pg_view db) (pg_view (snd ?first))"
    using assms by (rule batch_update_machine) (auto simp: keeps_identity_def machine_edge_def stale_retry_def)
  have 2: "machine_step\<^sup>*\<^sup>* (pg_view (snd ?first)) (pg_view (snd ?second))"
    using ok by (rule batch_update_machine) (auto simp: keeps_identity_def machine_edge_def stale_failed_def)
  have "snd (pg_RecoverStaleCommandsContext env staleBefore maxAttempts db) \<in> {snd ?first, snd ?second}"
    unfolding pg_RecoverStaleCommandsContext_def by (auto split: prod.splits sum.splits)
  then show ?thesis using 1 rtranclp_trans [OF 1 2] by auto
qed

lemma expire_machine: "db_ok db \<Longrightarrow> machine_step\<^sup>*\<^sup>* (pg_view db) (pg_view (snd (pg_ExpireCommandsContext env now grace db)))"
  unfolding pg_ExpireCommandsContext_def
  by (rule batch_update_machine) (auto simp: keeps_identity_def machine_edge_def expired_def)

lemma tenant_commands: "db_commands (snd (pg_CreateTenantContext env t db)) = db_commands db"
proof -
  have "snd (pg_CreateTenantContext env t db) = db \<or> snd (pg_CreateTenantContext env t db) = db\<lparr>db_tenants := db_tenants db @ [t]\<rparr>"
    using pg_tenant_outcome [of env t db] by blast
  then show ?thesis by (rule disjE) simp_all
qed

lemma device_commands: "db_commands (snd (pg_CreateDeviceContext env d db)) = db_commands db"
proof -
  obtain r db' where c: "pg_CreateDeviceContext env d db = (r, db')" by fastforce
  from pg_device_outcome [OF c] show ?thesis unfolding c by (elim disjE conjE exE) (simp_all add: device_db_def)
qed

lemma telemetry_commands: "db_commands (snd (pg_RestoreTelemetryContext env rec db)) = db_commands db"
proof -
  obtain r db' where c: "pg_RestoreTelemetryContext env rec db = (r, db')" by fastforce
  from pg_restore_outcome [OF c] show ?thesis unfolding c by (elim disjE conjE exE) (simp_all add: tel_db_def)
qed

lemma written_commands: "db_commands (snd (pg_MarkTelemetryTDengineWrittenContext env a b c db)) = db_commands db"
  by (simp add: pg_MarkTelemetryTDengineWrittenContext_def db_commit_def split: option.splits)

lemmas registry_machine = tenant_commands [THEN machine_same] device_commands [THEN machine_same]
  telemetry_commands [THEN machine_same] written_commands [THEN machine_same]

lemmas machine_ops = create_machine ack_machine claim_machine dispatch_machine recover_machine expire_machine


section \<open>Sample runs\<close>

definition pg_sample_env :: "gtime \<Rightarrow> pgenv" where
  "pg_sample_env now = \<lparr>pe_fault = (\<lambda>_. None), pe_lost = False, pe_now = now, pe_dbnow = now,
     pe_stamp = (\<lambda>t. t div 1000 * 1000), pe_jsonb = Some, pe_jsonb_eq = (=),
     pe_uuid = Inr ''0190a1b2-c3d4-7e5f-8a6b-7c8d9e0f1a2b'', pe_gen = (\<lambda>s. Inr (CHR ''x'' # s)),
     pe_cmp = (\<lambda>h s. h = CHR ''x'' # s), pe_locked = (\<lambda>_. False), pe_fold = id\<rparr>"

definition pg_sample_device :: Device where
  "pg_sample_device = \<lparr>dev_TenantID = ''acme'', dev_DeviceID = ''d1'', dev_ProductID = ''p1'', dev_Secret = ''secret-of-d1'', dev_CreatedAt = 0\<rparr>"

definition pg_sample_tenants :: pgdb where
  "pg_sample_tenants = pg_run (OpTenant \<lparr>ten_ID = ''acme'', ten_Name = ''Acme''\<rparr>) (pg_sample_env 1000) empty_db"

definition pg_sample_devices :: pgdb where
  "pg_sample_devices = pg_run (OpDevice pg_sample_device) (pg_sample_env 2000) pg_sample_tenants"

definition pg_sample_created :: pgdb where
  "pg_sample_created = pg_run (OpCreate ''acme'' ''d1'' ''k'' ''{}'') (pg_sample_env 3000) pg_sample_devices"

definition pg_sample_sent :: pgdb where
  "pg_sample_sent = pg_run (OpSent ''0190a1b2-c3d4-7e5f-8a6b-7c8d9e0f1a2b'' 5000) (pg_sample_env 4000) pg_sample_created"

definition pg_sample_record :: TelemetryRecord where
  "pg_sample_record = \<lparr>rec_MsgID = ''m1'', rec_TenantID = ''acme'', rec_DeviceID = ''d1'', rec_Ts = 7,
     rec_Type = ''telemetry'', rec_Version = ''1'', rec_Payload = ''{}'', rec_TDengineWritten = False, rec_ReceivedAt = 6000\<rparr>"

lemma pg_samples_reachable:
  "pg_reachable pg_sample_tenants" "pg_reachable pg_sample_devices" "pg_reachable pg_sample_created" "pg_reachable pg_sample_sent"
  unfolding pg_sample_sent_def pg_sample_created_def pg_sample_devices_def pg_sample_tenants_def
  by (intro pg_reachable_run pg_reachable.init)+

lemma is_ok_pair: "is_ok (fst p) \<Longrightarrow> \<exists>c s. p = (Inr c, s)"
  by (cases p; cases "fst p") auto

theorem pg_audit_trail_witness:
  "\<exists>r. r \<in> set (db_commands pg_sample_sent) \<and> cr_Status r = CommandStatusSent \<and>
     event_status (last (events_of (cr_ID r) (db_events pg_sample_sent))) = Some (cr_Status r)"
proof -
  have "map cr_Status (db_commands pg_sample_sent) = [CommandStatusSent]" by code_simp
  then obtain r where r: "r \<in> set (db_commands pg_sample_sent)" "cr_Status r = CommandStatusSent" by auto
  from pg_audit_trail [OF pg_samples_reachable(4) r(1)] show ?thesis using r by blast
qed

theorem pg_first_result_wins_witness:
  "\<exists>c. fst (pg_AckCommandResultContext (pg_sample_env 5000) ''0190a1b2-c3d4-7e5f-8a6b-7c8d9e0f1a2b'' ''acme'' ''d1'' sample_result pg_sample_sent) = Inr c \<and>
     terminal (cmd_Status c)"
proof -
  have "is_ok (fst (pg_AckCommandResultContext (pg_sample_env 5000) ''0190a1b2-c3d4-7e5f-8a6b-7c8d9e0f1a2b'' ''acme'' ''d1'' sample_result pg_sample_sent))"
    by code_simp
  from is_ok_pair [OF this] obtain c s
    where "pg_AckCommandResultContext (pg_sample_env 5000) ''0190a1b2-c3d4-7e5f-8a6b-7c8d9e0f1a2b'' ''acme'' ''d1'' sample_result pg_sample_sent = (Inr c, s)" by blast
  with pg_first_result_wins [OF pg_samples_reachable(4) this rtranclp.rtrancl_refl] show ?thesis by auto
qed

theorem pg_retry_creates_nothing_witness:
  "\<exists>c db1. pg_CreateCommandWithKey (pg_sample_env 3000) ''acme'' ''d1'' ''k'' ''{}'' pg_sample_devices = (Inr c, db1) \<and>
     snd (pg_CreateCommandWithKey (pg_sample_env 9000) ''acme'' ''d1'' ''k'' ''{}'' db1) = db1"
proof -
  have "is_ok (fst (pg_CreateCommandWithKey (pg_sample_env 3000) ''acme'' ''d1'' ''k'' ''{}'' pg_sample_devices))" by code_simp
  from is_ok_pair [OF this] obtain c db1
    where eq: "pg_CreateCommandWithKey (pg_sample_env 3000) ''acme'' ''d1'' ''k'' ''{}'' pg_sample_devices = (Inr c, db1)" by blast
  obtain r db3 where eq3: "pg_CreateCommandWithKey (pg_sample_env 9000) ''acme'' ''d1'' ''k'' ''{}'' db1 = (r, db3)" by fastforce
  from pg_retry_creates_nothing [OF pg_samples_reachable(2) _ eq rtranclp.rtrancl_refl eq3] show ?thesis using eq eq3 by auto
qed

theorem pg_sent_not_claimed_witness:
  "\<exists>r. find_command ''0190a1b2-c3d4-7e5f-8a6b-7c8d9e0f1a2b'' pg_sample_sent = Some r \<and> cr_Status r = CommandStatusSent \<and>
     (\<exists>cmds db2. pg_ClaimCommandsForDispatchContext (pg_sample_env 9000) 10 1000 pg_sample_sent = (Inr cmds, db2) \<and>
        ''0190a1b2-c3d4-7e5f-8a6b-7c8d9e0f1a2b'' \<notin> cmd_ID ` set cmds)"
proof -
  have "map_option cr_Status (find_command ''0190a1b2-c3d4-7e5f-8a6b-7c8d9e0f1a2b'' pg_sample_sent) = Some CommandStatusSent" by code_simp
  then obtain r where r: "find_command ''0190a1b2-c3d4-7e5f-8a6b-7c8d9e0f1a2b'' pg_sample_sent = Some r" "cr_Status r = CommandStatusSent" by auto
  have "is_ok (fst (pg_ClaimCommandsForDispatchContext (pg_sample_env 9000) 10 1000 pg_sample_sent))" by code_simp
  from is_ok_pair [OF this] obtain cmds db2
    where c: "pg_ClaimCommandsForDispatchContext (pg_sample_env 9000) 10 1000 pg_sample_sent = (Inr cmds, db2)" by blast
  from pg_sent_not_claimed [OF pg_samples_reachable(4) r rtranclp.rtrancl_refl c] show ?thesis using r c by blast
qed


theorem pg_sweeps_expire_all_witness:
  "filter (expired (pg_sample_env 0) 9000 0) (db_commands pg_sample_sent) \<noteq> [] \<and>
   filter (expired (pg_sample_env 0) 9000 0) (db_commands (sweeps [pg_sample_env 9000] 9000 0 pg_sample_sent)) = []"
proof
  show "filter (expired (pg_sample_env 0) 9000 0) (db_commands pg_sample_sent) \<noteq> []" by code_simp
  have "length (filter (expired (pg_sample_env 0) 9000 0) (db_commands pg_sample_sent)) \<le> 500 * length [pg_sample_env 9000]" by code_simp
  from pg_sweeps_expire_all [OF pg_reachable_ok [OF pg_samples_reachable(4)] _ this]
  show "filter (expired (pg_sample_env 0) 9000 0) (db_commands (sweeps [pg_sample_env 9000] 9000 0 pg_sample_sent)) = []"
    by (simp add: pg_sample_env_def)
qed

theorem pg_created_device_authenticates_witness:
  "\<exists>d' db1. pg_CreateDeviceContext (pg_sample_env 2000) pg_sample_device pg_sample_tenants = (Inr d', db1) \<and>
     pg_AuthenticateDeviceContext (pg_sample_env 3000) ''acme'' ''d1'' ''secret-of-d1'' db1"
proof -
  have "is_ok (fst (pg_CreateDeviceContext (pg_sample_env 2000) pg_sample_device pg_sample_tenants))" by code_simp
  from is_ok_pair [OF this] obtain d' db1
    where c: "pg_CreateDeviceContext (pg_sample_env 2000) pg_sample_device pg_sample_tenants = (Inr d', db1)" by blast
  from pg_created_device_authenticates [OF _ pg_samples_reachable(1) c rtranclp.rtrancl_refl, of "pg_sample_env 3000"] show ?thesis
    using c by (auto simp: pg_sample_env_def pg_sample_device_def)
qed

theorem pg_telemetry_stored_once_witness:
  "\<exists>x db1. pg_RestoreTelemetryContext (pg_sample_env 6000) pg_sample_record pg_sample_devices = (TelStored x, db1) \<and>
     snd (pg_RestoreTelemetryContext (pg_sample_env 8000) pg_sample_record db1) = db1"
proof -
  have "case fst (pg_RestoreTelemetryContext (pg_sample_env 6000) pg_sample_record pg_sample_devices) of TelStored _ \<Rightarrow> True | _ \<Rightarrow> False"
    by code_simp
  then obtain x db1 where c: "pg_RestoreTelemetryContext (pg_sample_env 6000) pg_sample_record pg_sample_devices = (TelStored x, db1)"
    by (cases "pg_RestoreTelemetryContext (pg_sample_env 6000) pg_sample_record pg_sample_devices") (auto split: tel_result.splits)
  obtain r db3 where c3: "pg_RestoreTelemetryContext (pg_sample_env 8000) pg_sample_record db1 = (r, db3)" by fastforce
  from pg_telemetry_stored_once [OF pg_samples_reachable(2) c rtranclp.rtrancl_refl refl c3] show ?thesis using c c3 by auto
qed

theorem pg_last_seen_grows_witness:
  "\<exists>x db1 s seen. pg_RestoreTelemetryContext (pg_sample_env 6000) pg_sample_record pg_sample_devices = (TelStored x, db1) \<and>
     find_state ''acme'' ''d1'' (db_state db1) = Some s \<and> sr_LastSeen s = Some seen \<and> 6000 \<le> seen"
proof -
  have "case fst (pg_RestoreTelemetryContext (pg_sample_env 6000) pg_sample_record pg_sample_devices) of TelStored _ \<Rightarrow> True | _ \<Rightarrow> False"
    by code_simp
  then obtain x db1 where c: "pg_RestoreTelemetryContext (pg_sample_env 6000) pg_sample_record pg_sample_devices = (TelStored x, db1)"
    by (cases "pg_RestoreTelemetryContext (pg_sample_env 6000) pg_sample_record pg_sample_devices") (auto split: tel_result.splits)
  from pg_last_seen_grows [OF pg_samples_reachable(2) c rtranclp.rtrancl_refl] show ?thesis
    using c by (auto simp: pg_sample_record_def pg_sample_env_def)
qed



end
