(* ===== verification/Management_Http.thy ===== *)
theory Management_Http
  imports Platform_Paging "HOL-Library.AList"
begin

text \<open>
  The management surface: \<^verbatim>\<open>http_parameters.go\<close> (the one reading of path and query that authorization and handlers
  share) and \<^verbatim>\<open>http_auth.go\<close> (bearer tokens, tenant-bound tokens), with the parts of \<^verbatim>\<open>net/url\<close> they use. The
  lemmas show that the reading of a path is exact and that a tenant-bound token reaches only paths below
  its own tenant.
\<close>

section \<open>Query strings\<close>

text \<open>\<^verbatim>\<open>url.QueryUnescape\<close>.\<close>

fun QueryUnescape :: "string \<Rightarrow> string option" where
  "QueryUnescape [] = Some []"
| "QueryUnescape (c # s) =
     (if c = CHR ''%'' then
        (case s of
           a # b # rest \<Rightarrow>
             if is_hex a \<and> is_hex b then map_option (\<lambda>t. char_of (16 * hex_val a + hex_val b) # t) (QueryUnescape rest)
             else None
         | _ \<Rightarrow> None)
      else map_option (\<lambda>t. (if c = CHR ''+'' then CHR '' '' else c) # t) (QueryUnescape s))"

type_synonym url_values = "(string \<times> string list) list"

definition add_value :: "string \<Rightarrow> string \<Rightarrow> url_values \<Rightarrow> url_values" where
  "add_value k v m = AList.update k ((case map_of m k of None \<Rightarrow> [] | Some vs \<Rightarrow> vs) @ [v]) m"

text \<open>One parameter of a query: a pair, nothing, or an error.\<close>

definition query_param :: "string \<Rightarrow> (string \<times> string) option option" where
  "query_param part =
     (if CHR '';'' \<in> set part then None
      else if part = [] then Some None
      else
        let (k, v) = (case cut_on CHR ''='' part of None \<Rightarrow> (part, []) | Some kv \<Rightarrow> kv) in
        case QueryUnescape k of None \<Rightarrow> None | Some k' \<Rightarrow>
          (case QueryUnescape v of None \<Rightarrow> None | Some v' \<Rightarrow> Some (Some (k', v'))))"

fun query_params :: "string list \<Rightarrow> url_values \<Rightarrow> url_values option" where
  "query_params [] m = Some m"
| "query_params (part # parts) m =
     (case query_param part of
        None \<Rightarrow> None
      | Some None \<Rightarrow> query_params parts m
      | Some (Some (k, v)) \<Rightarrow> query_params parts (add_value k v m))"

text \<open>\<^verbatim>\<open>url.ParseQuery\<close>, with the default limit on the number of parameters; the caller discards the values of a failed parse.\<close>

definition ParseQuery :: "string \<Rightarrow> url_values option" where
  "ParseQuery q =
     (if length (split_on CHR ''&'' q) > 10000 then None else query_params (split_on CHR ''&'' q) [])"

definition query_Get :: "url_values \<Rightarrow> string \<Rightarrow> string" where
  "query_Get m k = (case map_of m k of Some (v # _) \<Rightarrow> v | _ \<Rightarrow> [])"

section \<open>Requests\<close>

record ManagementParameters =
  mp_Resource :: string
  mp_TenantID :: string
  mp_DeviceID :: string
  mp_CommandID :: string
  mp_Query :: url_values

definition no_parameters :: ManagementParameters where
  "no_parameters = \<lparr>mp_Resource = [], mp_TenantID = [], mp_DeviceID = [], mp_CommandID = [], mp_Query = []\<rparr>"

text \<open>What the middleware reads of an \<^verbatim>\<open>http.Request\<close>, and the parameters stored in its context.\<close>

record HttpRequest =
  rq_Method :: string
  rq_Path :: string
  rq_RawQuery :: string
  rq_Authorization :: string
  rq_IdempotencyKeys :: "string list"
  rq_Parameters :: "ManagementParameters option"

definition api_prefix :: string where
  "api_prefix = ''/api/v1/''"

definition has_prefix :: "string \<Rightarrow> string \<Rightarrow> bool" where
  "has_prefix p s \<longleftrightarrow> take (length p) s = p"

definition device_resource :: "string \<Rightarrow> string \<Rightarrow> string list \<Rightarrow> ManagementParameters result" where
  "device_resource tenant device rest =
     (let p = no_parameters\<lparr>mp_TenantID := tenant, mp_DeviceID := device\<rparr> in
      guard_err (ValidateDeviceIdentity tenant device)
        (case rest of
           [] \<Rightarrow> Inr (p\<lparr>mp_Resource := ''device''\<rparr>)
         | [r] \<Rightarrow>
             if r = ''status'' \<or> r = ''telemetry'' \<or> r = ''commands''
             then Inr (p\<lparr>mp_Resource := (if r = ''commands'' then ''deviceCommands'' else r)\<rparr>)
             else Inl [ErrNotFound]
         | [r, cid, a] \<Rightarrow>
             if r = ''commands'' \<and> a = ''acknowledgements''
             then Inr (p\<lparr>mp_Resource := ''acknowledgements'', mp_CommandID := cid\<rparr>)
             else Inl [ErrNotFound]
         | _ \<Rightarrow> Inl [ErrNotFound]))"

definition path_resource :: "string list \<Rightarrow> ManagementParameters result" where
  "path_resource parts =
     (if parts = [''tenants''] then Inr (no_parameters\<lparr>mp_Resource := ''tenants''\<rparr>)
      else if length parts < 3 \<or> parts ! 0 \<noteq> ''tenants'' \<or> \<not> IsValidTenantID (parts ! 1) then Inl [ErrInvalidEnvelope]
      else
        let tenant = parts ! 1; p = no_parameters\<lparr>mp_TenantID := tenant\<rparr> in
        if parts ! 2 = ''devices'' then
          (if length parts = 3 then Inr (p\<lparr>mp_Resource := ''devices''\<rparr>)
           else device_resource tenant (parts ! 3) (drop 4 parts))
        else if parts ! 2 = ''commands'' then
          (if length parts = 3 then Inr (p\<lparr>mp_Resource := ''commands''\<rparr>)
           else if length parts = 4 then Inr (p\<lparr>mp_Resource := ''command'', mp_CommandID := parts ! 3\<rparr>)
           else Inl [ErrNotFound])
        else Inl [ErrNotFound])"

definition allowed_params :: "string \<Rightarrow> string \<Rightarrow> string list" where
  "allowed_params method resource =
     (if method \<noteq> ''GET'' then []
      else
        (if resource \<in> {''tenants'', ''devices'', ''telemetry'', ''commands'', ''deviceCommands''} then [''pageSize'', ''cursor''] else []) @
        (if resource = ''telemetry'' \<or> resource = ''commands'' \<or> resource = ''deviceCommands''
         then [''startTime'', ''endTime'', ''sort''] else []) @
        (if resource = ''telemetry'' then [''type''] else []) @
        (if resource = ''commands'' \<or> resource = ''deviceCommands'' then [''status''] else []) @
        (if resource = ''commands'' then [''deviceId''] else []))"

text \<open>The query checks; which of several offending parameters is reported depends on map iteration, so the error is opaque.\<close>

definition query_checks :: "string \<Rightarrow> string \<Rightarrow> url_values \<Rightarrow> gerror option" where
  "query_checks method resource q =
     (if list_ex (\<lambda>(k, vs). k \<notin> set (allowed_params method resource) \<or> length vs \<noteq> 1 \<or> hd vs = []) q then Some [ErrOpaque ''query'']
      else if query_Get q ''pageSize'' \<noteq> [] \<and>
        (case ParseInt 64 (query_Get q ''pageSize'') of None \<Rightarrow> True | Some n \<Rightarrow> n < 1 \<or> n > maxPageSize)
      then Some [ErrOpaque ''pageSize'']
      else if length (query_Get q ''cursor'') > 4096 then Some [ErrOpaque ''cursor'']
      else None)"

definition ManagementRequest :: "HttpRequest \<Rightarrow> ManagementParameters result" where
  "ManagementRequest r =
     (case rq_Parameters r of
        Some p \<Rightarrow> Inr p
      | None \<Rightarrow>
          if \<not> has_prefix api_prefix (rq_Path r) then Inl [ErrNotFound]
          else
            bind_res (path_resource (split_on CHR ''/'' (drop (length api_prefix) (rq_Path r)))) (\<lambda>p.
            guard_err (if mp_CommandID p \<noteq> [] then ValidateCommandID (mp_CommandID p) else None)
              (case ParseQuery (rq_RawQuery r) of
                 None \<Rightarrow> Inl [ErrOpaque ''invalid query encoding'']
               | Some q \<Rightarrow>
                   guard_err (query_checks (rq_Method r) (mp_Resource p) q)
                     (if length (rq_IdempotencyKeys r) > 1 then Inl [ErrOpaque ''Idempotency-Key'']
                      else Inr (p\<lparr>mp_Query := q\<rparr>)))))"

definition withManagementParameters :: "HttpRequest \<Rightarrow> ManagementParameters \<Rightarrow> HttpRequest" where
  "withManagementParameters r p = r\<lparr>rq_Parameters := Some p\<rparr>"

section \<open>Bearer tokens\<close>

text \<open>The request the next handler sees, or the status of the error response.\<close>

datatype auth_outcome = AuthNext HttpRequest | AuthReply nat

definition public_paths :: "string list" where
  "public_paths = [''/healthz'', ''/readyz'', ''/schemas/mqtt-envelope.json'']"

definition bearer_token :: "string \<Rightarrow> string option" where
  "bearer_token h = (if has_prefix ''Bearer '' h then Some (drop 7 h) else None)"

definition BearerTokenMiddlewareWithTenants :: "string \<Rightarrow> (string \<times> string) list \<Rightarrow> HttpRequest \<Rightarrow> auth_outcome" where
  "BearerTokenMiddlewareWithTenants token tenantTokens r =
     (if rq_Path r \<in> set public_paths then AuthNext r
      else case bearer_token (rq_Authorization r) of
        None \<Rightarrow> AuthReply 401
      | Some provided \<Rightarrow>
          if provided = [] then AuthReply 401
          else
            let global = (token \<noteq> [] \<and> length provided = length token \<and> provided = token);
                bound = map_of tenantTokens provided
            in if \<not> global \<and> bound = None then AuthReply 401
               else case ManagementRequest r of
                 Inl err \<Rightarrow> if IsNotFound err then AuthReply 404 else AuthReply 400
               | Inr params \<Rightarrow>
                   if \<not> global \<and> (mp_TenantID params = [] \<or> Some (mp_TenantID params) \<noteq> bound) then AuthReply 403
                   else AuthNext (withManagementParameters r params))"

definition BearerTokenMiddleware :: "string \<Rightarrow> HttpRequest \<Rightarrow> auth_outcome" where
  "BearerTokenMiddleware token = BearerTokenMiddlewareWithTenants token []"

text \<open>\<^verbatim>\<open>json.Unmarshal\<close> into a \<^verbatim>\<open>map[string]string\<close>: a later duplicate replaces an earlier one and \<^verbatim>\<open>null\<close> is the zero value.\<close>

fun string_members :: "(string \<times> string \<times> json) list \<Rightarrow> (string \<times> string) list \<Rightarrow> (string \<times> string) list option" where
  "string_members [] m = Some m"
| "string_members ((k, raw, v) # ms) m =
     (case v of
        JStr s \<Rightarrow> string_members ms (AList.update k s m)
      | JNull \<Rightarrow> string_members ms (AList.update k [] m)
      | _ \<Rightarrow> None)"

definition ParseTenantBoundTokens :: "string \<Rightarrow> (string \<times> string) list result" where
  "ParseTenantBoundTokens raw =
     (if TrimSpace raw = [] then Inr []
      else
        (case json_parse raw of
           Some (JObj ms) \<Rightarrow>
             (case string_members ms [] of
                None \<Rightarrow> Inl [ErrOpaque ''json'']
              | Some tokens \<Rightarrow>
                  if list_ex (\<lambda>(token, tenantID). TrimSpace token = [] \<or> \<not> IsValidTenantID tenantID) tokens
                  then Inl [ErrOpaque ''tenant-bound tokens require non-empty token and tenantId'']
                  else Inr tokens)
         | Some JNull \<Rightarrow> Inr []
         | _ \<Rightarrow> Inl [ErrOpaque ''json'']))"

section \<open>The path of a resource\<close>

definition resource_path :: "ManagementParameters \<Rightarrow> string list" where
  "resource_path p =
     (let t = [''tenants'', mp_TenantID p]; d = t @ [''devices'', mp_DeviceID p]; r = mp_Resource p in
      if r = ''tenants'' then [''tenants'']
      else if r = ''devices'' then t @ [''devices'']
      else if r = ''device'' then d
      else if r = ''deviceCommands'' then d @ [''commands'']
      else if r = ''acknowledgements'' then d @ [''commands'', mp_CommandID p, ''acknowledgements'']
      else if r = ''commands'' then t @ [''commands'']
      else if r = ''command'' then t @ [''commands'', mp_CommandID p]
      else d @ [r])"

lemma resource_path_query [simp]: "resource_path (p\<lparr>mp_Query := q\<rparr>) = resource_path p"
  by (simp add: resource_path_def Let_def cong: if_cong)

lemma device_resource_cases:
  assumes "device_resource tenant device rest = Inr p"
  shows "p = no_parameters\<lparr>mp_Resource := ''device'', mp_TenantID := tenant, mp_DeviceID := device\<rparr> \<and> rest = [] \<or>
    (\<exists>r \<in> {''status'', ''telemetry''}. p = no_parameters\<lparr>mp_Resource := r, mp_TenantID := tenant, mp_DeviceID := device\<rparr> \<and> rest = [r]) \<or>
    p = no_parameters\<lparr>mp_Resource := ''deviceCommands'', mp_TenantID := tenant, mp_DeviceID := device\<rparr> \<and> rest = [''commands''] \<or>
    (\<exists>cid. p = no_parameters\<lparr>mp_Resource := ''acknowledgements'', mp_TenantID := tenant, mp_DeviceID := device, mp_CommandID := cid\<rparr> \<and>
       rest = [''commands'', cid, ''acknowledgements''])"
proof -
  have g: "ValidateDeviceIdentity tenant device = None" using assms by (cases "ValidateDeviceIdentity tenant device") (simp_all add: device_resource_def Let_def guard_err_def)
  consider "rest = []" | r where "rest = [r]" | r c a where "rest = [r, c, a]" | "length rest = 2 \<or> 3 < length rest"
    by (cases rest; cases "tl rest"; cases "tl (tl rest)"; cases "tl (tl (tl rest))") auto
  then show ?thesis
  proof cases
    case (2 r)
    then have "r = ''status'' \<or> r = ''telemetry'' \<or> r = ''commands''" using assms g by (simp add: device_resource_def split: if_splits)
    then show ?thesis using assms g 2 by (elim disjE) (simp_all add: device_resource_def no_parameters_def)
  next
    case (3 r c a)
    then have "r = ''commands'' \<and> a = ''acknowledgements''" using assms g by (simp add: device_resource_def split: if_splits)
    then show ?thesis using assms g 3 by (simp add: device_resource_def no_parameters_def)
  next
    case 4
    then have "device_resource tenant device rest = Inl [ErrNotFound]"
      using g by (cases rest; cases "tl rest"; cases "tl (tl rest)"; cases "tl (tl (tl rest))") (auto simp: device_resource_def)
    then show ?thesis using assms by simp
  qed (use assms g in \<open>simp add: device_resource_def no_parameters_def\<close>)
qed

lemma device_resource_Inr:
  assumes "device_resource tenant device rest = Inr p"
  shows "resource_path p = [''tenants'', tenant, ''devices'', device] @ rest \<and> mp_TenantID p = tenant \<and> mp_Resource p \<noteq> ''tenants''"
  using device_resource_cases [OF assms]
  by (elim disjE exE conjE bexE insertE emptyE) (simp_all add: resource_path_def no_parameters_def)

lemma list_3: "length xs \<ge> 3 \<Longrightarrow> xs = [xs ! 0, xs ! 1, xs ! 2] @ drop 3 xs"
  by (cases xs; cases "tl xs"; cases "tl (tl xs)") (auto simp: numeral_3_eq_3)

lemma path_resource_Inr:
  assumes "path_resource parts = Inr p"
  shows "parts = resource_path p \<and>
    (mp_Resource p = ''tenants'' \<and> mp_TenantID p = [] \<or> mp_Resource p \<noteq> ''tenants'' \<and> IsValidTenantID (mp_TenantID p))"
proof (cases "parts = [''tenants'']")
  case True
  then show ?thesis using assms by (auto simp: path_resource_def resource_path_def no_parameters_def)
next
  case False
  then have l: "3 \<le> length parts" "parts ! 0 = ''tenants''" "IsValidTenantID (parts ! 1)"
    using assms by (auto simp: path_resource_def split: if_splits)
  define rest where "rest = drop 3 parts"
  have parts: "parts = [''tenants'', parts ! 1, parts ! 2] @ rest" using list_3 [OF l(1)] l(2) by (simp add: rest_def)
  then obtain t res where e: "parts = [''tenants'', t, res] @ rest" by blast
  have t: "IsValidTenantID t" using l(3) by (simp add: e)
  show ?thesis
  proof (cases "res = ''devices''")
    case True
    show ?thesis
    proof (cases rest)
      case Nil
      then show ?thesis using assms t True unfolding e by (auto simp: path_resource_def resource_path_def no_parameters_def Let_def)
    next
      case (Cons d ds)
      then have "device_resource t d ds = Inr p" using assms t True unfolding e by (simp add: path_resource_def Let_def)
      from device_resource_Inr [OF this] show ?thesis using t True Cons unfolding e by simp
    qed
  next
    case False
    then show ?thesis
      using assms t unfolding e
      by (cases rest; cases "tl rest") (auto simp: path_resource_def resource_path_def no_parameters_def Let_def split: if_splits)
  qed
qed

lemma ManagementRequest_path:
  assumes "rq_Parameters r = None" "ManagementRequest r = Inr p"
  shows "rq_Path r = api_prefix @ join_on CHR ''/'' (resource_path p) \<and>
    (mp_Resource p = ''tenants'' \<and> mp_TenantID p = [] \<or> mp_Resource p \<noteq> ''tenants'' \<and> IsValidTenantID (mp_TenantID p))"
proof -
  let ?parts = "split_on CHR ''/'' (drop (length api_prefix) (rq_Path r))"
  obtain p0 q where p0: "has_prefix api_prefix (rq_Path r)" "path_resource ?parts = Inr p0" "p = p0\<lparr>mp_Query := q\<rparr>"
    using assms by (auto simp: ManagementRequest_def guard_err_def split: if_splits option.splits)
  have "rq_Path r = api_prefix @ drop (length api_prefix) (rq_Path r)"
    using p0(1) by (metis append_take_drop_id has_prefix_def)
  then show ?thesis
    using path_resource_Inr [OF p0(2)] join_on_split_on [of "CHR ''/''" "drop (length api_prefix) (rq_Path r)"]
    by (simp add: p0(3))
qed

text \<open>Well-formed parameters: the identifiers a resource has are valid, and it has no others.\<close>

definition params_ok :: "ManagementParameters \<Rightarrow> bool" where
  "params_ok p \<longleftrightarrow> mp_Query p = [] \<and>
     (let r = mp_Resource p; t = IsValidTenantID (mp_TenantID p); d = IsValidTopicPart (mp_DeviceID p); c = IsValidTopicPart (mp_CommandID p);
          nd = (mp_DeviceID p = []); nc = (mp_CommandID p = []) in
      r = ''tenants'' \<and> mp_TenantID p = [] \<and> nd \<and> nc \<or>
      r \<in> {''devices'', ''commands''} \<and> t \<and> nd \<and> nc \<or>
      r \<in> {''device'', ''status'', ''telemetry'', ''deviceCommands''} \<and> t \<and> d \<and> nc \<or>
      r = ''acknowledgements'' \<and> t \<and> d \<and> c \<or> r = ''command'' \<and> t \<and> nd \<and> c)"

lemma topic_part_no_slash: "IsValidTopicPart s \<Longrightarrow> CHR ''/'' \<notin> set s"
  by (auto simp: IsValidTopicPart_def ContainsAny_def list_ex_iff)

lemma tenant_topic_part: "IsValidTenantID s \<Longrightarrow> IsValidTopicPart s"
  by (simp add: IsValidTenantID_def)

lemma read_resource_path:
  assumes "params_ok p"
  shows "path_resource (resource_path p) = Inr p \<and> resource_path p \<noteq> [] \<and> (\<forall>x \<in> set (resource_path p). CHR ''/'' \<notin> set x) \<and>
    (mp_CommandID p = [] \<or> IsValidTopicPart (mp_CommandID p))"
proof -
  obtain r t d c where p: "p = \<lparr>mp_Resource = r, mp_TenantID = t, mp_DeviceID = d, mp_CommandID = c, mp_Query = []\<rparr>"
    using assms by (cases p) (simp add: params_ok_def)
  show ?thesis
    using assms unfolding p params_ok_def Let_def
    by (elim disjE conjE insertE emptyE)
      (simp_all add: path_resource_def resource_path_def device_resource_def ValidateDeviceIdentity_def no_parameters_def
        topic_part_no_slash tenant_topic_part)
qed

text \<open>
  C23: a path is read exactly: an accepted request has the path of the resource, tenant, device and command in its
  parameters, and a request without a query for the path of well-formed parameters is read as these parameters.
\<close>

theorem management_path_exact:
  assumes "rq_Parameters r = None" "length (rq_IdempotencyKeys r) \<le> 1" "rq_RawQuery r = []"
  shows "(\<forall>p. ManagementRequest r = Inr p \<longrightarrow> rq_Path r = api_prefix @ join_on CHR ''/'' (resource_path p)) \<and>
    (\<forall>p. params_ok p \<and> rq_Path r = api_prefix @ join_on CHR ''/'' (resource_path p) \<longrightarrow> ManagementRequest r = Inr p)"
proof (intro conjI allI impI)
  show "rq_Path r = api_prefix @ join_on CHR ''/'' (resource_path p)" if "ManagementRequest r = Inr p" for p
    using ManagementRequest_path [OF assms(1) that] by blast
  show "ManagementRequest r = Inr p" if ok: "params_ok p \<and> rq_Path r = api_prefix @ join_on CHR ''/'' (resource_path p)" for p
  proof -
    note rp = read_resource_path [of p]
    have "split_on CHR ''/'' (drop (length api_prefix) (rq_Path r)) = resource_path p"
      using ok rp by (simp add: split_on_join_on)
    moreover have "mp_Query p = []" using ok by (simp add: params_ok_def)
    moreover have "ParseQuery [] = Some []" by (simp add: ParseQuery_def query_param_def)
    moreover have "query_checks (rq_Method r) (mp_Resource p) [] = None" by (simp add: query_checks_def query_Get_def)
    ultimately show ?thesis
      using ok rp assms by (auto simp: ManagementRequest_def has_prefix_def ValidateCommandID_def guard_err_def)
  qed
qed

lemma join_tenant: "join_on CHR ''/'' (''tenants'' # t # x # xs) = ''tenants/'' @ t @ CHR ''/'' # join_on CHR ''/'' (x # xs)"
  by simp

lemma resource_path_tenant:
  assumes "mp_Resource p \<noteq> ''tenants''"
  shows "\<exists>x xs. resource_path p = ''tenants'' # mp_TenantID p # x # xs"
  using assms by (simp add: resource_path_def Let_def)

text \<open>
  C22: a tenant-bound token is confined to its tenant: a request with a token other than the global one reaches the next
  handler only for a public path, or when the token is bound to a valid tenant, the path lies below that tenant and the
  parameters the handler sees name that tenant.
\<close>

theorem bound_token_confined:
  assumes "BearerTokenMiddlewareWithTenants token tenantTokens r = AuthNext r'" "rq_Parameters r = None"
    "rq_Path r \<notin> set public_paths" "token = [] \<or> bearer_token (rq_Authorization r) \<noteq> Some token"
  shows "\<exists>provided tenant p rest. bearer_token (rq_Authorization r) = Some provided \<and> map_of tenantTokens provided = Some tenant \<and>
    IsValidTenantID tenant \<and> rq_Path r = ''/api/v1/tenants/'' @ tenant @ CHR ''/'' # rest \<and>
    rq_Parameters r' = Some p \<and> mp_TenantID p = tenant \<and> mp_Resource p \<noteq> ''tenants''"
proof -
  obtain provided where b: "bearer_token (rq_Authorization r) = Some provided" "provided \<noteq> []"
    using assms(1,3) by (auto simp: BearerTokenMiddlewareWithTenants_def split: option.splits if_splits)
  have g: "\<not> (token \<noteq> [] \<and> length provided = length token \<and> provided = token)" using assms(4) b by auto
  obtain p tenant where p: "ManagementRequest r = Inr p" "map_of tenantTokens provided = Some tenant"
    "mp_TenantID p = tenant" "tenant \<noteq> []" "r' = withManagementParameters r p"
    using assms(1,3) b g
    by (auto simp: BearerTokenMiddlewareWithTenants_def Let_def split: if_splits sum.splits option.splits)
  note path = ManagementRequest_path [OF assms(2) p(1)]
  then have v: "mp_Resource p \<noteq> ''tenants''" "IsValidTenantID tenant" using p(3,4) by auto
  obtain x xs where "resource_path p = ''tenants'' # tenant # x # xs" using resource_path_tenant [OF v(1)] p(3) by metis
  then have "rq_Path r = ''/api/v1/tenants/'' @ tenant @ CHR ''/'' # join_on CHR ''/'' (x # xs)"
    using path by (simp only: join_tenant) (simp add: api_prefix_def)
  then show ?thesis using b p v by (auto simp: withManagementParameters_def)
qed

section \<open>Sample requests\<close>

definition sample_http :: HttpRequest where
  "sample_http = \<lparr>rq_Method = ''GET'', rq_Path = ''/api/v1/tenants/acme/devices/d1/telemetry'', rq_RawQuery = [],
     rq_Authorization = ''Bearer tok'', rq_IdempotencyKeys = [], rq_Parameters = None\<rparr>"

theorem management_path_exact_witness:
  "\<exists>p. ManagementRequest sample_http = Inr p \<and> rq_Path sample_http = api_prefix @ join_on CHR ''/'' (resource_path p)"
proof -
  have "is_ok (ManagementRequest sample_http)" by code_simp
  then obtain p where p: "ManagementRequest sample_http = Inr p" by (cases "ManagementRequest sample_http") auto
  have "rq_Parameters sample_http = None" "length (rq_IdempotencyKeys sample_http) \<le> 1" "rq_RawQuery sample_http = []"
    by (simp_all add: sample_http_def)
  from management_path_exact [OF this] show ?thesis using p by blast
qed

theorem bound_token_confined_witness:
  "\<exists>r' tenant rest. BearerTokenMiddlewareWithTenants ''admin'' [(''tok'', ''acme'')] sample_http = AuthNext r' \<and>
     rq_Path sample_http = ''/api/v1/tenants/'' @ tenant @ CHR ''/'' # rest"
proof -
  have "case BearerTokenMiddlewareWithTenants ''admin'' [(''tok'', ''acme'')] sample_http of AuthNext _ \<Rightarrow> True | _ \<Rightarrow> False" by code_simp
  then obtain r' where r': "BearerTokenMiddlewareWithTenants ''admin'' [(''tok'', ''acme'')] sample_http = AuthNext r'"
    by (auto split: auth_outcome.splits)
  have "rq_Parameters sample_http = None" "rq_Path sample_http \<notin> set public_paths"
    "''admin'' = [] \<or> bearer_token (rq_Authorization sample_http) \<noteq> Some ''admin''"
    by (simp_all add: sample_http_def public_paths_def bearer_token_def has_prefix_def)
  from bound_token_confined [OF r' this] show ?thesis using r' by blast
qed

end
