(* ===== verification/Wire_Records.thy ===== *)
theory Wire_Records
  imports Postgres_Db
begin

text \<open>
  The JSON of the records that cross Kafka and MQTT: \<^verbatim>\<open>TelemetryRecord\<close>, \<^verbatim>\<open>Command\<close>, \<^verbatim>\<open>CommandDownlink\<close>,
  and \<^verbatim>\<open>CommandAckMessage\<close>, as \<^verbatim>\<open>encoding/json\<close> writes and reads the structs of \<^verbatim>\<open>domain.go\<close>
  and \<^verbatim>\<open>mqtt_messages.go\<close>. A published record is read back by the consumer.
\<close>

section \<open>Times\<close>

text \<open>\<^verbatim>\<open>time.Time.MarshalJSON\<close>: years outside four digits are an error.\<close>

definition marshal_time :: "gtime \<Rightarrow> string option" where
  "marshal_time t = (if 0 \<le> Year t \<and> Year t \<le> 9999 then Some (CHR 0x22 # FormatRFC3339Nano t @ [CHR 0x22]) else None)"

text \<open>\<^verbatim>\<open>time.Time.UnmarshalJSON\<close> reads the text between the quotes without unescaping it.\<close>

definition set_time :: "(string \<Rightarrow> gtime option) \<Rightarrow> (gtime \<Rightarrow> 'a \<Rightarrow> 'a) \<Rightarrow> string \<Rightarrow> json \<Rightarrow> 'a \<Rightarrow> 'a option" where
  "set_time other upd raw v x =
     (case v of
        JNull \<Rightarrow> Some x
      | JStr _ \<Rightarrow> map_option (\<lambda>t. upd t x) (ParseRFC3339Nano other (butlast (tl raw)))
      | _ \<Rightarrow> None)"

text \<open>\<^verbatim>\<open>json.Unmarshal\<close> into a struct.\<close>

definition unmarshal_struct :: "(nat \<Rightarrow> nat) \<Rightarrow> string list \<Rightarrow> (string \<Rightarrow> string \<Rightarrow> json \<Rightarrow> 'a \<Rightarrow> 'a option) \<Rightarrow> 'a \<Rightarrow> string \<Rightarrow> 'a result" where
  "unmarshal_struct sf names setf zero raw =
     (case json_parse raw of
        Some (JObj ms) \<Rightarrow> (case decode_members sf names setf ms zero of None \<Rightarrow> Inl [ErrOpaque ''json''] | Some x \<Rightarrow> Inr x)
      | Some JNull \<Rightarrow> Inr zero
      | _ \<Rightarrow> Inl [ErrOpaque ''json''])"

section \<open>Telemetry records\<close>

definition zero_record :: TelemetryRecord where
  "zero_record = \<lparr>rec_MsgID = [], rec_TenantID = [], rec_DeviceID = [], rec_Ts = 0, rec_Type = [], rec_Version = [],
     rec_Payload = [], rec_TDengineWritten = False, rec_ReceivedAt = zero_time\<rparr>"

definition record_fields :: "string list" where
  "record_fields = [''msgId'', ''tenantId'', ''deviceId'', ''ts'', ''type'', ''version'', ''payload'', ''receivedAt'']"

definition record_set :: "(string \<Rightarrow> gtime option) \<Rightarrow> string \<Rightarrow> string \<Rightarrow> json \<Rightarrow> TelemetryRecord \<Rightarrow> TelemetryRecord option" where
  "record_set other field raw v =
     (if field = ''msgId'' then set_string (\<lambda>s. rec_MsgID_update (\<lambda>_. s)) v
      else if field = ''tenantId'' then set_string (\<lambda>s. rec_TenantID_update (\<lambda>_. s)) v
      else if field = ''deviceId'' then set_string (\<lambda>s. rec_DeviceID_update (\<lambda>_. s)) v
      else if field = ''ts'' then set_int64 (\<lambda>i. rec_Ts_update (\<lambda>_. i)) v
      else if field = ''type'' then set_string (\<lambda>s. rec_Type_update (\<lambda>_. s)) v
      else if field = ''version'' then set_string (\<lambda>s. rec_Version_update (\<lambda>_. s)) v
      else if field = ''payload'' then (\<lambda>r. Some (rec_Payload_update (\<lambda>_. raw) r))
      else set_time other (\<lambda>t. rec_ReceivedAt_update (\<lambda>_. t)) raw v)"

definition unmarshal_record :: "(nat \<Rightarrow> nat) \<Rightarrow> (string \<Rightarrow> gtime option) \<Rightarrow> string \<Rightarrow> TelemetryRecord result" where
  "unmarshal_record sf other raw = unmarshal_struct sf record_fields (record_set other) zero_record raw"

definition marshal_record :: "TelemetryRecord \<Rightarrow> string result" where
  "marshal_record r =
     (case (marshal_raw (rec_Payload r), marshal_time (rec_ReceivedAt r)) of
        (Some p, Some t) \<Rightarrow> Inr (json_object
          [(''msgId'', json_quote (rec_MsgID r)), (''tenantId'', json_quote (rec_TenantID r)),
           (''deviceId'', json_quote (rec_DeviceID r)), (''ts'', itoa (rec_Ts r)), (''type'', json_quote (rec_Type r)),
           (''version'', json_quote (rec_Version r)), (''payload'', p), (''receivedAt'', t)])
      | _ \<Rightarrow> Inl [ErrOpaque ''json''])"

section \<open>Commands\<close>

definition zero_result :: CommandResult where
  "zero_result = \<lparr>res_Status = CommandStatusOther [], res_ErrorCode = [], res_Payload = []\<rparr>"

text \<open>A pointer field: \<^verbatim>\<open>null\<close> clears it, an object fills the struct it points to.\<close>

definition set_result :: "(nat \<Rightarrow> nat) \<Rightarrow> json \<Rightarrow> Command \<Rightarrow> Command option" where
  "set_result sf v c =
     (case v of
        JNull \<Rightarrow> Some (c\<lparr>cmd_Result := None\<rparr>)
      | JObj ms \<Rightarrow>
          map_option (\<lambda>r. c\<lparr>cmd_Result := Some r\<rparr>)
            (decode_members sf [''status'', ''errorCode'', ''payload''] result_set ms
              (case cmd_Result c of None \<Rightarrow> zero_result | Some r \<Rightarrow> r))
      | _ \<Rightarrow> None)"

definition zero_command :: Command where
  "zero_command = \<lparr>cmd_ID = [], cmd_TenantID = [], cmd_DeviceID = [], cmd_Status = CommandStatusOther [], cmd_Payload = [],
     cmd_CreatedAt = zero_time, cmd_UpdatedAt = zero_time, cmd_DispatchAttempts = 0, cmd_DeadlineAt = zero_time, cmd_Result = None\<rparr>"

definition command_fields :: "string list" where
  "command_fields = [''id'', ''tenantId'', ''deviceId'', ''status'', ''payload'', ''createdAt'', ''updatedAt'',
     ''dispatchAttempts'', ''deadlineAt'', ''result'']"

definition command_set :: "(nat \<Rightarrow> nat) \<Rightarrow> (string \<Rightarrow> gtime option) \<Rightarrow> string \<Rightarrow> string \<Rightarrow> json \<Rightarrow> Command \<Rightarrow> Command option" where
  "command_set sf other field raw v =
     (if field = ''id'' then set_string (\<lambda>s. cmd_ID_update (\<lambda>_. s)) v
      else if field = ''tenantId'' then set_string (\<lambda>s. cmd_TenantID_update (\<lambda>_. s)) v
      else if field = ''deviceId'' then set_string (\<lambda>s. cmd_DeviceID_update (\<lambda>_. s)) v
      else if field = ''status'' then set_string (\<lambda>s. cmd_Status_update (\<lambda>_. status_of_string s)) v
      else if field = ''payload'' then (\<lambda>c. Some (cmd_Payload_update (\<lambda>_. raw) c))
      else if field = ''createdAt'' then set_time other (\<lambda>t. cmd_CreatedAt_update (\<lambda>_. t)) raw v
      else if field = ''updatedAt'' then set_time other (\<lambda>t. cmd_UpdatedAt_update (\<lambda>_. t)) raw v
      else if field = ''dispatchAttempts'' then set_int64 (\<lambda>i. cmd_DispatchAttempts_update (\<lambda>_. i)) v
      else if field = ''deadlineAt'' then set_time other (\<lambda>t. cmd_DeadlineAt_update (\<lambda>_. t)) raw v
      else set_result sf v)"

definition unmarshal_command :: "(nat \<Rightarrow> nat) \<Rightarrow> (string \<Rightarrow> gtime option) \<Rightarrow> string \<Rightarrow> Command result" where
  "unmarshal_command sf other raw = unmarshal_struct sf command_fields (command_set sf other) zero_command raw"

definition marshal_command :: "Command \<Rightarrow> string result" where
  "marshal_command c =
     (case (marshal_raw (cmd_Payload c), marshal_time (cmd_CreatedAt c), marshal_time (cmd_UpdatedAt c), marshal_time (cmd_DeadlineAt c),
            case cmd_Result c of None \<Rightarrow> Some [] | Some r \<Rightarrow> map_option (\<lambda>x. [(''result'', x)]) (marshal_result r)) of
        (Some p, Some created, Some updated, Some deadline, Some result) \<Rightarrow> Inr (json_object
          ([(''id'', json_quote (cmd_ID c)), (''tenantId'', json_quote (cmd_TenantID c)), (''deviceId'', json_quote (cmd_DeviceID c)),
            (''status'', json_quote (status_string (cmd_Status c))), (''payload'', p), (''createdAt'', created), (''updatedAt'', updated),
            (''dispatchAttempts'', itoa (cmd_DispatchAttempts c)), (''deadlineAt'', deadline)] @ result))
      | _ \<Rightarrow> Inl [ErrOpaque ''json''])"

definition marshal_downlink :: "CommandDownlink \<Rightarrow> string result" where
  "marshal_downlink d =
     (case (marshal_raw (dl_Payload d), marshal_time (dl_CreatedAt d), marshal_time (dl_UpdatedAt d)) of
        (Some p, Some created, Some updated) \<Rightarrow> Inr (json_object
          [(''id'', json_quote (dl_ID d)), (''tenantId'', json_quote (dl_TenantID d)), (''deviceId'', json_quote (dl_DeviceID d)),
           (''status'', json_quote (status_string (dl_Status d))), (''payload'', p), (''createdAt'', created), (''updatedAt'', updated)])
      | _ \<Rightarrow> Inl [ErrOpaque ''json''])"

definition zero_ack :: CommandAckMessage where
  "zero_ack = \<lparr>ack_CommandID = [], ack_TenantID = [], ack_DeviceID = [], ack_Status = [], ack_ErrorCode = [], ack_Payload = []\<rparr>"

definition ack_fields :: "string list" where
  "ack_fields = [''commandId'', ''tenantId'', ''deviceId'', ''status'', ''errorCode'', ''payload'']"

definition ack_set :: "string \<Rightarrow> string \<Rightarrow> json \<Rightarrow> CommandAckMessage \<Rightarrow> CommandAckMessage option" where
  "ack_set field raw v =
     (if field = ''commandId'' then set_string (\<lambda>s. ack_CommandID_update (\<lambda>_. s)) v
      else if field = ''tenantId'' then set_string (\<lambda>s. ack_TenantID_update (\<lambda>_. s)) v
      else if field = ''deviceId'' then set_string (\<lambda>s. ack_DeviceID_update (\<lambda>_. s)) v
      else if field = ''status'' then set_string (\<lambda>s. ack_Status_update (\<lambda>_. s)) v
      else if field = ''errorCode'' then set_string (\<lambda>s. ack_ErrorCode_update (\<lambda>_. s)) v
      else (\<lambda>a. Some (ack_Payload_update (\<lambda>_. raw) a)))"

text \<open>The typed part of \<^verbatim>\<open>DecodeRequestJSON\<close>: \<^verbatim>\<open>DisallowUnknownFields\<close> refuses a name that is no field.\<close>

definition decode_strict :: "(nat \<Rightarrow> nat) \<Rightarrow> string list \<Rightarrow> (string \<Rightarrow> string \<Rightarrow> json \<Rightarrow> 'a \<Rightarrow> 'a option) \<Rightarrow> 'a \<Rightarrow> json \<Rightarrow> 'a result" where
  "decode_strict sf names setf zero v =
     (case v of
        JObj ms \<Rightarrow>
          if list_ex (\<lambda>(k, _). lookup_field sf names k = None) ms then Inl [ErrOpaque ''unknown field'']
          else (case decode_members sf names setf ms zero of None \<Rightarrow> Inl [ErrOpaque ''json''] | Some x \<Rightarrow> Inr x)
      | JNull \<Rightarrow> Inr zero
      | _ \<Rightarrow> Inl [ErrOpaque ''json''])"

definition decode_ack :: "(nat \<Rightarrow> nat) \<Rightarrow> string \<Rightarrow> CommandAckMessage result" where
  "decode_ack sf body = DecodeRequestJSON sf (decode_strict sf ack_fields ack_set zero_ack) (Inr body)"

section \<open>A published record is read back\<close>

text \<open>The bytes of a time stamp need no escaping.\<close>

definition stamp_char :: "char \<Rightarrow> bool" where
  "stamp_char c \<longleftrightarrow> is_digit c \<or> c \<in> set ''-T:Z.''"

lemma stamp_char_quote:
  assumes "stamp_char c"
  shows "bv c < 128 \<and> quote_ascii c = [c]"
proof (cases "is_digit c")
  case True
  then have b: "48 \<le> bv c" "bv c \<le> 57" by (auto simp: is_digit_def in_range_def)
  have ne: "c \<noteq> x" if "bv x < 48 \<or> 57 < bv x" for x using that b by auto
  show ?thesis unfolding quote_ascii_def using b by (simp add: ne)
next
  case False
  then have "c \<in> set ''-T:Z.''" using assms by (simp add: stamp_char_def)
  then show ?thesis by (simp only: list.set) (elim insertE emptyE; simp add: quote_ascii_def)
qed

lemma quote_stamp: "list_all stamp_char s \<Longrightarrow> quote_body s = s"
  by (induction s) (simp_all add: quote_body.simps quote_step_def stamp_char_quote)

lemma digits_stamp: "list_all is_digit s \<Longrightarrow> list_all stamp_char s"
  by (auto simp: list_all_iff stamp_char_def)

lemma fraction_stamp:
  assumes "0 \<le> ns" "ns < second"
  shows "list_all stamp_char (fraction ns)"
proof -
  define ds where "ds = rev (dropWhile (\<lambda>c. c = CHR ''0'') (rev (nine_digits ns)))"
  have "list_all is_digit ds"
    using nine_digits_ok(1) [OF assms] unfolding ds_def list_all_iff by (auto dest: set_dropWhileD)
  then show ?thesis
    using digits_stamp [of ds] unfolding fraction_def Let_def ds_def [symmetric] by (auto simp: stamp_char_def)
qed

lemma format_stamp:
  assumes "0 \<le> Year t" "Year t \<le> 9999"
  shows "list_all stamp_char (FormatRFC3339Nano t)"
proof (rule format_text [OF assms])
  fix y m d h mi sc
  assume fmt: "FormatRFC3339Nano t = four_digits y @ ''-'' @ two_digits m @ ''-'' @ two_digits d @ ''T'' @
      two_digits h @ '':'' @ two_digits mi @ '':'' @ two_digits sc @ fraction (t mod second) @ ''Z''"
    and b: "0 \<le> y" "y \<le> 9999" "1 \<le> m" "m \<le> 12" "1 \<le> d" "d \<le> days_in_month y m" "d \<le> 99"
      "0 \<le> h" "h \<le> 23" "0 \<le> mi" "mi \<le> 59" "0 \<le> sc" "sc \<le> 59"
  have lits: "list_all stamp_char ''-''" "list_all stamp_char ''T''" "list_all stamp_char '':''" "list_all stamp_char ''Z''"
    by (simp_all add: stamp_char_def)
  have two: "list_all stamp_char (two_digits n)" if "0 \<le> n" "n \<le> 99" for n
    using two_digits_ok(1) [OF that] by (rule digits_stamp)
  show ?thesis
    unfolding fmt list_all_append
    using b fraction_stamp [OF instant_parts(4,5)] digits_stamp [OF four_digits_ok(1) [OF b(1,2)]] lits
    by (intro conjI two) linarith+
qed

lemma writes_time:
  assumes "marshal_time t = Some v"
  shows "writes d v (JStr (FormatRFC3339Nano t))" "butlast (tl v) = FormatRFC3339Nano t"
    "ParseRFC3339Nano other (FormatRFC3339Nano t) = Some t"
proof -
  have y: "0 \<le> Year t" "Year t \<le> 9999" and v: "v = CHR 0x22 # FormatRFC3339Nano t @ [CHR 0x22]"
    using assms by (auto simp: marshal_time_def split: if_splits)
  have "json_quote (FormatRFC3339Nano t) = v" unfolding v json_quote_def quote_stamp [OF format_stamp [OF y]] by simp
  moreover have "utf8_valid (FormatRFC3339Nano t)" using format_ascii [OF y] ascii_utf8 by blast
  ultimately show "writes d v (JStr (FormatRFC3339Nano t))" using writes_string [of "FormatRFC3339Nano t" d] by simp
  show "butlast (tl v) = FormatRFC3339Nano t" by (simp add: v butlast_append)
  show "ParseRFC3339Nano other (FormatRFC3339Nano t) = Some t" by (rule ParseRFC3339Nano_format [OF y])
qed

lemma itoa_nat_hd: "0 < n \<Longrightarrow> hd (itoa_nat n) \<noteq> CHR ''0''"
proof (induction n rule: itoa_nat.induct)
  case (1 n)
  show ?case
  proof (cases "n < 10")
    case True
    then have "char_of (48 + n) \<noteq> CHR ''0''" using 1(2) by (intro char_of_neq) auto
    then show ?thesis using True by (simp add: itoa_nat.simps [of n])
  next
    case False
    then show ?thesis using 1 itoa_nat_props [of "n div 10"] by (simp add: itoa_nat.simps [of n])
  qed
qed

lemma itoa_number:
  assumes "0 \<le> n" "n < 2 ^ 63"
  shows "writes d (itoa n) (JNum (itoa n))" "ParseInt 64 (itoa n) = Some n"
proof -
  have i: "itoa n = itoa_nat (nat n)" using assms(1) by (simp add: itoa_def)
  note pr = itoa_nat_props [of "nat n"]
  have "itoa_nat 0 = ''0''" by code_simp
  then have z: "itoa_nat (nat n) = ''0'' \<or> hd (itoa_nat (nat n)) \<noteq> CHR ''0''" using itoa_nat_hd [of "nat n"] by (cases "nat n = 0") auto
  show "writes d (itoa n) (JNum (itoa n))" unfolding i using pr z by (intro writes_number) auto
  have "is_digit (hd (itoa_nat (nat n)))" using pr by (cases "itoa_nat (nat n)") auto
  then have "hd (itoa_nat (nat n)) \<noteq> CHR ''-''" "hd (itoa_nat (nat n)) \<noteq> CHR ''+''" by (auto simp: is_digit_def in_range_def)
  then show "ParseInt 64 (itoa n) = Some n" unfolding i ParseInt_def Let_def using pr assms by simp
qed

text \<open>A payload that is written as it stands: JSON without insignificant white space and without bytes to escape.\<close>

definition compact_payload :: "string \<Rightarrow> bool" where
  "compact_payload p \<longleftrightarrow> marshal_raw p = Some p \<and> (\<exists>j. writes 1 p j)"


lemma status_string_back: "named_status st \<Longrightarrow> status_of_string (status_string st) = st \<and> utf8_valid (status_string st)"
  by (cases st) (auto simp: named_status_def status_of_string_def)


section \<open>Samples\<close>

lemma compact_sample: "compact_payload (json_object [(''a'', ''1'')])"
proof -
  have "writes 1 (json_object (map (\<lambda>(k, v, j). (k, v)) [(''a'', ''1'', JNum ''1'')])) (JObj [(''a'', ''1'', JNum ''1'')])"
    by (rule writes_object) (auto simp: maxNestingDepth_def is_digit_def in_range_def)
  moreover have "json_object (map (\<lambda>(k, v, j). (k, v)) [(''a'', ''1'', JNum ''1'')]) = (json_object [(''a'', ''1'')])" by code_simp
  moreover have "marshal_raw (json_object [(''a'', ''1'')]) = Some (json_object [(''a'', ''1'')])" by code_simp
  ultimately show ?thesis unfolding compact_payload_def by auto
qed

definition sample_record :: TelemetryRecord where
  "sample_record = \<lparr>rec_MsgID = ''m1'', rec_TenantID = ''acme'', rec_DeviceID = ''d1'', rec_Ts = 1700000000000, rec_Type = ''t'',
     rec_Version = ''1'', rec_Payload = (json_object [(''a'', ''1'')]), rec_TDengineWritten = True, rec_ReceivedAt = 1700000000123456789\<rparr>"

definition sample_command :: Command where
  "sample_command = \<lparr>cmd_ID = ''c1'', cmd_TenantID = ''acme'', cmd_DeviceID = ''d1'', cmd_Status = CommandStatusCreated,
     cmd_Payload = (json_object [(''a'', ''1'')]), cmd_CreatedAt = 1700000000123456789, cmd_UpdatedAt = 1700000001000000000, cmd_DispatchAttempts = 1,
     cmd_DeadlineAt = zero_time, cmd_Result = None\<rparr>"



end
