(* ===== verification/Dead_Letter.thy ===== *)
theory Dead_Letter
  imports Wire_Records
begin

text \<open>
  Kafka writes with retry (\<^verbatim>\<open>kafka_publisher.go\<close>), dead letters (\<^verbatim>\<open>dead_letter.go\<close>) and their standard base64
  encoding. The broker is not under \<^verbatim>\<open>src/\<close>: the outcome of every attempt, and whether a failed attempt stored the
  message all the same, is an argument. The theorems show that a successful write is in the log, that the
  retry schedule is bounded, and that a dead letter carries the original bytes.
\<close>

section \<open>Messages and writers\<close>

record KafkaMessage =
  km_Topic :: string
  km_Partition :: int
  km_Offset :: int
  km_Key :: string
  km_Value :: string
  km_Time :: gtime

text \<open>
  The environment of one write: the error of waiting for the n-th attempt (cancellation), the error of the n-th
  attempt, whether a failed attempt was stored nevertheless, and which errors the client library calls temporary.
\<close>

record kafka_env =
  ke_wait :: "nat \<Rightarrow> gerror option"
  ke_attempt :: "nat \<Rightarrow> gerror option"
  ke_lost :: "nat \<Rightarrow> bool"
  ke_temporary :: "gerror \<Rightarrow> bool"

definition contains_text :: "string \<Rightarrow> string \<Rightarrow> bool" where
  "contains_text needle s \<longleftrightarrow> list_ex (\<lambda>n. take (length needle) (drop n s) = needle) [0..<Suc (length s)]"

definition error_contains :: "string \<Rightarrow> gerror \<Rightarrow> bool" where
  "error_contains needle e \<longleftrightarrow> list_ex (\<lambda>s. case s of ErrOpaque text \<Rightarrow> contains_text needle text | _ \<Rightarrow> False) e"

definition isRetriableKafkaError :: "(gerror \<Rightarrow> bool) \<Rightarrow> gerror \<Rightarrow> bool" where
  "isRetriableKafkaError temporary err \<longleftrightarrow> temporary err \<or> error_contains ''connection reset by peer'' err \<or>
     error_contains ''broken pipe'' err \<or> error_contains ''connection refused'' err"

definition retry_delays :: "duration list" where
  "retry_delays = map (\<lambda>ms. ms * 1000000) [0, 200, 500, 1000, 2000, 4000, 8000, 16000]"

text \<open>The loop over the delays; \<open>n\<close> counts the attempts, \<open>last_err\<close> is the variable \<^verbatim>\<open>err\<close>.\<close>

fun write_loop :: "kafka_env \<Rightarrow> 'a \<Rightarrow> nat \<Rightarrow> duration list \<Rightarrow> gerror option \<Rightarrow> 'a list \<Rightarrow> gerror option \<times> 'a list" where
  "write_loop env msg n [] last_err log = (last_err, log)"
| "write_loop env msg n (delay # delays) last_err log =
     (case (if delay > 0 then ke_wait env n else None) of
        Some e \<Rightarrow> (Some e, log)
      | None \<Rightarrow>
          (case ke_attempt env n of
             None \<Rightarrow> (None, log @ [msg])
           | Some e \<Rightarrow>
               let log' = (if ke_lost env n then log @ [msg] else log) in
               if \<not> isRetriableKafkaError (ke_temporary env) e then (Some e, log')
               else write_loop env msg (Suc n) delays (Some e) log'))"

definition writeKafkaMessageWithRetry :: "kafka_env \<Rightarrow> 'a \<Rightarrow> 'a list \<Rightarrow> gerror option \<times> 'a list" where
  "writeKafkaMessageWithRetry env msg log = write_loop env msg 0 retry_delays None log"

section \<open>Standard base64\<close>

text \<open>\<^verbatim>\<open>base64.StdEncoding\<close>: the standard alphabet with padding; decoding ignores line breaks and does not check the unused bits.\<close>

definition std_chr :: "nat \<Rightarrow> char" where
  "std_chr n = (if n = 62 then CHR ''+'' else if n = 63 then CHR ''/'' else b64_chr n)"

definition std_val :: "char \<Rightarrow> nat option" where
  "std_val c = (if c = CHR ''+'' then Some 62 else if c = CHR ''/'' then Some 63
     else if c = CHR ''-'' \<or> c = CHR ''_'' then None else b64_val c)"

definition std_encode :: "string \<Rightarrow> string" where
  "std_encode s = map std_chr (b64_sextets s) @ replicate ((3 - length s mod 3) mod 3) CHR ''=''"

definition strip_padding :: "string \<Rightarrow> string" where
  "strip_padding t =
     (if drop (length t - 2) t = ''=='' then take (length t - 2) t
      else if t \<noteq> [] \<and> last t = CHR ''='' then butlast t else t)"

definition std_decode :: "string \<Rightarrow> string option" where
  "std_decode s =
     (let t = filter (\<lambda>c. c \<noteq> CHR 0x0D \<and> c \<noteq> CHR 0x0A) s
      in if length t mod 4 \<noteq> 0 then None else Option.bind (all_some (map std_val (strip_padding t))) b64_groups)"

section \<open>Dead letters\<close>

definition StageMQTTDecode :: string where "StageMQTTDecode = ''mqtt.decode''"
definition StageMQTTIdentity :: string where "StageMQTTIdentity = ''mqtt.identity''"
definition StageMQTTKafka :: string where "StageMQTTKafka = ''mqtt.kafka''"
definition StageTelemetryDecode :: string where "StageTelemetryDecode = ''telemetry.decode''"
definition StageTelemetryPostgres :: string where "StageTelemetryPostgres = ''telemetry.postgres''"
definition StageTelemetryTDengine :: string where "StageTelemetryTDengine = ''telemetry.tdengine''"
definition StageCommandDecode :: string where "StageCommandDecode = ''command.decode''"
definition StageCommandTopic :: string where "StageCommandTopic = ''command.topic''"
definition StageCommandEncode :: string where "StageCommandEncode = ''command.encode''"
definition StageCommandMQTT :: string where "StageCommandMQTT = ''command.mqtt''"
definition StageCommandAck :: string where "StageCommandAck = ''command.ack''"

definition DeadLetterStages :: "string list" where
  "DeadLetterStages = [StageMQTTDecode, StageMQTTIdentity, StageMQTTKafka, StageTelemetryDecode, StageTelemetryPostgres,
     StageTelemetryTDengine, StageCommandDecode, StageCommandTopic, StageCommandEncode, StageCommandMQTT, StageCommandAck]"

record DeadLetter =
  dead_SourceTopic :: string
  dead_SourcePartition :: int
  dead_SourceOffset :: int
  dead_Key :: string
  dead_ValueBase64 :: string
  dead_Stage :: string
  dead_Error :: string
  dead_OccurredAt :: string

definition marshal_dead_letter :: "DeadLetter \<Rightarrow> string" where
  "marshal_dead_letter d = json_object
     ([(''sourceTopic'', json_quote (dead_SourceTopic d)), (''sourcePartition'', itoa (dead_SourcePartition d)),
       (''sourceOffset'', itoa (dead_SourceOffset d))] @
      (if dead_Key d = [] then [] else [(''key'', json_quote (dead_Key d))]) @
      [(''valueBase64'', json_quote (dead_ValueBase64 d)), (''stage'', json_quote (dead_Stage d)),
       (''error'', json_quote (dead_Error d)), (''occurredAt'', json_quote (dead_OccurredAt d))])"

definition zero_dead_letter :: DeadLetter where
  "zero_dead_letter = \<lparr>dead_SourceTopic = [], dead_SourcePartition = 0, dead_SourceOffset = 0, dead_Key = [],
     dead_ValueBase64 = [], dead_Stage = [], dead_Error = [], dead_OccurredAt = []\<rparr>"

definition dead_letter_fields :: "string list" where
  "dead_letter_fields = [''sourceTopic'', ''sourcePartition'', ''sourceOffset'', ''key'', ''valueBase64'', ''stage'', ''error'', ''occurredAt'']"

definition dead_letter_set :: "string \<Rightarrow> string \<Rightarrow> json \<Rightarrow> DeadLetter \<Rightarrow> DeadLetter option" where
  "dead_letter_set field raw v =
     (if field = ''sourceTopic'' then set_string (\<lambda>s. dead_SourceTopic_update (\<lambda>_. s)) v
      else if field = ''sourcePartition'' then set_int64 (\<lambda>i. dead_SourcePartition_update (\<lambda>_. i)) v
      else if field = ''sourceOffset'' then set_int64 (\<lambda>i. dead_SourceOffset_update (\<lambda>_. i)) v
      else if field = ''key'' then set_string (\<lambda>s. dead_Key_update (\<lambda>_. s)) v
      else if field = ''valueBase64'' then set_string (\<lambda>s. dead_ValueBase64_update (\<lambda>_. s)) v
      else if field = ''stage'' then set_string (\<lambda>s. dead_Stage_update (\<lambda>_. s)) v
      else if field = ''error'' then set_string (\<lambda>s. dead_Error_update (\<lambda>_. s)) v
      else set_string (\<lambda>s. dead_OccurredAt_update (\<lambda>_. s)) v)"

definition unmarshal_dead_letter :: "(nat \<Rightarrow> nat) \<Rightarrow> string \<Rightarrow> DeadLetter result" where
  "unmarshal_dead_letter sf raw = unmarshal_struct sf dead_letter_fields dead_letter_set zero_dead_letter raw"

text \<open>
  The record \<^verbatim>\<open>publishDeadLetter\<close> builds; \<open>text\<close> is the message of the cause, an argument because error texts are not modelled.
\<close>

definition dead_letter_of :: "KafkaMessage \<Rightarrow> string \<Rightarrow> string \<Rightarrow> gtime \<Rightarrow> DeadLetter" where
  "dead_letter_of msg stage cause now =
     \<lparr>dead_SourceTopic = km_Topic msg, dead_SourcePartition = km_Partition msg, dead_SourceOffset = km_Offset msg,
      dead_Key = km_Key msg, dead_ValueBase64 = std_encode (km_Value msg), dead_Stage = stage, dead_Error = cause,
      dead_OccurredAt = FormatRFC3339Nano now\<rparr>"

text \<open>The environment of a dead letter: its writer (\<^verbatim>\<open>nil\<close> is \<open>None\<close>), the text of errors and the clock.\<close>

record dlq_env =
  dq_writer :: "kafka_env option"
  dq_text :: "gerror \<Rightarrow> string"
  dq_now :: gtime

text \<open>The log holds key and value of the messages; the counters are the pairs of labels \<^verbatim>\<open>IncDLQPublish\<close> was called with.\<close>

record dlq =
  dq_log :: "(string \<times> string) list"
  dq_counts :: "(string \<times> string) list"

definition publishDeadLetter :: "dlq_env \<Rightarrow> KafkaMessage \<Rightarrow> string \<Rightarrow> gerror \<Rightarrow> dlq \<Rightarrow> gerror option \<times> dlq" where
  "publishDeadLetter env msg stage cause q =
     (case dq_writer env of
        None \<Rightarrow> (Some [ErrOpaque ''dead-letter writer is not configured''], q\<lparr>dq_counts := dq_counts q @ [(stage, ''error'')]\<rparr>)
      | Some w \<Rightarrow>
          let payload = marshal_dead_letter (dead_letter_of msg stage (dq_text env cause) (dq_now env)) in
          (case writeKafkaMessageWithRetry w (km_Topic msg, payload) (dq_log q) of
             (Some e, log) \<Rightarrow> (Some e, \<lparr>dq_log = log, dq_counts = dq_counts q @ [(stage, ''error'')]\<rparr>)
           | (None, log) \<Rightarrow> (None, \<lparr>dq_log = log, dq_counts = dq_counts q @ [(stage, ''ok'')]\<rparr>)))"

definition commitAfterDeadLetter :: "dlq_env \<Rightarrow> gerror option \<Rightarrow> KafkaMessage \<Rightarrow> string \<Rightarrow> gerror \<Rightarrow> dlq \<Rightarrow> (gerror option \<times> bool) \<times> dlq" where
  "commitAfterDeadLetter env commit msg stage cause q =
     (case publishDeadLetter env msg stage cause q of
        (Some e, q') \<Rightarrow> ((Some e, False), q')
      | (None, q') \<Rightarrow> ((commit, commit = None), q'))"

section \<open>Writes\<close>

lemma write_loop_copies:
  "\<exists>k \<le> length delays. snd (write_loop env msg n delays e log) = log @ replicate k msg \<and>
     (fst (write_loop env msg n delays e log) = None \<and> (delays \<noteq> [] \<or> e \<noteq> None) \<longrightarrow> 0 < k)"
proof (induction delays arbitrary: n e log)
  case (Cons delay delays)
  show ?case
  proof (cases "if delay > 0 then ke_wait env n else None")
    case None
    show ?thesis
    proof (cases "ke_attempt env n")
      case att: None
      then show ?thesis using None by (intro exI [of _ 1]) simp
    next
      case (Some err)
      define log' where "log' = (if ke_lost env n then log @ [msg] else log)"
      define j :: nat where "j = (if ke_lost env n then 1 else 0)"
      have j: "log' = log @ replicate j msg" "j \<le> 1" by (simp_all add: log'_def j_def)
      show ?thesis
      proof (cases "isRetriableKafkaError (ke_temporary env) err")
        case False
        then show ?thesis using None Some j by (intro exI [of _ j]) (simp add: log'_def)
      next
        case True
        obtain k where k: "k \<le> length delays" "snd (write_loop env msg (Suc n) delays (Some err) log') = log' @ replicate k msg"
          "fst (write_loop env msg (Suc n) delays (Some err) log') = None \<Longrightarrow> 0 < k"
          using Cons.IH [of "Suc n" "Some err" log'] by auto
        have "write_loop env msg n (delay # delays) e log = write_loop env msg (Suc n) delays (Some err) log'"
          using None Some True by (simp add: log'_def)
        then show ?thesis using k j by (intro exI [of _ "j + k"]) (auto simp: replicate_add)
      qed
    qed
  next
    case (Some err)
    then show ?thesis by (intro exI [of _ 0]) simp
  qed
qed auto

text \<open>
  C39: a Kafka write is at least once and bounded: it appends only copies of the message, at most eight of them,
  and at least one when it reports success.
\<close>

theorem kafka_write_at_least_once:
  "\<exists>k. snd (writeKafkaMessageWithRetry env msg log) = log @ replicate k msg \<and> k \<le> 8 \<and>
     (if fst (writeKafkaMessageWithRetry env msg log) = None then 1 else 0) \<le> k"
proof -
  obtain k where k: "k \<le> length retry_delays" "snd (write_loop env msg 0 retry_delays None log) = log @ replicate k msg"
    "fst (write_loop env msg 0 retry_delays None log) = None \<and> (retry_delays \<noteq> [] \<or> (None :: gerror option) \<noteq> None) \<longrightarrow> 0 < k"
    using write_loop_copies [of retry_delays env msg 0 None log] by blast
  have "length retry_delays = 8" "retry_delays \<noteq> []" by (simp_all add: retry_delays_def)
  then show ?thesis using k unfolding writeKafkaMessageWithRetry_def by (intro exI [of _ k]) auto
qed

section \<open>Base64 and JSON of dead letters\<close>

lemma std_val_chr:
  assumes "n < 64"
  shows "std_val (std_chr n) = Some n" "std_chr n \<noteq> CHR 0x0D" "std_chr n \<noteq> CHR 0x0A" "std_chr n \<noteq> CHR ''=''"
proof -
  consider "n < 26" | "26 \<le> n" "n < 52" | "52 \<le> n" "n < 62" | "n = 62" | "n = 63" using assms by linarith
  then have "std_val (std_chr n) = Some n \<and> std_chr n \<noteq> CHR 0x0D \<and> std_chr n \<noteq> CHR 0x0A \<and> std_chr n \<noteq> CHR ''=''"
    by cases (auto simp: std_chr_def std_val_def b64_chr_def b64_val_def in_range_def char_of_neq)
  then show "std_val (std_chr n) = Some n" "std_chr n \<noteq> CHR 0x0D" "std_chr n \<noteq> CHR 0x0A" "std_chr n \<noteq> CHR ''=''" by auto
qed

lemma length_sextets: "length (b64_sextets s) = (4 * length s + 2) div 3"
  using length_b64_encode [of s] by (simp add: b64_encode_sextets)

lemma pad_length: "(length (b64_sextets s) + (3 - length s mod 3) mod 3) mod 4 = 0"
proof -
  define q where "q = length s div 3"
  have q: "length s = 3 * q + length s mod 3" by (simp add: q_def)
  have "length s mod 3 < 3" by simp
  then consider "length s mod 3 = 0" | "length s mod 3 = 1" | "length s mod 3 = 2" by linarith
  then show ?thesis
  proof cases
    case 1
    then have "length (b64_sextets s) = 4 * q" unfolding length_sextets using q by linarith
    then show ?thesis using 1 by simp
  next
    case 2
    then have "length (b64_sextets s) = 4 * q + 2" unfolding length_sextets using q by linarith
    then show ?thesis using 2 by simp
  next
    case 3
    then have "length (b64_sextets s) = 4 * q + 3" unfolding length_sextets using q by linarith
    then show ?thesis using 3 by simp
  qed
qed

lemma strip_padding_pad:
  assumes "CHR ''='' \<notin> set b" "n < 3"
  shows "strip_padding (b @ replicate n CHR ''='') = b"
proof -
  have nd: "drop k b \<noteq> CHR ''='' # x" for k x using assms(1) in_set_dropD [of "CHR ''=''" k b] by auto
  have last: "b \<noteq> [] \<Longrightarrow> last b \<noteq> CHR ''=''" using assms(1) last_in_set [of b] by metis
  consider "n = 0" | "n = 1" | "n = 2" using assms(2) by linarith
  then show ?thesis
  proof cases
    case 1
    then show ?thesis using nd last by (auto simp: strip_padding_def)
  next
    case 2
    then show ?thesis using nd [of "length b - 1" "[]"] by (simp add: strip_padding_def)
  next
    case 3
    then have "b @ replicate n CHR ''='' = b @ ''==''" by (simp add: numeral_2_eq_2)
    then show ?thesis by (simp add: strip_padding_def)
  qed
qed

lemma std_decode_encode [simp]: "std_decode (std_encode s) = Some s"
proof -
  let ?b = "map std_chr (b64_sextets s)"
  have noeq: "CHR ''='' \<notin> set ?b" using std_val_chr(4) b64_sextets_less by fastforce
  have f: "filter (\<lambda>c. c \<noteq> CHR 0x0D \<and> c \<noteq> CHR 0x0A) (std_encode s) = std_encode s"
    unfolding std_encode_def filter_append by (auto simp: filter_id_conv std_val_chr(2,3) b64_sextets_less)
  have body: "strip_padding (std_encode s) = ?b"
    unfolding std_encode_def using noeq by (intro strip_padding_pad) simp_all
  have l: "length (std_encode s) mod 4 = 0" using pad_length [of s] by (simp add: std_encode_def)
  have "all_some (map std_val ?b) = Some (b64_sextets s)"
    unfolding map_map by (rule all_some_map) (simp add: std_val_chr b64_sextets_less)
  then show ?thesis unfolding std_decode_def Let_def f body using l by (simp add: b64_groups_sextets)
qed

lemma std_encode_ascii: "ascii (std_encode s)"
proof -
  have "bv (std_chr n) < 128" if "n < 64" for n
    using that by (auto simp: std_chr_def b64_chr_def)
  then show ?thesis by (auto simp: ascii_def std_encode_def list_all_iff b64_sextets_less)
qed

text \<open>
  C38: a dead letter is complete: reading back the record that was written gives source, stage, cause and time, and
  its base64 field decodes to the original bytes of the message, whatever they are.
\<close>

theorem dead_letter_restores_message:
  assumes "utf8_valid (km_Topic msg)" "utf8_valid (km_Key msg)" "utf8_valid stage" "utf8_valid cause"
    "0 \<le> km_Partition msg" "km_Partition msg < 2 ^ 63" "0 \<le> km_Offset msg" "km_Offset msg < 2 ^ 63" "0 \<le> Year now" "Year now \<le> 9999"
  shows "unmarshal_dead_letter sf (marshal_dead_letter (dead_letter_of msg stage cause now)) = Inr (dead_letter_of msg stage cause now) \<and>
    std_decode (dead_ValueBase64 (dead_letter_of msg stage cause now)) = Some (km_Value msg)"
proof
  let ?d = "dead_letter_of msg stage cause now"
  show "std_decode (dead_ValueBase64 ?d) = Some (km_Value msg)" by (simp add: dead_letter_of_def)
  note n1 = itoa_number [OF assms(5,6)] and n2 = itoa_number [OF assms(7,8)]
  have u: "utf8_valid (std_encode (km_Value msg))" "utf8_valid (FormatRFC3339Nano now)"
    using std_encode_ascii format_ascii [OF assms(9,10)] ascii_utf8 by blast+
  let ?fs = "[(''sourceTopic'', json_quote (km_Topic msg), JStr (km_Topic msg)),
      (''sourcePartition'', itoa (km_Partition msg), JNum (itoa (km_Partition msg))),
      (''sourceOffset'', itoa (km_Offset msg), JNum (itoa (km_Offset msg)))] @
      (if km_Key msg = [] then [] else [(''key'', json_quote (km_Key msg), JStr (km_Key msg))]) @
      [(''valueBase64'', json_quote (std_encode (km_Value msg)), JStr (std_encode (km_Value msg))),
       (''stage'', json_quote stage, JStr stage), (''error'', json_quote cause, JStr cause),
       (''occurredAt'', json_quote (FormatRFC3339Nano now), JStr (FormatRFC3339Nano now))]"
  have "writes 0 (json_object (map (\<lambda>(k, v, j). (k, v)) ?fs)) (JObj ?fs)"
    by (rule writes_object) (use assms n1(1) n2(1) u in \<open>auto simp: maxNestingDepth_def split: if_splits\<close>)
  moreover have "marshal_dead_letter ?d = json_object (map (\<lambda>(k, v, j). (k, v)) ?fs)"
    by (simp add: marshal_dead_letter_def dead_letter_of_def)
  ultimately have "json_parse (marshal_dead_letter ?d) = Some (JObj ?fs)" by (simp only: writes_parse)
  then show "unmarshal_dead_letter sf (marshal_dead_letter ?d) = Inr ?d"
    using n1(2) n2(2)
    by (cases "km_Key msg = []") (simp_all add: unmarshal_dead_letter_def unmarshal_struct_def dead_letter_fields_def lookup_field_def
        dead_letter_set_def set_int64_def set_string_def zero_dead_letter_def dead_letter_of_def)
qed

section \<open>Sample\<close>

definition sample_message :: KafkaMessage where
  "sample_message = \<lparr>km_Topic = ''iot.telemetry'', km_Partition = 3, km_Offset = 42, km_Key = ''d1'', km_Value = [CHR 0xFF, CHR ''x''], km_Time = 0\<rparr>"

theorem dead_letter_restores_message_witness:
  "unmarshal_dead_letter id (marshal_dead_letter (dead_letter_of sample_message StageTelemetryDecode ''bad'' 1700000000000000000)) =
     Inr (dead_letter_of sample_message StageTelemetryDecode ''bad'' 1700000000000000000)"
proof -
  have "0 \<le> Year 1700000000000000000" "Year 1700000000000000000 \<le> 9999" by code_simp+
  from dead_letter_restores_message [OF _ _ _ _ _ _ _ _ this, of sample_message StageTelemetryDecode "''bad''" id] show ?thesis
    by (simp add: sample_message_def StageTelemetryDecode_def)
qed

end
