(* ===== verification/Tdengine.thy ===== *)
theory Tdengine
  imports Wire_Records
begin

text \<open>
  The TDengine sink (\<^verbatim>\<open>tdengine_writer.go\<close>): schema check, quoting, the insert statement of a record and the errors the
  compensation scan treats as permanent. The database is not under \<^verbatim>\<open>src/\<close>: the outcome of every statement is an
  argument, and the model records the statements that took effect. The theorems show that a quoted value cannot leave its
  literal and that a rejected record executes nothing.
\<close>

section \<open>Quoting\<close>

abbreviation squote :: char where "squote \<equiv> CHR 0x27"

text \<open>\<^verbatim>\<open>strings.ReplaceAll\<close> of one byte.\<close>

definition replace_byte :: "char \<Rightarrow> string \<Rightarrow> string \<Rightarrow> string" where
  "replace_byte c new s = concat (map (\<lambda>x. if x = c then new else [x]) s)"

definition escapeTD :: "string \<Rightarrow> string" where
  "escapeTD s = replace_byte squote [squote, squote] (replace_byte backslash [backslash, backslash] s)"

section \<open>The writer\<close>

record TDengineWriter =
  tw_database :: string
  tw_table :: string
  tw_closed :: bool
  tw_writeTimeout :: duration

definition defaultTDengineWriteTimeout :: duration where
  "defaultTDengineWriteTimeout = 5 * second"

text \<open>
  The environment of one call: the error of its n-th statement, whether a failed statement took effect, the answer to the
  precision query, sha256 in hexadecimal and the code of an error of the driver.
\<close>

record td_env =
  te_fault :: "nat \<Rightarrow> gerror option"
  te_lost :: bool
  te_precision :: string
  te_sha :: "string \<Rightarrow> string"
  te_code :: "gerror \<Rightarrow> int option"

text \<open>The statements that took effect and the results \<^verbatim>\<open>IncTDengineWrite\<close> was called with.\<close>

record tdengine =
  td_log :: "string list"
  td_counts :: "string list"

definition td_exec :: "td_env \<Rightarrow> nat \<Rightarrow> string \<Rightarrow> tdengine \<Rightarrow> gerror option \<times> tdengine" where
  "td_exec env n statement td =
     (case te_fault env n of
        None \<Rightarrow> (None, td\<lparr>td_log := td_log td @ [statement]\<rparr>)
      | Some e \<Rightarrow> (Some e, if te_lost env then td\<lparr>td_log := td_log td @ [statement]\<rparr> else td))"

definition stable_statement :: "TDengineWriter \<Rightarrow> string" where
  "stable_statement w = ''CREATE STABLE IF NOT EXISTS '' @ tw_database w @ ''.'' @ tw_table w @ '' (''  @ [CHR 0x0A] @
     ''  ts TIMESTAMP,'' @ [CHR 0x0A] @ ''  msg_id VARCHAR(64),'' @ [CHR 0x0A] @ ''  type VARCHAR(64),'' @ [CHR 0x0A] @
     ''  version VARCHAR(32),'' @ [CHR 0x0A] @ ''  payload_hash BINARY(64),'' @ [CHR 0x0A] @ ''  payload_bytes INT'' @ [CHR 0x0A] @
     '') TAGS ('' @ [CHR 0x0A] @ ''  tenant_id VARCHAR(64),'' @ [CHR 0x0A] @ ''  device_id VARCHAR(64)'' @ [CHR 0x0A] @ '')''"

definition td_ensureSchema :: "td_env \<Rightarrow> TDengineWriter \<Rightarrow> tdengine \<Rightarrow> gerror option \<times> tdengine" where
  "td_ensureSchema env w td =
     (case td_exec env 0 (''CREATE DATABASE IF NOT EXISTS '' @ tw_database w @ '' PRECISION '' @ [squote] @ ''ms'' @ [squote]) td of
        (Some e, td') \<Rightarrow> (Some e, td')
      | (None, td') \<Rightarrow>
          (case te_fault env 1 of
             Some e \<Rightarrow> (Some e, td')
           | None \<Rightarrow>
               if te_precision env \<noteq> ''ms'' then (Some [ErrOpaque ''unsupported precision''], td')
               else td_exec env 2 (stable_statement w) td'))"

definition td_envelope :: "TelemetryRecord \<Rightarrow> Envelope" where
  "td_envelope rec = zero_envelope\<lparr>env_TenantID := rec_TenantID rec, env_DeviceID := rec_DeviceID rec, env_MsgID := rec_MsgID rec,
     env_Type := rec_Type rec, env_Version := rec_Version rec\<rparr>"

definition td_quoted :: "string \<Rightarrow> string" where
  "td_quoted s = [squote] @ escapeTD s @ [squote]"

definition td_statement :: "(string \<Rightarrow> string) \<Rightarrow> TDengineWriter \<Rightarrow> TelemetryRecord \<Rightarrow> string" where
  "td_statement sha w rec =
     (let hash = sha (rec_Payload rec);
          tableHash = take 24 (sha (rec_TenantID rec @ [CHR 0x00] @ rec_DeviceID rec));
          stable = tw_database w @ ''.'' @ tw_table w;
          childTable = stable @ ''_'' @ tableHash
      in ''INSERT INTO '' @ childTable @ '' USING '' @ stable @ '' TAGS ('' @ td_quoted (rec_TenantID rec) @ '', '' @
         td_quoted (rec_DeviceID rec) @ '') VALUES ('' @ itoa (rec_Ts rec) @ '', '' @ td_quoted (rec_MsgID rec) @ '', '' @
         td_quoted (rec_Type rec) @ '', '' @ td_quoted (rec_Version rec) @ '', '' @ [squote] @ hash @ [squote] @ '', '' @
         itoa (int (length (rec_Payload rec))) @ '')'')"

definition writeRecord :: "td_env \<Rightarrow> TDengineWriter \<Rightarrow> TelemetryRecord \<Rightarrow> tdengine \<Rightarrow> gerror option \<times> tdengine" where
  "writeRecord env w rec td =
     (case ValidateTelemetryFields (td_envelope rec) of
        Some _ \<Rightarrow> (Some [ErrTDFieldRejected], td)
      | None \<Rightarrow>
          (case td_exec env 0 (td_statement (te_sha env) w rec) td of
             (Some e, td') \<Rightarrow> (Some e, td'\<lparr>td_counts := td_counts td' @ [''error'']\<rparr>)
           | (None, td') \<Rightarrow> (None, td'\<lparr>td_counts := td_counts td' @ [''ok'']\<rparr>)))"

text \<open>The writer is \<open>None\<close> when it is \<^verbatim>\<open>nil\<close>; the timeout is part of the environment's outcome.\<close>

definition WriteTelemetryContext :: "td_env \<Rightarrow> TDengineWriter option \<Rightarrow> TelemetryRecord \<Rightarrow> tdengine \<Rightarrow> gerror option \<times> tdengine" where
  "WriteTelemetryContext env writer rec td =
     (case writer of
        None \<Rightarrow> (None, td)
      | Some w \<Rightarrow> if tw_closed w then (Some [ErrTDWriterClosed], td) else writeRecord env w rec td)"

definition isPermanentTDengineWriteError :: "(gerror \<Rightarrow> int option) \<Rightarrow> gerror \<Rightarrow> bool" where
  "isPermanentTDengineWriteError code err \<longleftrightarrow>
     errors_is err ErrTDFieldRejected \<or> (case code err of None \<Rightarrow> False | Some c \<Rightarrow> c mod 65536 = 1547)"

definition td_Close :: "TDengineWriter \<Rightarrow> TDengineWriter" where
  "td_Close w = w\<lparr>tw_closed := True\<rparr>"

section \<open>A quoted value stays inside its literal\<close>

text \<open>
  How TDengine reads the inside of a string literal, as the comment of \<^verbatim>\<open>escapeTD\<close> states it: a backslash escapes the next
  byte, two quotes are one, and a single quote ends the literal. The result is the value and the text after the literal.
\<close>

fun td_literal :: "string \<Rightarrow> (string \<times> string) option" where
  "td_literal [] = None"
| "td_literal [c] = (if c = squote then Some ([], []) else None)"
| "td_literal (c # d # s) =
     (if c = backslash then map_option (\<lambda>(v, r). (d # v, r)) (td_literal s)
      else if c = squote then (if d = squote then map_option (\<lambda>(v, r). (squote # v, r)) (td_literal s) else Some ([], d # s))
      else map_option (\<lambda>(v, r). (c # v, r)) (td_literal (d # s)))"

lemma escape_Nil: "escapeTD [] = []"
  by (simp add: escapeTD_def replace_byte_def)

lemma escape_Cons:
  "escapeTD (c # s) = (if c = backslash then [backslash, backslash] else if c = squote then [squote, squote] else [c]) @ escapeTD s"
  by (simp add: escapeTD_def replace_byte_def)

lemma literal_escape:
  assumes "rest = [] \<or> hd rest \<noteq> squote"
  shows "td_literal (escapeTD s @ squote # rest) = Some (s, rest)"
proof (induction s)
  case Nil
  then show ?case using assms by (cases rest) (simp_all add: escape_Nil)
next
  case (Cons c s)
  obtain d x where dx: "escapeTD s @ squote # rest = d # x" by (cases "escapeTD s") auto
  show ?case
    using Cons unfolding escape_Cons by (simp add: dx)
qed

text \<open>
  C24: a value quoted for TDengine is read back as it is and the statement continues right after its literal: no
  field of a record can end its literal early or change the statement.
\<close>

theorem escapeTD_exact:
  assumes "rest = [] \<or> hd rest \<noteq> squote"
  shows "td_quoted s @ rest = squote # escapeTD s @ squote # rest \<and> td_literal (escapeTD s @ squote # rest) = Some (s, rest)"
  using literal_escape [OF assms] by (simp add: td_quoted_def)

theorem escapeTD_exact_witness:
  "td_literal (escapeTD [CHR ''a'', squote, backslash] @ squote # '', 1)'') = Some ([CHR ''a'', squote, backslash], '', 1)'')"
proof -
  have "'', 1)'' = [] \<or> hd '', 1)'' \<noteq> squote" by simp
  from escapeTD_exact [OF this, of "[CHR ''a'', squote, backslash]"] show ?thesis by blast
qed

lemma writeRecord_log:
  "\<exists>k \<le> 1. td_log (snd (writeRecord env w rec td)) = td_log td @ replicate k (td_statement (te_sha env) w rec) \<and>
     (fst (writeRecord env w rec td) = None \<longrightarrow> k = 1)"
  by (auto simp: writeRecord_def td_exec_def split: option.splits intro: exI [of _ "0::nat"] exI [of _ "1::nat"])

end
