(* ===== verification/Mqtt_Readiness.thy ===== *)
theory Mqtt_Readiness
  imports Iot_Prelude "HOL-Library.Word"
begin

text \<open>
  The readiness gate of an MQTT client (\<^verbatim>\<open>mqtt_readiness.go\<close>): a 64-bit generation counter that wraps around. Each method
  holds the mutex, so a run is a sequence of method calls. A confirmation of an old connection is refused unless the
  counter went all the way round, and a stopped gate never opens again.
\<close>

record mqttReadiness =
  rd_generation :: "64 word"
  rd_subscribed :: bool
  rd_stopped :: bool

definition new_readiness :: mqttReadiness where
  "new_readiness = \<lparr>rd_generation = 0, rd_subscribed = False, rd_stopped = False\<rparr>"

definition rd_reset :: "mqttReadiness \<Rightarrow> 64 word \<times> mqttReadiness" where
  "rd_reset s = (let s' = s\<lparr>rd_generation := rd_generation s + 1, rd_subscribed := False\<rparr> in (rd_generation s', s'))"

definition rd_confirm :: "64 word \<Rightarrow> mqttReadiness \<Rightarrow> bool \<times> mqttReadiness" where
  "rd_confirm generation s =
     (if generation = rd_generation s \<and> \<not> rd_stopped s then (True, s\<lparr>rd_subscribed := True\<rparr>) else (False, s))"

definition rd_stop :: "mqttReadiness \<Rightarrow> mqttReadiness" where
  "rd_stop s = s\<lparr>rd_generation := rd_generation s + 1, rd_subscribed := False, rd_stopped := True\<rparr>"

definition rd_ready :: "mqttReadiness \<Rightarrow> bool" where
  "rd_ready s \<longleftrightarrow> rd_subscribed s \<and> \<not> rd_stopped s"

section \<open>Runs\<close>

datatype rd_call = CallReset | CallConfirm "64 word" | CallStop

primrec rd_step :: "rd_call \<Rightarrow> mqttReadiness \<Rightarrow> mqttReadiness" where
  "rd_step CallReset s = snd (rd_reset s)"
| "rd_step (CallConfirm g) s = snd (rd_confirm g s)"
| "rd_step CallStop s = rd_stop s"

primrec rd_run :: "rd_call list \<Rightarrow> mqttReadiness \<Rightarrow> mqttReadiness" where
  "rd_run [] s = s"
| "rd_run (c # cs) s = rd_run cs (rd_step c s)"

text \<open>The calls that start a new generation.\<close>

primrec bumps :: "rd_call list \<Rightarrow> nat" where
  "bumps [] = 0"
| "bumps (c # cs) = (case c of CallConfirm _ \<Rightarrow> bumps cs | _ \<Rightarrow> Suc (bumps cs))"

lemmas rd_defs = rd_reset_def rd_confirm_def rd_stop_def Let_def

lemma run_generation: "rd_generation (rd_run cs s) = rd_generation s + of_nat (bumps cs)"
  by (induction cs arbitrary: s) (auto simp: rd_defs split: rd_call.splits)

lemma run_stopped: "rd_stopped (rd_run cs s) \<longleftrightarrow> rd_stopped s \<or> CallStop \<in> set cs"
proof (induction cs arbitrary: s)
  case (Cons c cs)
  then show ?case by (cases c) (auto simp: rd_defs)
qed simp

lemma run_subscribed:
  "rd_subscribed (rd_run cs s) \<Longrightarrow> rd_subscribed s \<and> bumps cs = 0 \<or> CallConfirm (rd_generation (rd_run cs s)) \<in> set cs"
proof (induction cs arbitrary: s)
  case (Cons c cs)
  show ?case
  proof (cases c)
    case (CallConfirm g)
    show ?thesis
    proof (cases "g = rd_generation s \<and> \<not> rd_stopped s \<and> bumps cs = 0")
      case True
      then have "rd_generation (rd_run (c # cs) s) = g" using CallConfirm by (simp add: run_generation rd_defs)
      then show ?thesis using CallConfirm by simp
    next
      case False
      then show ?thesis using Cons.IH [of "rd_step c s"] Cons.prems CallConfirm by (auto simp: rd_defs split: if_splits)
    qed
  next
    case CallReset
    then show ?thesis using Cons.IH [of "rd_step c s"] Cons.prems by (auto simp: rd_defs)
  next
    case CallStop
    then show ?thesis using Cons.IH [of "rd_step c s"] Cons.prems by (auto simp: rd_defs)
  qed
qed simp

lemma of_nat_wrap:
  assumes "0 < n" "n < 2 ^ 64"
  shows "(of_nat n :: 64 word) \<noteq> 0"
proof
  assume z: "(of_nat n :: 64 word) = 0"
  have "unat (of_nat n :: 64 word) = n" using assms(2) by (simp add: unsigned_of_nat take_bit_nat_eq_self)
  then show False using z assms(1) by simp
qed

text \<open>
  C40: a delayed confirmation opens nothing: when a later connection or a stop has begun, and fewer than 2^64 of them, a
  confirmation for the old generation is refused and changes nothing; and a gate that is open was confirmed for its current
  generation and never stopped.
\<close>

theorem stale_confirmation_refused:
  assumes "rd_reset s = (g, s1)" "0 < bumps cs" "bumps cs < 2 ^ 64"
  shows "rd_confirm g (rd_run cs s1) = (False, rd_run cs s1) \<and>
    (rd_ready (rd_run cs s1) \<longrightarrow> CallConfirm (rd_generation (rd_run cs s1)) \<in> set cs \<and> CallStop \<notin> set cs \<and> \<not> rd_stopped s)"
proof
  have g: "g = rd_generation s1" "rd_stopped s1 = rd_stopped s" using assms(1) by (auto simp: rd_defs)
  have "rd_generation (rd_run cs s1) \<noteq> g"
    using of_nat_wrap [OF assms(2,3)] by (simp add: run_generation g(1))
  then show "rd_confirm g (rd_run cs s1) = (False, rd_run cs s1)" by (auto simp: rd_confirm_def)
  show "rd_ready (rd_run cs s1) \<longrightarrow> CallConfirm (rd_generation (rd_run cs s1)) \<in> set cs \<and> CallStop \<notin> set cs \<and> \<not> rd_stopped s"
    using run_subscribed [of cs s1] assms(2) by (auto simp: rd_ready_def run_stopped g(2))
qed

theorem stale_confirmation_refused_witness:
  "\<exists>g s1. rd_reset new_readiness = (g, s1) \<and> rd_confirm g (rd_run [CallReset] s1) = (False, rd_run [CallReset] s1)"
proof -
  obtain g s1 where eq: "rd_reset new_readiness = (g, s1)" by fastforce
  from stale_confirmation_refused [OF eq, of "[CallReset]"] show ?thesis using eq by simp
qed

end
