(* ===== verification/Worker.thy ===== *)
theory Worker
  imports Dead_Letter Tdengine Mqtt_Readiness Postgres_Safety
begin

text \<open>
  The device worker (\<^verbatim>\<open>worker.go\<close>, \<^verbatim>\<open>worker_storage.go\<close>, \<^verbatim>\<open>worker_ack.go\<close>): the body of each consumer loop for one
  message, the loops over fetched messages, the compensation scan and the ACK handler. A Go store is an interface whose
  optional methods are found by type assertion: here it is a record whose optional methods are \<open>None\<close> or \<open>Some\<close>. All
  effects go to the record \<open>world\<close>: the store, TDengine, the dead-letter topic, the MQTT downlinks, the committed
  offsets, the acknowledged MQTT messages and the counters.
\<close>

section \<open>Stores as the worker sees them\<close>

record ('e, 's) repo =
  rp_RecordTelemetry :: "'e \<Rightarrow> Envelope \<Rightarrow> 's \<Rightarrow> tel_result \<times> 's"
  rp_RecordTelemetryContext :: "('e \<Rightarrow> Envelope \<Rightarrow> 's \<Rightarrow> tel_result \<times> 's) option"
  rp_RestoreTelemetryContext :: "('e \<Rightarrow> TelemetryRecord \<Rightarrow> 's \<Rightarrow> tel_result \<times> 's) option"
  rp_MarkTelemetryTDengineWritten :: "('e \<Rightarrow> string \<Rightarrow> string \<Rightarrow> string \<Rightarrow> 's \<Rightarrow> unit result \<times> 's) option"
  rp_MarkTelemetryTDengineWrittenContext :: "('e \<Rightarrow> string \<Rightarrow> string \<Rightarrow> string \<Rightarrow> 's \<Rightarrow> unit result \<times> 's) option"
  rp_ListUnwrittenTelemetry :: "('e \<Rightarrow> gtime \<Rightarrow> int \<Rightarrow> string list \<Rightarrow> int \<Rightarrow> 's \<Rightarrow> (TelemetryRecord list \<times> int) result) option"
  rp_MarkCommandSent :: "('e \<Rightarrow> string \<Rightarrow> gtime \<Rightarrow> 's \<Rightarrow> unit result \<times> 's) option"
  rp_MarkCommandSentContext :: "('e \<Rightarrow> string \<Rightarrow> gtime \<Rightarrow> 's \<Rightarrow> unit result \<times> 's) option"
  rp_RequeueCommand :: "('e \<Rightarrow> string \<Rightarrow> duration \<Rightarrow> 's \<Rightarrow> unit result \<times> 's) option"
  rp_RequeueCommandContext :: "('e \<Rightarrow> string \<Rightarrow> duration \<Rightarrow> 's \<Rightarrow> unit result \<times> 's) option"
  rp_GetCommand :: "'e \<Rightarrow> string \<Rightarrow> 's \<Rightarrow> Command option"
  rp_GetCommandForDelivery :: "('e \<Rightarrow> string \<Rightarrow> 's \<Rightarrow> Command result) option"
  rp_AckCommand :: "'e \<Rightarrow> string \<Rightarrow> string \<Rightarrow> string \<Rightarrow> 's \<Rightarrow> Command result \<times> 's"
  rp_AckCommandContext :: "('e \<Rightarrow> string \<Rightarrow> string \<Rightarrow> string \<Rightarrow> 's \<Rightarrow> Command result \<times> 's) option"
  rp_AckCommandResultContext :: "('e \<Rightarrow> string \<Rightarrow> string \<Rightarrow> string \<Rightarrow> CommandResult \<Rightarrow> 's \<Rightarrow> Command result \<times> 's) option"

definition envelope_of_record :: "TelemetryRecord \<Rightarrow> Envelope" where
  "envelope_of_record rec = zero_envelope\<lparr>env_MsgID := rec_MsgID rec, env_TenantID := rec_TenantID rec, env_DeviceID := rec_DeviceID rec,
     env_Ts := rec_Ts rec, env_Type := rec_Type rec, env_Version := rec_Version rec, env_Payload := rec_Payload rec\<rparr>"

definition restoreStoredTelemetry :: "('e, 's) repo \<Rightarrow> 'e \<Rightarrow> TelemetryRecord \<Rightarrow> 's \<Rightarrow> tel_result \<times> 's" where
  "restoreStoredTelemetry store e rec s =
     (case rp_RestoreTelemetryContext store of
        Some restore \<Rightarrow> restore e rec s
      | None \<Rightarrow>
          (case rp_RecordTelemetryContext store of
             Some scoped \<Rightarrow> scoped e (envelope_of_record rec) s
           | None \<Rightarrow> rp_RecordTelemetry store e (envelope_of_record rec) s))"

text \<open>The next three are called only after an assertion that the store has the plain method, which is an argument.\<close>

definition markTelemetryWritten :: "('e, 's) repo \<Rightarrow> ('e \<Rightarrow> string \<Rightarrow> string \<Rightarrow> string \<Rightarrow> 's \<Rightarrow> unit result \<times> 's) \<Rightarrow>
    'e \<Rightarrow> string \<Rightarrow> string \<Rightarrow> string \<Rightarrow> 's \<Rightarrow> unit result \<times> 's" where
  "markTelemetryWritten store plain =
     (case rp_MarkTelemetryTDengineWrittenContext store of Some scoped \<Rightarrow> scoped | None \<Rightarrow> plain)"

definition markStoredCommandSent :: "('e, 's) repo \<Rightarrow> ('e \<Rightarrow> string \<Rightarrow> gtime \<Rightarrow> 's \<Rightarrow> unit result \<times> 's) \<Rightarrow>
    'e \<Rightarrow> string \<Rightarrow> gtime \<Rightarrow> 's \<Rightarrow> unit result \<times> 's" where
  "markStoredCommandSent store plain =
     (case rp_MarkCommandSentContext store of Some scoped \<Rightarrow> scoped | None \<Rightarrow> plain)"

definition requeueStoredCommand :: "('e, 's) repo \<Rightarrow> ('e \<Rightarrow> string \<Rightarrow> duration \<Rightarrow> 's \<Rightarrow> unit result \<times> 's) \<Rightarrow>
    'e \<Rightarrow> string \<Rightarrow> duration \<Rightarrow> 's \<Rightarrow> unit result \<times> 's" where
  "requeueStoredCommand store plain =
     (case rp_RequeueCommandContext store of Some scoped \<Rightarrow> scoped | None \<Rightarrow> plain)"

definition commandRetryBackoff :: "int \<Rightarrow> duration" where
  "commandRetryBackoff attempt = second * 2 ^ nat (min (max attempt 0) 6)"

section \<open>The worker and the world\<close>

record ('e, 's) Worker =
  wk_store :: "('e, 's) repo option"
  wk_tdengine :: "TDengineWriter option"
  wk_mqtt :: bool
  wk_tenantAllowlist :: "string list"
  wk_ackTimeout :: duration

record 's world =
  wd_store :: 's
  wd_td :: tdengine
  wd_dlq :: dlq
  wd_downlinks :: "(string \<times> string) list"
  wd_commits :: "KafkaMessage list"
  wd_pubacks :: "(string \<times> string) list"
  wd_fatal :: "gerror option"
  wd_readiness :: mqttReadiness
  wd_ready :: bool
  wd_stopping :: bool
  wd_counts :: "(string \<times> string) list"

text \<open>
  The environment of handling one message: the environment of its n-th store call, TDengine, the dead-letter writer, the
  error of the offset commit, the outcome of the MQTT publish (a timeout is an error) and whether a failed publish was
  delivered all the same, the clock, the tables of the JSON decoder, and which waits of the ACK retry were cancelled.
\<close>

record 'e step_env =
  se_store :: "nat \<Rightarrow> 'e"
  se_td :: td_env
  se_dlq :: dlq_env
  se_commit :: "gerror option"
  se_publish :: "gerror option"
  se_publish_lost :: bool
  se_now :: gtime
  se_fold :: "nat \<Rightarrow> nat"
  se_other :: "string \<Rightarrow> gtime option"
  se_cancelled :: "nat \<Rightarrow> bool"

definition IncDeviceWorker :: "string \<Rightarrow> string \<Rightarrow> 's world \<Rightarrow> 's world" where
  "IncDeviceWorker kind outcome wd = wd\<lparr>wd_counts := wd_counts wd @ [(kind, outcome)]\<rparr>"

definition commit_message :: "'e step_env \<Rightarrow> KafkaMessage \<Rightarrow> 's world \<Rightarrow> gerror option \<times> 's world" where
  "commit_message env msg wd =
     (case se_commit env of None \<Rightarrow> (None, wd\<lparr>wd_commits := wd_commits wd @ [msg]\<rparr>) | Some e \<Rightarrow> (Some e, wd))"

definition dead_letter :: "'e step_env \<Rightarrow> KafkaMessage \<Rightarrow> string \<Rightarrow> gerror \<Rightarrow> 's world \<Rightarrow> gerror option \<times> 's world" where
  "dead_letter env msg stage cause wd =
     (case commitAfterDeadLetter (se_dlq env) (se_commit env) msg stage cause (wd_dlq wd) of
        ((e, committed), q) \<Rightarrow>
          (e, wd\<lparr>wd_dlq := q, wd_commits := wd_commits wd @ (if committed then [msg] else [])\<rparr>))"

definition tenantAllowlist :: "string list \<Rightarrow> string list" where
  "tenantAllowlist tenantIDs = remdups (filter (\<lambda>t. t \<noteq> []) tenantIDs)"

definition tenantAllowed :: "('e, 's) Worker \<Rightarrow> string \<Rightarrow> bool" where
  "tenantAllowed w tenantID \<longleftrightarrow> wk_tenantAllowlist w = [] \<or> tenantID \<in> set (wk_tenantAllowlist w)"

definition tenantSetHash :: "(string \<Rightarrow> string) \<Rightarrow> string list \<Rightarrow> string" where
  "tenantSetHash sha tenantIDs =
     (let normalized = sort (remdups (filter (\<lambda>t. t \<noteq> []) tenantIDs))
      in take 32 (sha (concat (map (\<lambda>t. t @ [CHR 0x00]) normalized))))"

section \<open>Telemetry\<close>

text \<open>The end of the loop body: count and commit.\<close>

definition telemetry_done :: "'e step_env \<Rightarrow> KafkaMessage \<Rightarrow> 's world \<Rightarrow> gerror option \<times> 's world" where
  "telemetry_done env msg wd = commit_message env msg (IncDeviceWorker ''telemetry'' ''ok'' wd)"

definition mark_written :: "('e, 's) Worker \<Rightarrow> 'e \<Rightarrow> TelemetryRecord \<Rightarrow> 's world \<Rightarrow> gerror option \<times> 's world" where
  "mark_written w e rec wd =
     (case wk_store w of
        None \<Rightarrow> (None, wd)
      | Some store \<Rightarrow>
          (case rp_MarkTelemetryTDengineWritten store of
             None \<Rightarrow> (None, wd)
           | Some plain \<Rightarrow>
               (case markTelemetryWritten store plain e (rec_MsgID rec) (rec_TenantID rec) (rec_DeviceID rec) (wd_store wd) of
                  (r, s') \<Rightarrow> ((case r of Inl err \<Rightarrow> Some err | Inr _ \<Rightarrow> None), wd\<lparr>wd_store := s'\<rparr>))))"

definition telemetry_sink :: "('e, 's) Worker \<Rightarrow> 'e step_env \<Rightarrow> KafkaMessage \<Rightarrow> TelemetryRecord \<Rightarrow> 's world \<Rightarrow> gerror option \<times> 's world" where
  "telemetry_sink w env msg rec wd =
     (case wk_tdengine w of
        None \<Rightarrow> telemetry_done env msg wd
      | Some writer \<Rightarrow>
          (case WriteTelemetryContext (se_td env) (Some writer) rec (wd_td wd) of
             (Some err, td) \<Rightarrow>
               dead_letter env msg StageTelemetryTDengine err (IncDeviceWorker ''telemetry'' ''error'' (wd\<lparr>wd_td := td\<rparr>))
           | (None, td) \<Rightarrow> telemetry_done env msg (snd (mark_written w (se_store env 1) rec (wd\<lparr>wd_td := td\<rparr>)))))"

definition telemetry_message :: "('e, 's) Worker \<Rightarrow> 'e step_env \<Rightarrow> KafkaMessage \<Rightarrow> 's world \<Rightarrow> gerror option \<times> 's world" where
  "telemetry_message w env msg wd =
     (case unmarshal_record (se_fold env) (se_other env) (km_Value msg) of
        Inl err \<Rightarrow> dead_letter env msg StageTelemetryDecode err (IncDeviceWorker ''telemetry'' ''error'' wd)
      | Inr rec0 \<Rightarrow>
          if \<not> tenantAllowed w (rec_TenantID rec0) then commit_message env msg (IncDeviceWorker ''telemetry'' ''filtered'' wd)
          else
            let rec = (if IsZero (rec_ReceivedAt rec0) then rec0\<lparr>rec_ReceivedAt := km_Time msg\<rparr> else rec0) in
            case wk_store w of
              None \<Rightarrow> telemetry_sink w env msg rec wd
            | Some store \<Rightarrow>
                (case restoreStoredTelemetry store (se_store env 0) rec (wd_store wd) of
                   (TelStored stored, s') \<Rightarrow> telemetry_sink w env msg stored (wd\<lparr>wd_store := s'\<rparr>)
                 | (TelDuplicate stored, s') \<Rightarrow>
                     if rec_TDengineWritten stored then commit_message env msg (wd\<lparr>wd_store := s'\<rparr>)
                     else telemetry_sink w env msg stored (wd\<lparr>wd_store := s'\<rparr>)
                 | (TelFailed err, s') \<Rightarrow>
                     dead_letter env msg StageTelemetryPostgres err (IncDeviceWorker ''telemetry'' ''error'' (wd\<lparr>wd_store := s'\<rparr>))))"

section \<open>Commands\<close>

definition commandForDelivery :: "('e, 's) Worker \<Rightarrow> 'e \<Rightarrow> Command \<Rightarrow> 's \<Rightarrow> (Command \<times> bool) result" where
  "commandForDelivery w e event s =
     (case wk_store w of
        None \<Rightarrow> Inl [ErrOpaque ''command store is not configured'']
      | Some store \<Rightarrow>
          (case (case rp_GetCommandForDelivery store of
                   Some lookup \<Rightarrow> lookup e (cmd_ID event) s
                 | None \<Rightarrow> (case rp_GetCommand store e (cmd_ID event) s of None \<Rightarrow> Inl [ErrNotFound] | Some cmd \<Rightarrow> Inr cmd)) of
             Inl err \<Rightarrow> if IsNotFound err then Inr (zero_command, False) else Inl err
           | Inr cmd \<Rightarrow>
               if cmd_TenantID cmd \<noteq> cmd_TenantID event \<or> cmd_DeviceID cmd \<noteq> cmd_DeviceID event then Inr (zero_command, False)
               else Inr (cmd, cmd_Status cmd = CommandStatusCreated \<or> cmd_Status cmd = CommandStatusPublished)))"

definition downlink_of :: "Command \<Rightarrow> CommandDownlink" where
  "downlink_of cmd = \<lparr>dl_ID = cmd_ID cmd, dl_TenantID = cmd_TenantID cmd, dl_DeviceID = cmd_DeviceID cmd, dl_Status = cmd_Status cmd,
     dl_Payload = cmd_Payload cmd, dl_CreatedAt = cmd_CreatedAt cmd, dl_UpdatedAt = cmd_UpdatedAt cmd\<rparr>"

definition requeue_after_failure :: "('e, 's) Worker \<Rightarrow> 'e \<Rightarrow> Command \<Rightarrow> 's world \<Rightarrow> 's world" where
  "requeue_after_failure w e cmd wd =
     (case wk_store w of
        None \<Rightarrow> wd
      | Some store \<Rightarrow>
          (case rp_RequeueCommand store of
             None \<Rightarrow> wd
           | Some plain \<Rightarrow>
               wd\<lparr>wd_store := snd (requeueStoredCommand store plain e (cmd_ID cmd) (commandRetryBackoff (cmd_DispatchAttempts cmd)) (wd_store wd))\<rparr>))"

definition mark_sent :: "('e, 's) Worker \<Rightarrow> 'e \<Rightarrow> gtime \<Rightarrow> Command \<Rightarrow> 's world \<Rightarrow> gerror option \<times> 's world" where
  "mark_sent w e now cmd wd =
     (case wk_store w of
        None \<Rightarrow> (None, wd)
      | Some store \<Rightarrow>
          (case rp_MarkCommandSent store of
             None \<Rightarrow> (None, wd)
           | Some plain \<Rightarrow>
               (case markStoredCommandSent store plain e (cmd_ID cmd) (now + wk_ackTimeout w) (wd_store wd) of
                  (r, s') \<Rightarrow> ((case r of Inl err \<Rightarrow> Some err | Inr _ \<Rightarrow> None), wd\<lparr>wd_store := s'\<rparr>))))"

text \<open>The downlink of a command that is to be delivered.\<close>

definition deliver_command :: "('e, 's) Worker \<Rightarrow> 'e step_env \<Rightarrow> KafkaMessage \<Rightarrow> Command \<Rightarrow> 's world \<Rightarrow> gerror option \<times> 's world" where
  "deliver_command w env msg cmd wd =
     (case BuildCommandTopic (cmd_TenantID cmd) (cmd_DeviceID cmd) of
        Inl err \<Rightarrow> dead_letter env msg StageCommandTopic err (IncDeviceWorker ''command'' ''error'' wd)
      | Inr topic \<Rightarrow>
          (case marshal_downlink (downlink_of cmd) of
             Inl err \<Rightarrow> dead_letter env msg StageCommandEncode err (IncDeviceWorker ''command'' ''error'' wd)
           | Inr payload \<Rightarrow>
               (case se_publish env of
                  Some err \<Rightarrow>
                    let wd1 = (if se_publish_lost env then wd\<lparr>wd_downlinks := wd_downlinks wd @ [(topic, payload)]\<rparr> else wd) in
                    dead_letter env msg StageCommandMQTT err
                      (requeue_after_failure w (se_store env 1) cmd (IncDeviceWorker ''command'' ''error'' wd1))
                | None \<Rightarrow>
                    (case mark_sent w (se_store env 1) (se_now env) cmd (wd\<lparr>wd_downlinks := wd_downlinks wd @ [(topic, payload)]\<rparr>) of
                       (Some err, wd2) \<Rightarrow> (Some err, wd2)
                     | (None, wd2) \<Rightarrow> commit_message env msg (IncDeviceWorker ''command'' ''ok'' wd2)))))"

definition command_message :: "('e, 's) Worker \<Rightarrow> 'e step_env \<Rightarrow> KafkaMessage \<Rightarrow> 's world \<Rightarrow> gerror option \<times> 's world" where
  "command_message w env msg wd =
     (case unmarshal_command (se_fold env) (se_other env) (km_Value msg) of
        Inl err \<Rightarrow> dead_letter env msg StageCommandDecode err (IncDeviceWorker ''command'' ''error'' wd)
      | Inr event \<Rightarrow>
          if cmd_DispatchAttempts event < 0
          then dead_letter env msg StageCommandDecode [ErrOpaque ''negative command dispatchAttempts''] (IncDeviceWorker ''command'' ''error'' wd)
          else if \<not> tenantAllowed w (cmd_TenantID event) then commit_message env msg (IncDeviceWorker ''command'' ''filtered'' wd)
          else
            (case commandForDelivery w (se_store env 0) event (wd_store wd) of
               Inl err \<Rightarrow> (Some err, wd)
             | Inr (cmd, deliver) \<Rightarrow>
                 if \<not> deliver then commit_message env msg (IncDeviceWorker ''command'' ''duplicate'' wd)
                 else if \<not> wk_mqtt w then commit_message env msg (IncDeviceWorker ''command'' ''error'' wd)
                 else deliver_command w env msg cmd wd))"

section \<open>The consumer loops\<close>

datatype fetch = Fetched KafkaMessage | FetchError gerror

text \<open>
  What \<^verbatim>\<open>FetchMessage\<close> returns in order, each with the environment of its handling. The result is \<open>None\<close> while
  the loop goes on, else what the loop returned.
\<close>

fun consume :: "string \<Rightarrow> (gerror \<Rightarrow> bool) \<Rightarrow> ('e step_env \<Rightarrow> KafkaMessage \<Rightarrow> 's world \<Rightarrow> gerror option \<times> 's world) \<Rightarrow>
    (fetch \<times> 'e step_env) list \<Rightarrow> 's world \<Rightarrow> gerror option option \<times> 's world" where
  "consume kind temporary handle [] wd = (None, wd)"
| "consume kind temporary handle ((FetchError e, env) # rest) wd =
     (if errors_is e ErrCanceled then (Some None, wd)
      else if isRetriableKafkaError temporary e then consume kind temporary handle rest (IncDeviceWorker kind ''error'' wd)
      else (Some (Some e), IncDeviceWorker kind ''error'' wd))"
| "consume kind temporary handle ((Fetched msg, env) # rest) wd =
     (case handle env msg wd of
        (Some e, wd') \<Rightarrow> (Some (Some e), wd')
      | (None, wd') \<Rightarrow> consume kind temporary handle rest wd')"

definition consumeTelemetry :: "(gerror \<Rightarrow> bool) \<Rightarrow> ('e, 's) Worker \<Rightarrow> (fetch \<times> 'e step_env) list \<Rightarrow> 's world \<Rightarrow>
    gerror option option \<times> 's world" where
  "consumeTelemetry temporary w = consume ''telemetry'' temporary (telemetry_message w)"

definition consumeCommands :: "(gerror \<Rightarrow> bool) \<Rightarrow> ('e, 's) Worker \<Rightarrow> (fetch \<times> 'e step_env) list \<Rightarrow> 's world \<Rightarrow>
    gerror option option \<times> 's world" where
  "consumeCommands temporary w = consume ''command'' temporary (command_message w)"

section \<open>Compensation of TDengine writes\<close>

text \<open>Each row has its own environment; a row may find the context cancelled.\<close>

fun compensateTelemetryRows :: "('e, 's) Worker \<Rightarrow> (TelemetryRecord \<times> bool \<times> 'e step_env) list \<Rightarrow> 's world \<Rightarrow> bool \<times> 's world" where
  "compensateTelemetryRows w [] wd = (True, wd)"
| "compensateTelemetryRows w ((rec, cancelled, env) # rows) wd =
     (if cancelled then (False, wd)
      else if \<not> tenantAllowed w (rec_TenantID rec) then compensateTelemetryRows w rows wd
      else
        (case WriteTelemetryContext (se_td env) (wk_tdengine w) rec (wd_td wd) of
           (Some err, td) \<Rightarrow>
             let wd1 = IncDeviceWorker ''telemetry_compensate'' ''error'' (wd\<lparr>wd_td := td\<rparr>) in
             if isPermanentTDengineWriteError (te_code (se_td env)) err then compensateTelemetryRows w rows wd1 else (False, wd1)
         | (None, td) \<Rightarrow>
             (case mark_written w (se_store env 0) rec (wd\<lparr>wd_td := td\<rparr>) of
                (Some _, wd2) \<Rightarrow> compensateTelemetryRows w rows wd2
              | (None, wd2) \<Rightarrow> compensateTelemetryRows w rows (IncDeviceWorker ''telemetry_compensate'' ''ok'' wd2))))"

definition tdengineCompensateMinAge :: duration where
  "tdengineCompensateMinAge = 120 * second"

definition tdengineCompensateBatch :: int where
  "tdengineCompensateBatch = 500"

text \<open>One tick of \<^verbatim>\<open>compensateUnwrittenTelemetry\<close>: the new cursor and world. \<open>row_env\<close> gives each row of the batch its environment.\<close>

definition compensate_tick :: "('e, 's) Worker \<Rightarrow> 'e \<Rightarrow> gtime \<Rightarrow> (nat \<Rightarrow> bool \<times> 'e step_env) \<Rightarrow> int \<Rightarrow> 's world \<Rightarrow> int \<times> 's world" where
  "compensate_tick w e now row_env afterID wd =
     (case wk_store w of
        None \<Rightarrow> (afterID, wd)
      | Some store \<Rightarrow>
          (case (rp_ListUnwrittenTelemetry store, rp_MarkTelemetryTDengineWritten store) of
             (Some scan, Some _) \<Rightarrow>
               (case scan e (now - tdengineCompensateMinAge) afterID (wk_tenantAllowlist w) tdengineCompensateBatch (wd_store wd) of
                  Inl _ \<Rightarrow> (afterID, wd)
                | Inr (rows, nextID) \<Rightarrow>
                    if rows = [] then (0, wd)
                    else
                      (case compensateTelemetryRows w (map (\<lambda>i. (rows ! i, row_env i)) [0..<length rows]) wd of
                         (ok, wd') \<Rightarrow> (if ok then nextID else afterID, wd')))
           | _ \<Rightarrow> (afterID, wd)))"

section \<open>Acknowledgements from devices\<close>

record mqtt_message =
  mm_Topic :: string
  mm_Payload :: string

definition puback :: "mqtt_message \<Rightarrow> 's world \<Rightarrow> 's world" where
  "puback m wd = wd\<lparr>wd_pubacks := wd_pubacks wd @ [(mm_Topic m, mm_Payload m)]\<rparr>"

text \<open>The channel of fatal errors holds one error; a later one is dropped.\<close>

definition failAck :: "gerror \<Rightarrow> 's world \<Rightarrow> 's world" where
  "failAck err wd = wd\<lparr>wd_readiness := rd_stop (wd_readiness wd), wd_fatal := (case wd_fatal wd of None \<Rightarrow> Some err | Some e \<Rightarrow> Some e)\<rparr>"

definition rejectAck :: "mqtt_message \<Rightarrow> 's world \<Rightarrow> 's world" where
  "rejectAck m wd = puback m (IncDeviceWorker ''ack'' ''error'' wd)"

definition result_of_ack :: "CommandAckMessage \<Rightarrow> CommandResult" where
  "result_of_ack ack = \<lparr>res_Status = status_of_string (ack_Status ack), res_ErrorCode = ack_ErrorCode ack, res_Payload = ack_Payload ack\<rparr>"

definition applyAck :: "('e, 's) repo \<Rightarrow> 'e \<Rightarrow> CommandAckMessage \<Rightarrow> 's \<Rightarrow> gerror option \<times> 's" where
  "applyAck store e ack s =
     (let finish = (\<lambda>p. case p of (Inl err, s') \<Rightarrow> (Some err, s') | (Inr _, s') \<Rightarrow> (None, s')) in
      case rp_AckCommandResultContext store of
        Some f \<Rightarrow> finish (f e (ack_CommandID ack) (ack_TenantID ack) (ack_DeviceID ack) (result_of_ack ack) s)
      | None \<Rightarrow>
          if ack_Status ack \<noteq> ''acked'' \<or> ack_ErrorCode ack \<noteq> [] \<or> ack_Payload ack \<noteq> []
          then (Some [ErrOpaque ''ACK store does not support execution results''], s)
          else
            (case rp_AckCommandContext store of
               Some f \<Rightarrow> finish (f e (ack_CommandID ack) (ack_TenantID ack) (ack_DeviceID ack) s)
             | None \<Rightarrow> finish (rp_AckCommand store e (ack_CommandID ack) (ack_TenantID ack) (ack_DeviceID ack) s)))"

definition ackStoreAttempts :: nat where
  "ackStoreAttempts = 3"

text \<open>The retry loop; \<open>None\<close> means that the handler returned because the worker was stopped while it waited.\<close>

fun ack_loop :: "('e, 's) repo \<Rightarrow> 'e step_env \<Rightarrow> CommandAckMessage \<Rightarrow> nat \<Rightarrow> nat \<Rightarrow> gerror option \<Rightarrow> 's \<Rightarrow> gerror option option \<times> 's" where
  "ack_loop store env ack attempt 0 err s = (Some err, s)"
| "ack_loop store env ack attempt (Suc n) err s =
     (case applyAck store (se_store env attempt) ack s of
        (None, s') \<Rightarrow> (Some None, s')
      | (Some e, s') \<Rightarrow>
          if IsNotFound e \<or> errors_is e ErrAcknowledgementConflict then (Some (Some e), s')
          else if 0 < n \<and> se_cancelled env attempt then (None, s')
          else ack_loop store env ack (Suc attempt) n (Some e) s')"

text \<open>The outcome of the store decides between PUBACK, dead letter and failure.\<close>

definition finish_ack :: "'e step_env \<Rightarrow> mqtt_message \<Rightarrow> CommandAckMessage \<Rightarrow> gerror option \<Rightarrow> 's world \<Rightarrow> 's world" where
  "finish_ack env m ack err wd =
     (case err of
        None \<Rightarrow> puback m (IncDeviceWorker ''ack'' ''ok'' wd)
      | Some e \<Rightarrow>
          if IsNotFound e \<or> errors_is e ErrAcknowledgementConflict then rejectAck m wd
          else
            (case publishDeadLetter (se_dlq env)
                    \<lparr>km_Topic = mm_Topic m, km_Partition = 0, km_Offset = 0, km_Key = ack_CommandID ack, km_Value = mm_Payload m, km_Time = zero_time\<rparr>
                    StageCommandAck e (wd_dlq wd) of
               (Some d, q) \<Rightarrow> failAck d (IncDeviceWorker ''ack'' ''error'' (wd\<lparr>wd_dlq := q\<rparr>))
             | (None, q) \<Rightarrow> puback m (IncDeviceWorker ''ack'' ''error'' (wd\<lparr>wd_dlq := q\<rparr>))))"

definition ack_identity_ok :: "mqtt_message \<Rightarrow> CommandAckMessage \<Rightarrow> bool" where
  "ack_identity_ok m ack \<longleftrightarrow>
     (case ParseDeviceTopic (mm_Topic m) of
        None \<Rightarrow> False
      | Some (tenant, device, suff) \<Rightarrow>
          suff = TopicSuffixAck \<and> tenant = ack_TenantID ack \<and> device = ack_DeviceID ack \<and> ack_CommandID ack \<noteq> [])"

definition handleAckMessage :: "('e, 's) Worker \<Rightarrow> 'e step_env \<Rightarrow> mqtt_message \<Rightarrow> 's world \<Rightarrow> 's world" where
  "handleAckMessage w env m wd =
     (if wd_stopping wd then wd
      else case decode_ack (se_fold env) (mm_Payload m) of
        Inl _ \<Rightarrow> rejectAck m wd
      | Inr ack \<Rightarrow>
          if \<not> ack_identity_ok m ack then rejectAck m wd
          else (case NormalizeCommandResult (result_of_ack ack) of
             Inl _ \<Rightarrow> rejectAck m wd
           | Inr _ \<Rightarrow>
               (case wk_store w of
                  None \<Rightarrow> finish_ack env m ack (Some [ErrOpaque ''ACK store is not configured'']) wd
                | Some store \<Rightarrow>
                    (case ack_loop store env ack 0 ackStoreAttempts None (wd_store wd) of
                       (None, s') \<Rightarrow> wd\<lparr>wd_store := s'\<rparr>
                     | (Some err, s') \<Rightarrow> finish_ack env m ack err (wd\<lparr>wd_store := s'\<rparr>)))))"

text \<open>The subscription on connect: one filter after the other, each granted with QoS 1, then the gate is confirmed.\<close>

datatype suback = SubackStopped | SubackTimeout | SubackError gerror | SubackMissing | SubackGranted "nat option"

datatype subscription = SubscribedAll | SubscribeStopped | SubscribeFailed gerror

fun subscribe_all :: "(string \<times> suback) list \<Rightarrow> subscription" where
  "subscribe_all [] = SubscribedAll"
| "subscribe_all ((topic, reply) # rest) =
     (case reply of
        SubackStopped \<Rightarrow> SubscribeStopped
      | SubackTimeout \<Rightarrow> SubscribeFailed [ErrDeadlineExceeded]
      | SubackError e \<Rightarrow> SubscribeFailed e
      | SubackMissing \<Rightarrow> SubscribeFailed [ErrOpaque ''missing SUBACK result'']
      | SubackGranted q \<Rightarrow> if q = Some 1 then subscribe_all rest else SubscribeFailed [ErrOpaque ''expected QoS 1''])"

text \<open>While the handler waits for the replies other calls may reach the gate: \<open>meanwhile\<close>.\<close>

definition subscribeAckTopics :: "(string \<times> suback) list \<Rightarrow> rd_call list \<Rightarrow> 's world \<Rightarrow> 's world" where
  "subscribeAckTopics replies meanwhile wd =
     (case rd_reset (wd_readiness wd) of
        (generation, rd) \<Rightarrow>
          let wd1 = wd\<lparr>wd_readiness := rd_run meanwhile rd\<rparr> in
          (case subscribe_all replies of
             SubscribeFailed e \<Rightarrow> failAck e wd1
           | SubscribeStopped \<Rightarrow> wd1
           | SubscribedAll \<Rightarrow>
               (case rd_confirm generation (wd_readiness wd1) of
                  (confirmed, rd') \<Rightarrow> wd1\<lparr>wd_readiness := rd', wd_ready := wd_ready wd1 \<or> confirmed\<rparr>)))"

definition stopAckHandling :: "'s world \<Rightarrow> 's world" where
  "stopAckHandling wd = wd\<lparr>wd_readiness := rd_stop (wd_readiness wd), wd_stopping := True\<rparr>"

text \<open>
  \<^verbatim>\<open>Run\<close> waits for the connection, then for the subscriptions, then for the end of a consumer; the list holds what
  each of its waits returned. The consumers and the compensation run in the last phase only. On return the deferred
  function closes the gate and stops the admission of acknowledgements.
\<close>

datatype wake = WakePoll | WakeConnected "gerror option" | WakeDone | WakeFatal gerror | WakeReady | WakeConsumer "gerror option"

datatype run_phase = RunConnecting | RunAwaitingAcks | RunConsuming

fun run_waits :: "run_phase \<Rightarrow> wake list \<Rightarrow> gerror option option \<times> run_phase" where
  "run_waits ph [] = (None, ph)"
| "run_waits ph (WakeDone # _) = (Some None, ph)"
| "run_waits ph (WakeFatal e # _) = (Some (Some e), ph)"
| "run_waits RunConnecting (WakeConnected (Some e) # _) = (Some (Some e), RunConnecting)"
| "run_waits RunConnecting (WakeConnected None # ws) = run_waits RunAwaitingAcks ws"
| "run_waits RunAwaitingAcks (WakeReady # ws) = run_waits RunConsuming ws"
| "run_waits RunConsuming (WakeConsumer r # _) = (Some r, RunConsuming)"
| "run_waits ph (_ # ws) = run_waits ph ws"

definition worker_Run :: "gerror option \<Rightarrow> ('e, 's) Worker \<Rightarrow> wake list \<Rightarrow> 's world \<Rightarrow> gerror option option \<times> run_phase \<times> 's world" where
  "worker_Run startupErr w wakes wd =
     (case startupErr of
        Some e \<Rightarrow> (Some (Some e), RunConnecting, wd)
      | None \<Rightarrow>
          (case run_waits (if wk_mqtt w then RunConnecting else RunConsuming) wakes of
             (None, ph) \<Rightarrow> (None, ph, wd)
           | (Some r, ph) \<Rightarrow> (Some r, ph, stopAckHandling (wd\<lparr>wd_readiness := rd_stop (wd_readiness wd)\<rparr>))))"

text \<open>Nothing is consumed before the subscriptions are confirmed.\<close>

lemma run_waits_ready: "run_waits RunAwaitingAcks ws = (r, RunConsuming) \<Longrightarrow> WakeReady \<in> set ws"
  by (induction RunAwaitingAcks ws rule: run_waits.induct) auto

lemma run_consumes_after_ready:
  "run_waits RunConnecting ws = (r, RunConsuming) \<Longrightarrow> WakeConnected None \<in> set ws \<and> WakeReady \<in> set ws"
  by (induction RunConnecting ws rule: run_waits.induct) (auto dest: run_waits_ready)

definition worker_CheckReady :: "bool \<Rightarrow> ('e, 's) Worker \<Rightarrow> 's world \<Rightarrow> bool" where
  "worker_CheckReady connected w wd \<longleftrightarrow> wk_mqtt w \<and> connected \<and> rd_ready (wd_readiness wd)"

definition normalizeAckTopicFilters :: "string list \<Rightarrow> string \<Rightarrow> string list" where
  "normalizeAckTopicFilters filters single =
     (let topics = filter (\<lambda>t. t \<noteq> []) filters
      in if topics \<noteq> [] then topics else if single \<noteq> [] then [single] else [AckTopicFilter])"

text \<open>The parts of \<^verbatim>\<open>NewWorker\<close> that compute: defaults and the consumer groups.\<close>

definition worker_ack_timeout :: "duration \<Rightarrow> duration" where
  "worker_ack_timeout configured = (if configured \<le> 0 then 300 * second else configured)"

definition worker_group :: "(string \<Rightarrow> string) \<Rightarrow> string \<Rightarrow> string list \<Rightarrow> string" where
  "worker_group sha configured tenantIDs =
     (let base = (if configured = [] then ''iot-device-worker'' else configured)
      in if tenantAllowlist tenantIDs \<noteq> [] then base @ ''-'' @ tenantSetHash sha tenantIDs else base)"

section \<open>The PostgreSQL store as a worker store\<close>

definition pg_repo :: "(pgenv, pgdb) repo" where
  "pg_repo = \<lparr>
     rp_RecordTelemetry = pg_RecordTelemetryContext,
     rp_RecordTelemetryContext = Some pg_RecordTelemetryContext,
     rp_RestoreTelemetryContext = Some pg_RestoreTelemetryContext,
     rp_MarkTelemetryTDengineWritten = Some pg_MarkTelemetryTDengineWrittenContext,
     rp_MarkTelemetryTDengineWrittenContext = Some pg_MarkTelemetryTDengineWrittenContext,
     rp_ListUnwrittenTelemetry = Some pg_ListUnwrittenTelemetry,
     rp_MarkCommandSent = Some pg_MarkCommandSentContext,
     rp_MarkCommandSentContext = Some pg_MarkCommandSentContext,
     rp_RequeueCommand = Some pg_RequeueCommandContext,
     rp_RequeueCommandContext = Some pg_RequeueCommandContext,
     rp_GetCommand = (\<lambda>env uid db. case pg_GetCommandContext env uid db of Inl _ \<Rightarrow> None | Inr cmd \<Rightarrow> Some cmd),
     rp_GetCommandForDelivery = Some pg_GetCommandContext,
     rp_AckCommand = pg_AckCommandContext,
     rp_AckCommandContext = Some pg_AckCommandContext,
     rp_AckCommandResultContext = Some pg_AckCommandResultContext\<rparr>"

end
