(* ===== verification/Kafka_Publisher.thy ===== *)
theory Kafka_Publisher
  imports Dead_Letter
begin

text \<open>
  The producer of telemetry records and command events (\<^verbatim>\<open>KafkaPublisher\<close> of \<^verbatim>\<open>kafka_publisher.go\<close>): a record is encoded,
  keyed by its device and written with retries. A publisher is absent, or has or lacks each of its two writers.
\<close>

record KafkaPublisher =
  kp_telemetryWriter :: bool
  kp_commandWriter :: bool

text \<open>The two topics as key and value pairs, and the labels \<^verbatim>\<open>IncKafkaPublish\<close> was called with.\<close>

record kafka_log =
  kl_telemetry :: "(string \<times> string) list"
  kl_command :: "(string \<times> string) list"
  kl_counts :: "(string \<times> string) list"

definition IncKafkaPublish :: "string \<Rightarrow> string \<Rightarrow> kafka_log \<Rightarrow> kafka_log" where
  "IncKafkaPublish kind outcome log = log\<lparr>kl_counts := kl_counts log @ [(kind, outcome)]\<rparr>"

definition PublishTelemetry :: "kafka_env \<Rightarrow> KafkaPublisher option \<Rightarrow> TelemetryRecord \<Rightarrow> kafka_log \<Rightarrow> gerror option \<times> kafka_log" where
  "PublishTelemetry env p rec log =
     (case p of None \<Rightarrow> (None, log) | Some p \<Rightarrow>
      if \<not> kp_telemetryWriter p then (None, log)
      else
        (case marshal_record rec of
           Inl err \<Rightarrow> (Some err, IncKafkaPublish ''telemetry'' ''error'' log)
         | Inr value \<Rightarrow>
             (case writeKafkaMessageWithRetry env (rec_DeviceID rec, value) (kl_telemetry log) of
                (Some err, msgs) \<Rightarrow> (Some err, IncKafkaPublish ''telemetry'' ''error'' (log\<lparr>kl_telemetry := msgs\<rparr>))
              | (None, msgs) \<Rightarrow> (None, IncKafkaPublish ''telemetry'' ''ok'' (log\<lparr>kl_telemetry := msgs\<rparr>)))))"

definition PublishCommand :: "kafka_env \<Rightarrow> KafkaPublisher option \<Rightarrow> Command \<Rightarrow> kafka_log \<Rightarrow> gerror option \<times> kafka_log" where
  "PublishCommand env p cmd log =
     (case p of None \<Rightarrow> (None, log) | Some p \<Rightarrow>
      if \<not> kp_commandWriter p then (None, log)
      else
        (case marshal_command cmd of
           Inl err \<Rightarrow> (Some err, IncKafkaPublish ''command'' ''error'' log)
         | Inr value \<Rightarrow>
             (case writeKafkaMessageWithRetry env (cmd_DeviceID cmd, value) (kl_command log) of
                (Some err, msgs) \<Rightarrow> (Some err, IncKafkaPublish ''command'' ''error'' (log\<lparr>kl_command := msgs\<rparr>))
              | (None, msgs) \<Rightarrow> (None, IncKafkaPublish ''command'' ''ok'' (log\<lparr>kl_command := msgs\<rparr>)))))"

text \<open>A write that is reported as successful left the message in the topic; every write only appends copies of it.\<close>

lemma write_success_logged:
  "writeKafkaMessageWithRetry env msg log = (None, log') \<Longrightarrow> msg \<in> set log'"
proof -
  assume w: "writeKafkaMessageWithRetry env msg log = (None, log')"
  have "retry_delays \<noteq> []" by (simp add: retry_delays_def)
  then obtain k where "log' = log @ replicate k msg" "0 < k"
    using write_loop_copies [of retry_delays env msg 0 None log] w by (auto simp: writeKafkaMessageWithRetry_def)
  then show ?thesis by (cases k) auto
qed

lemma write_appends:
  "writeKafkaMessageWithRetry env msg log = (r, log') \<Longrightarrow> \<exists>k. log' = log @ replicate k msg"
  using write_loop_copies [of retry_delays env msg 0 None log] by (auto simp: writeKafkaMessageWithRetry_def)

lemma PublishTelemetry_None:
  assumes "PublishTelemetry env (Some p) rec log = (None, log')" "kp_telemetryWriter p"
  shows "\<exists>value. marshal_record rec = Inr value \<and> (rec_DeviceID rec, value) \<in> set (kl_telemetry log')"
  using assms write_success_logged
  by (fastforce simp: PublishTelemetry_def IncKafkaPublish_def split: sum.splits prod.splits option.splits)

lemma PublishCommand_None:
  assumes "PublishCommand env (Some p) cmd log = (None, log')" "kp_commandWriter p"
  shows "\<exists>value. marshal_command cmd = Inr value \<and> (cmd_DeviceID cmd, value) \<in> set (kl_command log')"
  using assms write_success_logged
  by (fastforce simp: PublishCommand_def IncKafkaPublish_def split: sum.splits prod.splits option.splits)

lemma PublishCommand_grows:
  "PublishCommand env p cmd log = (r, log') \<Longrightarrow> set (kl_command log) \<subseteq> set (kl_command log')"
  using write_appends
  by (fastforce simp: PublishCommand_def IncKafkaPublish_def split: sum.splits prod.splits option.splits if_splits)

end
