(* ===== verification/Worker_Safety.thy ===== *)
theory Worker_Safety
  imports Worker Kafka_Publisher
begin

text \<open>
  What the device worker guarantees with the PostgreSQL store: an offset is committed only when the message is stored or
  dead-lettered, a delivered command is not sent again, and an MQTT acknowledgement is confirmed to the broker only when it
  is persisted, dead-lettered or permanently invalid.
\<close>

section \<open>Dead letters and commits\<close>

definition dead_lettered :: "'e step_env \<Rightarrow> KafkaMessage \<Rightarrow> 's world \<Rightarrow> bool" where
  "dead_lettered env msg wd \<longleftrightarrow>
     (\<exists>stage cause. (km_Topic msg, marshal_dead_letter (dead_letter_of msg stage cause (dq_now (se_dlq env)))) \<in> set (dq_log (wd_dlq wd)))"

lemma publishDeadLetter_None:
  assumes "publishDeadLetter env msg stage cause q = (None, q')"
  shows "(km_Topic msg, marshal_dead_letter (dead_letter_of msg stage (dq_text env cause) (dq_now env))) \<in> set (dq_log q')"
  using assms write_success_logged by (fastforce simp: publishDeadLetter_def Let_def split: option.splits prod.splits)

lemma dead_letter_None:
  assumes "dead_letter env msg stage cause wd = (None, wd')"
  shows "dead_lettered env msg wd'" "wd_commits wd' = wd_commits wd @ [msg]" "wd_store wd' = wd_store wd"
  using assms publishDeadLetter_None [of "se_dlq env" msg stage cause "wd_dlq wd"]
  by (auto simp: dead_letter_def commitAfterDeadLetter_def dead_lettered_def split: prod.splits option.splits) blast

lemma commit_None:
  assumes "commit_message env msg wd = (None, wd')"
  shows "wd' = wd\<lparr>wd_commits := wd_commits wd @ [msg]\<rparr>"
  using assms by (auto simp: commit_message_def split: option.splits)

section \<open>Telemetry\<close>

lemma find_telemetry_later:
  assumes "db_later db db'" "find_telemetry k db \<noteq> None"
  shows "find_telemetry k db' \<noteq> None"
proof -
  have "set (map (\<lambda>r. telemetry_id (tr_Rec r)) (db_telemetry db)) \<subseteq> set (map (\<lambda>r. telemetry_id (tr_Rec r)) (db_telemetry db'))"
    using assms(1) by (intro set_mono_prefix) (simp add: db_later_def)
  then show ?thesis using assms(2) by (auto simp: find_telemetry_None)
qed

lemma find_telemetry_id: "find_telemetry k db = Some row \<Longrightarrow> telemetry_id (tr_Rec row) = k"
  by (auto simp: find_telemetry_def find_Some_iff)

lemma pg_mark_written:
  assumes "wk_store w = Some pg_repo"
  shows "db_later (wd_store wd) (wd_store (snd (mark_written w e rec wd)))" "wd_td (snd (mark_written w e rec wd)) = wd_td wd"
    "wd_commits (snd (mark_written w e rec wd)) = wd_commits wd"
  using assms written_later [of "wd_store wd" e "rec_MsgID rec" "rec_TenantID rec" "rec_DeviceID rec"]
  by (auto simp: mark_written_def pg_repo_def markTelemetryWritten_def split: prod.splits)

text \<open>What a record that went past the store has when its offset is committed.\<close>

definition sunk :: "('e, 's) Worker \<Rightarrow> 'e step_env \<Rightarrow> TelemetryRecord \<Rightarrow> 's world \<Rightarrow> bool" where
  "sunk w env rec wd \<longleftrightarrow>
     (case wk_tdengine w of None \<Rightarrow> True
      | Some writer \<Rightarrow> td_statement (te_sha (se_td env)) writer rec \<in> set (td_log (wd_td wd)))"

lemma write_None_logged:
  "WriteTelemetryContext env (Some writer) rec td = (None, td') \<Longrightarrow> td_statement (te_sha env) writer rec \<in> set (td_log td')"
  using writeRecord_log [of env writer rec td] by (auto simp: WriteTelemetryContext_def split: if_splits)

lemma telemetry_sink_None:
  assumes "wk_store w = Some pg_repo" "telemetry_sink w env msg rec wd = (None, wd')"
  shows "wd_commits wd' = wd_commits wd @ [msg]" "db_later (wd_store wd) (wd_store wd')" "dead_lettered env msg wd' \<or> sunk w env rec wd'"
proof -
  have "wd_commits wd' = wd_commits wd @ [msg] \<and> db_later (wd_store wd) (wd_store wd') \<and> (dead_lettered env msg wd' \<or> sunk w env rec wd')"
  proof (cases "wk_tdengine w")
    case None
    then show ?thesis
      using assms(2) by (auto simp: telemetry_sink_def telemetry_done_def IncDeviceWorker_def sunk_def dest!: commit_None)
  next
    case (Some writer)
    obtain r td where wr: "WriteTelemetryContext (se_td env) (Some writer) rec (wd_td wd) = (r, td)" by fastforce
    show ?thesis
    proof (cases r)
      case None
      let ?wd1 = "snd (mark_written w (se_store env 1) rec (wd\<lparr>wd_td := td\<rparr>))"
      have "commit_message env msg (IncDeviceWorker ''telemetry'' ''ok'' ?wd1) = (None, wd')"
        using assms(2) Some wr None by (simp add: telemetry_sink_def telemetry_done_def)
      from commit_None [OF this] show ?thesis
        using pg_mark_written [OF assms(1), where wd = "wd\<lparr>wd_td := td\<rparr>" and e = "se_store env 1" and rec = rec] write_None_logged [of "se_td env" writer rec "wd_td wd" td] wr None Some
        by (simp add: IncDeviceWorker_def sunk_def)
    next
      case e: (Some err)
      then have d: "dead_letter env msg StageTelemetryTDengine err (IncDeviceWorker ''telemetry'' ''error'' (wd\<lparr>wd_td := td\<rparr>)) = (None, wd')"
        using assms(2) Some wr by (simp add: telemetry_sink_def)
      from dead_letter_None [OF d] show ?thesis by (simp add: IncDeviceWorker_def)
    qed
  qed
  then show "wd_commits wd' = wd_commits wd @ [msg]" "db_later (wd_store wd) (wd_store wd')" "dead_lettered env msg wd' \<or> sunk w env rec wd'" by auto
qed


lemma dead_letter_Some:
  assumes "dead_letter env msg stage cause wd = (Some e, wd')"
  shows "wd_commits wd' = wd_commits wd"
  using assms by (auto simp: dead_letter_def commitAfterDeadLetter_def split: prod.splits option.splits)

lemma commit_Some: "commit_message env msg wd = (Some e, wd') \<Longrightarrow> wd' = wd"
  by (auto simp: commit_message_def split: option.splits)

lemma mark_written_commits [simp]: "wd_commits (snd (mark_written w e rec wd)) = wd_commits wd"
  by (auto simp: mark_written_def split: option.splits prod.splits)

lemma IncDeviceWorker_frame [simp]:
  "wd_commits (IncDeviceWorker k r wd) = wd_commits wd" "wd_store (IncDeviceWorker k r wd) = wd_store wd"
  "wd_td (IncDeviceWorker k r wd) = wd_td wd" "wd_dlq (IncDeviceWorker k r wd) = wd_dlq wd"
  "wd_downlinks (IncDeviceWorker k r wd) = wd_downlinks wd" "wd_pubacks (IncDeviceWorker k r wd) = wd_pubacks wd"
  "wd_fatal (IncDeviceWorker k r wd) = wd_fatal wd" "wd_readiness (IncDeviceWorker k r wd) = wd_readiness wd"
  by (simp_all add: IncDeviceWorker_def)

lemma telemetry_sink_Some:
  "telemetry_sink w env msg rec wd = (Some e, wd') \<Longrightarrow> wd_commits wd' = wd_commits wd"
  by (auto simp: telemetry_sink_def telemetry_done_def dest!: commit_Some dead_letter_Some split: option.splits prod.splits)

lemma telemetry_message_Some:
  "telemetry_message w env msg wd = (Some e, wd') \<Longrightarrow> wd_commits wd' = wd_commits wd"
  by (auto simp: telemetry_message_def Let_def dest!: commit_Some dead_letter_Some telemetry_sink_Some
      split: sum.splits option.splits prod.splits tel_result.splits if_splits)

text \<open>A record is kept when its row is in the store and either marked as written or just sent to TDengine.\<close>

definition kept :: "(pgenv, pgdb) Worker \<Rightarrow> pgenv step_env \<Rightarrow> TelemetryRecord \<Rightarrow> pgdb world \<Rightarrow> bool" where
  "kept w env rec wd \<longleftrightarrow>
     (case find_telemetry (telemetry_id rec) (wd_store wd) of
        None \<Rightarrow> False
      | Some row \<Rightarrow> rec_TDengineWritten (tr_Rec row) \<or> (\<exists>sent. telemetry_id sent = telemetry_id rec \<and> sunk w env sent wd))"

lemma telemetry_sink_kept:
  assumes "wk_store w = Some pg_repo" "telemetry_sink w env msg sent wd = (None, wd')" "telemetry_id sent = telemetry_id rec"
    "find_telemetry (telemetry_id rec) (wd_store wd) \<noteq> None"
  shows "wd_commits wd' = wd_commits wd @ [msg] \<and> (dead_lettered env msg wd' \<or> kept w env rec wd')"
  using telemetry_sink_None [OF assms(1,2)] find_telemetry_later [of "wd_store wd" "wd_store wd'" "telemetry_id rec"] assms(3,4)
  by (auto simp: kept_def split: option.splits)

lemma stored_telemetry_kept:
  assumes w: "wk_store w = Some pg_repo" and u: "unmarshal_record (se_fold env) (se_other env) (km_Value msg) = Inr rec0"
    and t: "tenantAllowed w (rec_TenantID rec0)" and m: "telemetry_message w env msg wd = (None, wd')"
  shows "wd_commits wd' = wd_commits wd @ [msg] \<and> (dead_lettered env msg wd' \<or> kept w env rec0 wd')"
proof -
  define rec where "rec = (if IsZero (rec_ReceivedAt rec0) then rec0\<lparr>rec_ReceivedAt := km_Time msg\<rparr> else rec0)"
  have id: "telemetry_id rec = telemetry_id rec0" by (simp add: rec_def)
  obtain r s' where rs: "pg_RestoreTelemetryContext (se_store env 0) rec (wd_store wd) = (r, s')" by fastforce
  have store: "restoreStoredTelemetry pg_repo (se_store env 0) rec (wd_store wd) = (r, s')"
    by (simp add: restoreStoredTelemetry_def pg_repo_def rs)
  note out = pg_restore_outcome [OF rs]
  show ?thesis
  proof (cases r)
    case (TelStored x)
    then obtain stored where s: "s' = tel_db (se_store env 0) rec stored (wd_store wd)" "x = rec\<lparr>rec_TDengineWritten := False\<rparr>"
      using out by auto
    have f: "find_telemetry (telemetry_id rec0) s' \<noteq> None" by (auto simp: s(1) tel_db_def tel_row_def find_telemetry_None id)
    have "telemetry_sink w env msg x (wd\<lparr>wd_store := s'\<rparr>) = (None, wd')"
      using m u t w store TelStored by (simp add: telemetry_message_def rec_def [symmetric])
    from telemetry_sink_kept [OF w this, of rec0] show ?thesis using f s(2) id by simp
  next
    case (TelDuplicate x)
    then obtain row where d: "s' = wd_store wd" "find_telemetry (telemetry_id rec0) s' = Some row" "x = tr_Rec row"
      using out by (auto simp: id)
    have "(if rec_TDengineWritten x then commit_message env msg (wd\<lparr>wd_store := s'\<rparr>)
        else telemetry_sink w env msg x (wd\<lparr>wd_store := s'\<rparr>)) = (None, wd')"
      using m u t w store TelDuplicate by (simp add: telemetry_message_def rec_def [symmetric])
    then show ?thesis
      using telemetry_sink_kept [OF w, of env msg x "wd\<lparr>wd_store := s'\<rparr>" wd' rec0] d find_telemetry_id [OF d(2)]
      by (auto simp: kept_def dest!: commit_None split: if_splits)
  next
    case (TelFailed e)
    then have "dead_letter env msg StageTelemetryPostgres e (IncDeviceWorker ''telemetry'' ''error'' (wd\<lparr>wd_store := s'\<rparr>)) = (None, wd')"
      using m u t w store by (simp add: telemetry_message_def rec_def [symmetric])
    from dead_letter_None [OF this] show ?thesis by simp
  qed
qed

text \<open>
  C3: no telemetry is lost: the worker goes past a Kafka message only with its offset committed, and then the message is
  in the dead-letter topic, or its tenant belongs to another worker, or its row is in PostgreSQL and is marked as written
  or its statement was sent to TDengine; when the handler fails the offset is not committed.
\<close>

theorem telemetry_not_lost:
  assumes "wk_store w = Some pg_repo" "telemetry_message w env msg wd = (r, wd')"
  shows "if r = None
    then wd_commits wd' = wd_commits wd @ [msg] \<and>
      (dead_lettered env msg wd' \<or>
       (\<exists>rec. unmarshal_record (se_fold env) (se_other env) (km_Value msg) = Inr rec \<and>
          (\<not> tenantAllowed w (rec_TenantID rec) \<or> kept w env rec wd')))
    else wd_commits wd' = wd_commits wd"
proof (cases r)
  case None
  show ?thesis
  proof (cases "unmarshal_record (se_fold env) (se_other env) (km_Value msg)")
    case (Inl e)
    then have "dead_letter env msg StageTelemetryDecode e (IncDeviceWorker ''telemetry'' ''error'' wd) = (None, wd')"
      using assms(2) None by (simp add: telemetry_message_def)
    from dead_letter_None [OF this] show ?thesis using None by simp
  next
    case (Inr rec)
    show ?thesis
    proof (cases "tenantAllowed w (rec_TenantID rec)")
      case True
      then show ?thesis using stored_telemetry_kept [OF assms(1) Inr True] assms(2) None Inr by auto
    next
      case False
      then have "commit_message env msg (IncDeviceWorker ''telemetry'' ''filtered'' wd) = (None, wd')"
        using assms(2) None Inr by (simp add: telemetry_message_def)
      from commit_None [OF this] show ?thesis using None Inr False by simp
    qed
  qed
next
  case (Some e)
  then show ?thesis using telemetry_message_Some assms(2) by fastforce
qed

section \<open>Commands\<close>

lemma dead_letter_downlinks [simp]: "wd_downlinks (snd (dead_letter env msg stage cause wd)) = wd_downlinks wd"
  by (simp add: dead_letter_def split: prod.splits)

lemma commit_downlinks [simp]: "wd_downlinks (snd (commit_message env msg wd)) = wd_downlinks wd"
  by (simp add: commit_message_def split: option.splits)

lemma requeue_downlinks [simp]: "wd_downlinks (requeue_after_failure w e cmd wd) = wd_downlinks wd"
  by (simp add: requeue_after_failure_def split: option.splits)

lemma mark_sent_downlinks [simp]: "wd_downlinks (snd (mark_sent w e now cmd wd)) = wd_downlinks wd"
  by (simp add: mark_sent_def split: option.splits prod.splits)

lemma deliver_downlinks:
  "wd_downlinks (snd (deliver_command w env msg cmd wd)) = wd_downlinks wd \<or>
   (\<exists>topic body. wd_downlinks (snd (deliver_command w env msg cmd wd)) = wd_downlinks wd @ [(topic, body)] \<and>
      BuildCommandTopic (cmd_TenantID cmd) (cmd_DeviceID cmd) = Inr topic \<and> marshal_downlink (downlink_of cmd) = Inr body)"
proof -
  have m: "wd_downlinks wd2 = wd_downlinks wd1" if "mark_sent w e now cmd wd1 = (r, wd2)" for e now wd1 wd2 r
    using that mark_sent_downlinks [of w e now cmd wd1] by simp
  show ?thesis
    by (auto simp: deliver_command_def Let_def dest!: m split: sum.splits option.splits prod.splits)
qed

lemma pg_commandForDelivery:
  assumes "wk_store w = Some pg_repo" "commandForDelivery w e event db = Inr (cmd, True)"
  shows "\<exists>row. find_command (cmd_ID event) db = Some row \<and> scanCommandRow (pe_fold e) row = Inr cmd \<and>
    cr_Tenant row = cmd_TenantID event \<and> cr_Device row = cmd_DeviceID event \<and> phase (cr_Status row) = 0"
proof -
  let ?q = "pg_GetCommandContext e (cmd_ID event) db"
  have q: "?q = Inr cmd" and c: "cmd_TenantID cmd = cmd_TenantID event" "cmd_DeviceID cmd = cmd_DeviceID event"
      "cmd_Status cmd = CommandStatusCreated \<or> cmd_Status cmd = CommandStatusPublished"
    using assms by (auto simp: commandForDelivery_def pg_repo_def split: sum.splits if_splits)
  from q obtain row where r: "find_command (cmd_ID event) db = Some row" "scanCommandRow (pe_fold e) row = Inr cmd"
    by (auto simp: pg_GetCommandContext_def db_query_def split: option.splits)
  then show ?thesis using c scan_fields [OF r(2)] by (auto simp: phase_def)
qed

lemma command_message_downlinks:
  "wd_downlinks (snd (command_message w env msg wd)) = wd_downlinks wd \<or>
   (\<exists>event cmd. unmarshal_command (se_fold env) (se_other env) (km_Value msg) = Inr event \<and> tenantAllowed w (cmd_TenantID event) \<and>
      commandForDelivery w (se_store env 0) event (wd_store wd) = Inr (cmd, True) \<and>
      command_message w env msg wd = deliver_command w env msg cmd wd)"
  by (auto simp: command_message_def split: sum.splits prod.splits)

text \<open>
  C6: a downlink is the stored command and goes to its own device: whatever a Kafka message says and however its handling
  ends, the worker publishes at most one message, on the topic of the tenant and the device of the stored command, which are
  those of the event and a tenant this worker serves; its body encodes the stored command, which was created or published.
\<close>

theorem downlink_of_stored_command:
  assumes "wk_store w = Some pg_repo" "wd_downlinks (snd (command_message w env msg wd)) \<noteq> wd_downlinks wd"
  shows "\<exists>event row cmd topic body.
    unmarshal_command (se_fold env) (se_other env) (km_Value msg) = Inr event \<and> tenantAllowed w (cmd_TenantID event) \<and>
    find_command (cmd_ID event) (wd_store wd) = Some row \<and> scanCommandRow (pe_fold (se_store env 0)) row = Inr cmd \<and>
    cr_Tenant row = cmd_TenantID event \<and> cr_Device row = cmd_DeviceID event \<and>
    (cr_Status row = CommandStatusCreated \<or> cr_Status row = CommandStatusPublished) \<and>
    BuildCommandTopic (cr_Tenant row) (cr_Device row) = Inr topic \<and> marshal_downlink (downlink_of cmd) = Inr body \<and>
    wd_downlinks (snd (command_message w env msg wd)) = wd_downlinks wd @ [(topic, body)]"
proof -
  obtain event cmd where e: "unmarshal_command (se_fold env) (se_other env) (km_Value msg) = Inr event"
      "tenantAllowed w (cmd_TenantID event)" "commandForDelivery w (se_store env 0) event (wd_store wd) = Inr (cmd, True)"
      "command_message w env msg wd = deliver_command w env msg cmd wd"
    using command_message_downlinks [of w env msg wd] assms(2) by auto
  obtain row where r: "find_command (cmd_ID event) (wd_store wd) = Some row" "scanCommandRow (pe_fold (se_store env 0)) row = Inr cmd"
      "cr_Tenant row = cmd_TenantID event" "cr_Device row = cmd_DeviceID event" "phase (cr_Status row) = 0"
    using pg_commandForDelivery [OF assms(1) e(3)] by auto
  obtain topic body where d: "wd_downlinks (snd (deliver_command w env msg cmd wd)) = wd_downlinks wd @ [(topic, body)]"
      "BuildCommandTopic (cmd_TenantID cmd) (cmd_DeviceID cmd) = Inr topic" "marshal_downlink (downlink_of cmd) = Inr body"
    using deliver_downlinks [of w env msg cmd wd] assms(2) e(4) by auto
  have "cr_Status row = CommandStatusCreated \<or> cr_Status row = CommandStatusPublished"
    using r(5) by (auto simp: phase_def split: if_splits)
  then show ?thesis using e r d scan_fields [OF r(2)] by metis
qed

lemma sent_row:
  assumes "pg_MarkCommandSentContext e uid deadline db = (Inr u, db')" "find_command uid db = Some row" "phase (cr_Status row) = 0"
  shows "\<exists>row'. find_command uid db' = Some row' \<and> cr_Status row' = CommandStatusSent"
proof -
  let ?f = "\<lambda>r. r\<lparr>cr_Status := CommandStatusSent, cr_Deadline := Some (pe_stamp e deadline), cr_UpdatedAt := pe_dbnow e\<rparr>"
  have k: "keeps_identity ?f" by (simp add: keeps_identity_def)
  have "cr_ID row = uid" using find_command_Some [OF assms(2)] by simp
  moreover have "cr_Status row = CommandStatusCreated \<or> cr_Status row = CommandStatusPublished"
    using assms(3) by (auto simp: phase_def split: if_splits)
  ultimately show ?thesis
    using assms(1,2)
    by (auto simp: pg_MarkCommandSentContext_def ignore_count_def updateCommandsWithEvent_def db_commit_def Let_def find_update [OF k]
        split: option.splits)
qed

lemma delivered_row:
  assumes w: "wk_store w = Some pg_repo" and m: "command_message w env msg wd = (None, wd')" and p: "se_publish env = None"
    and d: "wd_downlinks wd' \<noteq> wd_downlinks wd" and e: "unmarshal_command (se_fold env) (se_other env) (km_Value msg) = Inr event"
  shows "pg_step (wd_store wd) (wd_store wd')" "\<exists>row. find_command (cmd_ID event) (wd_store wd') = Some row \<and> cr_Status row = CommandStatusSent"
proof -
  obtain cmd where c: "commandForDelivery w (se_store env 0) event (wd_store wd) = Inr (cmd, True)"
      "deliver_command w env msg cmd wd = (None, wd')"
    using command_message_downlinks [of w env msg wd] m d e by auto
  obtain row where r: "find_command (cmd_ID event) (wd_store wd) = Some row" "scanCommandRow (pe_fold (se_store env 0)) row = Inr cmd"
      "phase (cr_Status row) = 0"
    using pg_commandForDelivery [OF w c(1)] by auto
  have i: "cmd_ID cmd = cmd_ID event" using scan_fields(1) [OF r(2)] find_command_Some [OF r(1)] by simp
  obtain topic body where t: "BuildCommandTopic (cmd_TenantID cmd) (cmd_DeviceID cmd) = Inr topic" "marshal_downlink (downlink_of cmd) = Inr body"
    using deliver_downlinks [of w env msg cmd wd] c(2) d by auto
  obtain u s where s: "pg_MarkCommandSentContext (se_store env 1) (cmd_ID event) (se_now env + wk_ackTimeout w) (wd_store wd) = (Inr u, s)"
      "wd_store wd' = s"
    using c(2) p t w by (auto simp: deliver_command_def mark_sent_def pg_repo_def markStoredCommandSent_def i
        dest!: commit_None split: sum.splits option.splits prod.splits)
  from sent_row [OF s(1) r(1,3)] show "\<exists>row. find_command (cmd_ID event) (wd_store wd') = Some row \<and> cr_Status row = CommandStatusSent"
    using s(2) by simp
  show "pg_step (wd_store wd) (wd_store wd')"
    using pg_step.call [of "wd_store wd" "OpSent (cmd_ID event) (se_now env + wk_ackTimeout w)" "se_store env 1"] s by simp
qed


section \<open>Acknowledgements\<close>

text \<open>Errors of the driver and the network are neither of the two errors by which the store refuses an acknowledgement.\<close>

definition refusal :: "gerror \<Rightarrow> bool" where
  "refusal e \<longleftrightarrow> IsNotFound e \<or> errors_is e ErrAcknowledgementConflict"

definition driver_faults :: "pgenv step_env \<Rightarrow> bool" where
  "driver_faults env \<longleftrightarrow> (\<forall>k n. case pe_fault (se_store env k) n of None \<Rightarrow> True | Some e \<Rightarrow> \<not> refusal e)"

definition ack_row :: "CommandAckMessage \<Rightarrow> CmdRow \<Rightarrow> bool" where
  "ack_row ack row \<longleftrightarrow> cr_Tenant row = ack_TenantID ack \<and> cr_Device row = ack_DeviceID ack"

text \<open>The command has a final status for its device, or there is no command of this device with that identifier.\<close>

definition ack_settled :: "CommandAckMessage \<Rightarrow> pgdb \<Rightarrow> bool" where
  "ack_settled ack db \<longleftrightarrow>
     (case find_command (ack_CommandID ack) db of None \<Rightarrow> True | Some row \<Rightarrow> ack_row ack row \<longrightarrow> terminal (cr_Status row))"

lemma pg_apply_ack_refused:
  assumes "\<And>n e. pe_fault env n = Some e \<Longrightarrow> \<not> refusal e" "pg_apply_ack env uid t d normalized encoded row cmd db = (Inl e, db')"
    "refusal e" "cmd_TenantID cmd = cr_Tenant row" "cmd_DeviceID cmd = cr_Device row" "cmd_Status cmd = cr_Status row"
  shows "db' = db \<and> (cr_Tenant row = t \<and> cr_Device row = d \<longrightarrow> terminal (cr_Status row))"
proof -
  have adv: "\<not> refusal x" if "AdvanceCommandStatus a b = Inl x" for a b x
    using that by (auto simp: AdvanceCommandStatus_def refusal_def IsNotFound_def split: CommandStatus.splits CommandEvent.splits)
  show ?thesis
    using assms adv
    by (auto simp: pg_apply_ack_def db_commit_def db_call_def Let_def refusal_def IsNotFound_def terminal_def
        split: if_splits option.splits sum.splits)
qed

lemma pg_ack_refused:
  assumes f: "\<And>n e. pe_fault env n = Some e \<Longrightarrow> \<not> refusal e" and n: "NormalizeCommandResult input = Inr res"
    and a: "pg_AckCommandResultContext env uid t d input db = (Inl e, db')" and e: "refusal e"
  shows "db' = db \<and> (case find_command uid db of None \<Rightarrow> True | Some row \<Rightarrow> cr_Tenant row = t \<and> cr_Device row = d \<longrightarrow> terminal (cr_Status row))"
proof (cases "find_command uid db")
  case None
  then show ?thesis
    using a n f e by (auto simp: pg_AckCommandResultContext_def db_call_def split: option.splits)
next
  case (Some row)
  have u: "\<not> refusal x" if "scanCommandRow (pe_fold env) row = Inl x" for x
    using that by (auto simp: scanCommandRow_def unmarshal_result_def refusal_def IsNotFound_def Let_def bind_res_eq_Inr
        split: option.splits if_splits json.splits)
  have v: "\<not> refusal x" if "ValidateDeviceIdentity t d = Some x \<or> ValidateCommandID uid = Some x" for x
    using that by (auto simp: ValidateDeviceIdentity_def ValidateCommandID_def refusal_def IsNotFound_def split: if_splits)
  have j: "\<not> refusal [ErrOpaque x]" for x by (simp add: refusal_def IsNotFound_def)
  obtain encoded cmd where "pg_apply_ack env uid t d res encoded row cmd db = (Inl e, db')" "scanCommandRow (pe_fold env) row = Inr cmd"
    using a n Some e f u v j by (auto simp: pg_AckCommandResultContext_def db_call_def split: option.splits sum.splits)
  from pg_apply_ack_refused [OF f this(1) e] scan_fields [OF this(2)] show ?thesis using Some by simp
qed

lemma applyAck_pg:
  "applyAck pg_repo e ack db =
     (case pg_AckCommandResultContext e (ack_CommandID ack) (ack_TenantID ack) (ack_DeviceID ack) (result_of_ack ack) db of
        (Inl err, s') \<Rightarrow> (Some err, s') | (Inr _, s') \<Rightarrow> (None, s'))"
  by (simp add: applyAck_def pg_repo_def)

lemma applyAck_outcome:
  assumes "driver_faults env" "NormalizeCommandResult (result_of_ack ack) = Inr res" "db_ok db"
    "applyAck pg_repo (se_store env k) ack db = (r, db')"
  shows "db_ok db'" "r = None \<or> (\<exists>e. r = Some e \<and> refusal e) \<Longrightarrow> ack_settled ack db'"
proof -
  have f: "\<not> refusal e" if "pe_fault (se_store env k) n = Some e" for n e
    using assms(1) that unfolding driver_faults_def by (metis option.simps(5))
  obtain x where a: "pg_AckCommandResultContext (se_store env k) (ack_CommandID ack) (ack_TenantID ack) (ack_DeviceID ack) (result_of_ack ack) db = (x, db')"
      and r: "r = (case x of Inl e \<Rightarrow> Some e | Inr _ \<Rightarrow> None)"
    using assms(4) by (auto simp: applyAck_pg split: prod.splits sum.splits)
  show "db_ok db'" using pg_ack_ok [OF assms(3), of "se_store env k" "ack_CommandID ack" "ack_TenantID ack" "ack_DeviceID ack" "result_of_ack ack"] a by simp
  assume d: "r = None \<or> (\<exists>e. r = Some e \<and> refusal e)"
  show "ack_settled ack db'"
  proof (cases x)
    case (Inl e)
    then show ?thesis using pg_ack_refused [OF f assms(2)] a d r by (fastforce simp: ack_settled_def ack_row_def split: option.splits)
  next
    case (Inr c)
    from acked_row_later [OF assms(3) a [unfolded Inr]] obtain row where "find_command (ack_CommandID ack) db' = Some row" "terminal (cr_Status row)" .
    then show ?thesis by (simp add: ack_settled_def)
  qed
qed

lemma ack_loop_outcome:
  assumes "driver_faults env" "NormalizeCommandResult (result_of_ack ack) = Inr res" "db_ok db"
    "ack_loop pg_repo env ack k n err db = (Some r, db')" "err = None \<longrightarrow> 0 < n" "\<forall>e. err = Some e \<longrightarrow> \<not> refusal e"
    "r = None \<or> (\<exists>e. r = Some e \<and> refusal e)"
  shows "ack_settled ack db'"
  using assms(3-)
proof (induction n arbitrary: k err db)
  case 0
  then show ?case by auto
next
  case (Suc n)
  obtain x s where a: "applyAck pg_repo (se_store env k) ack db = (x, s)" by fastforce
  note out = applyAck_outcome [OF assms(1,2) Suc.prems(1) a]
  show ?case
  proof (cases x)
    case None
    then show ?thesis using Suc.prems(2) a out(2) by simp
  next
    case (Some e)
    show ?thesis
    proof (cases "refusal e")
      case True
      then have "ack_settled ack s" using out(2) Some by blast
      then show ?thesis using Suc.prems(2) a Some True by (simp add: refusal_def)
    next
      case False
      then have "ack_loop pg_repo env ack (Suc k) n (Some e) s = (Some r, db')"
        using Suc.prems(2) a Some by (auto simp: refusal_def split: if_splits)
      from Suc.IH [OF out(1) this] show ?thesis using False Suc.prems(5) by simp
    qed
  qed
qed

text \<open>
  C5: no acknowledgement is lost: an acceptable acknowledgement is confirmed to the broker only when the command of that
  device has a final status, or the device has no such command, or the message is in the dead-letter topic. Otherwise the
  worker reports a fatal error and takes itself out of service, or it was stopped while it waited to try again.
\<close>

theorem ack_not_lost:
  assumes "wk_store w = Some pg_repo" "pg_reachable (wd_store wd)" "driver_faults env"
    "decode_ack (se_fold env) (mm_Payload m) = Inr ack" "ack_identity_ok m ack" "NormalizeCommandResult (result_of_ack ack) = Inr res"
    "\<not> wd_stopping wd" "handleAckMessage w env m wd = wd'"
  shows "wd_pubacks wd' = wd_pubacks wd @ [(mm_Topic m, mm_Payload m)] \<and>
      (ack_settled ack (wd_store wd') \<or>
       (\<exists>cause. (mm_Topic m, marshal_dead_letter (dead_letter_of
          \<lparr>km_Topic = mm_Topic m, km_Partition = 0, km_Offset = 0, km_Key = ack_CommandID ack, km_Value = mm_Payload m, km_Time = zero_time\<rparr>
          StageCommandAck cause (dq_now (se_dlq env)))) \<in> set (dq_log (wd_dlq wd')))) \<or>
    wd_pubacks wd' = wd_pubacks wd \<and> (wd_fatal wd' \<noteq> None \<and> \<not> rd_ready (wd_readiness wd') \<or> (\<exists>k. se_cancelled env k))"
proof -
  obtain r s where l: "ack_loop pg_repo env ack 0 ackStoreAttempts None (wd_store wd) = (r, s)" by fastforce
  show ?thesis
  proof (cases r)
    case None
    have c: "\<exists>k. se_cancelled env k" if "ack_loop store env ack k n e db = (None, s)" for store k n e db
      using that by (induction n arbitrary: k e db) (auto split: prod.splits option.splits if_splits)
    from c [OF l [unfolded None]] show ?thesis using assms l None by (auto simp: handleAckMessage_def)
  next
    case (Some err)
    have w: "wd' = finish_ack env m ack err (wd\<lparr>wd_store := s\<rparr>)" using assms l Some by (simp add: handleAckMessage_def)
    have st: "ack_settled ack s" if "err = None \<or> (\<exists>e. err = Some e \<and> refusal e)"
      using ack_loop_outcome [OF assms(3,6) pg_reachable_ok [OF assms(2)] l [unfolded Some]] that by (simp add: ackStoreAttempts_def)
    show ?thesis
    proof (cases "err = None \<or> (\<exists>e. err = Some e \<and> refusal e)")
      case True
      then show ?thesis using st w by (auto simp: finish_ack_def rejectAck_def puback_def refusal_def)
    next
      case False
      then obtain e where e: "err = Some e" "\<not> refusal e" by auto
      let ?msg = "\<lparr>km_Topic = mm_Topic m, km_Partition = 0, km_Offset = 0, km_Key = ack_CommandID ack, km_Value = mm_Payload m, km_Time = zero_time\<rparr>"
      obtain d q where d: "publishDeadLetter (se_dlq env) ?msg StageCommandAck e (wd_dlq wd) = (d, q)" by fastforce
      show ?thesis
      proof (cases d)
        case None
        then show ?thesis
          using w e d publishDeadLetter_None [OF d [unfolded None]] by (auto simp: finish_ack_def puback_def refusal_def)
      next
        case (Some err')
        then show ?thesis using w e d by (simp add: finish_ack_def failAck_def refusal_def rd_stop_def rd_ready_def split: option.splits)
      qed
    qed
  qed
qed

section \<open>Sample runs\<close>

definition wk_sample_worker :: "(pgenv, pgdb) Worker" where
  "wk_sample_worker = \<lparr>wk_store = Some pg_repo,
     wk_tdengine = Some \<lparr>tw_database = ''iot'', tw_table = ''telemetry'', tw_closed = False, tw_writeTimeout = second\<rparr>,
     wk_mqtt = True, wk_tenantAllowlist = [''acme''], wk_ackTimeout = second\<rparr>"

definition wk_sample_world :: "pgdb \<Rightarrow> pgdb world" where
  "wk_sample_world db = \<lparr>wd_store = db, wd_td = \<lparr>td_log = [], td_counts = []\<rparr>, wd_dlq = \<lparr>dq_log = [], dq_counts = []\<rparr>,
     wd_downlinks = [], wd_commits = [], wd_pubacks = [], wd_fatal = None, wd_readiness = new_readiness, wd_ready = False, wd_stopping = False, wd_counts = []\<rparr>"

definition wk_sample_env :: "pgenv step_env" where
  "wk_sample_env = \<lparr>se_store = (\<lambda>_. pg_sample_env 6000),
     se_td = \<lparr>te_fault = (\<lambda>_. None), te_lost = False, te_precision = ''ms'', te_sha = (\<lambda>s. s), te_code = (\<lambda>_. None)\<rparr>,
     se_dlq = \<lparr>dq_writer = None, dq_text = (\<lambda>_. []), dq_now = 6000\<rparr>, se_commit = None, se_publish = None, se_publish_lost = False,
     se_now = 6000, se_fold = id, se_other = (\<lambda>_. None), se_cancelled = (\<lambda>_. False)\<rparr>"

definition wk_sample_telemetry :: KafkaMessage where
  \<open>wk_sample_telemetry = \<lparr>km_Topic = ''t'', km_Partition = 0, km_Offset = 1, km_Key = ''k'',
     km_Value = ''{"msgId":"m1","tenantId":"acme","deviceId":"d1","ts":7,"type":"telemetry","version":"1","payload":{}}'', km_Time = 6000\<rparr>\<close>

definition wk_sample_command :: KafkaMessage where
  \<open>wk_sample_command = \<lparr>km_Topic = ''t'', km_Partition = 0, km_Offset = 1, km_Key = ''k'',
     km_Value = ''{"id":"0190a1b2-c3d4-7e5f-8a6b-7c8d9e0f1a2b","tenantId":"acme","deviceId":"d1"}'', km_Time = 6000\<rparr>\<close>

definition wk_sample_ack :: mqtt_message where
  \<open>wk_sample_ack = \<lparr>mm_Topic = ''tenant/acme/device/d1/ack'',
     mm_Payload = ''{"commandId":"0190a1b2-c3d4-7e5f-8a6b-7c8d9e0f1a2b","tenantId":"acme","deviceId":"d1","status":"acked"}''\<rparr>\<close>

lemma wk_sample_store [simp]: "wk_store wk_sample_worker = Some pg_repo"
  by (simp add: wk_sample_worker_def)

lemma wk_sample_delivery:
  "case unmarshal_command (se_fold wk_sample_env) (se_other wk_sample_env) (km_Value wk_sample_command) of Inl _ \<Rightarrow> False | Inr event \<Rightarrow>
     (let p = command_message wk_sample_worker wk_sample_env wk_sample_command (wk_sample_world pg_sample_created)
      in fst p = None \<and> length (wd_downlinks (snd p)) = 1)"
  by code_simp

theorem telemetry_not_lost_witness:
  "\<exists>wd'. telemetry_message wk_sample_worker wk_sample_env wk_sample_telemetry (wk_sample_world pg_sample_devices) = (None, wd') \<and>
     wd_commits wd' = [wk_sample_telemetry]"
proof -
  have "fst (telemetry_message wk_sample_worker wk_sample_env wk_sample_telemetry (wk_sample_world pg_sample_devices)) = None"
    by code_simp
  then obtain wd' where m: "telemetry_message wk_sample_worker wk_sample_env wk_sample_telemetry (wk_sample_world pg_sample_devices) = (None, wd')"
    by (metis prod.collapse)
  from telemetry_not_lost [OF wk_sample_store m] show ?thesis using m by (simp add: wk_sample_world_def)
qed

theorem downlink_of_stored_command_witness:
  "\<exists>topic body. wd_downlinks (snd (command_message wk_sample_worker wk_sample_env wk_sample_command (wk_sample_world pg_sample_created))) = [(topic, body)]"
proof -
  have "wd_downlinks (snd (command_message wk_sample_worker wk_sample_env wk_sample_command (wk_sample_world pg_sample_created))) \<noteq>
      wd_downlinks (wk_sample_world pg_sample_created)"
    using wk_sample_delivery by (auto simp: Let_def wk_sample_world_def split: sum.splits)
  from downlink_of_stored_command [OF wk_sample_store this] show ?thesis by (auto simp: wk_sample_world_def)
qed


theorem ack_not_lost_witness:
  "\<exists>ack. decode_ack (se_fold wk_sample_env) (mm_Payload wk_sample_ack) = Inr ack \<and>
     wd_pubacks (handleAckMessage wk_sample_worker wk_sample_env wk_sample_ack (wk_sample_world pg_sample_sent)) =
       [(mm_Topic wk_sample_ack, mm_Payload wk_sample_ack)]"
proof -
  have "case decode_ack (se_fold wk_sample_env) (mm_Payload wk_sample_ack) of Inl _ \<Rightarrow> False
      | Inr ack \<Rightarrow> ack_identity_ok wk_sample_ack ack \<and> is_ok (NormalizeCommandResult (result_of_ack ack))" by code_simp
  then obtain ack res where a: "decode_ack (se_fold wk_sample_env) (mm_Payload wk_sample_ack) = Inr ack"
      "ack_identity_ok wk_sample_ack ack" "NormalizeCommandResult (result_of_ack ack) = Inr res"
    by (auto simp: is_ok_def split: sum.splits)
  have f: "wd_fatal (handleAckMessage wk_sample_worker wk_sample_env wk_sample_ack (wk_sample_world pg_sample_sent)) = None"
    by code_simp
  have "pg_reachable (wd_store (wk_sample_world pg_sample_sent))" by (simp add: wk_sample_world_def pg_samples_reachable)
  moreover have "driver_faults wk_sample_env" by (simp add: driver_faults_def wk_sample_env_def pg_sample_env_def)
  ultimately show ?thesis
    using ack_not_lost [OF wk_sample_store _ _ a _ refl, of "wk_sample_world pg_sample_sent"] a(1) f
    by (auto simp: wk_sample_world_def wk_sample_env_def)
qed

end
