(* ===== verification/Command_Dispatcher.thy ===== *)
theory Command_Dispatcher
  imports Worker_Safety
begin

text \<open>
  The command dispatcher (\<^verbatim>\<open>command_dispatcher.go\<close>). The interface \<^verbatim>\<open>CommandDispatchStore\<close> is a record of its five
  methods; what the dispatcher relies on is the locale \<open>dispatch_store\<close>, in which its guarantee is proved, and the
  PostgreSQL store is an interpretation of it.
\<close>

section \<open>The dispatcher\<close>

record ('e, 's) CommandDispatchStore =
  cs_ClaimCommandsForDispatchContext :: "'e \<Rightarrow> int \<Rightarrow> duration \<Rightarrow> 's \<Rightarrow> Command list result \<times> 's"
  cs_MarkCommandPublishedContext :: "'e \<Rightarrow> string \<Rightarrow> int \<Rightarrow> 's \<Rightarrow> unit result \<times> 's"
  cs_RescheduleCommandContext :: "'e \<Rightarrow> string \<Rightarrow> int \<Rightarrow> duration \<Rightarrow> 's \<Rightarrow> unit result \<times> 's"
  cs_ExpireCommandsContext :: "'e \<Rightarrow> gtime \<Rightarrow> duration \<Rightarrow> 's \<Rightarrow> int result \<times> 's"
  cs_RecoverStaleCommandsContext :: "'e \<Rightarrow> gtime \<Rightarrow> int \<Rightarrow> 's \<Rightarrow> (int \<times> int) result \<times> 's"

record CommandDispatcher =
  ds_timeout :: duration
  ds_pollEvery :: duration
  ds_lease :: duration
  ds_batchSize :: nat

definition NewCommandDispatcher :: "duration \<Rightarrow> CommandDispatcher" where
  "NewCommandDispatcher timeout =
     \<lparr>ds_timeout = (if timeout \<le> 0 then 300 * second else timeout), ds_pollEvery = second, ds_lease = 30 * second, ds_batchSize = 100\<rparr>"

text \<open>Both scans run; an error of either is only logged.\<close>

definition dispatcher_scanCommands :: "('e, 's) CommandDispatchStore \<Rightarrow> CommandDispatcher \<Rightarrow> 'e \<Rightarrow> gtime \<Rightarrow> 'e \<Rightarrow> gtime \<Rightarrow> 's \<Rightarrow> 's" where
  "dispatcher_scanCommands st d e1 now1 e2 now2 s =
     (let s1 = snd (cs_RecoverStaleCommandsContext st e1 (now1 - ds_timeout d) maxDispatchAttempts s)
      in snd (cs_ExpireCommandsContext st e2 now2 (ds_timeout d) s1))"

text \<open>The environment of one iteration: cancellation, the claim, the Kafka write and the call that follows it.\<close>

record 'e dispatch_env =
  de_cancelled :: bool
  de_claim :: 'e
  de_kafka :: kafka_env
  de_after :: 'e

fun dispatch_loop :: "('e, 's) CommandDispatchStore \<Rightarrow> KafkaPublisher option \<Rightarrow> duration \<Rightarrow> (nat \<Rightarrow> 'e dispatch_env) \<Rightarrow> nat \<Rightarrow> nat \<Rightarrow>
    's \<Rightarrow> kafka_log \<Rightarrow> 's \<times> kafka_log" where
  "dispatch_loop st p lease env i 0 s log = (s, log)"
| "dispatch_loop st p lease env i (Suc n) s log =
     (if de_cancelled (env i) then (s, log)
      else
        (case cs_ClaimCommandsForDispatchContext st (de_claim (env i)) 1 lease s of
           (Inl _, s1) \<Rightarrow> (s1, log)
         | (Inr [], s1) \<Rightarrow> (s1, log)
         | (Inr (command # _), s1) \<Rightarrow>
             (case PublishCommand (de_kafka (env i)) p command log of
                (Some _, log1) \<Rightarrow>
                  let backoff = commandRetryBackoff (cmd_DispatchAttempts command);
                      s2 = snd (cs_RescheduleCommandContext st (de_after (env i)) (cmd_ID command) (cmd_DispatchAttempts command) backoff s1)
                  in dispatch_loop st p lease env (Suc i) n s2 log1
              | (None, log1) \<Rightarrow>
                  let s2 = snd (cs_MarkCommandPublishedContext st (de_after (env i)) (cmd_ID command) (cmd_DispatchAttempts command) s1)
                  in dispatch_loop st p lease env (Suc i) n s2 log1)))"

definition dispatchPending :: "('e, 's) CommandDispatchStore \<Rightarrow> KafkaPublisher option \<Rightarrow> CommandDispatcher \<Rightarrow> (nat \<Rightarrow> 'e dispatch_env) \<Rightarrow>
    's \<Rightarrow> kafka_log \<Rightarrow> 's \<times> kafka_log" where
  "dispatchPending st p d env s log = dispatch_loop st p (ds_lease d) env 0 (ds_batchSize d) s log"

definition dispatchOnce :: "('e, 's) CommandDispatchStore \<Rightarrow> KafkaPublisher option \<Rightarrow> CommandDispatcher \<Rightarrow> 'e \<Rightarrow> gtime \<Rightarrow> 'e \<Rightarrow> gtime \<Rightarrow>
    (nat \<Rightarrow> 'e dispatch_env) \<Rightarrow> 's \<Rightarrow> kafka_log \<Rightarrow> 's \<times> kafka_log" where
  "dispatchOnce st p d e1 now1 e2 now2 env s log = dispatchPending st p d env (dispatcher_scanCommands st d e1 now1 e2 now2 s) log"

section \<open>The contract of the store\<close>

text \<open>What the dispatcher knows of a command: its status and the tenant, device and payload, which never change.\<close>

type_synonym dispatch_view = "CommandStatus \<times> string \<times> string \<times> string"

locale dispatch_store =
  fixes st :: "('e, 's) CommandDispatchStore"
    and view :: "'s \<Rightarrow> string \<Rightarrow> dispatch_view option"
    and ok :: "'s \<Rightarrow> bool"
  assumes claim_ok: "ok s \<Longrightarrow> ok (snd (cs_ClaimCommandsForDispatchContext st e limit lease s))"
    and published_ok: "ok s \<Longrightarrow> ok (snd (cs_MarkCommandPublishedContext st e uid attempt s))"
    and reschedule_ok: "ok s \<Longrightarrow> ok (snd (cs_RescheduleCommandContext st e uid attempt after s))"
    and claim_view: "ok s \<Longrightarrow> view (snd (cs_ClaimCommandsForDispatchContext st e limit lease s)) = view s"
    and reschedule_view: "ok s \<Longrightarrow> view (snd (cs_RescheduleCommandContext st e uid attempt after s)) = view s"
    and published_view: "ok s \<Longrightarrow> other \<noteq> uid \<Longrightarrow> view (snd (cs_MarkCommandPublishedContext st e uid attempt s)) other = view s other"
    and published_keeps: "ok s \<Longrightarrow> map_option snd (view (snd (cs_MarkCommandPublishedContext st e uid attempt s)) other) = map_option snd (view s other)"
    and claimed_view: "ok s \<Longrightarrow> cs_ClaimCommandsForDispatchContext st e limit lease s = (Inr cmds, s') \<Longrightarrow> cmd \<in> set cmds \<Longrightarrow>
      view s (cmd_ID cmd) = Some (CommandStatusCreated, cmd_TenantID cmd, cmd_DeviceID cmd, cmd_Payload cmd)"
begin

text \<open>A command that an iteration turned into a published one has its event in the topic.\<close>

definition announced :: "string \<Rightarrow> 's \<Rightarrow> kafka_log \<Rightarrow> bool" where
  "announced uid s log \<longleftrightarrow>
     (\<exists>cmd value. cmd_ID cmd = uid \<and> map_option snd (view s uid) = Some (cmd_TenantID cmd, cmd_DeviceID cmd, cmd_Payload cmd) \<and>
        marshal_command cmd = Inr value \<and> (cmd_DeviceID cmd, value) \<in> set (kl_command log))"

lemma announced_mono:
  assumes "announced uid s log" "map_option snd (view s' uid) = map_option snd (view s uid)" "set (kl_command log) \<subseteq> set (kl_command log')"
  shows "announced uid s' log'"
  using assms unfolding announced_def by (metis subsetD)

lemma dispatch_loop_announces:
  assumes "ok s" "dispatch_loop st (Some p) lease env i n s log = (s', log')" "kp_commandWriter p"
  shows "set (kl_command log) \<subseteq> set (kl_command log') \<and> map_option snd (view s' uid) = map_option snd (view s uid) \<and>
    (view s' uid = view s uid \<or> announced uid s' log')"
  using assms(1,2)
proof (induction n arbitrary: i s log)
  case 0
  then show ?case by simp
next
  case (Suc n)
  obtain r s1 where c: "cs_ClaimCommandsForDispatchContext st (de_claim (env i)) 1 lease s = (r, s1)" by fastforce
  have s1: "ok s1" "view s1 = view s" using claim_ok [OF Suc.prems(1)] claim_view [OF Suc.prems(1)] c by (metis snd_conv)+
  show ?case
  proof (cases "\<not> de_cancelled (env i) \<and> (\<exists>command rest. r = Inr (command # rest))")
    case False
    then show ?thesis using Suc.prems(2) c s1(2) by (auto split: if_splits sum.splits list.splits)
  next
    case True
    then obtain command rest where cmd: "r = Inr (command # rest)" by blast
    have cv: "view s1 (cmd_ID command) = Some (CommandStatusCreated, cmd_TenantID command, cmd_DeviceID command, cmd_Payload command)"
      using claimed_view [OF Suc.prems(1)] c cmd s1(2) by simp
    obtain e log1 where pub: "PublishCommand (de_kafka (env i)) (Some p) command log = (e, log1)" by fastforce
    note grow = PublishCommand_grows [OF pub]
    define s2 where "s2 = (case e of
        None \<Rightarrow> snd (cs_MarkCommandPublishedContext st (de_after (env i)) (cmd_ID command) (cmd_DispatchAttempts command) s1)
      | Some _ \<Rightarrow> snd (cs_RescheduleCommandContext st (de_after (env i)) (cmd_ID command) (cmd_DispatchAttempts command)
          (commandRetryBackoff (cmd_DispatchAttempts command)) s1))"
    have ok2: "ok s2" using published_ok [OF s1(1)] reschedule_ok [OF s1(1)] by (simp add: s2_def split: option.splits)
    have keep: "map_option snd (view s2 uid) = map_option snd (view s uid)"
      using published_keeps [OF s1(1)] reschedule_view [OF s1(1)] s1(2) by (simp add: s2_def split: option.splits)
    have rest: "dispatch_loop st (Some p) lease env (Suc i) n s2 log1 = (s', log')"
      using Suc.prems(2) True c cmd pub by (simp add: s2_def Let_def split: option.splits)
    note IH = Suc.IH [OF ok2 rest]
    have "view s2 uid = view s uid \<or> announced uid s2 log1"
    proof (cases "e = None \<and> uid = cmd_ID command")
      case True
      obtain body where "marshal_command command = Inr body" "(cmd_DeviceID command, body) \<in> set (kl_command log1)"
        using PublishCommand_None [of "de_kafka (env i)" p command log log1] pub True assms(3) by auto
      then show ?thesis using True cv s1(2) keep by (auto simp: announced_def)
    next
      case False
      then show ?thesis
        using published_view [OF s1(1), of uid "cmd_ID command"] reschedule_view [OF s1(1)] s1(2) by (auto simp: s2_def split: option.splits)
    qed
    then show ?thesis using IH keep grow announced_mono [of uid s2 log1 s' log'] by auto
  qed
qed

end

section \<open>The PostgreSQL store as a dispatch store\<close>

definition pg_dispatch :: "(pgenv, pgdb) CommandDispatchStore" where
  "pg_dispatch = \<lparr>
     cs_ClaimCommandsForDispatchContext = pg_ClaimCommandsForDispatchContext,
     cs_MarkCommandPublishedContext = pg_MarkCommandPublishedContext,
     cs_RescheduleCommandContext = pg_RescheduleCommandContext,
     cs_ExpireCommandsContext = pg_ExpireCommandsContext,
     cs_RecoverStaleCommandsContext = pg_RecoverStaleCommandsContext\<rparr>"

definition pg_dispatch_view :: "pgdb \<Rightarrow> string \<Rightarrow> dispatch_view option" where
  "pg_dispatch_view db uid = map_option (\<lambda>r. (cr_Status r, cr_Tenant r, cr_Device r, cr_Payload r)) (find_command uid db)"


lemma view_update:
  assumes "keeps_identity f"
  shows "pg_dispatch_view (update_commands f P db) uid =
    map_option (\<lambda>r. (if P r then cr_Status (f r) else cr_Status r, cr_Tenant r, cr_Device r, cr_Payload r)) (find_command uid db)"
  using keeps_identityD [OF assms] by (simp add: pg_dispatch_view_def find_update [OF assms] option.map_comp comp_def if_distrib cong: if_cong)

lemma view_same:
  assumes "keeps_identity f" "\<And>r. cr_Status (f r) = cr_Status r"
  shows "pg_dispatch_view (update_commands f P db) = pg_dispatch_view db"
proof
  show "pg_dispatch_view (update_commands f P db) uid = pg_dispatch_view db uid" for uid
    unfolding view_update [OF assms(1)] by (simp add: pg_dispatch_view_def assms(2) cong: if_cong)
qed

lemma view_add_events [simp]: "pg_dispatch_view (add_events e us db) = pg_dispatch_view db"
  by (intro ext) (simp add: pg_dispatch_view_def)

lemma claim_same_view: "pg_dispatch_view (snd (pg_ClaimCommandsForDispatchContext env limit lease db)) = pg_dispatch_view db"
proof -
  have "keeps_identity (claim_row env lease)" by (simp add: keeps_identity_def claim_row_def)
  then show ?thesis
    by (auto simp: pg_ClaimCommandsForDispatchContext_def Let_def db_commit_def view_same claim_row_def split: option.splits)
qed

lemma reschedule_same_view: "pg_dispatch_view (snd (pg_RescheduleCommandContext env uid attempt after db)) = pg_dispatch_view db"
  by (auto simp: pg_RescheduleCommandContext_def db_commit_def keeps_identity_def intro!: view_same split: option.split)

lemma published_other_view:
  assumes "other \<noteq> uid"
  shows "pg_dispatch_view (snd (pg_MarkCommandPublishedContext env uid attempt db)) other = pg_dispatch_view db other"
proof -
  let ?f = "\<lambda>r. r\<lparr>cr_Status := CommandStatusPublished, cr_UpdatedAt := pe_dbnow env\<rparr>"
  have k: "keeps_identity ?f" by (simp add: keeps_identity_def)
  have "find_command other db = Some r \<Longrightarrow> cr_ID r \<noteq> uid" for r using find_command_Some assms by blast
  then show ?thesis
    by (cases "find_command other db")
      (auto simp: pg_MarkCommandPublishedContext_def ignore_count_def updateCommandsWithEvent_def Let_def db_commit_def find_update [OF k]
        pg_dispatch_view_def split: option.split)
qed

lemma published_keeps_view:
  "map_option snd (pg_dispatch_view (snd (pg_MarkCommandPublishedContext env uid attempt db)) other) = map_option snd (pg_dispatch_view db other)"
proof -
  let ?f = "\<lambda>r. r\<lparr>cr_Status := CommandStatusPublished, cr_UpdatedAt := pe_dbnow env\<rparr>"
  have k: "keeps_identity ?f" by (simp add: keeps_identity_def)
  show ?thesis
    by (cases "find_command other db")
      (auto simp: pg_MarkCommandPublishedContext_def ignore_count_def updateCommandsWithEvent_def Let_def db_commit_def find_update [OF k]
        pg_dispatch_view_def split: option.split)
qed

lemma claimed_row_view:
  assumes "db_ok db" "pg_ClaimCommandsForDispatchContext env limit lease db = (Inr cmds, db')" "cmd \<in> set cmds"
  shows "pg_dispatch_view db (cmd_ID cmd) = Some (CommandStatusCreated, cmd_TenantID cmd, cmd_DeviceID cmd, cmd_Payload cmd)"
proof -
  have "1 \<le> limit" using assms(2,3) by (auto simp: pg_ClaimCommandsForDispatchContext_def split: if_splits)
  then obtain r' where r': "r' \<in> set (db_commands db')" "scanCommandRow (pe_fold env) r' = Inr cmd"
    using assms(2,3) scanCommands_members
    by (fastforce simp: pg_ClaimCommandsForDispatchContext_def Let_def db_commit_def split: option.splits)
  have "db_ok db'" using claim_ok [OF assms(1), of env limit lease] assms(2) by simp
  then have "find_command (cmd_ID cmd) db' = Some r'" using find_command_in [OF db_ok_ids r'(1)] scan_fields(1) [OF r'(2)] by simp
  moreover obtain r where "find_command (cmd_ID cmd) db = Some r" "claimable env r" "find_command (cmd_ID cmd) db' = Some (claim_row env lease r)"
    using claimed_row [OF assms] .
  ultimately show ?thesis
    using scan_fields [OF r'(2)] by (auto simp: pg_dispatch_view_def claim_row_def claimable_def)
qed

interpretation pg_dispatcher: dispatch_store pg_dispatch pg_dispatch_view db_ok
  by unfold_locales
    (simp_all add: pg_dispatch_def claim_ok published_ok reschedule_ok claim_same_view reschedule_same_view published_other_view
      published_keeps_view claimed_row_view)

text \<open>
  C9: a command is published only with its event: when a dispatch round turns a command into a published one, the command
  topic has the encoding of a command with that identifier, tenant, device and payload, keyed by the device, whatever
  the errors of the database and of Kafka were.
\<close>

theorem dispatch_published_announced:
  assumes "pg_reachable db" "dispatchPending pg_dispatch (Some p) d env db log = (db', log')" "kp_commandWriter p"
    "find_command uid db = Some r" "cr_Status r \<noteq> CommandStatusPublished"
    "find_command uid db' = Some r'" "cr_Status r' = CommandStatusPublished"
  shows "\<exists>cmd body. cmd_ID cmd = uid \<and> cmd_TenantID cmd = cr_Tenant r \<and> cmd_DeviceID cmd = cr_Device r \<and> cmd_Payload cmd = cr_Payload r \<and>
    marshal_command cmd = Inr body \<and> (cr_Device r, body) \<in> set (kl_command log')"
proof -
  have "dispatch_loop pg_dispatch (Some p) (ds_lease d) env 0 (ds_batchSize d) db log = (db', log')"
    using assms(2) by (simp add: dispatchPending_def)
  note out = pg_dispatcher.dispatch_loop_announces [OF pg_reachable_ok [OF assms(1)] this assms(3), of uid]
  have "pg_dispatch_view db' uid \<noteq> pg_dispatch_view db uid" using assms(4-7) by (auto simp: pg_dispatch_view_def)
  then show ?thesis
    using out assms(4) unfolding pg_dispatcher.announced_def by (auto simp: pg_dispatch_view_def)
qed

definition ds_sample_env :: "pgenv dispatch_env" where
  "ds_sample_env = \<lparr>de_cancelled = False, de_claim = pg_sample_env 4000000000,
     de_kafka = \<lparr>ke_wait = (\<lambda>_. None), ke_attempt = (\<lambda>_. None), ke_lost = (\<lambda>_. False), ke_temporary = (\<lambda>_. False)\<rparr>,
     de_after = pg_sample_env 4000000000\<rparr>"

theorem dispatch_published_announced_witness:
  "\<exists>db' log'. dispatchPending pg_dispatch (Some \<lparr>kp_telemetryWriter = True, kp_commandWriter = True\<rparr>) (NewCommandDispatcher 0)
      (\<lambda>_. ds_sample_env) pg_sample_created \<lparr>kl_telemetry = [], kl_command = [], kl_counts = []\<rparr> = (db', log') \<and> kl_command log' \<noteq> []"
proof -
  let ?p = "dispatchPending pg_dispatch (Some \<lparr>kp_telemetryWriter = True, kp_commandWriter = True\<rparr>) (NewCommandDispatcher 0)
      (\<lambda>_. ds_sample_env) pg_sample_created \<lparr>kl_telemetry = [], kl_command = [], kl_counts = []\<rparr>"
  let ?uid = "''0190a1b2-c3d4-7e5f-8a6b-7c8d9e0f1a2b''"
  obtain db' log' where p: "?p = (db', log')" by fastforce
  have "(case find_command ?uid pg_sample_created of None \<Rightarrow> False | Some r \<Rightarrow> cr_Status r \<noteq> CommandStatusPublished) \<and>
      (case find_command ?uid (fst ?p) of None \<Rightarrow> False | Some r \<Rightarrow> cr_Status r = CommandStatusPublished)" by code_simp
  then obtain r r' where r: "find_command ?uid pg_sample_created = Some r" "cr_Status r \<noteq> CommandStatusPublished"
      "find_command ?uid db' = Some r'" "cr_Status r' = CommandStatusPublished"
    using p by (auto split: option.splits)
  from dispatch_published_announced [OF pg_samples_reachable(3) p _ r] show ?thesis using p by auto
qed

end
