(* ===== verification/Mqtt_Bridge.thy ===== *)
theory Mqtt_Bridge
  imports Worker_Safety
begin

text \<open>
  The MQTT to Kafka bridge of the telemetry ingestor (\<^verbatim>\<open>mqtt_bridge.go\<close>): a message is admitted unless the bridge stops,
  takes a slot, is validated against its topic, stored in the inbox, published to Kafka, and acknowledged to the broker
  once a durable copy exists.
\<close>

section \<open>Configuration and state\<close>

text \<open>The inbox is the method \<^verbatim>\<open>RecordTelemetryContext\<close> of a store, if one is configured.\<close>

record ('e, 's) MQTTBridge =
  br_filter :: string
  br_concurrency :: nat
  br_slotTimeout :: duration
  br_publisher :: "KafkaPublisher option"
  br_inbox :: "('e \<Rightarrow> Envelope \<Rightarrow> 's \<Rightarrow> tel_result \<times> 's) option"

text \<open>\<open>bw_slots\<close> is the number of occupied slots of the channel.\<close>

record 's bridge_world =
  bw_store :: 's
  bw_kafka :: kafka_log
  bw_dlq :: dlq
  bw_pubacks :: "(string \<times> string) list"
  bw_err :: "gerror option"
  bw_readiness :: mqttReadiness
  bw_stopping :: bool
  bw_slots :: nat
  bw_counts :: "string list"

record 'e bridge_env =
  be_now :: gtime
  be_store :: 'e
  be_kafka :: kafka_env
  be_dlq :: dlq_env
  be_parse :: gtime
  be_fold :: "nat \<Rightarrow> nat"
  be_done :: bool

definition IncMQTTBridge :: "string \<Rightarrow> 's bridge_world \<Rightarrow> 's bridge_world" where
  "IncMQTTBridge outcome bw = bw\<lparr>bw_counts := bw_counts bw @ [outcome]\<rparr>"

definition bridge_ack :: "mqtt_message \<Rightarrow> 's bridge_world \<Rightarrow> 's bridge_world" where
  "bridge_ack m bw = bw\<lparr>bw_pubacks := bw_pubacks bw @ [(mm_Topic m, mm_Payload m)]\<rparr>"

text \<open>The defaults of \<^verbatim>\<open>NewMQTTBridge\<close>.\<close>

definition NewMQTTBridge :: "string \<Rightarrow> string \<Rightarrow> int \<Rightarrow> duration \<Rightarrow> KafkaPublisher option \<Rightarrow>
    ('e \<Rightarrow> Envelope \<Rightarrow> 's \<Rightarrow> tel_result \<times> 's) option \<Rightarrow> ('e, 's) MQTTBridge option" where
  "NewMQTTBridge brokerURL topicFilter publishConcurrency publishSlotTimeout publisher inbox =
     (if brokerURL = [] \<or> publisher = None then None
      else Some \<lparr>br_filter = (if topicFilter = [] then TelemetryTopicFilter else topicFilter),
        br_concurrency = (if publishConcurrency \<le> 0 then 64 else nat publishConcurrency),
        br_slotTimeout = (if publishSlotTimeout \<le> 0 then 30 * second else publishSlotTimeout),
        br_publisher = publisher, br_inbox = inbox\<rparr>)"

section \<open>Handling a message\<close>

definition bridge_fail :: "gerror \<Rightarrow> 's bridge_world \<Rightarrow> 's bridge_world" where
  "bridge_fail err bw =
     bw\<lparr>bw_readiness := rd_stop (bw_readiness bw), bw_err := (case bw_err bw of None \<Rightarrow> Some err | Some e \<Rightarrow> Some e)\<rparr>"

text \<open>The message a dead letter of the bridge is made from has only topic and value.\<close>

definition bridge_message :: "mqtt_message \<Rightarrow> KafkaMessage" where
  "bridge_message m = \<lparr>km_Topic = mm_Topic m, km_Partition = 0, km_Offset = 0, km_Key = [], km_Value = mm_Payload m, km_Time = zero_time\<rparr>"

definition bridge_deadLetter :: "'e bridge_env \<Rightarrow> mqtt_message \<Rightarrow> string \<Rightarrow> gerror \<Rightarrow> bool \<Rightarrow> 's bridge_world \<Rightarrow> 's bridge_world" where
  "bridge_deadLetter env m stage cause durable bw =
     (case publishDeadLetter (be_dlq env) (bridge_message m) stage cause (bw_dlq bw) of
        (Some err, q) \<Rightarrow>
          let bw1 = (IncMQTTBridge ''error'' bw)\<lparr>bw_dlq := q\<rparr> in if durable then bw1 else bridge_fail err bw1
      | (None, q) \<Rightarrow>
          let bw1 = (IncMQTTBridge ''error'' bw)\<lparr>bw_dlq := q\<rparr> in if durable then bw1 else bridge_ack m bw1)"

text \<open>The end of \<^verbatim>\<open>processMessage\<close>: publish and acknowledge.\<close>

definition bridge_publish :: "('e, 's) MQTTBridge \<Rightarrow> 'e bridge_env \<Rightarrow> mqtt_message \<Rightarrow> TelemetryRecord \<Rightarrow> bool \<Rightarrow> 's bridge_world \<Rightarrow> 's bridge_world" where
  "bridge_publish b env m rec durable bw =
     (case PublishTelemetry (be_kafka env) (br_publisher b) rec (bw_kafka bw) of
        (Some err, log) \<Rightarrow> bridge_deadLetter env m StageMQTTKafka err durable (bw\<lparr>bw_kafka := log\<rparr>)
      | (None, log) \<Rightarrow>
          let bw1 = bw\<lparr>bw_kafka := log\<rparr> in IncMQTTBridge ''ok'' (if durable then bw1 else bridge_ack m bw1))"

definition processMessage :: "('e, 's) MQTTBridge \<Rightarrow> 'e bridge_env \<Rightarrow> mqtt_message \<Rightarrow> 's bridge_world \<Rightarrow> 's bridge_world" where
  "processMessage b env m bw =
     (case ParseEnvelope (be_fold env) (be_parse env) (mm_Payload m) of
        Inl err \<Rightarrow> bridge_deadLetter env m StageMQTTDecode err False bw
      | Inr e \<Rightarrow>
          if (case ParseDeviceTopic (mm_Topic m) of None \<Rightarrow> True
              | Some (tenant, device, _) \<Rightarrow> tenant \<noteq> env_TenantID e \<or> device \<noteq> env_DeviceID e)
          then bridge_deadLetter env m StageMQTTIdentity [ErrIdentityMismatch] False bw
          else
            (case br_inbox b of
               None \<Rightarrow> bridge_publish b env m (record_of_envelope (be_now env) e) False bw
             | Some record \<Rightarrow>
                 (case record (be_store env) e (bw_store bw) of
                    (TelStored stored, s') \<Rightarrow> bridge_publish b env m stored True (bridge_ack m (bw\<lparr>bw_store := s'\<rparr>))
                  | (TelDuplicate stored, s') \<Rightarrow> bridge_publish b env m stored True (bridge_ack m (bw\<lparr>bw_store := s'\<rparr>))
                  | (TelFailed err, s') \<Rightarrow>
                      bridge_publish b env m (record_of_envelope (be_now env) e) False (bw\<lparr>bw_store := s'\<rparr>))))"

section \<open>Admission, subscription and shutdown\<close>

text \<open>
  The wait for a slot ends because the context is done, the timer fires or a slot is free; \<open>slots\<close> is the occupancy at
  that moment.
\<close>

definition acquirePublishSlotContext :: "bool \<Rightarrow> nat \<Rightarrow> nat \<Rightarrow> bool \<times> nat" where
  "acquirePublishSlotContext done capacity slots = (if done \<or> capacity \<le> slots then (False, slots) else (True, Suc slots))"

text \<open>
  The subscription callback. An admitted message is processed later by its own goroutine (\<open>bridge_finish\<close>), which
  releases the slot: a run of the bridge is any interleaving of the two.
\<close>

definition bridge_admit :: "('e, 's) MQTTBridge \<Rightarrow> 'e bridge_env \<Rightarrow> mqtt_message \<Rightarrow> 's bridge_world \<Rightarrow> bool \<times> 's bridge_world" where
  "bridge_admit b env m bw =
     (if bw_stopping bw then (False, bw)
      else
        (case acquirePublishSlotContext (be_done env) (br_concurrency b) (bw_slots bw) of
           (True, n) \<Rightarrow> (True, bw\<lparr>bw_slots := n\<rparr>)
         | (False, _) \<Rightarrow>
             (False, bridge_deadLetter env m StageMQTTKafka [ErrPublishBacklogFull] False bw)))"

definition bridge_finish :: "('e, 's) MQTTBridge \<Rightarrow> 'e bridge_env \<Rightarrow> mqtt_message \<Rightarrow> 's bridge_world \<Rightarrow> 's bridge_world" where
  "bridge_finish b env m bw = (let bw1 = processMessage b env m bw in bw1\<lparr>bw_slots := bw_slots bw1 - 1\<rparr>)"

datatype bridge_suback = BridgeTimeout | BridgeError gerror | BridgeMissing | BridgeGranted "nat option"

definition bridge_onConnect :: "bridge_suback \<Rightarrow> rd_call list \<Rightarrow> 's bridge_world \<Rightarrow> 's bridge_world" where
  "bridge_onConnect reply meanwhile bw =
     (case rd_reset (bw_readiness bw) of
        (generation, rd) \<Rightarrow>
          let bw1 = bw\<lparr>bw_readiness := rd_run meanwhile rd\<rparr> in
          (case reply of
             BridgeTimeout \<Rightarrow> bridge_fail [ErrOpaque ''mqtt bridge subscribe timeout''] bw1
           | BridgeError e \<Rightarrow> bridge_fail e bw1
           | BridgeMissing \<Rightarrow> bridge_fail [ErrOpaque ''mqtt bridge subscription missing SUBACK''] bw1
           | BridgeGranted q \<Rightarrow>
               if q \<noteq> Some 1 then bridge_fail [ErrOpaque ''mqtt bridge subscription requires QoS 1''] bw1
               else bw1\<lparr>bw_readiness := snd (rd_confirm generation (bw_readiness bw1))\<rparr>))"

definition bridge_stop :: "'s bridge_world \<Rightarrow> 's bridge_world" where
  "bridge_stop bw = bw\<lparr>bw_readiness := rd_stop (bw_readiness bw), bw_stopping := True\<rparr>"

definition bridge_CheckReady :: "bool \<Rightarrow> 's bridge_world \<Rightarrow> bool" where
  "bridge_CheckReady connected bw \<longleftrightarrow> connected \<and> rd_ready (bw_readiness bw)"

text \<open>\<^verbatim>\<open>Run\<close> waits for the connection and then for the end or a fatal error; on return the bridge is stopped.\<close>

fun bridge_waits :: "bool \<Rightarrow> wake list \<Rightarrow> gerror option option" where
  "bridge_waits connected [] = None"
| "bridge_waits connected (WakeDone # _) = Some None"
| "bridge_waits connected (WakeFatal e # _) = Some (Some e)"
| "bridge_waits False (WakeConnected (Some e) # _) = Some (Some e)"
| "bridge_waits False (WakeConnected None # ws) = bridge_waits True ws"
| "bridge_waits connected (_ # ws) = bridge_waits connected ws"

definition bridge_Run :: "gerror option \<Rightarrow> wake list \<Rightarrow> 's bridge_world \<Rightarrow> gerror option option \<times> 's bridge_world" where
  "bridge_Run startupErr wakes bw =
     (case startupErr of
        Some e \<Rightarrow> (Some (Some e), bw)
      | None \<Rightarrow> (case bridge_waits False wakes of None \<Rightarrow> (None, bw) | Some r \<Rightarrow> (Some r, bridge_stop bw)))"

section \<open>No telemetry is lost\<close>

lemma bridge_frame [simp]:
  "bw_pubacks (IncMQTTBridge r bw) = bw_pubacks bw" "bw_err (IncMQTTBridge r bw) = bw_err bw" "bw_readiness (IncMQTTBridge r bw) = bw_readiness bw"
  "bw_store (IncMQTTBridge r bw) = bw_store bw" "bw_kafka (IncMQTTBridge r bw) = bw_kafka bw" "bw_dlq (IncMQTTBridge r bw) = bw_dlq bw"
  "bw_store (bridge_ack m bw) = bw_store bw" "bw_kafka (bridge_ack m bw) = bw_kafka bw" "bw_dlq (bridge_ack m bw) = bw_dlq bw"
  "bw_store (bridge_fail e bw) = bw_store bw" "bw_pubacks (bridge_fail e bw) = bw_pubacks bw"
  "bw_pubacks (bridge_ack m bw) = bw_pubacks bw @ [(mm_Topic m, mm_Payload m)]"
  by (simp_all add: IncMQTTBridge_def bridge_ack_def bridge_fail_def)

lemma bridge_fail_closed [simp]: "bw_err (bridge_fail e bw) \<noteq> None" "\<exists>x. bw_err (bridge_fail e bw) = Some x" "\<not> rd_ready (bw_readiness (bridge_fail e bw))"
  by (simp_all add: bridge_fail_def rd_stop_def rd_ready_def split: option.split)

text \<open>Where the message can be found after it was handled.\<close>

definition bridge_dead :: "'e bridge_env \<Rightarrow> mqtt_message \<Rightarrow> 's bridge_world \<Rightarrow> bool" where
  "bridge_dead env m bw \<longleftrightarrow> (\<exists>stage cause.
     (mm_Topic m, marshal_dead_letter (dead_letter_of (bridge_message m) stage cause (dq_now (be_dlq env)))) \<in> set (dq_log (bw_dlq bw)))"

definition bridge_kept :: "Envelope \<Rightarrow> pgdb bridge_world \<Rightarrow> bool" where
  "bridge_kept e bw \<longleftrightarrow>
     find_telemetry (env_MsgID e, env_TenantID e, env_DeviceID e) (bw_store bw) \<noteq> None \<or>
     (\<exists>rec body. telemetry_id rec = (env_MsgID e, env_TenantID e, env_DeviceID e) \<and> rec_Payload rec = env_Payload e \<and> rec_Ts rec = env_Ts e \<and>
        marshal_record rec = Inr body \<and> (env_DeviceID e, body) \<in> set (kl_telemetry (bw_kafka bw)))"

lemma bridge_dead_letter_outcome:
  assumes "bridge_deadLetter env m stage cause durable bw = bw'"
  shows "bw_store bw' = bw_store bw \<and>
    (if durable then bw_pubacks bw' = bw_pubacks bw
     else bw_pubacks bw' = bw_pubacks bw @ [(mm_Topic m, mm_Payload m)] \<and> bridge_dead env m bw' \<or>
       bw_pubacks bw' = bw_pubacks bw \<and> bw_err bw' \<noteq> None \<and> \<not> rd_ready (bw_readiness bw'))"
proof -
  obtain r q where p: "publishDeadLetter (be_dlq env) (bridge_message m) stage cause (bw_dlq bw) = (r, q)" by fastforce
  show ?thesis
  proof (cases r)
    case None
    have "km_Topic (bridge_message m) = mm_Topic m" by (simp add: bridge_message_def)
    with publishDeadLetter_None [OF p [unfolded None]] have "bridge_dead env m (bw\<lparr>bw_dlq := q\<rparr>)" by (auto simp: bridge_dead_def)
    then show ?thesis using assms p None by (auto simp: bridge_deadLetter_def bridge_dead_def Let_def) blast
  next
    case (Some e)
    then show ?thesis using assms p by (auto simp: bridge_deadLetter_def Let_def)
  qed
qed

lemma bridge_publish_durable:
  assumes "bridge_publish b env m rec True bw = bw'"
  shows "bw_pubacks bw' = bw_pubacks bw" "bw_store bw' = bw_store bw"
  using assms bridge_dead_letter_outcome [of env m StageMQTTKafka _ True _ bw']
  by (auto simp: bridge_publish_def Let_def split: prod.splits option.splits)

lemma bridge_publish_volatile:
  assumes "bridge_publish b env m rec False bw = bw'" "br_publisher b = Some p" "kp_telemetryWriter p"
  shows "bw_pubacks bw' = bw_pubacks bw @ [(mm_Topic m, mm_Payload m)] \<and>
      (bridge_dead env m bw' \<or> (\<exists>body. marshal_record rec = Inr body \<and> (rec_DeviceID rec, body) \<in> set (kl_telemetry (bw_kafka bw')))) \<or>
    bw_pubacks bw' = bw_pubacks bw \<and> bw_err bw' \<noteq> None \<and> \<not> rd_ready (bw_readiness bw')"
proof -
  obtain r log where pub: "PublishTelemetry (be_kafka env) (Some p) rec (bw_kafka bw) = (r, log)" by fastforce
  show ?thesis
  proof (cases r)
    case None
    from PublishTelemetry_None [OF pub [unfolded None] assms(3)] show ?thesis
      using assms(1,2) pub None by (auto simp: bridge_publish_def Let_def)
  next
    case (Some e)
    then have "bridge_deadLetter env m StageMQTTKafka e False (bw\<lparr>bw_kafka := log\<rparr>) = bw'"
      using assms(1,2) pub by (simp add: bridge_publish_def)
    from bridge_dead_letter_outcome [OF this] show ?thesis by auto
  qed
qed

lemma record_stored:
  assumes "pg_RecordTelemetryContext env e db = (r, db')" "\<forall>err. r \<noteq> TelFailed err"
  shows "find_telemetry (env_MsgID e, env_TenantID e, env_DeviceID e) db' \<noteq> None"
proof -
  have id: "telemetry_id (record_of_envelope t e) = (env_MsgID e, env_TenantID e, env_DeviceID e)" for t
    by (simp add: telemetry_id_def record_of_envelope_def)
  note out = pg_restore_outcome [of env "record_of_envelope (pe_now env) e" db r db']
  show ?thesis
  proof (cases r)
    case (TelStored x)
    then obtain stored where "db' = tel_db env (record_of_envelope (pe_now env) e) stored db"
      using out assms(1) by (auto simp: pg_RecordTelemetryContext_def)
    then show ?thesis by (auto simp: tel_db_def tel_row_def find_telemetry_None id)
  next
    case (TelDuplicate x)
    then show ?thesis using out assms(1) by (auto simp: pg_RecordTelemetryContext_def id)
  qed (use assms(2) in auto)
qed

text \<open>
  C8: a telemetry message is confirmed to the broker only with a durable copy: with a Kafka writer and PostgreSQL (or nothing)
  as the inbox, the bridge confirms a message at most once, and then the message is in the dead-letter topic, or its envelope
  agrees with its topic and is in PostgreSQL or in the telemetry topic of Kafka. A message that is not confirmed closes the
  gate and ends the bridge with an error.
\<close>

theorem bridge_confirms_durable:
  assumes "br_publisher b = Some p" "kp_telemetryWriter p" "br_inbox b = None \<or> br_inbox b = Some pg_RecordTelemetryContext"
    "processMessage b env m bw = bw'"
  shows "bw_pubacks bw' = bw_pubacks bw @ [(mm_Topic m, mm_Payload m)] \<and>
      (bridge_dead env m bw' \<or>
       (\<exists>e suff. ParseEnvelope (be_fold env) (be_parse env) (mm_Payload m) = Inr e \<and>
          ParseDeviceTopic (mm_Topic m) = Some (env_TenantID e, env_DeviceID e, suff) \<and> bridge_kept e bw')) \<or>
    bw_pubacks bw' = bw_pubacks bw \<and> bw_err bw' \<noteq> None \<and> \<not> rd_ready (bw_readiness bw')"
proof (cases "\<exists>e suff. ParseEnvelope (be_fold env) (be_parse env) (mm_Payload m) = Inr e \<and> ParseDeviceTopic (mm_Topic m) = Some (env_TenantID e, env_DeviceID e, suff)")
  case False
  then obtain stage err where "bridge_deadLetter env m stage err False bw = bw'"
    using assms(4) by (fastforce simp: processMessage_def split: sum.splits option.splits if_splits)
  from bridge_dead_letter_outcome [OF this] show ?thesis by auto
next
  case True
  then obtain e suff where e: "ParseEnvelope (be_fold env) (be_parse env) (mm_Payload m) = Inr e" "ParseDeviceTopic (mm_Topic m) = Some (env_TenantID e, env_DeviceID e, suff)"
    by blast
  let ?rec = "record_of_envelope (be_now env) e"
  have rec: "telemetry_id ?rec = (env_MsgID e, env_TenantID e, env_DeviceID e)" "rec_Payload ?rec = env_Payload e" "rec_Ts ?rec = env_Ts e"
      "rec_DeviceID ?rec = env_DeviceID e"
    by (simp_all add: record_of_envelope_def telemetry_id_def)
  consider (volatile) bw1 where "bridge_publish b env m ?rec False bw1 = bw'" "bw_pubacks bw1 = bw_pubacks bw"
    | (durable) r s' stored where "pg_RecordTelemetryContext (be_store env) e (bw_store bw) = (r, s')" "\<forall>err. r \<noteq> TelFailed err"
        "bridge_publish b env m stored True (bridge_ack m (bw\<lparr>bw_store := s'\<rparr>)) = bw'"
    using assms(3,4) e by (fastforce simp: processMessage_def split: option.splits prod.splits tel_result.splits)
  then show ?thesis
  proof cases
    case volatile
    have "bridge_kept e bw'" if "marshal_record ?rec = Inr body" "(env_DeviceID e, body) \<in> set (kl_telemetry (bw_kafka bw'))" for body
      using that rec(1-3) unfolding bridge_kept_def by blast
    with bridge_publish_volatile [OF volatile(1) assms(1,2)] show ?thesis using volatile(2) e rec(4) by auto
  next
    case durable
    from bridge_publish_durable [OF durable(3)] record_stored [OF durable(1,2)] show ?thesis using e by (auto simp: bridge_kept_def)
  qed
qed

definition br_sample :: "(pgenv, pgdb) MQTTBridge" where
  "br_sample = \<lparr>br_filter = TelemetryTopicFilter, br_concurrency = 1, br_slotTimeout = second,
     br_publisher = Some \<lparr>kp_telemetryWriter = True, kp_commandWriter = False\<rparr>, br_inbox = Some pg_RecordTelemetryContext\<rparr>"

definition br_sample_env :: "pgenv bridge_env" where
  "br_sample_env = \<lparr>be_now = 1700000000000000000, be_store = pg_sample_env 1700000000000000000,
     be_kafka = \<lparr>ke_wait = (\<lambda>_. None), ke_attempt = (\<lambda>_. None), ke_lost = (\<lambda>_. False), ke_temporary = (\<lambda>_. False)\<rparr>,
     be_dlq = \<lparr>dq_writer = None, dq_text = (\<lambda>_. []), dq_now = 0\<rparr>, be_parse = 1700000000000000000, be_fold = id, be_done = False\<rparr>"

definition br_sample_world :: "pgdb bridge_world" where
  "br_sample_world = \<lparr>bw_store = pg_sample_devices, bw_kafka = \<lparr>kl_telemetry = [], kl_command = [], kl_counts = []\<rparr>,
     bw_dlq = \<lparr>dq_log = [], dq_counts = []\<rparr>, bw_pubacks = [], bw_err = None, bw_readiness = new_readiness, bw_stopping = False,
     bw_slots = 0, bw_counts = []\<rparr>"

definition br_sample_message :: mqtt_message where
  \<open>br_sample_message = \<lparr>mm_Topic = ''tenant/acme/device/d1/telemetry'',
     mm_Payload = ''{"msgId":"m1","tenantId":"acme","deviceId":"d1","ts":1700000000000,"type":"telemetry","version":"1","payload":{}}''\<rparr>\<close>

theorem bridge_confirms_durable_witness:
  "\<exists>bw'. processMessage br_sample br_sample_env br_sample_message br_sample_world = bw' \<and>
     bw_pubacks bw' = [(mm_Topic br_sample_message, mm_Payload br_sample_message)] \<and> bw_err bw' = None"
proof -
  have "bw_err (processMessage br_sample br_sample_env br_sample_message br_sample_world) = None" by code_simp
  then show ?thesis
    using bridge_confirms_durable [OF _ _ _ refl, of br_sample "\<lparr>kp_telemetryWriter = True, kp_commandWriter = False\<rparr>" br_sample_env
        br_sample_message br_sample_world]
    by (simp add: br_sample_def br_sample_world_def)
qed

end
