(* ===== verification/Dlq_Replay.thy ===== *)
theory Dlq_Replay
  imports Worker_Safety
begin

text \<open>
  The operator tool that replays dead letters (\<^verbatim>\<open>cmd/dlq-replay/main.go\<close>): which records of the dead-letter topic are sent
  back, what is sent, and when the position of the consumer group moves.
\<close>

section \<open>What is sent\<close>

definition replayGroupID :: "string \<Rightarrow> string" where
  "replayGroupID stage = (if stage = [] then ''iot-dlq-replay-all'' else ''iot-dlq-replay-'' @ stage)"

definition splitCSV :: "string \<Rightarrow> string list" where
  "splitCSV s = map TrimSpace (filter (\<lambda>item. TrimSpace item \<noteq> []) (split_on CHR '','' s))"

definition replayReceivedAt :: "(string \<Rightarrow> gtime option) \<Rightarrow> DeadLetter \<Rightarrow> int \<Rightarrow> gtime result" where
  "replayReceivedAt other item ts =
     (if dead_OccurredAt item \<noteq> [] then
        (case ParseRFC3339Nano other (dead_OccurredAt item) of
           None \<Rightarrow> Inl [ErrOpaque ''invalid dead-letter occurredAt'']
         | Some received \<Rightarrow> if IsZero received then Inl [ErrOpaque ''invalid dead-letter occurredAt''] else Inr received)
      else if ts \<le> 0 then Inl [ErrOpaque ''telemetry replay has no original timestamp'']
      else Inr (fromUnixMilli ts))"

text \<open>\<^verbatim>\<open>json.Unmarshal\<close> into an envelope, without the checks of \<^verbatim>\<open>ParseEnvelope\<close>.\<close>

definition unmarshal_envelope :: "(nat \<Rightarrow> nat) \<Rightarrow> string \<Rightarrow> Envelope result" where
  "unmarshal_envelope sf raw =
     (case json_parse raw of
        None \<Rightarrow> Inl [ErrOpaque ''json'']
      | Some v \<Rightarrow> (case decode_envelope sf v of None \<Rightarrow> Inl [ErrOpaque ''json''] | Some e \<Rightarrow> Inr e))"

definition replay_bridge_payload :: "string \<Rightarrow> (nat \<Rightarrow> nat) \<Rightarrow> (string \<Rightarrow> gtime option) \<Rightarrow> DeadLetter \<Rightarrow> string \<Rightarrow> (string \<times> string) result" where
  "replay_bridge_payload telemetryTopic sf other item body =
     bind_res (unmarshal_envelope sf body) (\<lambda>e.
       if (case ParseDeviceTopic (dead_SourceTopic item) of None \<Rightarrow> True
           | Some (tenant, device, suff) \<Rightarrow> suff \<noteq> TopicSuffixTelemetry \<or> tenant \<noteq> env_TenantID e \<or> device \<noteq> env_DeviceID e)
       then Inl [ErrOpaque ''telemetry identity does not match source topic'']
       else
         bind_res (replayReceivedAt other item (env_Ts e)) (\<lambda>received.
           bind_res (marshal_record (record_of_envelope received e)) (\<lambda>payload.
             Inr (if telemetryTopic = [] then ''iot.telemetry'' else telemetryTopic, payload))))"

definition replayKafkaPayload :: "string \<Rightarrow> (nat \<Rightarrow> nat) \<Rightarrow> (string \<Rightarrow> gtime option) \<Rightarrow> DeadLetter \<Rightarrow> string \<Rightarrow> (string \<times> string) result" where
  "replayKafkaPayload telemetryTopic sf other item body =
     (if dead_Stage item = StageMQTTDecode \<or> dead_Stage item = StageMQTTIdentity
      then Inl [ErrOpaque ''invalid MQTT messages must be corrected at their source'']
      else if dead_Stage item \<noteq> StageMQTTKafka then
        (if dead_Stage item = StageTelemetryPostgres \<or> dead_Stage item = StageTelemetryTDengine then
           bind_res (unmarshal_record sf other body) (\<lambda>rec.
             if IsZero (rec_ReceivedAt rec) then
               bind_res (replayReceivedAt other item (rec_Ts rec)) (\<lambda>received.
                 bind_res (marshal_record (rec\<lparr>rec_ReceivedAt := received\<rparr>)) (\<lambda>payload. Inr (dead_SourceTopic item, payload)))
             else Inr (dead_SourceTopic item, body))
         else Inr (dead_SourceTopic item, body))
      else replay_bridge_payload telemetryTopic sf other item body)"

text \<open>The acknowledgement is checked as the worker checks it; the store gets the normalised result.\<close>

definition replayAck :: "('e \<Rightarrow> string \<Rightarrow> string \<Rightarrow> string \<Rightarrow> CommandResult \<Rightarrow> 's \<Rightarrow> Command result \<times> 's) option \<Rightarrow>
    ('e \<Rightarrow> string \<Rightarrow> string \<Rightarrow> string \<Rightarrow> 's \<Rightarrow> Command result \<times> 's) \<Rightarrow> (nat \<Rightarrow> nat) \<Rightarrow> 'e \<Rightarrow> DeadLetter \<Rightarrow> string \<Rightarrow> 's \<Rightarrow> gerror option \<times> 's" where
  "replayAck resultStore ackContext sf e item body s =
     (let finish = (\<lambda>p. case p of (Inl err, s') \<Rightarrow> (Some err, s') | (Inr _, s') \<Rightarrow> (None, s')) in
      case decode_ack sf body of Inl err \<Rightarrow> (Some err, s) | Inr ack \<Rightarrow>
      if \<not> ack_identity_ok \<lparr>mm_Topic = dead_SourceTopic item, mm_Payload = body\<rparr> ack
      then (Some [ErrOpaque ''ACK identity does not match source topic''], s)
      else
        (case NormalizeCommandResult (result_of_ack ack) of Inl err \<Rightarrow> (Some err, s) | Inr result \<Rightarrow>
         (case resultStore of
            Some f \<Rightarrow> finish (f e (ack_CommandID ack) (ack_TenantID ack) (ack_DeviceID ack) result s)
          | None \<Rightarrow>
              if ack_Status ack \<noteq> ''acked'' \<or> ack_ErrorCode ack \<noteq> [] \<or> ack_Payload ack \<noteq> []
              then (Some [ErrOpaque ''ACK replay store does not support execution results''], s)
              else finish (ackContext e (ack_CommandID ack) (ack_TenantID ack) (ack_DeviceID ack) s))))"

section \<open>The batch\<close>

record replay_config =
  rc_limit :: int
  rc_stage :: string
  rc_dryRun :: bool
  rc_telemetryTopic :: string

record 's replay_world =
  rw_store :: 's
  rw_opened :: bool
  rw_written :: "(string \<times> string \<times> string) list"
  rw_commits :: "KafkaMessage list"

record replay_counts =
  rn_scanned :: nat
  rn_replayed :: nat
  rn_skipped :: nat

text \<open>The environment of one record: the store call, opening the store, the Kafka write and the commit, with what a failed write left.\<close>

record 'e replay_env =
  re_store :: 'e
  re_open :: "gerror option"
  re_write :: "gerror option"
  re_lost :: bool
  re_commit :: "gerror option"

datatype replay_fetch = ReplayFetched KafkaMessage | ReplayFetchError gerror bool

datatype replay_result = ReplayRunning | ReplayDone | ReplayFatal gerror

text \<open>\<^verbatim>\<open>commitReplay\<close> ends the program when the commit fails.\<close>

definition commitReplay :: "'e replay_env \<Rightarrow> KafkaMessage \<Rightarrow> bool \<Rightarrow> 's replay_world \<Rightarrow> gerror option \<times> 's replay_world" where
  "commitReplay env msg dryRun w =
     (if dryRun then (None, w)
      else case re_commit env of Some e \<Rightarrow> (Some e, w) | None \<Rightarrow> (None, w\<lparr>rw_commits := rw_commits w @ [msg]\<rparr>))"

definition replay_write :: "'e replay_env \<Rightarrow> string \<times> string \<times> string \<Rightarrow> 's replay_world \<Rightarrow> gerror option \<times> 's replay_world" where
  "replay_write env item w =
     (let w1 = w\<lparr>rw_written := rw_written w @ [item]\<rparr>
      in case re_write env of None \<Rightarrow> (None, w1) | Some e \<Rightarrow> (Some e, if re_lost env then w1 else w))"

text \<open>Sending one record back, with the PostgreSQL store; the store is opened at its first use and an error ends the program.\<close>

definition replay_send :: "replay_config \<Rightarrow> (nat \<Rightarrow> nat) \<Rightarrow> (string \<Rightarrow> gtime option) \<Rightarrow> pgenv replay_env \<Rightarrow> DeadLetter \<Rightarrow> string \<Rightarrow>
    pgdb replay_world \<Rightarrow> gerror option \<times> pgdb replay_world" where
  "replay_send cfg sf other env item body w =
     (if dead_Stage item = StageCommandAck then
        (case (if rw_opened w then None else re_open env) of
           Some e \<Rightarrow> (Some e, w)
         | None \<Rightarrow>
             (case replayAck (Some pg_AckCommandResultContext) pg_AckCommandContext sf (re_store env) item body (rw_store w) of
                (e, s') \<Rightarrow> (e, w\<lparr>rw_store := s', rw_opened := True\<rparr>)))
      else
        (case replayKafkaPayload (rc_telemetryTopic cfg) sf other item body of
           Inl e \<Rightarrow> (Some e, w)
         | Inr (topic, payload) \<Rightarrow> replay_write env (topic, dead_Key item, payload) w))"

datatype replay_step = StepSkipped | StepReplayed | StepFatal gerror

definition replay_record :: "replay_config \<Rightarrow> (nat \<Rightarrow> nat) \<Rightarrow> (string \<Rightarrow> gtime option) \<Rightarrow> pgenv replay_env \<Rightarrow> KafkaMessage \<Rightarrow>
    pgdb replay_world \<Rightarrow> replay_step \<times> pgdb replay_world" where
  "replay_record cfg sf other env msg w =
     (let commit = (\<lambda>dry ok w. case commitReplay env msg dry w of (Some e, w') \<Rightarrow> (StepFatal e, w') | (None, w') \<Rightarrow> (ok, w')) in
      case unmarshal_dead_letter sf (km_Value msg) of
        Inl _ \<Rightarrow> commit (rc_dryRun cfg) StepSkipped w
      | Inr item \<Rightarrow>
          if rc_stage cfg \<noteq> [] \<and> dead_Stage item \<noteq> rc_stage cfg then (StepSkipped, w)
          else if rc_dryRun cfg then (StepReplayed, w)
          else
            (case std_decode (dead_ValueBase64 item) of
               None \<Rightarrow> commit False StepSkipped w
             | Some body \<Rightarrow>
                 (case replay_send cfg sf other env item body w of
                    (Some e, w') \<Rightarrow> (StepFatal e, w')
                  | (None, w') \<Rightarrow> commit False StepReplayed w')))"

fun replay_loop :: "replay_config \<Rightarrow> (nat \<Rightarrow> nat) \<Rightarrow> (string \<Rightarrow> gtime option) \<Rightarrow> (replay_fetch \<times> pgenv replay_env) list \<Rightarrow> replay_counts \<Rightarrow>
    pgdb replay_world \<Rightarrow> replay_result \<times> replay_counts \<times> pgdb replay_world" where
  "replay_loop cfg sf other fetches n w =
     (if \<not> int (rn_replayed n) < rc_limit cfg then (ReplayDone, n, w)
      else case fetches of
        [] \<Rightarrow> (ReplayRunning, n, w)
      | (ReplayFetchError e overall, _) # _ \<Rightarrow>
          if overall then (ReplayFatal e, n, w)
          else if errors_is e ErrDeadlineExceeded then (ReplayDone, n, w) else (ReplayFatal e, n, w)
      | (ReplayFetched msg, env) # rest \<Rightarrow>
          let n1 = n\<lparr>rn_scanned := Suc (rn_scanned n)\<rparr> in
          (case replay_record cfg sf other env msg w of
             (StepFatal e, w') \<Rightarrow> (ReplayFatal e, n1, w')
           | (StepSkipped, w') \<Rightarrow> replay_loop cfg sf other rest (n1\<lparr>rn_skipped := Suc (rn_skipped n)\<rparr>) w'
           | (StepReplayed, w') \<Rightarrow> replay_loop cfg sf other rest (n1\<lparr>rn_replayed := Suc (rn_replayed n)\<rparr>) w'))"

definition dlq_replay :: "replay_config \<Rightarrow> (nat \<Rightarrow> nat) \<Rightarrow> (string \<Rightarrow> gtime option) \<Rightarrow> (replay_fetch \<times> pgenv replay_env) list \<Rightarrow>
    pgdb replay_world \<Rightarrow> replay_result \<times> replay_counts \<times> pgdb replay_world" where
  "dlq_replay cfg sf other fetches w = replay_loop cfg sf other fetches \<lparr>rn_scanned = 0, rn_replayed = 0, rn_skipped = 0\<rparr> w"

section \<open>What a batch guarantees\<close>

text \<open>A record that was sent back: its acknowledgement is final in the store, or its payload is in its topic.\<close>

definition sent_back :: "replay_config \<Rightarrow> (nat \<Rightarrow> nat) \<Rightarrow> (string \<Rightarrow> gtime option) \<Rightarrow> DeadLetter \<Rightarrow> string \<Rightarrow> pgdb replay_world \<Rightarrow> bool" where
  "sent_back cfg sf other item body w \<longleftrightarrow>
     (if dead_Stage item = StageCommandAck
      then \<exists>ack row. decode_ack sf body = Inr ack \<and> find_command (ack_CommandID ack) (rw_store w) = Some row \<and>
        ack_row ack row \<and> terminal (cr_Status row)
      else \<exists>topic payload. replayKafkaPayload (rc_telemetryTopic cfg) sf other item body = Inr (topic, payload) \<and>
        (topic, dead_Key item, payload) \<in> set (rw_written w))"

text \<open>A committed record was unreadable, or belongs to the stage and was sent back.\<close>

definition commit_justified :: "replay_config \<Rightarrow> (nat \<Rightarrow> nat) \<Rightarrow> (string \<Rightarrow> gtime option) \<Rightarrow> pgdb replay_world \<Rightarrow> KafkaMessage \<Rightarrow> bool" where
  "commit_justified cfg sf other w msg \<longleftrightarrow>
     (case unmarshal_dead_letter sf (km_Value msg) of
        Inl _ \<Rightarrow> True
      | Inr item \<Rightarrow> (rc_stage cfg = [] \<or> dead_Stage item = rc_stage cfg) \<and>
          (case std_decode (dead_ValueBase64 item) of None \<Rightarrow> True | Some body \<Rightarrow> sent_back cfg sf other item body w))"

lemma replayAck_None:
  assumes "db_ok s" "replayAck (Some pg_AckCommandResultContext) f sf e item body s = (r, s')"
  shows "db_ok s'" "db_later s s'" "r = None \<Longrightarrow> \<exists>ack row. decode_ack sf body = Inr ack \<and> find_command (ack_CommandID ack) s' = Some row \<and>
    ack_row ack row \<and> terminal (cr_Status row)"
proof -
  have "s' = s \<and> r \<noteq> None \<or> (\<exists>ack result x. decode_ack sf body = Inr ack \<and>
      pg_AckCommandResultContext e (ack_CommandID ack) (ack_TenantID ack) (ack_DeviceID ack) result s = (x, s') \<and>
      r = (case x of Inl err \<Rightarrow> Some err | Inr _ \<Rightarrow> None))"
    using assms(2) by (auto simp: replayAck_def Let_def split: sum.splits if_splits prod.splits)
  then consider (same) "s' = s" "r \<noteq> None" | (ack) ack result x where "decode_ack sf body = Inr ack"
      "pg_AckCommandResultContext e (ack_CommandID ack) (ack_TenantID ack) (ack_DeviceID ack) result s = (x, s')"
      "r = (case x of Inl err \<Rightarrow> Some err | Inr _ \<Rightarrow> None)" by blast
  then have "db_ok s' \<and> db_later s s' \<and> (r = None \<longrightarrow> (\<exists>ack row. decode_ack sf body = Inr ack \<and>
      find_command (ack_CommandID ack) s' = Some row \<and> ack_row ack row \<and> terminal (cr_Status row)))"
  proof cases
    case same
    then show ?thesis using assms(1) by auto
  next
    case ack
    have "db_ok s'" "db_later s s'"
      using pg_ack_ok [OF assms(1), of e "ack_CommandID ack" "ack_TenantID ack" "ack_DeviceID ack" result]
        ack_later [OF assms(1), of e "ack_CommandID ack" "ack_TenantID ack" "ack_DeviceID ack" result] ack(2) by simp_all
    moreover have "\<exists>row. find_command (ack_CommandID ack) s' = Some row \<and> ack_row ack row \<and> terminal (cr_Status row)" if "x = Inr c" for c
      using acked_row_later [OF assms(1) ack(2) [unfolded that]] by (metis ack_row_def)
    ultimately show ?thesis using ack(1,3) by (cases x) auto
  qed
  then show "db_ok s'" "db_later s s'" "r = None \<Longrightarrow> \<exists>ack row. decode_ack sf body = Inr ack \<and> find_command (ack_CommandID ack) s' = Some row \<and>
    ack_row ack row \<and> terminal (cr_Status row)" by blast+
qed

text \<open>What later steps keep.\<close>

definition replay_later :: "pgdb replay_world \<Rightarrow> pgdb replay_world \<Rightarrow> bool" where
  "replay_later w w' \<longleftrightarrow> db_ok (rw_store w') \<and> db_later (rw_store w) (rw_store w') \<and> prefix (rw_written w) (rw_written w')"

lemma replay_later_trans: "replay_later a b \<Longrightarrow> replay_later b c \<Longrightarrow> replay_later a c"
  by (auto simp: replay_later_def intro: db_later_trans prefix_order.trans)

lemma replay_later_commits: "replay_later a b \<Longrightarrow> replay_later a (b\<lparr>rw_commits := c\<rparr>)"
  by (simp add: replay_later_def)

lemma sent_back_later:
  assumes "sent_back cfg sf other item body w" "replay_later w w'"
  shows "sent_back cfg sf other item body w'"
proof (cases "dead_Stage item = StageCommandAck")
  case True
  then obtain ack row where a: "decode_ack sf body = Inr ack" "find_command (ack_CommandID ack) (rw_store w) = Some row" "ack_row ack row" "terminal (cr_Status row)"
    using assms(1) by (auto simp: sent_back_def)
  then obtain row' where "find_command (ack_CommandID ack) (rw_store w') = Some row'" "row_later row row'"
    using assms(2) by (fastforce simp: replay_later_def db_later_def commands_later_def)
  then show ?thesis using a True by (auto simp: sent_back_def row_later_def ack_row_def)
next
  case False
  then show ?thesis using assms set_mono_prefix by (fastforce simp: sent_back_def replay_later_def)
qed

lemma commit_justified_later:
  "commit_justified cfg sf other w msg \<Longrightarrow> replay_later w w' \<Longrightarrow> commit_justified cfg sf other w' msg"
  using sent_back_later by (fastforce simp: commit_justified_def split: sum.splits option.splits)

lemma replay_send_outcome:
  assumes "db_ok (rw_store w)" "replay_send cfg sf other env item body w = (r, w')"
  shows "replay_later w w'" "rw_commits w' = rw_commits w" "r = None \<Longrightarrow> sent_back cfg sf other item body w'"
proof -
  have "replay_later w w' \<and> rw_commits w' = rw_commits w \<and> (r = None \<longrightarrow> sent_back cfg sf other item body w')"
  proof (cases "dead_Stage item = StageCommandAck")
    case True
    obtain e s' where a: "replayAck (Some pg_AckCommandResultContext) pg_AckCommandContext sf (re_store env) item body (rw_store w) = (e, s')" by fastforce
    show ?thesis
      using replayAck_None [OF assms(1) a] assms True a
      by (auto simp: replay_send_def replay_later_def sent_back_def split: option.splits if_splits)
  next
    case False
    then show ?thesis
      using assms by (auto simp: replay_send_def replay_later_def sent_back_def replay_write_def Let_def split: sum.splits option.splits if_splits)
  qed
  then show "replay_later w w'" "rw_commits w' = rw_commits w" "r = None \<Longrightarrow> sent_back cfg sf other item body w'" by blast+
qed

lemma replay_later_refl: "db_ok (rw_store w) \<Longrightarrow> replay_later w w"
  by (simp add: replay_later_def)

lemma commitReplay_outcome:
  assumes "commitReplay env msg dry w = (r, w')"
  shows "w' = w \<or> \<not> dry \<and> w' = w\<lparr>rw_commits := rw_commits w @ [msg]\<rparr>"
  using assms by (auto simp: commitReplay_def split: if_splits option.splits)

lemma replay_record_outcome:
  assumes "db_ok (rw_store w)" "replay_record cfg sf other env msg w = (r, w')"
  shows "replay_later w w' \<and> (rc_dryRun cfg \<longrightarrow> w' = w) \<and>
    (rw_commits w' = rw_commits w \<or> rw_commits w' = rw_commits w @ [msg] \<and> commit_justified cfg sf other w' msg)"
proof (cases "unmarshal_dead_letter sf (km_Value msg)")
  case (Inl e)
  have c: "w' = w \<or> \<not> rc_dryRun cfg \<and> w' = w\<lparr>rw_commits := rw_commits w @ [msg]\<rparr>"
    using assms(2) Inl by (auto simp: replay_record_def Let_def dest!: commitReplay_outcome split: prod.splits option.splits)
  then show ?thesis using Inl replay_later_refl [OF assms(1)] by (auto simp: commit_justified_def intro: replay_later_commits)
next
  case (Inr item)
  show ?thesis
  proof (cases "rc_stage cfg \<noteq> [] \<and> dead_Stage item \<noteq> rc_stage cfg \<or> rc_dryRun cfg")
    case True
    then have "w' = w" using assms(2) Inr by (auto simp: replay_record_def Let_def split: if_splits)
    then show ?thesis using replay_later_refl [OF assms(1)] by simp
  next
    case stage: False
    show ?thesis
    proof (cases "std_decode (dead_ValueBase64 item)")
      case None
      have "w' = w \<or> w' = w\<lparr>rw_commits := rw_commits w @ [msg]\<rparr>"
        using assms(2) Inr stage None by (auto simp: replay_record_def Let_def dest!: commitReplay_outcome split: prod.splits option.splits)
      then show ?thesis using Inr None stage replay_later_refl [OF assms(1)] by (auto simp: commit_justified_def intro: replay_later_commits)
    next
      case (Some body)
      obtain e w1 where s: "replay_send cfg sf other env item body w = (e, w1)" by fastforce
      note out = replay_send_outcome [OF assms(1) s]
      have "w' = w1 \<or> e = None \<and> w' = w1\<lparr>rw_commits := rw_commits w1 @ [msg]\<rparr>"
        using assms(2) Inr stage Some s by (auto simp: replay_record_def Let_def dest!: commitReplay_outcome split: prod.splits option.splits)
      moreover have "sent_back cfg sf other item body (w1\<lparr>rw_commits := c\<rparr>)" if "e = None" for c
        using out(3) [OF that] by (auto simp: sent_back_def split: if_splits)
      ultimately show ?thesis using Inr Some stage out by (auto simp: commit_justified_def intro: replay_later_commits)
    qed
  qed
qed

declare replay_loop.simps [simp del]

lemma replay_loop_outcome:
  assumes "db_ok (rw_store w)" "replay_loop cfg sf other fetches n w = (r, n', w')"
  shows "replay_later w w' \<and> (rc_dryRun cfg \<longrightarrow> w' = w) \<and> (\<exists>new. rw_commits w' = rw_commits w @ new \<and> list_all (commit_justified cfg sf other w') new) \<and>
    rn_scanned n' \<le> rn_scanned n + length fetches \<and>
    (int (rn_replayed n) \<le> max 0 (rc_limit cfg) \<longrightarrow> int (rn_replayed n') \<le> max 0 (rc_limit cfg)) \<and>
    (rn_replayed n + rn_skipped n \<le> rn_scanned n \<longrightarrow> rn_replayed n' + rn_skipped n' \<le> rn_scanned n')"
  using assms
proof (induction fetches arbitrary: n w)
  case Nil
  then show ?case using replay_later_refl by (auto simp: replay_loop.simps [of _ _ _ "[]"] split: if_splits)
next
  case (Cons f rest)
  note step = Cons.prems(2) [unfolded replay_loop.simps [of _ _ _ "f # rest"]]
  show ?case
  proof (cases "int (rn_replayed n) < rc_limit cfg \<and> (\<exists>msg env. f = (ReplayFetched msg, env))")
    case False
    then show ?thesis using step replay_later_refl [OF Cons.prems(1)] by (auto split: if_splits prod.splits replay_fetch.splits)
  next
    case run: True
    then obtain msg env where f: "f = (ReplayFetched msg, env)" by blast
    obtain st w1 where rec: "replay_record cfg sf other env msg w = (st, w1)" by fastforce
    note out = replay_record_outcome [OF Cons.prems(1) rec]
    have ok1: "db_ok (rw_store w1)" using out by (simp add: replay_later_def)
    obtain new where new: "rw_commits w1 = rw_commits w @ new" "list_all (commit_justified cfg sf other w1) new" "set new \<subseteq> {msg}"
      using out by (metis append_Nil2 empty_subsetI list.pred_inject(1) list.pred_inject(2) list.set(1) list.simps(15) subset_refl)
    show ?thesis
    proof (cases "\<exists>e. st = StepFatal e")
      case True
      then have "w' = w1" "n' = n\<lparr>rn_scanned := Suc (rn_scanned n)\<rparr>" using step f rec run by (auto simp: Let_def)
      then show ?thesis using out new by auto
    next
      case False
      define n1 where "n1 = (n\<lparr>rn_scanned := Suc (rn_scanned n)\<rparr>)\<lparr>rn_skipped := rn_skipped n + (if st = StepSkipped then 1 else 0),
        rn_replayed := rn_replayed n + (if st = StepReplayed then 1 else 0)\<rparr>"
      have l: "replay_loop cfg sf other rest n1 w1 = (r, n', w')"
        using step f rec run False by (cases st) (auto simp: Let_def n1_def)
      note IH = Cons.IH [OF ok1 l]
      obtain new' where n': "rw_commits w' = rw_commits w1 @ new'" "list_all (commit_justified cfg sf other w') new'" using IH by blast
      have "list_all (commit_justified cfg sf other w') (new @ new')"
        using new(2) n'(2) commit_justified_later IH by (auto simp: list_all_iff)
      then have "\<exists>new. rw_commits w' = rw_commits w @ new \<and> list_all (commit_justified cfg sf other w') new" using new(1) n'(1) by auto
      then show ?thesis
        using IH out replay_later_trans [of w w1 w'] run False by (cases st) (auto simp: n1_def)
    qed
  qed
qed

text \<open>
  C10: a replay batch loses nothing: it scans at most the fetched records and sends back at most the limit; a dry run changes
  nothing; otherwise each record whose offset it commits was unreadable, or belongs to the chosen stage and was sent back: its
  payload is in its topic or its acknowledgement is final in PostgreSQL.
\<close>

theorem replay_batch_sound:
  assumes "pg_reachable (rw_store w)" "dlq_replay cfg sf other fetches w = (r, n, w')"
  shows "(if rc_dryRun cfg then w' = w
      else \<exists>new. rw_commits w' = rw_commits w @ new \<and> list_all (commit_justified cfg sf other w') new) \<and>
    rn_replayed n + rn_skipped n \<le> rn_scanned n \<and> rn_scanned n \<le> length fetches \<and> int (rn_replayed n) \<le> max 0 (rc_limit cfg)"
  using replay_loop_outcome [OF pg_reachable_ok [OF assms(1)] assms(2) [unfolded dlq_replay_def]] by auto

definition rp_sample_world :: "pgdb replay_world" where
  "rp_sample_world = \<lparr>rw_store = pg_sample_sent, rw_opened = False, rw_written = [], rw_commits = []\<rparr>"

definition rp_sample_config :: replay_config where
  "rp_sample_config = \<lparr>rc_limit = 5, rc_stage = StageTelemetryDecode, rc_dryRun = False, rc_telemetryTopic = []\<rparr>"

definition rp_sample_env :: "pgenv replay_env" where
  "rp_sample_env = \<lparr>re_store = pg_sample_env 9000, re_open = None, re_write = None, re_lost = False, re_commit = None\<rparr>"

definition rp_sample_letter :: KafkaMessage where
  "rp_sample_letter = \<lparr>km_Topic = ''iot.dlq'', km_Partition = 0, km_Offset = 4, km_Key = ''iot.telemetry'',
     km_Value = marshal_dead_letter (dead_letter_of \<lparr>km_Topic = ''iot.telemetry'', km_Partition = 0, km_Offset = 1, km_Key = ''d1'', km_Value = ''x'', km_Time = 0\<rparr>
       StageTelemetryDecode ''bad'' 1700000000000000000), km_Time = 0\<rparr>"

theorem replay_batch_sound_witness:
  "\<exists>n w'. dlq_replay rp_sample_config id (\<lambda>_. None) [(ReplayFetched rp_sample_letter, rp_sample_env)] rp_sample_world = (ReplayRunning, n, w') \<and>
     rn_replayed n = 1 \<and> rw_commits w' = [rp_sample_letter] \<and> list_all (commit_justified rp_sample_config id (\<lambda>_. None) w') (rw_commits w')"
proof -
  let ?r = "dlq_replay rp_sample_config id (\<lambda>_. None) [(ReplayFetched rp_sample_letter, rp_sample_env)] rp_sample_world"
  have c: "fst ?r = ReplayRunning" "rn_replayed (fst (snd ?r)) = 1" "rw_commits (snd (snd ?r)) = [rp_sample_letter]" by code_simp+
  obtain n w' where r: "?r = (ReplayRunning, n, w')" using c(1) by (cases ?r) auto
  have "pg_reachable (rw_store rp_sample_world)" by (simp add: rp_sample_world_def pg_samples_reachable)
  from replay_batch_sound [OF this r] show ?thesis
    using r c by (auto simp: rp_sample_config_def rp_sample_world_def)
qed

end
