(* ===== verification/Core_Service.thy ===== *)
theory Core_Service
  imports Kafka_Publisher Postgres_Safety
begin

text \<open>
  The gRPC service of the core (\<^verbatim>\<open>internal/core/service.go\<close>): validation of each request, the call of the repository, the
  translation of repository errors into status codes and of entities into messages. A status error is its code; the texts
  are not modelled. A timestamp message is absent or a time.
\<close>

section \<open>Status codes and messages\<close>

datatype code =
    CodeCanceled | CodeInvalidArgument | CodeDeadlineExceeded | CodeNotFound | CodeAlreadyExists | CodePermissionDenied
  | CodeResourceExhausted | CodeFailedPrecondition | CodeAborted | CodeOutOfRange | CodeInternal | CodeUnavailable | CodeUnauthenticated
  | CodeOther nat

type_synonym 'a rpc = "code + 'a"

type_synonym timestamp = "gtime option"

record pb_Device =
  pbd_TenantId :: string
  pbd_DeviceId :: string
  pbd_ProductId :: string
  pbd_Secret :: string
  pbd_CreatedAt :: timestamp

record pb_DeviceStatus =
  pbs_TenantId :: string
  pbs_DeviceId :: string
  pbs_Online :: bool
  pbs_LastSeenAt :: timestamp

record pb_TelemetryRecord =
  pbt_MsgId :: string
  pbt_TenantId :: string
  pbt_DeviceId :: string
  pbt_Ts :: int
  pbt_Type :: string
  pbt_Version :: string
  pbt_Payload :: string
  pbt_ReceivedAt :: timestamp

record pb_CommandResult =
  pbr_Status :: string
  pbr_ErrorCode :: string
  pbr_Payload :: string

record pb_Command =
  pbc_Id :: string
  pbc_TenantId :: string
  pbc_DeviceId :: string
  pbc_Status :: string
  pbc_Payload :: string
  pbc_CreatedAt :: timestamp
  pbc_UpdatedAt :: timestamp
  pbc_Result :: "pb_CommandResult option"

definition toTimestamp :: "gtime \<Rightarrow> timestamp" where
  "toTimestamp t = (if IsZero t then None else Some t)"

text \<open>\<^verbatim>\<open>CheckValid\<close>: from the year 1 to the end of the year 9999.\<close>

definition timestamp_valid :: "gtime \<Rightarrow> bool" where
  "timestamp_valid t \<longleftrightarrow> - 62135596800 * second \<le> t \<and> t < 253402300800 * second"

definition deviceToPB :: "Device \<Rightarrow> pb_Device" where
  "deviceToPB d = \<lparr>pbd_TenantId = dev_TenantID d, pbd_DeviceId = dev_DeviceID d, pbd_ProductId = dev_ProductID d, pbd_Secret = [],
     pbd_CreatedAt = toTimestamp (dev_CreatedAt d)\<rparr>"

definition deviceStatusToPB :: "DeviceStatus \<Rightarrow> pb_DeviceStatus" where
  "deviceStatusToPB s = \<lparr>pbs_TenantId = ds_TenantID s, pbs_DeviceId = ds_DeviceID s, pbs_Online = ds_Online s,
     pbs_LastSeenAt = toTimestamp (ds_LastSeenAt s)\<rparr>"

definition telemetryToPB :: "TelemetryRecord \<Rightarrow> pb_TelemetryRecord" where
  "telemetryToPB r = \<lparr>pbt_MsgId = rec_MsgID r, pbt_TenantId = rec_TenantID r, pbt_DeviceId = rec_DeviceID r, pbt_Ts = rec_Ts r,
     pbt_Type = rec_Type r, pbt_Version = rec_Version r, pbt_Payload = rec_Payload r, pbt_ReceivedAt = toTimestamp (rec_ReceivedAt r)\<rparr>"

definition resultToPB :: "CommandResult option \<Rightarrow> pb_CommandResult option" where
  "resultToPB = map_option (\<lambda>r. \<lparr>pbr_Status = status_string (res_Status r), pbr_ErrorCode = res_ErrorCode r, pbr_Payload = res_Payload r\<rparr>)"

definition commandToPB :: "Command \<Rightarrow> pb_Command" where
  "commandToPB c = \<lparr>pbc_Id = cmd_ID c, pbc_TenantId = cmd_TenantID c, pbc_DeviceId = cmd_DeviceID c, pbc_Status = status_string (cmd_Status c),
     pbc_Payload = cmd_Payload c, pbc_CreatedAt = toTimestamp (cmd_CreatedAt c), pbc_UpdatedAt = toTimestamp (cmd_UpdatedAt c),
     pbc_Result = resultToPB (cmd_Result c)\<rparr>"

definition mapRepoError :: "gerror \<Rightarrow> code" where
  "mapRepoError err =
     (if errors_is err ErrInvalidPayload \<or> errors_is err ErrInvalidDeviceSecret then CodeInvalidArgument
      else if errors_is err ErrListItemTooLarge then CodeFailedPrecondition
      else if errors_is err ErrInvalidPage then CodeInvalidArgument
      else if errors_is err ErrInvalidEnvelope then CodeInvalidArgument
      else if IsNotFound err then CodeNotFound
      else if errors_is err ErrDeadlineExceeded then CodeDeadlineExceeded
      else if errors_is err ErrCanceled then CodeCanceled
      else if errors_is err ErrAcknowledgementConflict then CodeAborted
      else if errors_is err ErrIdempotencyConflict then CodeAlreadyExists
      else if IsAlreadyExists err then CodeAlreadyExists
      else CodeInternal)"

definition repo_rpc :: "'a result \<Rightarrow> 'a rpc" where
  "repo_rpc r = map_sum mapRepoError id r"

section \<open>The repository\<close>

text \<open>
  \<^verbatim>\<open>platform.Repository\<close> with the optional methods the service looks for. \<open>sv_dispatches\<close> tells whether the
  repository is a \<^verbatim>\<open>CommandDispatchStore\<close>.
\<close>

type_synonym ('e, 's, 'a) page_method = "('e \<Rightarrow> PageRequest \<Rightarrow> 's \<Rightarrow> ('a list \<times> string) result) option"

record ('e, 's) Repository =
  sv_CreateTenant :: "'e \<Rightarrow> Tenant \<Rightarrow> 's \<Rightarrow> Tenant result \<times> 's"
  sv_CreateTenantContext :: "('e \<Rightarrow> Tenant \<Rightarrow> 's \<Rightarrow> Tenant result \<times> 's) option"
  sv_ListTenants :: "'e \<Rightarrow> 's \<Rightarrow> Tenant list"
  sv_ListTenantsPageContext :: "('e, 's, Tenant) page_method"
  sv_ListTenantsPage :: "('e, 's, Tenant) page_method"
  sv_CreateDevice :: "'e \<Rightarrow> Device \<Rightarrow> 's \<Rightarrow> Device result \<times> 's"
  sv_CreateDeviceContext :: "('e \<Rightarrow> Device \<Rightarrow> 's \<Rightarrow> Device result \<times> 's) option"
  sv_ListDevices :: "'e \<Rightarrow> 's \<Rightarrow> Device list"
  sv_ListDevicesPageContext :: "('e, 's, Device) page_method"
  sv_ListDevicesPage :: "('e, 's, Device) page_method"
  sv_GetDevice :: "'e \<Rightarrow> string \<Rightarrow> string \<Rightarrow> 's \<Rightarrow> Device option"
  sv_GetDeviceContext :: "('e \<Rightarrow> string \<Rightarrow> string \<Rightarrow> 's \<Rightarrow> Device result) option"
  sv_GetDeviceStatus :: "'e \<Rightarrow> string \<Rightarrow> string \<Rightarrow> 's \<Rightarrow> DeviceStatus option"
  sv_GetDeviceStatusContext :: "('e \<Rightarrow> string \<Rightarrow> string \<Rightarrow> 's \<Rightarrow> DeviceStatus result) option"
  sv_RecordTelemetry :: "'e \<Rightarrow> Envelope \<Rightarrow> 's \<Rightarrow> tel_result \<times> 's"
  sv_RecordTelemetryContext :: "('e \<Rightarrow> Envelope \<Rightarrow> 's \<Rightarrow> tel_result \<times> 's) option"
  sv_ListTelemetry :: "'e \<Rightarrow> string \<Rightarrow> string \<Rightarrow> 's \<Rightarrow> TelemetryRecord list"
  sv_ListTelemetryPageContext :: "('e, 's, TelemetryRecord) page_method"
  sv_ListTelemetryPage :: "('e, 's, TelemetryRecord) page_method"
  sv_CreateCommand :: "'e \<Rightarrow> string \<Rightarrow> string \<Rightarrow> string \<Rightarrow> 's \<Rightarrow> Command result \<times> 's"
  sv_CreateCommandWithKey :: "('e \<Rightarrow> string \<Rightarrow> string \<Rightarrow> string \<Rightarrow> string \<Rightarrow> 's \<Rightarrow> Command result \<times> 's) option"
  sv_dispatches :: bool
  sv_ListCommands :: "'e \<Rightarrow> 's \<Rightarrow> Command list"
  sv_ListCommandsPageContext :: "('e, 's, Command) page_method"
  sv_ListCommandsPage :: "('e, 's, Command) page_method"
  sv_GetCommand :: "'e \<Rightarrow> string \<Rightarrow> 's \<Rightarrow> Command option"
  sv_GetCommandContext :: "('e \<Rightarrow> string \<Rightarrow> 's \<Rightarrow> Command result) option"
  sv_AckCommandResultContext :: "('e \<Rightarrow> string \<Rightarrow> string \<Rightarrow> string \<Rightarrow> CommandResult \<Rightarrow> 's \<Rightarrow> Command result \<times> 's) option"

text \<open>The choice between the two paged methods and the plain listing, which has no cursor.\<close>

definition paged_list :: "('e, 's, 'a) page_method \<Rightarrow> ('e, 's, 'a) page_method \<Rightarrow> 'a list \<Rightarrow> 'e \<Rightarrow> PageRequest \<Rightarrow> 's \<Rightarrow> ('a list \<times> string) rpc" where
  "paged_list scoped paged plain e page s =
     (case scoped of
        Some f \<Rightarrow> repo_rpc (f e page s)
      | None \<Rightarrow> (case paged of Some f \<Rightarrow> repo_rpc (f e page s) | None \<Rightarrow> Inr (plain, [])))"

text \<open>The service: its repository and its publisher.\<close>

record ('e, 's) Service =
  svc_repo :: "('e, 's) Repository"
  svc_publisher :: "KafkaPublisher option"

text \<open>The environment of a call: the repository call, the Kafka write, the clock; the state: the repository and the topics.\<close>

record 'e core_env =
  ce_store :: 'e
  ce_kafka :: kafka_env
  ce_now :: gtime

type_synonym 's core_state = "'s \<times> kafka_log"

section \<open>Tenants and devices\<close>

definition core_CreateTenant :: "('e, 's) Service \<Rightarrow> 'e core_env \<Rightarrow> string \<Rightarrow> string \<Rightarrow> 's core_state \<Rightarrow> Tenant rpc \<times> 's core_state" where
  "core_CreateTenant svc env uid name st =
     (if uid = [] \<or> name = [] then (Inl CodeInvalidArgument, st)
      else if \<not> IsValidTenantID uid then (Inl CodeInvalidArgument, st)
      else if ValidateTenantName name \<noteq> None then (Inl CodeInvalidArgument, st)
      else
        let create = (case sv_CreateTenantContext (svc_repo svc) of Some f \<Rightarrow> f | None \<Rightarrow> sv_CreateTenant (svc_repo svc)) in
        case create (ce_store env) \<lparr>ten_ID = uid, ten_Name = name\<rparr> (fst st) of
          (r, s') \<Rightarrow> (repo_rpc r, (s', snd st)))"

definition core_ListTenants :: "('e, 's) Service \<Rightarrow> 'e core_env \<Rightarrow> int \<Rightarrow> string \<Rightarrow> 's core_state \<Rightarrow> (Tenant list \<times> string) rpc" where
  "core_ListTenants svc env pageSize cursor st =
     (case NormalizePageRequest pageSize cursor of
        Inl err \<Rightarrow> Inl (mapRepoError err)
      | Inr _ \<Rightarrow>
          paged_list (sv_ListTenantsPageContext (svc_repo svc)) (sv_ListTenantsPage (svc_repo svc))
            (sv_ListTenants (svc_repo svc) (ce_store env) (fst st)) (ce_store env)
            (zero_page\<lparr>page_Size := pageSize, page_Cursor := cursor\<rparr>) (fst st))"

definition core_CreateDevice :: "('e, 's) Service \<Rightarrow> 'e core_env \<Rightarrow> string \<Rightarrow> string \<Rightarrow> string \<Rightarrow> string \<Rightarrow> 's core_state \<Rightarrow>
    pb_Device rpc \<times> 's core_state" where
  "core_CreateDevice svc env tenantId deviceId productId secret st =
     (if tenantId = [] \<or> deviceId = [] \<or> productId = [] \<or> secret = [] then (Inl CodeInvalidArgument, st)
      else if \<not> IsValidTenantID tenantId \<or> \<not> IsValidTopicPart deviceId then (Inl CodeInvalidArgument, st)
      else if ValidateDeviceSecret secret \<noteq> None then (Inl CodeInvalidArgument, st)
      else if ValidateProductID productId \<noteq> None then (Inl CodeInvalidArgument, st)
      else
        let create = (case sv_CreateDeviceContext (svc_repo svc) of Some f \<Rightarrow> f | None \<Rightarrow> sv_CreateDevice (svc_repo svc)) in
        case create (ce_store env)
               \<lparr>dev_TenantID = tenantId, dev_DeviceID = deviceId, dev_ProductID = productId, dev_Secret = secret, dev_CreatedAt = zero_time\<rparr> (fst st) of
          (r, s') \<Rightarrow> (map_sum id deviceToPB (repo_rpc r), (s', snd st)))"

definition core_ListDevices :: "('e, 's) Service \<Rightarrow> 'e core_env \<Rightarrow> string \<Rightarrow> int \<Rightarrow> string \<Rightarrow> 's core_state \<Rightarrow> (pb_Device list \<times> string) rpc" where
  "core_ListDevices svc env tenantId pageSize cursor st =
     (case NormalizeListRequest (zero_page\<lparr>page_TenantID := tenantId, page_Size := pageSize, page_Cursor := cursor\<rparr>) ''devices'' of
        Inl err \<Rightarrow> Inl (mapRepoError err)
      | Inr page \<Rightarrow>
          map_sum id (map_prod (map deviceToPB) id)
            (paged_list (sv_ListDevicesPageContext (svc_repo svc)) (sv_ListDevicesPage (svc_repo svc))
              (filter (\<lambda>d. dev_TenantID d = page_TenantID page) (sv_ListDevices (svc_repo svc) (ce_store env) (fst st))) (ce_store env) page (fst st)))"

definition core_GetDevice :: "('e, 's) Service \<Rightarrow> 'e core_env \<Rightarrow> string \<Rightarrow> string \<Rightarrow> 's core_state \<Rightarrow> pb_Device rpc" where
  "core_GetDevice svc env tenantId deviceId st =
     (case ValidateDeviceIdentity tenantId deviceId of
        Some err \<Rightarrow> Inl (mapRepoError err)
      | None \<Rightarrow>
          map_sum id deviceToPB
            (case sv_GetDeviceContext (svc_repo svc) of
               Some f \<Rightarrow> repo_rpc (f (ce_store env) tenantId deviceId (fst st))
             | None \<Rightarrow> (case sv_GetDevice (svc_repo svc) (ce_store env) tenantId deviceId (fst st) of
                 None \<Rightarrow> Inl CodeNotFound | Some d \<Rightarrow> Inr d)))"

definition core_GetDeviceStatus :: "('e, 's) Service \<Rightarrow> 'e core_env \<Rightarrow> string \<Rightarrow> string \<Rightarrow> 's core_state \<Rightarrow> pb_DeviceStatus rpc" where
  "core_GetDeviceStatus svc env tenantId deviceId st =
     (case ValidateDeviceIdentity tenantId deviceId of
        Some err \<Rightarrow> Inl (mapRepoError err)
      | None \<Rightarrow>
          map_sum id deviceStatusToPB
            (case sv_GetDeviceStatusContext (svc_repo svc) of
               Some f \<Rightarrow> repo_rpc (f (ce_store env) tenantId deviceId (fst st))
             | None \<Rightarrow> (case sv_GetDeviceStatus (svc_repo svc) (ce_store env) tenantId deviceId (fst st) of
                 None \<Rightarrow> Inl CodeNotFound | Some d \<Rightarrow> Inr d)))"

section \<open>Telemetry\<close>

definition listPageFromRPC :: "int \<Rightarrow> string \<Rightarrow> string \<Rightarrow> string \<Rightarrow> timestamp \<Rightarrow> timestamp \<Rightarrow> string \<Rightarrow> string \<Rightarrow> string \<Rightarrow> string \<Rightarrow>
    PageRequest result" where
  "listPageFromRPC psize cursor tenant device start end_time sort_order kindFilter state kind =
     (let page0 = zero_page\<lparr>page_Size := psize, page_Cursor := cursor, page_TenantID := tenant, page_DeviceID := device, page_Sort := sort_order,
            page_Type := kindFilter, page_Status := state\<rparr>;
          bad = (\<lambda>t. case t of None \<Rightarrow> False | Some x \<Rightarrow> \<not> timestamp_valid x) in
      if bad start then Inl [ErrInvalidPage]
      else
        let page1 = (case start of None \<Rightarrow> page0 | Some t \<Rightarrow> page0\<lparr>page_StartTime := t, page_HasStartTime := True\<rparr>) in
        if bad end_time then Inl [ErrInvalidPage]
        else NormalizeListRequest (case end_time of None \<Rightarrow> page1 | Some t \<Rightarrow> page1\<lparr>page_EndTime := t, page_HasEndTime := True\<rparr>) kind)"

definition core_ListTelemetry :: "('e, 's) Service \<Rightarrow> 'e core_env \<Rightarrow> string \<Rightarrow> string \<Rightarrow> int \<Rightarrow> string \<Rightarrow> timestamp \<Rightarrow> timestamp \<Rightarrow> string \<Rightarrow> string \<Rightarrow>
    's core_state \<Rightarrow> (pb_TelemetryRecord list \<times> string) rpc" where
  "core_ListTelemetry svc env tenantId deviceId pageSize cursor start end_time kindFilter sort_order st =
     (case listPageFromRPC pageSize cursor tenantId deviceId start end_time sort_order kindFilter [] ''telemetry'' of
        Inl err \<Rightarrow> Inl (mapRepoError err)
      | Inr page \<Rightarrow>
          map_sum id (map_prod (map telemetryToPB) id)
            (paged_list (sv_ListTelemetryPageContext (svc_repo svc)) (sv_ListTelemetryPage (svc_repo svc))
              (sv_ListTelemetry (svc_repo svc) (ce_store env) tenantId deviceId (fst st)) (ce_store env) page (fst st)))"

definition recordTelemetry :: "('e, 's) Service \<Rightarrow> 'e \<Rightarrow> Envelope \<Rightarrow> 's \<Rightarrow> tel_result \<times> 's" where
  "recordTelemetry svc e envelope s =
     (case sv_RecordTelemetryContext (svc_repo svc) of Some f \<Rightarrow> f e envelope s | None \<Rightarrow> sv_RecordTelemetry (svc_repo svc) e envelope s)"

text \<open>\<^verbatim>\<open>envelopeFromPB\<close> and \<^verbatim>\<open>envelopeFromRecordPB\<close> copy the same seven fields.\<close>

definition envelopeFromPB :: "string \<Rightarrow> string \<Rightarrow> string \<Rightarrow> int \<Rightarrow> string \<Rightarrow> string \<Rightarrow> string \<Rightarrow> Envelope" where
  "envelopeFromPB msgId tenantId deviceId ts kind version payload = zero_envelope\<lparr>env_MsgID := msgId, env_TenantID := tenantId,
     env_DeviceID := deviceId, env_Ts := ts, env_Type := kind, env_Version := version, env_Payload := payload\<rparr>"

definition envelopeFromRecordPB :: "pb_TelemetryRecord \<Rightarrow> Envelope" where
  "envelopeFromRecordPB r = envelopeFromPB (pbt_MsgId r) (pbt_TenantId r) (pbt_DeviceId r) (pbt_Ts r) (pbt_Type r) (pbt_Version r) (pbt_Payload r)"

definition core_IngestTelemetry :: "('e, 's) Service \<Rightarrow> 'e core_env \<Rightarrow> Envelope \<Rightarrow> 's core_state \<Rightarrow> pb_TelemetryRecord rpc \<times> 's core_state" where
  "core_IngestTelemetry svc env envelope st =
     (if ValidateEnvelope (ce_now env) envelope \<noteq> None then (Inl CodeInvalidArgument, st)
      else
        let publish = (\<lambda>record s'.
          case PublishTelemetry (ce_kafka env) (svc_publisher svc) record (snd st) of
            (Some _, log) \<Rightarrow> (Inl CodeUnavailable, (s', log))
          | (None, log) \<Rightarrow> (Inr (telemetryToPB record), (s', log))) in
        case recordTelemetry svc (ce_store env) envelope (fst st) of
          (TelStored record, s') \<Rightarrow> publish record s'
        | (TelDuplicate record, s') \<Rightarrow> publish record s'
        | (TelFailed err, s') \<Rightarrow> (Inl (mapRepoError err), (s', snd st)))"

definition core_RecordTelemetry :: "('e, 's) Service \<Rightarrow> 'e core_env \<Rightarrow> pb_TelemetryRecord \<Rightarrow> 's core_state \<Rightarrow> pb_TelemetryRecord rpc \<times> 's core_state" where
  "core_RecordTelemetry svc env telemetry st =
     (let envelope = envelopeFromRecordPB telemetry in
      if ValidateEnvelope (ce_now env) envelope \<noteq> None then (Inl CodeInvalidArgument, st)
      else
        case recordTelemetry svc (ce_store env) envelope (fst st) of
          (TelStored record, s') \<Rightarrow> (Inr (telemetryToPB record), (s', snd st))
        | (TelDuplicate record, s') \<Rightarrow> (Inr (telemetryToPB record), (s', snd st))
        | (TelFailed err, s') \<Rightarrow> (Inl (mapRepoError err), (s', snd st)))"

section \<open>Commands\<close>

definition core_CreateCommand :: "('e, 's) Service \<Rightarrow> 'e core_env \<Rightarrow> string \<Rightarrow> string \<Rightarrow> string \<Rightarrow> string \<Rightarrow> 's core_state \<Rightarrow>
    pb_Command rpc \<times> 's core_state" where
  "core_CreateCommand svc env tenantId deviceId key payload st =
     (if tenantId = [] \<or> deviceId = [] then (Inl CodeInvalidArgument, st)
      else if \<not> IsValidTenantID tenantId \<or> \<not> IsValidTopicPart deviceId then (Inl CodeInvalidArgument, st)
      else if ValidateCommandInput tenantId deviceId payload \<noteq> None then (Inl CodeInvalidArgument, st)
      else if ValidateIdempotencyKey key \<noteq> None then (Inl CodeInvalidArgument, st)
      else
        let finish = (\<lambda>(r, s').
          case r of
            Inl err \<Rightarrow> (Inl (mapRepoError err), (s', snd st))
          | Inr command \<Rightarrow>
              if sv_dispatches (svc_repo svc) then (Inr (commandToPB command), (s', snd st))
              else
                (case PublishCommand (ce_kafka env) (svc_publisher svc) command (snd st) of
                   (Some _, log) \<Rightarrow> (Inl CodeUnavailable, (s', log))
                 | (None, log) \<Rightarrow> (Inr (commandToPB command), (s', log)))) in
        case sv_CreateCommandWithKey (svc_repo svc) of
          Some f \<Rightarrow> finish (f (ce_store env) tenantId deviceId key payload (fst st))
        | None \<Rightarrow>
            if key \<noteq> [] then (Inl CodeFailedPrecondition, st)
            else finish (sv_CreateCommand (svc_repo svc) (ce_store env) tenantId deviceId payload (fst st)))"

definition core_ListCommands :: "('e, 's) Service \<Rightarrow> 'e core_env \<Rightarrow> string \<Rightarrow> string \<Rightarrow> int \<Rightarrow> string \<Rightarrow> timestamp \<Rightarrow> timestamp \<Rightarrow> string \<Rightarrow> string \<Rightarrow>
    's core_state \<Rightarrow> (pb_Command list \<times> string) rpc" where
  "core_ListCommands svc env tenantId deviceId pageSize cursor start end_time state sort_order st =
     (case listPageFromRPC pageSize cursor tenantId deviceId start end_time sort_order [] state ''commands'' of
        Inl err \<Rightarrow> Inl (mapRepoError err)
      | Inr page \<Rightarrow>
          if tenantId = [] \<or> \<not> IsValidTenantID tenantId then Inl CodeInvalidArgument
          else
            map_sum id (map_prod (map commandToPB) id)
              (paged_list (sv_ListCommandsPageContext (svc_repo svc)) (sv_ListCommandsPage (svc_repo svc))
                (filter (\<lambda>c. cmd_TenantID c = tenantId) (sv_ListCommands (svc_repo svc) (ce_store env) (fst st))) (ce_store env) page (fst st)))"

definition core_GetCommand :: "('e, 's) Service \<Rightarrow> 'e core_env \<Rightarrow> string \<Rightarrow> string \<Rightarrow> 's core_state \<Rightarrow> pb_Command rpc" where
  "core_GetCommand svc env uid tenantId st =
     (if \<not> IsValidTenantID tenantId then Inl CodeInvalidArgument
      else case ValidateCommandID uid of Some err \<Rightarrow> Inl (mapRepoError err) | None \<Rightarrow>
      if uid = [] \<or> tenantId = [] then Inl CodeInvalidArgument
      else
        (case (case sv_GetCommandContext (svc_repo svc) of
                 Some f \<Rightarrow> repo_rpc (f (ce_store env) uid (fst st))
               | None \<Rightarrow> (case sv_GetCommand (svc_repo svc) (ce_store env) uid (fst st) of None \<Rightarrow> Inl CodeNotFound | Some c \<Rightarrow> Inr c)) of
           Inl c \<Rightarrow> Inl c
         | Inr command \<Rightarrow> if cmd_TenantID command \<noteq> tenantId then Inl CodeNotFound else Inr (commandToPB command)))"

definition core_AckCommand :: "('e, 's) Service \<Rightarrow> 'e core_env \<Rightarrow> string \<Rightarrow> string \<Rightarrow> string \<Rightarrow> pb_CommandResult option \<Rightarrow> 's core_state \<Rightarrow>
    pb_Command rpc \<times> 's core_state" where
  "core_AckCommand svc env uid tenantId deviceId result st =
     (case ValidateDeviceIdentity tenantId deviceId of Some err \<Rightarrow> (Inl (mapRepoError err), st) | None \<Rightarrow>
     (case ValidateCommandID uid of Some err \<Rightarrow> (Inl (mapRepoError err), st) | None \<Rightarrow>
     (case result of None \<Rightarrow> (Inl CodeInvalidArgument, st) | Some r \<Rightarrow>
     (case NormalizeCommandResult \<lparr>res_Status = status_of_string (pbr_Status r), res_ErrorCode = pbr_ErrorCode r, res_Payload = pbr_Payload r\<rparr> of
        Inl err \<Rightarrow> (Inl (mapRepoError err), st)
      | Inr normalized \<Rightarrow>
          (case sv_AckCommandResultContext (svc_repo svc) of
             None \<Rightarrow> (Inl CodeFailedPrecondition, st)
           | Some f \<Rightarrow>
               (case f (ce_store env) uid tenantId deviceId normalized (fst st) of
                  (r', s') \<Rightarrow> (map_sum id commandToPB (repo_rpc r'), (s', snd st))))))))"

section \<open>The PostgreSQL store as the repository\<close>

text \<open>The plain methods call the contextual ones with a background context; the service never uses the plain listings, because it finds the paged ones.\<close>

definition list_or_empty :: "'a list result \<Rightarrow> 'a list" where
  "list_or_empty r = (case r of Inl _ \<Rightarrow> [] | Inr xs \<Rightarrow> xs)"

definition pg_core :: "duration \<Rightarrow> (string \<Rightarrow> string) \<Rightarrow> (string \<Rightarrow> gtime option) \<Rightarrow> (pgenv, pgdb) Repository" where
  "pg_core ttl sha other = \<lparr>
     sv_CreateTenant = pg_CreateTenantContext, sv_CreateTenantContext = Some pg_CreateTenantContext,
     sv_ListTenants = (\<lambda>e s. list_or_empty (pg_ListTenantsContext e s)),
     sv_ListTenantsPageContext = Some pg_ListTenantsPageContext, sv_ListTenantsPage = Some pg_ListTenantsPageContext,
     sv_CreateDevice = pg_CreateDeviceContext, sv_CreateDeviceContext = Some pg_CreateDeviceContext,
     sv_ListDevices = (\<lambda>e s. list_or_empty (pg_ListDevicesContext e s)),
     sv_ListDevicesPageContext = Some pg_ListDevicesPageContext, sv_ListDevicesPage = Some pg_ListDevicesPageContext,
     sv_GetDevice = (\<lambda>e t d s. case pg_GetDeviceContext e t d s of Inl _ \<Rightarrow> None | Inr x \<Rightarrow> Some x),
     sv_GetDeviceContext = Some pg_GetDeviceContext,
     sv_GetDeviceStatus = (\<lambda>e t d s. case pg_GetDeviceStatusContext ttl e t d s of Inl _ \<Rightarrow> None | Inr x \<Rightarrow> Some x),
     sv_GetDeviceStatusContext = Some (pg_GetDeviceStatusContext ttl),
     sv_RecordTelemetry = pg_RecordTelemetryContext, sv_RecordTelemetryContext = Some pg_RecordTelemetryContext,
     sv_ListTelemetry = (\<lambda>e t d s. list_or_empty (pg_ListTelemetryContext e t d s)),
     sv_ListTelemetryPageContext = Some (pg_ListTelemetryPageContext sha other), sv_ListTelemetryPage = Some (pg_ListTelemetryPageContext sha other),
     sv_CreateCommand = (\<lambda>e t d p. pg_CreateCommandWithKey e t d [] p), sv_CreateCommandWithKey = Some pg_CreateCommandWithKey,
     sv_dispatches = True,
     sv_ListCommands = (\<lambda>e s. list_or_empty (pg_ListCommandsContext e s)),
     sv_ListCommandsPageContext = Some (pg_ListCommandsPageContext sha other), sv_ListCommandsPage = Some (pg_ListCommandsPageContext sha other),
     sv_GetCommand = (\<lambda>e u s. case pg_GetCommandContext e u s of Inl _ \<Rightarrow> None | Inr x \<Rightarrow> Some x),
     sv_GetCommandContext = Some pg_GetCommandContext,
     sv_AckCommandResultContext = Some pg_AckCommandResultContext\<rparr>"

end
