(* ===== verification/Admin_Api.thy ===== *)
theory Admin_Api
  imports Core_Service Management_Http Worker_Safety "HOL-Library.Word"
begin

text \<open>
  The REST gateway (\<^verbatim>\<open>internal/adminapi/server.go\<close>): the routes, the handlers, their calls of the core service and the translation
  of status codes and messages. A response is its HTTP status and its body; error texts are not modelled.
\<close>

section \<open>Responses\<close>

record CommandResponse =
  resp_ID :: string
  resp_TenantID :: string
  resp_DeviceID :: string
  resp_Status :: CommandStatus
  resp_Payload :: string
  resp_CreatedAt :: gtime
  resp_UpdatedAt :: gtime
  resp_Result :: "CommandResult option"

datatype http_body =
    BodyError
  | BodyHealth
  | BodyReady
  | BodySchema
  | BodyTenant Tenant
  | BodyTenants "Tenant list" string
  | BodyDevice Device
  | BodyDevices "Device list" string
  | BodyStatus DeviceStatus
  | BodyTelemetry TelemetryRecord
  | BodyTelemetryList "TelemetryRecord list" string
  | BodyCommand CommandResponse
  | BodyCommands "CommandResponse list" string

type_synonym http_response = "nat \<times> http_body"

text \<open>\<open>None\<close> is the nil error, whose code is \<^verbatim>\<open>OK\<close>.\<close>

definition httpStatusFromGRPC :: "code option \<Rightarrow> nat" where
  "httpStatusFromGRPC err =
     (case err of None \<Rightarrow> 200 | Some c \<Rightarrow>
      if c \<in> {CodeInvalidArgument, CodeFailedPrecondition, CodeOutOfRange} then 400
      else if c = CodeNotFound then 404
      else if c \<in> {CodeAlreadyExists, CodeAborted} then 409
      else if c = CodeUnauthenticated then 401
      else if c = CodePermissionDenied then 403
      else if c = CodeResourceExhausted then 429
      else if c = CodeDeadlineExceeded then 504
      else if c = CodeUnavailable then 502
      else 500)"

definition writeRPCError :: "code \<Rightarrow> http_response" where
  "writeRPCError c = (httpStatusFromGRPC (Some c), BodyError)"

definition timestampToTime :: "timestamp \<Rightarrow> gtime" where
  "timestampToTime ts = (case ts of None \<Rightarrow> zero_time | Some t \<Rightarrow> t)"

definition deviceFromPB :: "pb_Device \<Rightarrow> Device" where
  "deviceFromPB d = \<lparr>dev_TenantID = pbd_TenantId d, dev_DeviceID = pbd_DeviceId d, dev_ProductID = pbd_ProductId d, dev_Secret = [],
     dev_CreatedAt = timestampToTime (pbd_CreatedAt d)\<rparr>"

definition deviceStatusFromPB :: "pb_DeviceStatus \<Rightarrow> DeviceStatus" where
  "deviceStatusFromPB s = \<lparr>ds_TenantID = pbs_TenantId s, ds_DeviceID = pbs_DeviceId s, ds_Online = pbs_Online s,
     ds_LastSeenAt = timestampToTime (pbs_LastSeenAt s)\<rparr>"

definition telemetryFromPB :: "pb_TelemetryRecord \<Rightarrow> TelemetryRecord" where
  "telemetryFromPB r = \<lparr>rec_MsgID = pbt_MsgId r, rec_TenantID = pbt_TenantId r, rec_DeviceID = pbt_DeviceId r, rec_Ts = pbt_Ts r,
     rec_Type = pbt_Type r, rec_Version = pbt_Version r, rec_Payload = pbt_Payload r, rec_TDengineWritten = False,
     rec_ReceivedAt = timestampToTime (pbt_ReceivedAt r)\<rparr>"

definition resultFromPB :: "pb_CommandResult option \<Rightarrow> CommandResult option" where
  "resultFromPB = map_option (\<lambda>r. \<lparr>res_Status = status_of_string (pbr_Status r), res_ErrorCode = pbr_ErrorCode r, res_Payload = pbr_Payload r\<rparr>)"

definition commandFromPB :: "pb_Command \<Rightarrow> CommandResponse" where
  "commandFromPB c = \<lparr>resp_ID = pbc_Id c, resp_TenantID = pbc_TenantId c, resp_DeviceID = pbc_DeviceId c,
     resp_Status = status_of_string (pbc_Status c), resp_Payload = pbc_Payload c, resp_CreatedAt = timestampToTime (pbc_CreatedAt c),
     resp_UpdatedAt = timestampToTime (pbc_UpdatedAt c), resp_Result = resultFromPB (pbc_Result c)\<rparr>"

section \<open>Reading requests\<close>

definition maxRequestBodyBytes :: nat where
  "maxRequestBodyBytes = 1048576"

text \<open>\<^verbatim>\<open>http.MaxBytesReader\<close>: reading past the limit is an error.\<close>

definition limitRequestBodyMiddleware :: "string \<Rightarrow> string result" where
  "limitRequestBodyMiddleware body = (if length body \<le> maxRequestBodyBytes then Inr body else Inl [ErrOpaque ''http: request body too large''])"

definition pageFromRequest :: "HttpRequest \<Rightarrow> (int \<times> string) result" where
  "pageFromRequest r =
     bind_res (ManagementRequest r) (\<lambda>params.
       let raw = query_Get (mp_Query params) ''pageSize'' in
       bind_res (if raw = [] then Inr 0 else (case ParseInt 64 raw of None \<Rightarrow> Inl [ErrOpaque ''strconv.Atoi''] | Some n \<Rightarrow> Inr n)) (\<lambda>n.
         bind_res (NormalizePageRequest n (query_Get (mp_Query params) ''cursor'')) (\<lambda>page. Inr (page_Size page, page_Cursor page))))"

text \<open>The page size travels as a 32-bit integer.\<close>

definition int32 :: "int \<Rightarrow> int" where
  "int32 n = sint (word_of_int n :: 32 word)"

definition requestParameters :: "HttpRequest \<Rightarrow> http_response + ManagementParameters" where
  "requestParameters r =
     (case ManagementRequest r of Inl err \<Rightarrow> Inl (if IsNotFound err then 404 else 400, BodyError) | Inr p \<Rightarrow> Inr p)"

definition commandDeviceFilter :: "ManagementParameters \<Rightarrow> string" where
  "commandDeviceFilter p = (if mp_DeviceID p \<noteq> [] then mp_DeviceID p else query_Get (mp_Query p) ''deviceId'')"

definition request_time :: "(string \<Rightarrow> gtime option) \<Rightarrow> string \<Rightarrow> timestamp result" where
  "request_time other raw =
     (if raw = [] then Inr None
      else case ParseRFC3339Nano other raw of
        None \<Rightarrow> Inl [ErrOpaque ''time filters must be RFC3339 with at most millisecond precision'']
      | Some stamp \<Rightarrow>
          if Nanosecond stamp mod 1000000 \<noteq> 0 then Inl [ErrOpaque ''time filters must be RFC3339 with at most millisecond precision'']
          else if \<not> timestamp_valid stamp then Inl [ErrOpaque ''timestamp out of range'']
          else Inr (Some stamp))"

definition requestTimes :: "(string \<Rightarrow> gtime option) \<Rightarrow> string \<Rightarrow> string \<Rightarrow> (timestamp \<times> timestamp) result" where
  "requestTimes other start end_time =
     bind_res (request_time other start) (\<lambda>a. bind_res (request_time other end_time) (\<lambda>b. Inr (a, b)))"

text \<open>The bodies of the write requests and their decoders.\<close>

record tenant_body = tb_ID :: string tb_Name :: string
record device_body = db_DeviceID :: string db_ProductID :: string db_Secret :: string
record telemetry_body = eb_MsgID :: string eb_Ts :: int eb_Type :: string eb_Version :: string eb_Payload :: string

definition decode_tenant :: "(nat \<Rightarrow> nat) \<Rightarrow> string result \<Rightarrow> tenant_body result" where
  "decode_tenant sf = DecodeRequestJSON sf (decode_strict sf [''id'', ''name'']
     (\<lambda>field raw. if field = ''id'' then set_string (\<lambda>s. tb_ID_update (\<lambda>_. s)) else set_string (\<lambda>s. tb_Name_update (\<lambda>_. s)))
     \<lparr>tb_ID = [], tb_Name = []\<rparr>)"

definition decode_device :: "(nat \<Rightarrow> nat) \<Rightarrow> string result \<Rightarrow> device_body result" where
  "decode_device sf = DecodeRequestJSON sf (decode_strict sf [''deviceId'', ''productId'', ''secret'']
     (\<lambda>field raw. if field = ''deviceId'' then set_string (\<lambda>s. db_DeviceID_update (\<lambda>_. s))
        else if field = ''productId'' then set_string (\<lambda>s. db_ProductID_update (\<lambda>_. s)) else set_string (\<lambda>s. db_Secret_update (\<lambda>_. s)))
     \<lparr>db_DeviceID = [], db_ProductID = [], db_Secret = []\<rparr>)"

definition decode_telemetry :: "(nat \<Rightarrow> nat) \<Rightarrow> string result \<Rightarrow> telemetry_body result" where
  "decode_telemetry sf = DecodeRequestJSON sf (decode_strict sf [''msgId'', ''ts'', ''type'', ''version'', ''payload'']
     (\<lambda>field raw. if field = ''msgId'' then set_string (\<lambda>s. eb_MsgID_update (\<lambda>_. s))
        else if field = ''ts'' then set_int64 (\<lambda>i. eb_Ts_update (\<lambda>_. i))
        else if field = ''type'' then set_string (\<lambda>s. eb_Type_update (\<lambda>_. s))
        else if field = ''version'' then set_string (\<lambda>s. eb_Version_update (\<lambda>_. s))
        else (\<lambda>v b. Some (eb_Payload_update (\<lambda>_. raw) b)))
     \<lparr>eb_MsgID = [], eb_Ts = 0, eb_Type = [], eb_Version = [], eb_Payload = []\<rparr>)"

definition decode_payload :: "(nat \<Rightarrow> nat) \<Rightarrow> string result \<Rightarrow> string result" where
  "decode_payload sf = DecodeRequestJSON sf (decode_strict sf [''payload''] (\<lambda>field raw v b. Some raw) [])"

definition decode_result :: "(nat \<Rightarrow> nat) \<Rightarrow> string result \<Rightarrow> CommandResult result" where
  "decode_result sf = DecodeRequestJSON sf (decode_strict sf [''status'', ''errorCode'', ''payload''] result_set
     \<lparr>res_Status = CommandStatusOther [], res_ErrorCode = [], res_Payload = []\<rparr>)"

section \<open>Handlers\<close>

text \<open>
  The environment of a request: the core call, a failure of the transport with the information whether the core executed the
  call, and the tables of the decoders.
\<close>

record 'e rest_env =
  he_core :: "'e core_env"
  he_transport :: "(code \<times> bool) option"
  he_fold :: "nat \<Rightarrow> nat"
  he_other :: "string \<Rightarrow> gtime option"

definition rpc_update :: "'e rest_env \<Rightarrow> ('s core_state \<Rightarrow> 'a rpc \<times> 's core_state) \<Rightarrow> ('a \<Rightarrow> http_response) \<Rightarrow> 's core_state \<Rightarrow>
    http_response \<times> 's core_state" where
  "rpc_update env call respond st =
     (case he_transport env of
        Some (c, executed) \<Rightarrow> (writeRPCError c, if executed then snd (call st) else st)
      | None \<Rightarrow> (case call st of (Inl c, st') \<Rightarrow> (writeRPCError c, st') | (Inr x, st') \<Rightarrow> (respond x, st')))"

definition rpc_query :: "'e rest_env \<Rightarrow> 'a rpc \<Rightarrow> ('a \<Rightarrow> http_response) \<Rightarrow> http_response" where
  "rpc_query env reply respond =
     (case he_transport env of
        Some (c, _) \<Rightarrow> writeRPCError c
      | None \<Rightarrow> (case reply of Inl c \<Rightarrow> writeRPCError c | Inr x \<Rightarrow> respond x))"

definition bad_request :: "'a result \<Rightarrow> ('a \<Rightarrow> http_response \<times> 's core_state) \<Rightarrow> 's core_state \<Rightarrow> http_response \<times> 's core_state" where
  "bad_request r k st = (case r of Inl _ \<Rightarrow> ((400, BodyError), st) | Inr x \<Rightarrow> k x)"

definition with_parameters :: "HttpRequest \<Rightarrow> (ManagementParameters \<Rightarrow> http_response \<times> 's core_state) \<Rightarrow> 's core_state \<Rightarrow> http_response \<times> 's core_state" where
  "with_parameters r k st = (case requestParameters r of Inl resp \<Rightarrow> (resp, st) | Inr p \<Rightarrow> k p)"

definition readyHandler :: "('e, 's) Service \<Rightarrow> 'e rest_env \<Rightarrow> 's core_state \<Rightarrow> http_response" where
  "readyHandler svc env st =
     (case he_transport env of
        Some _ \<Rightarrow> (503, BodyError)
      | None \<Rightarrow> (case core_ListTenants svc (he_core env) 1 [] st of Inl _ \<Rightarrow> (503, BodyError) | Inr _ \<Rightarrow> (200, BodyReady)))"

definition createTenantHandler :: "('e, 's) Service \<Rightarrow> 'e rest_env \<Rightarrow> HttpRequest \<Rightarrow> string result \<Rightarrow> 's core_state \<Rightarrow> http_response \<times> 's core_state" where
  "createTenantHandler svc env r body st =
     bad_request (decode_tenant (he_fold env) body) (\<lambda>req.
       rpc_update env (core_CreateTenant svc (he_core env) (tb_ID req) (tb_Name req)) (\<lambda>t. (201, BodyTenant t)) st) st"

definition listTenantsHandler :: "('e, 's) Service \<Rightarrow> 'e rest_env \<Rightarrow> HttpRequest \<Rightarrow> 's core_state \<Rightarrow> http_response \<times> 's core_state" where
  "listTenantsHandler svc env r st =
     bad_request (pageFromRequest r) (\<lambda>(n, cursor).
       (rpc_query env (core_ListTenants svc (he_core env) (int32 n) cursor st) (\<lambda>(ts, next). (200, BodyTenants ts next)), st)) st"

definition createDeviceHandler :: "('e, 's) Service \<Rightarrow> 'e rest_env \<Rightarrow> HttpRequest \<Rightarrow> string result \<Rightarrow> 's core_state \<Rightarrow> http_response \<times> 's core_state" where
  "createDeviceHandler svc env r body st =
     with_parameters r (\<lambda>p. bad_request (decode_device (he_fold env) body) (\<lambda>req.
       rpc_update env (core_CreateDevice svc (he_core env) (mp_TenantID p) (db_DeviceID req) (db_ProductID req) (db_Secret req))
         (\<lambda>d. (201, BodyDevice (deviceFromPB d))) st) st) st"

definition listDevicesHandler :: "('e, 's) Service \<Rightarrow> 'e rest_env \<Rightarrow> HttpRequest \<Rightarrow> 's core_state \<Rightarrow> http_response \<times> 's core_state" where
  "listDevicesHandler svc env r st =
     with_parameters r (\<lambda>p. bad_request (pageFromRequest r) (\<lambda>(n, cursor).
       (rpc_query env (core_ListDevices svc (he_core env) (mp_TenantID p) (int32 n) cursor st)
         (\<lambda>(ds, next). (200, BodyDevices (map deviceFromPB ds) next)), st)) st) st"

definition getDeviceHandler :: "('e, 's) Service \<Rightarrow> 'e rest_env \<Rightarrow> HttpRequest \<Rightarrow> 's core_state \<Rightarrow> http_response \<times> 's core_state" where
  "getDeviceHandler svc env r st =
     with_parameters r (\<lambda>p.
       (rpc_query env (core_GetDevice svc (he_core env) (mp_TenantID p) (mp_DeviceID p) st) (\<lambda>d. (200, BodyDevice (deviceFromPB d))), st)) st"

definition getDeviceStatusHandler :: "('e, 's) Service \<Rightarrow> 'e rest_env \<Rightarrow> HttpRequest \<Rightarrow> 's core_state \<Rightarrow> http_response \<times> 's core_state" where
  "getDeviceStatusHandler svc env r st =
     with_parameters r (\<lambda>p.
       (rpc_query env (core_GetDeviceStatus svc (he_core env) (mp_TenantID p) (mp_DeviceID p) st)
         (\<lambda>d. (200, BodyStatus (deviceStatusFromPB d))), st)) st"

definition listTelemetryHandler :: "('e, 's) Service \<Rightarrow> 'e rest_env \<Rightarrow> HttpRequest \<Rightarrow> 's core_state \<Rightarrow> http_response \<times> 's core_state" where
  "listTelemetryHandler svc env r st =
     with_parameters r (\<lambda>p. bad_request (pageFromRequest r) (\<lambda>(n, cursor).
       bad_request (requestTimes (he_other env) (query_Get (mp_Query p) ''startTime'') (query_Get (mp_Query p) ''endTime'')) (\<lambda>(start, end_time).
         (rpc_query env (core_ListTelemetry svc (he_core env) (mp_TenantID p) (mp_DeviceID p) (int32 n) cursor start end_time
             (query_Get (mp_Query p) ''type'') (query_Get (mp_Query p) ''sort'') st)
           (\<lambda>(rs, next). (200, BodyTelemetryList (map telemetryFromPB rs) next)), st)) st) st) st"

definition ingestTelemetryHandler :: "('e, 's) Service \<Rightarrow> 'e rest_env \<Rightarrow> HttpRequest \<Rightarrow> string result \<Rightarrow> 's core_state \<Rightarrow> http_response \<times> 's core_state" where
  "ingestTelemetryHandler svc env r body st =
     with_parameters r (\<lambda>p. bad_request (decode_telemetry (he_fold env) body) (\<lambda>req.
       rpc_update env (core_IngestTelemetry svc (he_core env)
           (envelopeFromPB (eb_MsgID req) (mp_TenantID p) (mp_DeviceID p) (eb_Ts req) (eb_Type req) (eb_Version req) (eb_Payload req)))
         (\<lambda>x. (202, BodyTelemetry (telemetryFromPB x))) st) st) st"

text \<open>\<^verbatim>\<open>Header.Get\<close> returns the first value.\<close>

definition createCommandHandler :: "('e, 's) Service \<Rightarrow> 'e rest_env \<Rightarrow> HttpRequest \<Rightarrow> string result \<Rightarrow> 's core_state \<Rightarrow> http_response \<times> 's core_state" where
  "createCommandHandler svc env r body st =
     with_parameters r (\<lambda>p. bad_request (decode_payload (he_fold env) body) (\<lambda>payload.
       rpc_update env (core_CreateCommand svc (he_core env) (mp_TenantID p) (mp_DeviceID p)
           (case rq_IdempotencyKeys r of [] \<Rightarrow> [] | key # _ \<Rightarrow> key) payload)
         (\<lambda>c. (201, BodyCommand (commandFromPB c))) st) st) st"

definition listCommandsHandler :: "('e, 's) Service \<Rightarrow> 'e rest_env \<Rightarrow> HttpRequest \<Rightarrow> 's core_state \<Rightarrow> http_response \<times> 's core_state" where
  "listCommandsHandler svc env r st =
     with_parameters r (\<lambda>p. bad_request (pageFromRequest r) (\<lambda>(n, cursor).
       bad_request (requestTimes (he_other env) (query_Get (mp_Query p) ''startTime'') (query_Get (mp_Query p) ''endTime'')) (\<lambda>(start, end_time).
         (rpc_query env (core_ListCommands svc (he_core env) (mp_TenantID p) (commandDeviceFilter p) (int32 n) cursor start end_time
             (query_Get (mp_Query p) ''status'') (query_Get (mp_Query p) ''sort'') st)
           (\<lambda>(cs, next). (200, BodyCommands (map commandFromPB cs) next)), st)) st) st) st"

definition getCommandHandler :: "('e, 's) Service \<Rightarrow> 'e rest_env \<Rightarrow> HttpRequest \<Rightarrow> 's core_state \<Rightarrow> http_response \<times> 's core_state" where
  "getCommandHandler svc env r st =
     with_parameters r (\<lambda>p.
       (rpc_query env (core_GetCommand svc (he_core env) (mp_CommandID p) (mp_TenantID p) st) (\<lambda>c. (200, BodyCommand (commandFromPB c))), st)) st"

definition ackCommandHandler :: "('e, 's) Service \<Rightarrow> 'e rest_env \<Rightarrow> HttpRequest \<Rightarrow> string result \<Rightarrow> 's core_state \<Rightarrow> http_response \<times> 's core_state" where
  "ackCommandHandler svc env r body st =
     with_parameters r (\<lambda>p. bad_request (decode_result (he_fold env) body) (\<lambda>req.
       rpc_update env (core_AckCommand svc (he_core env) (mp_CommandID p) (mp_TenantID p) (mp_DeviceID p)
           (Some \<lparr>pbr_Status = status_string (res_Status req), pbr_ErrorCode = res_ErrorCode req, pbr_Payload = res_Payload req\<rparr>))
         (\<lambda>c. (200, BodyCommand (commandFromPB c))) st) st) st"

section \<open>The routes\<close>

datatype handler =
    HHealth | HReady | HSchema | HCreateTenant | HListTenants | HCreateDevice | HListDevices | HGetDevice | HGetDeviceStatus
  | HListTelemetry | HIngestTelemetry | HCreateCommand | HListCommands | HGetCommand | HAckCommand

definition management_routes :: "(string \<times> string \<times> handler) list" where
  "management_routes =
     [(''GET'', ''/healthz'', HHealth),
      (''GET'', ''/readyz'', HReady),
      (''GET'', ''/schemas/mqtt-envelope.json'', HSchema),
      (''POST'', ''/api/v1/tenants'', HCreateTenant),
      (''GET'', ''/api/v1/tenants'', HListTenants),
      (''POST'', ''/api/v1/tenants/:tenantId/devices'', HCreateDevice),
      (''GET'', ''/api/v1/tenants/:tenantId/devices'', HListDevices),
      (''GET'', ''/api/v1/tenants/:tenantId/devices/:deviceId'', HGetDevice),
      (''GET'', ''/api/v1/tenants/:tenantId/devices/:deviceId/status'', HGetDeviceStatus),
      (''GET'', ''/api/v1/tenants/:tenantId/devices/:deviceId/telemetry'', HListTelemetry),
      (''POST'', ''/api/v1/tenants/:tenantId/devices/:deviceId/telemetry'', HIngestTelemetry),
      (''POST'', ''/api/v1/tenants/:tenantId/devices/:deviceId/commands'', HCreateCommand),
      (''GET'', ''/api/v1/tenants/:tenantId/devices/:deviceId/commands'', HListCommands),
      (''GET'', ''/api/v1/tenants/:tenantId/commands'', HListCommands),
      (''GET'', ''/api/v1/tenants/:tenantId/commands/:commandId'', HGetCommand),
      (''POST'', ''/api/v1/tenants/:tenantId/devices/:deviceId/commands/:commandId/acknowledgements'', HAckCommand)]"

definition dispatch_handler :: "('e, 's) Service \<Rightarrow> 'e rest_env \<Rightarrow> handler \<Rightarrow> HttpRequest \<Rightarrow> string result \<Rightarrow> 's core_state \<Rightarrow> http_response \<times> 's core_state" where
  "dispatch_handler svc env h r body st =
     (case h of
        HHealth \<Rightarrow> ((200, BodyHealth), st)
      | HReady \<Rightarrow> (readyHandler svc env st, st)
      | HSchema \<Rightarrow> ((200, BodySchema), st)
      | HCreateTenant \<Rightarrow> createTenantHandler svc env r body st
      | HListTenants \<Rightarrow> listTenantsHandler svc env r st
      | HCreateDevice \<Rightarrow> createDeviceHandler svc env r body st
      | HListDevices \<Rightarrow> listDevicesHandler svc env r st
      | HGetDevice \<Rightarrow> getDeviceHandler svc env r st
      | HGetDeviceStatus \<Rightarrow> getDeviceStatusHandler svc env r st
      | HListTelemetry \<Rightarrow> listTelemetryHandler svc env r st
      | HIngestTelemetry \<Rightarrow> ingestTelemetryHandler svc env r body st
      | HCreateCommand \<Rightarrow> createCommandHandler svc env r body st
      | HListCommands \<Rightarrow> listCommandsHandler svc env r st
      | HGetCommand \<Rightarrow> getCommandHandler svc env r st
      | HAckCommand \<Rightarrow> ackCommandHandler svc env r body st)"

text \<open>
  A request through the gateway. The router of the framework is the argument \<open>route\<close>: a reply of its own (an unknown path, a wrong
  method), or a handler, around which the middlewares run.
\<close>

definition management_api :: "(string \<Rightarrow> string \<Rightarrow> nat + handler) \<Rightarrow> string \<Rightarrow> (string \<times> string) list \<Rightarrow> ('e, 's) Service \<Rightarrow> 'e rest_env \<Rightarrow>
    HttpRequest \<Rightarrow> string \<Rightarrow> 's core_state \<Rightarrow> http_response \<times> 's core_state" where
  "management_api route token tenantTokens svc env r body st =
     (case route (rq_Method r) (rq_Path r) of
        Inl status \<Rightarrow> ((status, BodyError), st)
      | Inr h \<Rightarrow>
          (case BearerTokenMiddlewareWithTenants token tenantTokens r of
             AuthReply status \<Rightarrow> ((status, BodyError), st)
           | AuthNext r' \<Rightarrow> dispatch_handler svc env h r' (limitRequestBodyMiddleware body) st))"

text \<open>
  What the router promises: it hands a request only to a handler of its method whose pattern the cleaned path has, where a segment of
  the pattern with a colon stands for any segment. \<^verbatim>\<open>path.Clean\<close> drops empty segments and dots and resolves double dots.
\<close>

fun clean_segments :: "string list \<Rightarrow> string list \<Rightarrow> string list" where
  "clean_segments [] out = rev out"
| "clean_segments (s # ss) out =
     (if s = [] \<or> s = ''.'' then clean_segments ss out
      else if s = ''..'' then clean_segments ss (tl out)
      else clean_segments ss (s # out))"

definition route_matches :: "string \<Rightarrow> string \<Rightarrow> bool" where
  "route_matches pattern path \<longleftrightarrow>
     list_all2 (\<lambda>a b. a = b \<or> take 1 a = '':'') (tl (split_on CHR ''/'' pattern)) (clean_segments (split_on CHR ''/'' path) [])"

definition router_sound :: "(string \<Rightarrow> string \<Rightarrow> nat + handler) \<Rightarrow> bool" where
  "router_sound route \<longleftrightarrow>
     (\<forall>m path h. route m path = Inr h \<longrightarrow> (\<exists>pattern. (m, pattern, h) \<in> set management_routes \<and> route_matches pattern path))"

definition first_route :: "string \<Rightarrow> string \<Rightarrow> nat + handler" where
  "first_route m path =
     (case find (\<lambda>(m', pattern, _). m' = m \<and> route_matches pattern path) management_routes of
        None \<Rightarrow> Inl 404 | Some (_, _, h) \<Rightarrow> Inr h)"

lemma first_route_sound: "router_sound first_route"
  unfolding router_sound_def first_route_def
  by (auto simp: find_Some_iff split: option.splits) (metis nth_mem)

end
