(* ===== verification/Tenant_Isolation.thy ===== *)
theory Tenant_Isolation
  imports Admin_Api
begin

text \<open>
  The management API from the token to the tables: what a request with a token bound to a tenant can read and change. The
  lemmas go up the layers: the methods of the PostgreSQL store, the calls of the core service, the handlers.
\<close>

section \<open>The rows of the other tenants\<close>

definition others :: "string \<Rightarrow> pgdb \<Rightarrow> pgdb" where
  "others T db =
     (let cmds = filter (\<lambda>r. cr_Tenant r \<noteq> T) (db_commands db) in
      \<lparr>db_tenants = filter (\<lambda>t. ten_ID t \<noteq> T) (db_tenants db), db_devices = filter (\<lambda>r. dr_Tenant r \<noteq> T) (db_devices db),
       db_state = filter (\<lambda>r. sr_Tenant r \<noteq> T) (db_state db), db_telemetry = filter (\<lambda>r. rec_TenantID (tr_Rec r) \<noteq> T) (db_telemetry db),
       db_seq = 0, db_commands = cmds, db_acks = filter (\<lambda>a. ar_Tenant a \<noteq> T) (db_acks db),
       db_events = filter (\<lambda>e. er_Command e \<in> cr_ID ` set cmds) (db_events db)\<rparr>)"

lemma filter_map_same:
  assumes "\<And>x. x \<in> set xs \<Longrightarrow> P x \<Longrightarrow> f x = x" "\<And>x. x \<in> set xs \<Longrightarrow> \<not> P x \<Longrightarrow> \<not> P (f x)"
  shows "filter P (map f xs) = filter P xs"
  using assms by (induction xs) auto

lemma upsert_created_others [simp]: "filter (\<lambda>r. sr_Tenant r \<noteq> T) (upsert_created T d at rows) = filter (\<lambda>r. sr_Tenant r \<noteq> T) rows"
  by (simp add: upsert_created_def) (auto intro!: filter_map_same split: if_splits)

lemma upsert_seen_others [simp]: "filter (\<lambda>r. sr_Tenant r \<noteq> T) (upsert_seen T d a b c rows) = filter (\<lambda>r. sr_Tenant r \<noteq> T) rows"
  by (simp add: upsert_seen_def) (auto intro!: filter_map_same split: if_splits)

lemma device_others:
  assumes "pg_CreateDeviceContext env d db = (r, db')" "dev_TenantID d = T"
  shows "others T db' = others T db"
  using pg_device_outcome [OF assms(1)] assms(2) by (auto simp: others_def device_db_def device_row_def)

lemma restore_others:
  assumes "pg_RestoreTelemetryContext env rec db = (r, db')" "rec_TenantID rec = T"
  shows "others T db' = others T db"
  using pg_restore_outcome [OF assms(1)] assms(2) by (auto simp: others_def tel_db_def tel_row_def)

lemma create_others:
  assumes "pg_CreateCommandWithKey env T d key p db = (r, db')"
  shows "others T db' = others T db"
  using assms
proof (cases rule: pg_create_cases)
  case (New normalized uid)
  then have "uid \<notin> cr_ID ` set (db_commands db)" by (simp add: find_command_None)
  then have "uid \<notin> cr_ID ` set (filter (\<lambda>r. cr_Tenant r \<noteq> T) (db_commands db))" by auto
  then show ?thesis unfolding New(5) add_events_def others_def Let_def by (simp add: new_row_def del: set_filter)
qed simp

lemma ack_others:
  assumes "db_ok db" "pg_AckCommandResultContext env uid T d input db = (r, db')"
  shows "others T db' = others T db"
  using assms(2)
proof (cases rule: pg_ack_cases)
  case (Ack row st event stored)
  have own: "cr_Tenant x = T" if "x \<in> set (db_commands db)" "cr_ID x = uid" for x
  proof -
    have "x = row" using find_command_Some [OF Ack(1)] that db_ok_ids [OF assms(1)] by (auto simp: distinct_map inj_on_def)
    then show ?thesis using Ack(2) by simp
  qed
  then have "filter (\<lambda>r. cr_Tenant r \<noteq> T) (map (\<lambda>r. if cr_ID r = uid then acked_row env st stored r else r) (db_commands db)) =
      filter (\<lambda>r. cr_Tenant r \<noteq> T) (db_commands db)"
    by (intro filter_map_same) (auto simp: acked_row_def)
  moreover have "uid \<notin> cr_ID ` set (filter (\<lambda>r. cr_Tenant r \<noteq> T) (db_commands db))" using own by auto
  ultimately show ?thesis unfolding Ack(7) acked_db_def others_def update_commands_def add_events_def Let_def by (simp del: set_filter)
qed simp

section \<open>What the store returns\<close>

lemma list_page_members:
  assumes "list_page cost n cursor rows = Inr (page, next)"
  shows "set page \<subseteq> set rows"
  using page_loop_ok [of cost n cursor 0 "[]" rows page "next"] assms by (fastforce simp: list_page_def)

lemma db_query_Inr [simp]: "db_query env n k = Inr x \<longleftrightarrow> pe_fault env n = None \<and> k = Inr x"
  by (auto simp: db_query_def split: option.splits)

lemma NormalizeListRequest_tenant: "NormalizeListRequest page0 kind = Inr page \<Longrightarrow> page_TenantID page = page_TenantID page0"
  by (auto simp: NormalizeListRequest_iff)

lemma devices_page_tenant:
  assumes "pg_ListDevicesPageContext env page0 db = Inr (ds, next)"
  shows "list_all (\<lambda>d. dev_TenantID d = page_TenantID page0) ds"
  using assms unfolding pg_ListDevicesPageContext_def
  by (auto simp: Let_def list_all_iff device_of_row_def split: if_splits prod.splits
      dest!: list_page_members NormalizeListRequest_tenant in_set_takeD subsetD)

lemma telemetry_page_tenant:
  assumes "pg_ListTelemetryPageContext sha other env page0 db = Inr (rs, next)"
  shows "list_all (\<lambda>r. rec_TenantID r = page_TenantID page0) rs"
  using assms unfolding pg_ListTelemetryPageContext_def
  by (auto simp: Let_def list_all_iff pg_telemetry_matches_def split: if_splits prod.splits
      dest!: list_page_members NormalizeListRequest_tenant in_set_takeD subsetD)

lemma scan_loop_tenant:
  assumes "scan_loop sf n cursor used out rows = Inr (page, next)" "list_all (\<lambda>c. cmd_TenantID c = T) out"
    "\<forall>r \<in> set rows. cr_Tenant r = T"
  shows "list_all (\<lambda>c. cmd_TenantID c = T) page"
  using assms
proof (induction rows arbitrary: used out)
  case (Cons r rows)
  then obtain cmd where cmd: "scanCommandRow sf r = Inr cmd" by auto
  have t: "cmd_TenantID cmd = T" using scan_fields [OF cmd] Cons.prems(3) by simp
  from Cons show ?case using t by (auto simp: cmd split: if_splits prod.splits)
qed simp

lemma commands_page_tenant:
  assumes "pg_ListCommandsPageContext sha other env page0 db = Inr (cs, next)"
  shows "list_all (\<lambda>c. cmd_TenantID c = page_TenantID page0) cs"
  using assms unfolding pg_ListCommandsPageContext_def
  by (auto simp: Let_def pg_command_matches_def split: if_splits prod.splits
      dest!: NormalizeListRequest_tenant in_set_takeD elim!: scan_loop_tenant)

lemma create_tenant:
  assumes "pg_CreateCommandWithKey env t d key p db = (Inr c, db')"
  shows "cmd_TenantID c = t"
proof -
  obtain normalized uid where i: "pg_insert_command env t d key normalized uid db = (Inr c, db')"
    using pg_create_outcome [OF assms] by blast
  show ?thesis
    using i unfolding pg_insert_command_def Let_def
    by (auto simp: db_call_def db_commit_def key_taken_def find_Some_iff split: option.splits if_splits sum.splits dest: scan_fields(2))
qed

lemma ack_tenant:
  assumes "pg_AckCommandResultContext env uid t d input db = (Inr c, db')"
  shows "cmd_TenantID c = t"
  using assms unfolding pg_AckCommandResultContext_def pg_apply_ack_def
  by (auto simp: db_call_def db_commit_def Let_def split: option.splits sum.splits if_splits)

lemma device_tenant: "pg_CreateDeviceContext env d db = (Inr d', db') \<Longrightarrow> dev_TenantID d' = dev_TenantID d"
  unfolding pg_CreateDeviceContext_def db_call_def db_commit_def Let_def by (auto split: option.splits if_splits sum.splits)

lemma get_device_tenant: "pg_GetDeviceContext env t d db = Inr x \<Longrightarrow> dev_TenantID x = t"
  by (auto simp: pg_GetDeviceContext_def find_device_def find_Some_iff device_of_row_def split: option.splits)

lemma status_tenant: "pg_GetDeviceStatusContext ttl env t d db = Inr x \<Longrightarrow> ds_TenantID x = t"
  by (auto simp: pg_GetDeviceStatusContext_def find_Some_iff Let_def split: option.splits if_splits)

definition tel_of :: "tel_result \<Rightarrow> TelemetryRecord option" where
  "tel_of r = (case r of TelStored x \<Rightarrow> Some x | TelDuplicate x \<Rightarrow> Some x | TelFailed _ \<Rightarrow> None)"

lemma restore_tenant:
  assumes "pg_RestoreTelemetryContext env rec db = (r, db')" "tel_of r = Some x"
  shows "rec_TenantID x = rec_TenantID rec"
  using pg_restore_outcome [OF assms(1)] assms(2)
  by (auto simp: tel_of_def find_telemetry_def find_Some_iff telemetry_id_def split: tel_result.splits)

section \<open>Handlers on the PostgreSQL store\<close>

definition body_of :: "string \<Rightarrow> http_body \<Rightarrow> bool" where
  "body_of T b =
     (case b of
        BodyTenant _ \<Rightarrow> False
      | BodyTenants _ _ \<Rightarrow> False
      | BodyDevice d \<Rightarrow> dev_TenantID d = T
      | BodyDevices ds _ \<Rightarrow> list_all (\<lambda>d. dev_TenantID d = T) ds
      | BodyStatus d \<Rightarrow> ds_TenantID d = T
      | BodyTelemetry x \<Rightarrow> rec_TenantID x = T
      | BodyTelemetryList rs _ \<Rightarrow> list_all (\<lambda>x. rec_TenantID x = T) rs
      | BodyCommand c \<Rightarrow> resp_TenantID c = T
      | BodyCommands cs _ \<Rightarrow> list_all (\<lambda>c. resp_TenantID c = T) cs
      | _ \<Rightarrow> True)"

definition confined :: "string \<Rightarrow> pgdb \<Rightarrow> http_response \<times> pgdb core_state \<Rightarrow> bool" where
  "confined T db x \<longleftrightarrow> body_of T (snd (fst x)) \<and> others T (fst (snd x)) = others T db"

definition pg_service :: "duration \<Rightarrow> (string \<Rightarrow> string) \<Rightarrow> (string \<Rightarrow> gtime option) \<Rightarrow> KafkaPublisher option \<Rightarrow> (pgenv, pgdb) Service" where
  "pg_service ttl sha other pub = \<lparr>svc_repo = pg_core ttl sha other, svc_publisher = pub\<rparr>"

lemma pg_service_repo [simp]: "svc_repo (pg_service ttl sha other pub) = pg_core ttl sha other"
  by (simp add: pg_service_def)

lemma body_error [simp]: "body_of T (snd (writeRPCError c))" "body_of T BodyError"
  by (simp_all add: body_of_def writeRPCError_def)

lemma rpc_update_confined:
  assumes "\<And>r db' log'. call (db, log) = (r, (db', log')) \<Longrightarrow>
      others T db' = others T db \<and> (\<forall>x. r = Inr x \<longrightarrow> body_of T (snd (respond x)))"
  shows "confined T db (rpc_update env call respond (db, log))"
proof -
  obtain r db' log' where c: "call (db, log) = (r, (db', log'))" by (cases "call (db, log)") auto
  show ?thesis
    using assms [OF c] by (cases r) (auto simp: rpc_update_def confined_def c split: option.splits prod.splits)
qed

lemma rpc_query_confined:
  assumes "\<And>x. reply = Inr x \<Longrightarrow> body_of T (snd (respond x))"
  shows "confined T db (rpc_query env reply respond, (db, log))"
  using assms by (auto simp: rpc_query_def confined_def split: option.splits sum.splits)

lemma bad_request_confined:
  assumes "\<And>x. r = Inr x \<Longrightarrow> confined T db (k x)"
  shows "confined T db (bad_request r k (db, log))"
  using assms by (auto simp: bad_request_def confined_def split: sum.splits)

lemma with_parameters_known: "rq_Parameters r = Some p \<Longrightarrow> with_parameters r k st = k p"
  by (simp add: with_parameters_def requestParameters_def ManagementRequest_def)

lemmas confined_rules = bad_request_confined rpc_query_confined rpc_update_confined

lemma repo_rpc_Inr [simp]: "repo_rpc r = Inr x \<longleftrightarrow> r = Inr x"
  by (cases r) (simp_all add: repo_rpc_def)

lemma map_sum_Inr: "map_sum id f r = Inr y \<longleftrightarrow> (\<exists>x. r = Inr x \<and> y = f x)"
  by (cases r) auto

lemma core_device_confined:
  assumes "core_CreateDevice (pg_service ttl sha other pub) env T d pid sec (db, log) = (r, (db', log'))"
  shows "others T db' = others T db \<and> (\<forall>x. r = Inr x \<longrightarrow> body_of T (snd (201, BodyDevice (deviceFromPB x))))"
proof (cases "\<exists>c. r = Inl c \<and> db' = db")
  case False
  obtain r0 s0 where c: "pg_CreateDeviceContext (ce_store env) \<lparr>dev_TenantID = T, dev_DeviceID = d, dev_ProductID = pid, dev_Secret = sec,
      dev_CreatedAt = zero_time\<rparr> db = (r0, s0)" by fastforce
  have "db' = s0 \<and> r = map_sum id deviceToPB (repo_rpc r0)"
    using assms False by (auto simp: core_CreateDevice_def pg_core_def c split: if_splits)
  then show ?thesis
    using device_others [OF c] device_tenant [of "ce_store env"] c by (auto simp: map_sum_Inr body_of_def deviceFromPB_def deviceToPB_def)
qed auto

lemma core_ingest_confined:
  assumes "core_IngestTelemetry (pg_service ttl sha other pub) env e (db, log) = (r, (db', log'))" "env_TenantID e = T"
  shows "others T db' = others T db \<and> (\<forall>x. r = Inr x \<longrightarrow> body_of T (snd (202, BodyTelemetry (telemetryFromPB x))))"
proof (cases "\<exists>c. r = Inl c \<and> db' = db")
  case False
  obtain r0 s0 where c: "pg_RestoreTelemetryContext (ce_store env) (record_of_envelope (pe_now (ce_store env)) e) db = (r0, s0)" by fastforce
  have t: "rec_TenantID (record_of_envelope (pe_now (ce_store env)) e) = T" using assms(2) by (simp add: record_of_envelope_def)
  have "db' = s0 \<and> (\<forall>x. r = Inr x \<longrightarrow> (\<exists>y. tel_of r0 = Some y \<and> x = telemetryToPB y))"
    using assms(1) False unfolding core_IngestTelemetry_def recordTelemetry_def
    by (auto simp: pg_core_def pg_RecordTelemetryContext_def c tel_of_def Let_def split: if_splits tel_result.splits prod.splits option.splits)
  then show ?thesis
    using restore_others [OF c t] restore_tenant [OF c] t by (auto simp: body_of_def telemetryFromPB_def telemetryToPB_def)
qed auto

lemma core_command_confined:
  assumes "core_CreateCommand (pg_service ttl sha other pub) env T d key p (db, log) = (r, (db', log'))"
  shows "others T db' = others T db \<and> (\<forall>x. r = Inr x \<longrightarrow> body_of T (snd (201, BodyCommand (commandFromPB x))))"
proof (cases "\<exists>c. r = Inl c \<and> db' = db")
  case False
  obtain r0 s0 where c: "pg_CreateCommandWithKey (ce_store env) T d key p db = (r0, s0)" by fastforce
  have "db' = s0 \<and> (\<forall>x. r = Inr x \<longrightarrow> (\<exists>y. r0 = Inr y \<and> x = commandToPB y))"
    using assms False by (auto simp: core_CreateCommand_def pg_core_def c Let_def split: if_splits sum.splits)
  then show ?thesis
    using create_others [OF c] create_tenant [of "ce_store env"] c by (auto simp: body_of_def commandFromPB_def commandToPB_def)
qed auto

lemma core_ack_confined:
  assumes "db_ok db" "core_AckCommand (pg_service ttl sha other pub) env uid T d res (db, log) = (r, (db', log'))"
  shows "others T db' = others T db \<and> (\<forall>x. r = Inr x \<longrightarrow> body_of T (snd (200, BodyCommand (commandFromPB x))))"
proof (cases "\<exists>c. r = Inl c \<and> db' = db")
  case False
  then obtain n r0 s0 where c: "pg_AckCommandResultContext (ce_store env) uid T d n db = (r0, s0)" "db' = s0" "r = map_sum id commandToPB (repo_rpc r0)"
    using assms(2) unfolding core_AckCommand_def by (auto simp: pg_core_def split: option.splits sum.splits prod.splits)
  then show ?thesis
    using ack_others [OF assms(1) c(1)] ack_tenant [of "ce_store env"] by (auto simp: map_sum_Inr body_of_def commandFromPB_def commandToPB_def)
qed auto

lemma core_devices_tenant:
  assumes "core_ListDevices (pg_service ttl sha other pub) env T n c (db, log) = Inr (ds, next)"
  shows "list_all (\<lambda>d. pbd_TenantId d = T) ds"
proof -
  obtain page xs where "NormalizeListRequest (zero_page\<lparr>page_TenantID := T, page_Size := n, page_Cursor := c\<rparr>) ''devices'' = Inr page"
    "pg_ListDevicesPageContext (ce_store env) page db = Inr (xs, next)" "ds = map deviceToPB xs"
    using assms by (auto simp: core_ListDevices_def pg_core_def paged_list_def map_sum_Inr split: sum.splits)
  then show ?thesis
    using devices_page_tenant by (auto simp: list_all_iff deviceToPB_def dest!: NormalizeListRequest_tenant)
qed

lemma listPage_tenant: "listPageFromRPC n c T d a b so k st kind = Inr page \<Longrightarrow> page_TenantID page = T"
  by (auto simp: listPageFromRPC_def Let_def split: if_splits option.splits dest!: NormalizeListRequest_tenant)

lemma core_telemetry_tenant:
  assumes "core_ListTelemetry (pg_service ttl sha other pub) env T d n c a b k so (db, log) = Inr (rs, next)"
  shows "list_all (\<lambda>x. pbt_TenantId x = T) rs"
proof -
  obtain page xs where "listPageFromRPC n c T d a b so k [] ''telemetry'' = Inr page"
    "pg_ListTelemetryPageContext sha other (ce_store env) page db = Inr (xs, next)" "rs = map telemetryToPB xs"
    using assms by (auto simp: core_ListTelemetry_def pg_core_def paged_list_def map_sum_Inr split: sum.splits)
  then show ?thesis
    using telemetry_page_tenant [of sha other "ce_store env" page db xs] by (auto simp: list_all_iff telemetryToPB_def dest!: listPage_tenant)
qed

lemma core_commands_tenant:
  assumes "core_ListCommands (pg_service ttl sha other pub) env T d n c a b st so (db, log) = Inr (cs, next)"
  shows "list_all (\<lambda>x. pbc_TenantId x = T) cs"
proof -
  obtain page xs where "listPageFromRPC n c T d a b so [] st ''commands'' = Inr page"
    "pg_ListCommandsPageContext sha other (ce_store env) page db = Inr (xs, next)" "cs = map commandToPB xs"
    using assms by (auto simp: core_ListCommands_def pg_core_def paged_list_def map_sum_Inr split: sum.splits if_splits)
  then show ?thesis
    using commands_page_tenant [of sha other "ce_store env" page db xs] by (auto simp: list_all_iff commandToPB_def dest!: listPage_tenant)
qed

lemma core_get_tenant:
  "core_GetDevice (pg_service ttl sha other pub) env T d (db, log) = Inr x \<Longrightarrow> pbd_TenantId x = T"
  "core_GetDeviceStatus (pg_service ttl sha other pub) env T d (db, log) = Inr y \<Longrightarrow> pbs_TenantId y = T"
  "core_GetCommand (pg_service ttl sha other pub) env uid T (db, log) = Inr z \<Longrightarrow> pbc_TenantId z = T"
  by (auto simp: core_GetDevice_def core_GetDeviceStatus_def core_GetCommand_def pg_core_def map_sum_Inr deviceToPB_def deviceStatusToPB_def
      commandToPB_def split: option.splits sum.splits if_splits dest: get_device_tenant status_tenant)

text \<open>Every handler but the two of the tenant collection is confined to the tenant of its parameters.\<close>

lemma handler_confined:
  assumes "db_ok db" "rq_Parameters r = Some p" "mp_TenantID p = T" "h \<notin> {HCreateTenant, HListTenants}"
  shows "confined T db (dispatch_handler (pg_service ttl sha other pub) env h r body (db, log))"
proof -
  let ?svc = "pg_service ttl sha other pub"
  note bodies = body_of_def deviceFromPB_def deviceStatusFromPB_def telemetryFromPB_def commandFromPB_def list_all_iff
  note known = with_parameters_known [OF assms(2)] assms(3) case_prod_unfold
  have "confined T db (createDeviceHandler ?svc env r body (db, log))"
    unfolding createDeviceHandler_def known by (rule bad_request_confined, rule rpc_update_confined, erule core_device_confined)
  moreover have "confined T db (ingestTelemetryHandler ?svc env r body (db, log))"
    unfolding ingestTelemetryHandler_def known
    by (rule bad_request_confined, rule rpc_update_confined, erule core_ingest_confined) (simp add: envelopeFromPB_def)
  moreover have "confined T db (createCommandHandler ?svc env r body (db, log))"
    unfolding createCommandHandler_def known by (rule bad_request_confined, rule rpc_update_confined, erule core_command_confined)
  moreover have "confined T db (ackCommandHandler ?svc env r body (db, log))"
    unfolding ackCommandHandler_def known by (rule bad_request_confined, rule rpc_update_confined, erule core_ack_confined [OF assms(1)])
  moreover have "confined T db (getDeviceHandler ?svc env r (db, log))" "confined T db (getDeviceStatusHandler ?svc env r (db, log))"
    "confined T db (getCommandHandler ?svc env r (db, log))"
    unfolding getDeviceHandler_def getDeviceStatusHandler_def getCommandHandler_def known
    by (rule rpc_query_confined, simp add: bodies core_get_tenant)+
  moreover have "confined T db (listDevicesHandler ?svc env r (db, log))"
    unfolding listDevicesHandler_def known
    by (rule bad_request_confined, rule rpc_query_confined) (auto simp: bodies dest: core_devices_tenant [unfolded list_all_iff])
  moreover have "confined T db (listTelemetryHandler ?svc env r (db, log))"
    unfolding listTelemetryHandler_def known
    by (rule bad_request_confined, rule bad_request_confined, rule rpc_query_confined)
      (auto simp: bodies dest: core_telemetry_tenant [unfolded list_all_iff])
  moreover have "confined T db (listCommandsHandler ?svc env r (db, log))"
    unfolding listCommandsHandler_def known
    by (rule bad_request_confined, rule bad_request_confined, rule rpc_query_confined)
      (auto simp: bodies dest: core_commands_tenant [unfolded list_all_iff])
  ultimately show ?thesis
    using assms(4)
    by (cases h) (auto simp: dispatch_handler_def confined_def body_of_def readyHandler_def split: option.splits sum.splits)
qed

section \<open>Routing\<close>

lemma path_resource_shape:
  assumes "path_resource parts = Inr p" "mp_TenantID p = T" "mp_Resource p \<noteq> ''tenants''"
  shows "\<exists>d c. parts \<in> {[''tenants'', T, ''devices''], [''tenants'', T, ''commands''], [''tenants'', T, ''commands'', c], [''tenants'', T, ''devices'', d],
      [''tenants'', T, ''devices'', d, ''status''], [''tenants'', T, ''devices'', d, ''telemetry''], [''tenants'', T, ''devices'', d, ''commands''],
      [''tenants'', T, ''devices'', d, ''commands'', c, ''acknowledgements'']}"
proof -
  have path: "parts = resource_path p" using path_resource_Inr [OF assms(1)] by blast
  obtain x xs where xs: "parts = ''tenants'' # T # x # xs" using resource_path_tenant [OF assms(3)] assms(2) path by auto
  show ?thesis
  proof (cases "x = ''devices'' \<and> xs \<noteq> []")
    case True
    then obtain d ds where ds: "xs = d # ds" by (cases xs) auto
    then have "device_resource T d ds = Inr p" using assms(1) True unfolding xs by (auto simp: path_resource_def Let_def split: if_splits)
    from device_resource_cases [OF this] show ?thesis using True unfolding xs ds by auto
  next
    case False
    then show ?thesis using assms(1) unfolding xs by (cases xs; cases "tl xs") (auto simp: path_resource_def Let_def split: if_splits)
  qed
qed

lemma collection_route:
  assumes "(m, pattern, h) \<in> set management_routes" "h \<in> {HCreateTenant, HListTenants}"
  shows "pattern = ''/api/v1/tenants''"
  using assms by (auto simp: management_routes_def)

lemma public_route:
  assumes "(m, pattern, h) \<in> set management_routes" "route_matches pattern path" "path \<in> set public_paths"
  shows "h \<in> {HHealth, HReady, HSchema}"
  using assms by (auto simp: management_routes_def public_paths_def route_matches_def)

lemma split_api: "split_on CHR ''/'' (''/api/v1/'' @ rest) = [[], ''api'', ''v1''] @ split_on CHR ''/'' rest"
  by simp

lemma bound_not_collection:
  assumes "rq_Parameters r = None" "ManagementRequest r = Inr p" "mp_TenantID p = T" "T \<noteq> []" "T \<noteq> ''.''"
  shows "\<not> route_matches ''/api/v1/tenants'' (rq_Path r)"
proof -
  let ?rest = "drop (length api_prefix) (rq_Path r)"
  obtain p0 q where p0: "has_prefix api_prefix (rq_Path r)" "path_resource (split_on CHR ''/'' ?rest) = Inr p0" "p = p0\<lparr>mp_Query := q\<rparr>"
    using assms(1,2) by (auto simp: ManagementRequest_def guard_err_def split: if_splits option.splits)
  have "rq_Path r = ''/api/v1/'' @ ?rest" using p0(1) by (metis append_take_drop_id has_prefix_def api_prefix_def)
  then have "split_on CHR ''/'' (rq_Path r) = [[], ''api'', ''v1''] @ split_on CHR ''/'' ?rest"
    using split_api [of ?rest] by argo
  moreover have "mp_TenantID p0 = T" "mp_Resource p0 \<noteq> ''tenants''"
    using assms(3,4) p0(3) path_resource_Inr [OF p0(2)] by auto
  note path_resource_shape [OF p0(2) this]
  ultimately show ?thesis using assms(4,5) by (auto simp: route_matches_def split: if_splits)
qed


section \<open>Sample requests\<close>

definition api_sample_env :: "pgenv rest_env" where
  "api_sample_env = \<lparr>he_core = \<lparr>ce_store = pg_sample_env 9000000, ce_kafka = \<lparr>ke_wait = (\<lambda>_. None), ke_attempt = (\<lambda>_. None), ke_lost = (\<lambda>_. False),
     ke_temporary = (\<lambda>_. False)\<rparr>, ce_now = 9000000\<rparr>, he_transport = None, he_fold = id, he_other = (\<lambda>_. None)\<rparr>"

definition api_sample :: "string \<Rightarrow> string \<Rightarrow> http_response \<times> pgdb core_state" where
  "api_sample T path = management_api first_route ''admin'' [(''tok'', T)] (pg_service 0 id (\<lambda>_. None) None) api_sample_env
     (sample_http\<lparr>rq_Path := path\<rparr>) [] (pg_sample_created, \<lparr>kl_telemetry = [], kl_command = [], kl_counts = []\<rparr>)"


text \<open>
  The single dot is a valid tenant identifier, and a router that cleans paths turns a device path below it into the tenant
  collection: the token of that tenant passes, and the handler that lists all tenants runs.
\<close>

lemma dot_tenant_escapes:
  "first_route ''GET'' ''/api/v1/tenants/./devices/..'' = Inr HListTenants \<and>
   (case BearerTokenMiddlewareWithTenants ''admin'' [(''tok'', ''.'')] (sample_http\<lparr>rq_Path := ''/api/v1/tenants/./devices/..''\<rparr>) of
      AuthNext _ \<Rightarrow> True | _ \<Rightarrow> False)"
  by code_simp

end
