(* ===== verification/Spec2Isabelle.thy ===== *)
theory Spec2Isabelle
  imports Memory_Store Mqtt_Auth Postgres_Db Postgres_Store Postgres_Commands Postgres_Invariants Postgres_Histories Postgres_Safety Management_Http Wire_Records Dead_Letter Tdengine Mqtt_Readiness Worker Worker_Safety Kafka_Publisher Command_Dispatcher Mqtt_Bridge Dlq_Replay Core_Service Admin_Api Tenant_Isolation
begin

text \<open>
  This library verifies a multi-tenant IoT platform written in Go. Devices send telemetry and acknowledgements over MQTT and receive
  commands; tenants are managed over a REST gateway in front of a gRPC core.

  \<^bold>\<open>The program.\<close> The bridge (\<^verbatim>\<open>mqtt_bridge.go\<close>) takes device messages from the MQTT broker, checks them, stores them in PostgreSQL and
  writes them to Kafka. The device worker (\<^verbatim>\<open>worker.go\<close>, \<^verbatim>\<open>worker_ack.go\<close>, \<^verbatim>\<open>worker_storage.go\<close>) consumes telemetry from Kafka into
  PostgreSQL and TDengine, delivers commands from Kafka to devices and applies their acknowledgements. The dispatcher
  (\<^verbatim>\<open>command_dispatcher.go\<close>) claims stored commands and announces them on Kafka, and expires and recovers old ones. The core
  (\<^verbatim>\<open>internal/core/service.go\<close>) validates requests and calls the repository, which is PostgreSQL (\<^verbatim>\<open>postgres_store.go\<close>) or, in tests, memory
  (\<^verbatim>\<open>memory_store.go\<close>). The gateway (\<^verbatim>\<open>internal/adminapi/server.go\<close>) turns REST requests into calls of the core. What no component can process
  goes to a dead-letter topic (\<^verbatim>\<open>dead_letter.go\<close>), from which \<^verbatim>\<open>cmd/dlq-replay\<close> sends it back. The callback in \<^verbatim>\<open>mqtt_auth.go\<close> decides which
  client may use which topic. All of them share the contracts in \<^verbatim>\<open>internal/contracts\<close>.

  \<^bold>\<open>Conventions.\<close> Strings and byte slices are lists of characters. A Go error is the list of the sentinels it wraps (\<open>gerror\<close>), so
  \<open>errors_is\<close> is membership; an error of a library is an opaque sentinel, and texts of errors are not modelled. A fallible function
  returns \<open>gerror + 'a\<close>. Times are nanoseconds since 1970, durations nanoseconds; counters that can wrap keep their width. Structs are
  records with a prefix for each type, maps are association lists, optional interface methods are option-valued fields of a record
  of methods. Each stateful operation takes the state and returns it. Code that is not in the repository is an argument: the tables of
  Unicode folding, SHA-256, bcrypt, the lenient part of the time parser, the router of the HTTP framework, and, for each service
  (PostgreSQL, Kafka, TDengine, the broker), a record that says for each call of an operation whether it fails, whether a call that
  reports an error took effect all the same, and what its clocks and generators return. The theorems hold for every value of these
  records unless they name a law they need.

  \<^bold>\<open>Theories.\<close>
  \<^item> \<open>Iot_Prelude\<close>, \<open>Go_Strings\<close>, \<open>Go_Json\<close>, \<open>Go_Json_Strings\<close>, \<open>Go_Json_Writer\<close>, \<open>Go_Any\<close>, \<open>Go_Base64\<close>, \<open>Go_Time\<close>: results, errors and what the
    program uses of the Go library: UTF-8, trimming, splitting, the JSON lexer, parser and writer, base64, RFC 3339 times, with round trips.
  \<^item> \<open>Contracts_Fields\<close>, \<open>Contracts_Command\<close>, \<open>Contracts_Json\<close>, \<open>Contracts_Validation\<close>: \<^verbatim>\<open>internal/contracts\<close>. Topics and user names are
    inverse to their parsers, the JSONB scan with its index arithmetic accepts exactly the texts a declarative specification
    allows, accepted envelopes are well formed, a command accepts at most three events.
  \<^item> \<open>Platform_Domain\<close>, \<open>Platform_Paging\<close>, \<open>Paging_Keyset\<close>: the entities, page budgets, cursors and filters (\<^verbatim>\<open>domain.go\<close>, \<^verbatim>\<open>page_budget.go\<close>,
    \<^verbatim>\<open>pagination.go\<close>, \<^verbatim>\<open>list_filters.go\<close>). The locale \<open>keyset_listing\<close> states what a paged listing promises, and that following its cursors ends
    with every row once.
  \<^item> \<open>Memory_Store\<close>: \<^verbatim>\<open>memory_store.go\<close>, \<^verbatim>\<open>memory_pages.go\<close>; its listings interpret the paging locales, its commands the locale \<open>command_store\<close> of
    \<open>Command_Contract\<close>, the contract of creation with request keys and of first results.
  \<^item> \<open>Postgres_Db\<close>, \<open>Postgres_Store\<close>, \<open>Postgres_Commands\<close>: the tables of \<^verbatim>\<open>migrations/001_init.sql\<close> and every method of \<^verbatim>\<open>postgres_store.go\<close>.
    \<open>Postgres_Invariants\<close> proves the invariant \<open>db_ok\<close>, \<open>Postgres_Histories\<close> the step relation of all methods and what only grows
    along it, \<open>Postgres_Safety\<close> the properties of whole histories, the refinement of an abstract command machine and the interpretation of
    \<open>command_store\<close>.
  \<^item> \<open>Mqtt_Auth\<close>: \<^verbatim>\<open>mqtt_auth.go\<close>, the broker callback. \<open>Mqtt_Readiness\<close>: \<^verbatim>\<open>mqtt_readiness.go\<close>, the gate with its 64-bit generation.
  \<^item> \<open>Wire_Records\<close>, \<open>Dead_Letter\<close>, \<open>Kafka_Publisher\<close>, \<open>Tdengine\<close>: the encodings that cross Kafka and MQTT, dead letters, Kafka writes with
    their retries, the TDengine statements (\<^verbatim>\<open>domain.go\<close>, \<^verbatim>\<open>mqtt_messages.go\<close>, \<^verbatim>\<open>dead_letter.go\<close>, \<^verbatim>\<open>kafka_publisher.go\<close>, \<^verbatim>\<open>tdengine_writer.go\<close>).
  \<^item> \<open>Worker\<close> and \<open>Worker_Safety\<close>, \<open>Mqtt_Bridge\<close>, \<open>Command_Dispatcher\<close>, \<open>Dlq_Replay\<close>: the processes. A state is the store, the
    topics, the offsets committed and the messages confirmed. Nothing is committed or confirmed before it is durable, a delivered command is not
    delivered again, a published command has been announced. The dispatcher is verified against the locale \<open>dispatch_store\<close>, which PostgreSQL
    interprets.
  \<^item> \<open>Management_Http\<close>, \<open>Core_Service\<close>, \<open>Admin_Api\<close>, \<open>Tenant_Isolation\<close>: tokens and parameters (\<^verbatim>\<open>http_auth.go\<close>, \<^verbatim>\<open>http_parameters.go\<close>), the core
    service, the gateway, and their composition on PostgreSQL: a token bound to a tenant reads and changes rows of that tenant only.

  \<^bold>\<open>Loops and bounds.\<close> Every function is total. The retries of a Kafka write run through the list of its seven delays, the sweeps and the
  dispatcher through their batch size, the ACK handler through its attempts. A consumer loop runs through the list of what its reader
  returns and says whether it is still running at the end of the list, so the theorems hold for runs of every length. \<open>follow\<close> has fuel; one page per
  row is enough, and the theorem on listings says so. Timers and goroutines are replaced by the outcomes of the waits they take
  part in.

  \<^bold>\<open>Simplifications.\<close> A store operation is one step: a statement is atomic, and a transaction locks the rows it changes before it reads
  them. The handling of a message is one step with respect to the store; other processes act between messages. An offset counts as
  committed only when the commit was reported as successful. The column \<^verbatim>\<open>detail\<close> of \<^verbatim>\<open>command_events\<close> is not kept. A request body longer than the limit of the
  server is refused as a whole, which gives the same response as refusing it after the prefix that the decoder reads.

  \<^bold>\<open>Not modelled.\<close> The process set-up (\<^verbatim>\<open>cmd/\<close> except the replay, \<^verbatim>\<open>internal/bootstrap\<close>, \<^verbatim>\<open>internal/runtimeconfig\<close>, \<^verbatim>\<open>core/server.go\<close>, the \<^verbatim>\<open>Run\<close> and
  constructor functions that only configure clients and servers), TLS (\<^verbatim>\<open>grpc_tls.go\<close>), logging, tracing and metrics (\<^verbatim>\<open>observability.go\<close>, \<^verbatim>\<open>trace_file.go\<close>,
  \<^verbatim>\<open>http_logging.go\<close>, \<^verbatim>\<open>http_tracing.go\<close>, \<^verbatim>\<open>metrics.go\<close>) because they are I/O without a result the program uses; topic administration
  (\<^verbatim>\<open>kafka_topics.go\<close>), which talks to the Kafka controller; the test harness \<^verbatim>\<open>handlers.go\<close> and \<^verbatim>\<open>platform.go\<close>, which repeats the gateway on the
  memory store; the simulator (\<^verbatim>\<open>internal/demo\<close>) and the test clients; generated protobuf code; charts, scripts and documents.
\<close>

end
